(* ===== verification/Prelude.thy ===== *)
theory Prelude
  imports Complex_Main "HOL-Library.Sublist"
begin

text \<open>
  Shared vocabulary of the development: the exceptions the modelled code raises, JSON
  documents, the Python truth-value conventions the code relies on, and the in-memory
  picture of a database table as a list of rows with the query and update forms that the
  repositories of src/src/core/database/repositories use. The lemma collections
  \<open>table_simps\<close> (select and update on tables) and \<open>py_simps\<close> (Python conventions) are used by the
  component proofs.
\<close>

named_theorems table_simps \<open>select, update and insert on tables\<close>
named_theorems py_simps \<open>Python conventions: truth values, or, get with default\<close>

section \<open>Exceptions and results\<close>

text \<open>
  One constructor per exception class that a modelled operation raises, carrying what the
  raise site puts on it. A fallible operation returns \<open>exn + 'a\<close>; one that may raise after
  changing its state returns that state beside the sum.
\<close>

datatype exn =
    ValueError
  | TypeError
  | OverflowError
  | AssertionError
  | IntegrityError
  | RuntimeError
  | OtherException string
  | AdCPPersistedStateError "string option" "string option"
  | AdCPMediaBuyNotFoundError string
  | AdCPPackageNotFoundError string string
  | AdCPIdempotencyConflictError
  | AdCPRateLimitError int
  | AdCPConfigurationError
  | AdCPTaskNotFoundError string
  | AdCPConflictError string string
  | AdCPValidationError string
  | AdCPVersionUnsupportedError
  | AdCPBudgetTooLowError "(rat \<times> rat) option" "string option"
  | AdCPBudgetExceededError rat rat
  | AdCPAuthorizationError string string
  | AdCPGoneError "string list"
  | AdCPNotCancellableError string
  | AdCPCreativeNotFoundError "string list" string
  | AdCPCapabilityNotSupportedError string
  | AdCPInvalidRequestError string
  | AdCPAdapterError "string list"
  | AdCPContextNotFoundError
  | AdCPFormatNotFoundError string
  | AdCPProductNotFoundError "string list"
  | AdCPCreativeRejectedError "string list"
  | AdCPIdempotencyExpiredError
  | AdCPServiceUnavailableError int
  | OutboundRequestBlocked
  | OutboundDeliveryFailed nat "int option" "int option"

type_synonym 'a res = "exn + 'a"

definition is_ok :: "'a res \<Rightarrow> bool" where
  "is_ok r = (case r of Inl _ \<Rightarrow> False | Inr _ \<Rightarrow> True)"

lemma is_ok_simps [simp]: "is_ok (Inr x)" "\<not> is_ok (Inl e)"
  by (simp_all add: is_ok_def)

lemma is_ok_iff: "is_ok r \<longleftrightarrow> (\<exists>x. r = Inr x)"
  by (cases r) auto

text \<open>\<open>isinstance(e, AdCPSalesAgentError)\<close>, and the exceptions of the database driver.\<close>

fun is_adcp_error :: "exn \<Rightarrow> bool" where
  "is_adcp_error ValueError = False"
| "is_adcp_error TypeError = False"
| "is_adcp_error OverflowError = False"
| "is_adcp_error AssertionError = False"
| "is_adcp_error IntegrityError = False"
| "is_adcp_error RuntimeError = False"
| "is_adcp_error (OtherException s) = False"
| "is_adcp_error _ = True"

section \<open>JSON documents\<close>

datatype json =
    JNull
  | JBool bool
  | JNum rat
  | JStr string
  | JList "json list"
  | JObj "(string \<times> json) list"

definition jget :: "json \<Rightarrow> string \<Rightarrow> json option" where
  "jget j k = (case j of JObj kvs \<Rightarrow> map_of kvs k | _ \<Rightarrow> None)"

lemma jget_obj [py_simps]: "jget (JObj kvs) k = map_of kvs k"
  by (simp add: jget_def)

section \<open>Python conventions\<close>

text \<open>
  The truth value of an optional string is that of a present, non-empty string, and
  \<open>x or d\<close> selects by it.
\<close>

definition truthy_str :: "string option \<Rightarrow> bool" where
  "truthy_str s = (case s of None \<Rightarrow> False | Some x \<Rightarrow> x \<noteq> [])"

definition or_str :: "string option \<Rightarrow> string \<Rightarrow> string" where
  "or_str s d = (case s of None \<Rightarrow> d | Some x \<Rightarrow> if x = [] then d else x)"

lemma truthy_str_simps [simp]:
  "\<not> truthy_str None" "truthy_str (Some x) \<longleftrightarrow> x \<noteq> []"
  by (simp_all add: truthy_str_def)

lemma or_str_simps [simp]:
  "or_str None d = d" "x \<noteq> [] \<Longrightarrow> or_str (Some x) d = x" "or_str (Some []) d = d"
  by (simp_all add: or_str_def)

text \<open>The truth value of a JSON value.\<close>

definition json_truthy :: "json \<Rightarrow> bool" where
  "json_truthy j = (case j of JNull \<Rightarrow> False | JBool b \<Rightarrow> b | JNum x \<Rightarrow> x \<noteq> 0 | JStr s \<Rightarrow> s \<noteq> []
     | JList xs \<Rightarrow> xs \<noteq> [] | JObj kvs \<Rightarrow> kvs \<noteq> [])"

text \<open>\<open>int(x)\<close> of a float cuts towards zero.\<close>

definition py_int :: "rat \<Rightarrow> int" where
  "py_int x = (if x < 0 then - \<lfloor>- x\<rfloor> else \<lfloor>x\<rfloor>)"

text \<open>\<open>str.lower\<close> and the whitespace test of \<open>str.strip\<close>, on ASCII text.\<close>

definition lower_char :: "char \<Rightarrow> char" where
  "lower_char c = (if 65 \<le> (of_char c :: nat) \<and> (of_char c :: nat) \<le> 90
     then char_of ((of_char c :: nat) + 32) else c)"

definition lower :: "string \<Rightarrow> string" where
  "lower s = map lower_char s"

definition is_space :: "char \<Rightarrow> bool" where
  "is_space c = ((of_char c :: nat) = 32 \<or> (9 \<le> (of_char c :: nat) \<and> (of_char c :: nat) \<le> 13)
     \<or> (28 \<le> (of_char c :: nat) \<and> (of_char c :: nat) \<le> 31))"

text \<open>\<open>(s or "").strip()\<close> is a false value exactly for a blank text.\<close>

definition blank :: "string option \<Rightarrow> bool" where
  "blank s = (case s of None \<Rightarrow> True | Some x \<Rightarrow> list_all is_space x)"

section \<open>Tables\<close>

text \<open>
  A table is the list of its rows in storage order. \<open>scalars(...).first()\<close> is \<open>find\<close>,
  \<open>scalars(...).all()\<close> is \<open>filter\<close>, an UPDATE is \<open>update_where\<close> and a DELETE a
  \<open>filter\<close> by the negated condition.
\<close>

definition update_where :: "('r \<Rightarrow> bool) \<Rightarrow> ('r \<Rightarrow> 'r) \<Rightarrow> 'r list \<Rightarrow> 'r list" where
  "update_where P f rows = map (\<lambda>r. if P r then f r else r) rows"

lemma update_where_Nil [table_simps]: "update_where P f [] = []"
  by (simp add: update_where_def)

lemma update_where_Cons [table_simps]:
  "update_where P f (r # rows) = (if P r then f r else r) # update_where P f rows"
  by (simp add: update_where_def)

lemma length_update_where [simp]: "length (update_where P f rows) = length rows"
  by (simp add: update_where_def)

lemma set_update_where: "set (update_where P f rows) = (\<lambda>r. if P r then f r else r) ` set rows"
  by (simp add: update_where_def)

lemma update_whereE:
  assumes "r' \<in> set (update_where P f rows)"
  obtains "r' \<in> set rows" "\<not> P r'" | r where "r \<in> set rows" "P r" "r' = f r"
  using assms by (auto simp: set_update_where split: if_splits)

lemma map_update_where:
  assumes "\<And>r. r \<in> set rows \<Longrightarrow> P r \<Longrightarrow> g (f r) = g r"
  shows "map g (update_where P f rows) = map g rows"
  using assms by (auto simp: update_where_def)

lemma filter_update_where_other:
  assumes "\<And>r. r \<in> set rows \<Longrightarrow> P r \<Longrightarrow> \<not> Q r \<and> \<not> Q (f r)"
  shows "filter Q (update_where P f rows) = filter Q rows"
  using assms by (induction rows) (auto simp: update_where_def)

lemma find_update_where_miss:
  assumes "\<And>x. x \<in> set rows \<Longrightarrow> P x \<Longrightarrow> \<not> Q x \<and> \<not> Q (f x)"
  shows "find Q (update_where P f rows) = find Q rows"
  using assms by (induction rows) (auto simp: update_where_def)

lemma find_SomeD: "find P rows = Some r \<Longrightarrow> r \<in> set rows \<and> P r"
  by (auto simp: find_Some_iff)

lemma find_NoneD: "find P rows = None \<Longrightarrow> r \<in> set rows \<Longrightarrow> \<not> P r"
  by (auto simp: find_None_iff)

lemma find_append: "find P (xs @ ys) = (case find P xs of None \<Rightarrow> find P ys | Some x \<Rightarrow> Some x)"
  by (induction xs) auto

lemma find_filter: "find P (filter Q xs) = find (\<lambda>x. Q x \<and> P x) xs"
  by (induction xs) auto

text \<open>A row is determined by its primary key when the keys of the table are distinct.\<close>

lemma distinct_key_eq:
  assumes "distinct (map k rows)" "r \<in> set rows" "s \<in> set rows" "k r = k s"
  shows "r = s"
  using assms by (metis distinct_map inj_onD)

lemma find_key:
  assumes "distinct (map k rows)" "r \<in> set rows" "P r" "\<And>x. P x \<Longrightarrow> k x = k r"
  shows "find P rows = Some r"
proof -
  obtain x where x: "find P rows = Some x"
    using assms(2,3) by (cases "find P rows") (auto dest: find_NoneD)
  then have "x \<in> set rows" "P x" by (auto dest: find_SomeD)
  with assms have "x = r" by (auto intro: distinct_key_eq)
  with x show ?thesis by simp
qed

text \<open>MIN over a column; None on an empty selection, as SQL returns NULL.\<close>

fun min_of :: "'a::linorder list \<Rightarrow> 'a option" where
  "min_of [] = None"
| "min_of (x # xs) = (case min_of xs of None \<Rightarrow> Some x | Some m \<Rightarrow> Some (min x m))"

lemma min_of_None [simp]: "min_of xs = None \<longleftrightarrow> xs = []"
  by (cases xs) (auto split: option.splits)

lemma min_of_Some: "min_of xs = Some m \<Longrightarrow> m \<in> set xs \<and> (\<forall>x\<in>set xs. m \<le> x)"
proof (induction xs arbitrary: m)
  case (Cons x xs)
  then show ?case by (cases "min_of xs") (auto simp: min_def split: if_splits)
qed simp

fun max_of :: "'a::linorder list \<Rightarrow> 'a option" where
  "max_of [] = None"
| "max_of (x # xs) = (case max_of xs of None \<Rightarrow> Some x | Some m \<Rightarrow> Some (max x m))"

lemma max_of_None [simp]: "max_of xs = None \<longleftrightarrow> xs = []"
  by (cases xs) (auto split: option.splits)

lemma max_of_Some: "max_of xs = Some m \<Longrightarrow> m \<in> set xs \<and> (\<forall>x\<in>set xs. x \<le> m)"
proof (induction xs arbitrary: m)
  case (Cons x xs)
  then show ?case by (cases "max_of xs") (auto simp: max_def split: if_splits)
qed simp

lemma filter_key:
  assumes "distinct (map k rows)" "r \<in> set rows" "P r" "\<And>x. P x \<Longrightarrow> k x = k r"
  shows "filter P rows = [r]"
  using assms
proof (induction rows)
  case (Cons x rows)
  show ?case
  proof (cases "P x")
    case True
    then have kx: "k x = k r" using Cons.prems by blast
    then have "x = r" using distinct_key_eq [OF Cons.prems(1) _ Cons.prems(2) kx] by simp
    moreover have "\<not> P y" if "y \<in> set rows" for y
    proof
      assume "P y"
      with Cons.prems(4) kx have "k y = k x" by simp
      with that Cons.prems(1) show False by (metis distinct.simps(2) imageI image_set list.simps(9))
    qed
    ultimately show ?thesis using True by (simp add: filter_empty_conv)
  next
    case False
    with Cons.prems(2,3) have "r \<in> set rows" by auto
    with Cons.IH [OF _ _ Cons.prems(3,4)] Cons.prems(1) False show ?thesis by simp
  qed
qed simp

end
