(* ===== verification/Clock.thy ===== *)
theory Clock
  imports Prelude
begin

text \<open>
  Dates and times as the code handles them. A datetime is a wall clock reading in
  microseconds since 1970-01-01T00:00:00, naive or with a UTC offset; a date is a number of
  days since 1970-01-01; an instant (what a timezone-aware comparison compares) is a number of
  microseconds in UTC. The flight-window conversions of src/src/core/utils/flight_time.py and
  the \<open>_aware\<close> helper of src/src/core/tools/_media_buy_transitions.py are at the end.
\<close>

type_synonym instant = int
type_synonym day = int

datatype pydatetime =
    Naive int
  | Aware int int

definition day_us :: int where
  "day_us = 86400000000"

definition second_us :: int where
  "second_us = 1000000"

fun wall_of :: "pydatetime \<Rightarrow> int" where
  "wall_of (Naive w) = w"
| "wall_of (Aware w off) = w"

text \<open>\<open>datetime.date()\<close> reads the wall clock and ignores the offset.\<close>

definition date_of :: "pydatetime \<Rightarrow> day" where
  "date_of t = wall_of t div day_us"

text \<open>The date an instant falls in, in UTC.\<close>

definition utc_date :: "instant \<Rightarrow> day" where
  "utc_date i = i div day_us"

text \<open>A naive datetime read from the column is UTC; an aware one is converted.\<close>

fun to_utc :: "pydatetime \<Rightarrow> instant" where
  "to_utc (Naive w) = w"
| "to_utc (Aware w off) = w - off"

definition aware :: "pydatetime option \<Rightarrow> instant option" where
  "aware v = map_option to_utc v"

text \<open>\<open>datetime.combine(d, time.min)\<close> and \<open>datetime.combine(d, time.max)\<close>, in UTC.\<close>

definition utc_flight_start :: "day \<Rightarrow> instant" where
  "utc_flight_start d = d * day_us"

definition utc_flight_end :: "day \<Rightarrow> instant" where
  "utc_flight_end d = d * day_us + (day_us - 1)"

lemma day_us_pos [simp]: "0 < day_us"
  by (simp add: day_us_def)

lemma le_day_div: "d \<le> i div day_us \<longleftrightarrow> d * day_us \<le> i"
proof
  assume "d \<le> i div day_us"
  then have "d * day_us \<le> (i div day_us) * day_us" by (simp add: mult_right_mono)
  also have "\<dots> \<le> i"
    using div_mult_mod_eq [of i day_us] pos_mod_sign [OF day_us_pos, of i] by linarith
  finally show "d * day_us \<le> i" .
next
  assume "d * day_us \<le> i"
  then have "(d * day_us) div day_us \<le> i div day_us" by (rule zdiv_mono1) simp
  then show "d \<le> i div day_us" by (simp add: day_us_def)
qed

lemma div_le_day: "i div day_us \<le> d \<longleftrightarrow> i \<le> d * day_us + (day_us - 1)"
proof -
  have "i div day_us \<le> d \<longleftrightarrow> \<not> d + 1 \<le> i div day_us" by linarith
  also have "\<dots> \<longleftrightarrow> i < (d + 1) * day_us" by (simp only: le_day_div not_le)
  also have "\<dots> \<longleftrightarrow> i \<le> d * day_us + (day_us - 1)" by (simp add: distrib_right) linarith
  finally show ?thesis .
qed

text \<open>
  On whole days the two granularities agree: an instant is before the start of a date exactly
  when its UTC date is earlier, and past the end of a date exactly when its date is later.
\<close>

lemma before_flight_start: "i < utc_flight_start d \<longleftrightarrow> utc_date i < d"
  unfolding utc_flight_start_def utc_date_def using le_day_div [of d i] by linarith

lemma after_flight_end: "utc_flight_end d < i \<longleftrightarrow> d < utc_date i"
  unfolding utc_flight_end_def utc_date_def using div_le_day [of i d] by linarith

lemma flight_start_le_end: "a \<le> b \<Longrightarrow> utc_flight_start a \<le> utc_flight_end b"
proof -
  assume "a \<le> b"
  then have "a * day_us \<le> b * day_us" by (simp add: mult_right_mono)
  then show ?thesis by (simp add: utc_flight_start_def utc_flight_end_def day_us_def)
qed

end
