(* ===== verification/Media_Buy.thy ===== *)
theory Media_Buy
  imports Clock
begin

text \<open>
  The media buy and its packages: the closed status vocabulary PersistedMediaBuyStatus with
  its coercion and its seller-commitment predicate, the rows MediaBuy and MediaPackage, and
  the constructor guard of MediaBuy, from src/src/core/database/models.py. The status column is
  a string, as in the database; the vocabulary is the datatype the coercion parses into.
\<close>

section \<open>The status vocabulary\<close>

datatype media_buy_status =
    PENDING_CREATIVES
  | PENDING_START
  | ACTIVE
  | PAUSED
  | COMPLETED
  | REJECTED
  | CANCELED
  | DRAFT
  | PENDING
  | PENDING_APPROVAL
  | PENDING_ACTIVATION
  | SCHEDULED
  | APPROVED
  | READY
  | FAILED

fun status_value :: "media_buy_status \<Rightarrow> string" where
  "status_value PENDING_CREATIVES = ''pending_creatives''"
| "status_value PENDING_START = ''pending_start''"
| "status_value ACTIVE = ''active''"
| "status_value PAUSED = ''paused''"
| "status_value COMPLETED = ''completed''"
| "status_value REJECTED = ''rejected''"
| "status_value CANCELED = ''canceled''"
| "status_value DRAFT = ''draft''"
| "status_value PENDING = ''pending''"
| "status_value PENDING_APPROVAL = ''pending_approval''"
| "status_value PENDING_ACTIVATION = ''pending_activation''"
| "status_value SCHEDULED = ''scheduled''"
| "status_value APPROVED = ''approved''"
| "status_value READY = ''ready''"
| "status_value FAILED = ''failed''"

definition status_members :: "media_buy_status list" where
  "status_members = [PENDING_CREATIVES, PENDING_START, ACTIVE, PAUSED, COMPLETED, REJECTED,
     CANCELED, DRAFT, PENDING, PENDING_APPROVAL, PENDING_ACTIVATION, SCHEDULED, APPROVED, READY,
     FAILED]"

text \<open>\<open>cls((raw or "").lower())\<close>, with the ValueError of an unknown value as None.\<close>

definition parse_or_none :: "string option \<Rightarrow> media_buy_status option" where
  "parse_or_none raw = find (\<lambda>m. status_value m = lower (or_str raw '''')) status_members"

text \<open>
  The error carries the buy's id, when the caller has one, and the refused value; the accepted
  values it also lists are the constant vocabulary.
\<close>

definition parse_status :: "string option \<Rightarrow> string option \<Rightarrow> media_buy_status res" where
  "parse_status raw media_buy_id = (case parse_or_none raw of
     None \<Rightarrow> Inl (AdCPPersistedStateError media_buy_id raw)
   | Some m \<Rightarrow> Inr m)"

definition seller_committed_statuses :: "media_buy_status list" where
  "seller_committed_statuses = [ACTIVE, APPROVED, READY, SCHEDULED, PENDING_ACTIVATION,
     PENDING_START, PAUSED, COMPLETED, CANCELED]"

definition seller_confirmed :: "media_buy_status \<Rightarrow> bool" where
  "seller_confirmed m = (m \<in> set seller_committed_statuses)"

definition is_media_buy_seller_confirmed :: "string option \<Rightarrow> bool" where
  "is_media_buy_seller_confirmed status = (case parse_or_none status of
     None \<Rightarrow> False
   | Some m \<Rightarrow> seller_confirmed m)"

lemma status_members_complete: "m \<in> set status_members"
  by (cases m) (simp_all add: status_members_def)

lemma status_value_inject: "status_value a = status_value b \<longleftrightarrow> a = b"
  by (cases a; cases b; simp)

lemma status_value_lower: "lower (status_value m) = status_value m"
  by (cases m) (simp_all add: lower_def lower_char_def of_char_def)

lemma status_value_nonempty: "status_value m \<noteq> []"
  by (cases m) simp_all

lemma parse_or_none_Some_iff:
  "parse_or_none raw = Some m \<longleftrightarrow> lower (or_str raw '''') = status_value m"
proof
  assume "parse_or_none raw = Some m"
  then show "lower (or_str raw '''') = status_value m"
    by (auto simp: parse_or_none_def dest: find_SomeD)
next
  assume l: "lower (or_str raw '''') = status_value m"
  show "parse_or_none raw = Some m"
  proof (cases "parse_or_none raw")
    case None
    then show ?thesis
      using l status_members_complete [of m] by (auto simp: parse_or_none_def dest: find_NoneD)
  next
    case (Some m')
    then have "status_value m' = status_value m"
      using l by (auto simp: parse_or_none_def dest: find_SomeD)
    with Some show ?thesis by (simp add: status_value_inject)
  qed
qed

lemma parse_or_none_value [simp]: "parse_or_none (Some (status_value m)) = Some m"
  by (simp add: parse_or_none_Some_iff status_value_lower status_value_nonempty)

lemma parse_status_value [simp]: "parse_status (Some (status_value m)) i = Inr m"
  by (simp add: parse_status_def)

lemma parse_status_Inr_iff: "parse_status raw i = Inr m \<longleftrightarrow> parse_or_none raw = Some m"
  by (simp add: parse_status_def split: option.split)

section \<open>Rows\<close>

text \<open>
  A row of media_buys. Instants (\<open>confirmed_at\<close>, \<open>created_at\<close>, \<open>updated_at\<close>,
  \<open>approved_at\<close>) are microseconds in UTC; the flight edges are datetimes or dates, as stored.
\<close>

record media_buy =
  mb_media_buy_id :: string
  mb_tenant_id :: string
  mb_principal_id :: string
  mb_order_name :: string
  mb_advertiser_name :: string
  mb_campaign_objective :: "string option"
  mb_kpi_goal :: "string option"
  mb_budget :: "rat option"
  mb_currency :: "string option"
  mb_start_date :: day
  mb_end_date :: day
  mb_start_time :: "pydatetime option"
  mb_end_time :: "pydatetime option"
  mb_status :: string
  mb_revision :: int
  mb_confirmed_at :: "instant option"
  mb_created_at :: instant
  mb_updated_at :: instant
  mb_approved_at :: "instant option"
  mb_approved_by :: "string option"
  mb_raw_request :: json
  mb_strategy_id :: "string option"
  mb_is_paused :: bool
  mb_account_id :: "string option"
  mb_idempotency_key :: "string option"
  mb_payload_hash :: "string option"

record media_package =
  mp_media_buy_id :: string
  mp_package_id :: string
  mp_budget :: "rat option"
  mp_bid_price :: "rat option"
  mp_pacing :: "string option"
  mp_package_config :: json

text \<open>The check constraints of media_packages; a NULL column satisfies its check.\<close>

definition package_checks :: "media_package \<Rightarrow> bool" where
  "package_checks p = (
     (case mp_budget p of None \<Rightarrow> True | Some b \<Rightarrow> 0 < b) \<and>
     (case mp_bid_price p of None \<Rightarrow> True | Some b \<Rightarrow> 0 \<le> b) \<and>
     (case mp_pacing p of None \<Rightarrow> True
      | Some s \<Rightarrow> s = ''even'' \<or> s = ''asap'' \<or> s = ''front_loaded''))"

section \<open>Attribute assignments and the constructor\<close>

text \<open>
  A keyword argument of the constructor or of update_fields: a column name with its value, or a
  name the class does not have.
\<close>

datatype mb_attr =
    Media_buy_id string
  | Tenant_id string
  | Principal_id string
  | Order_name string
  | Advertiser_name string
  | Campaign_objective "string option"
  | Kpi_goal "string option"
  | Budget "rat option"
  | Currency "string option"
  | Start_date day
  | End_date day
  | Start_time "pydatetime option"
  | End_time "pydatetime option"
  | Status "string option"
  | Revision "int option"
  | Confirmed_at "instant option"
  | Created_at instant
  | Approved_at "instant option"
  | Approved_by "string option"
  | Raw_request json
  | Strategy_id "string option"
  | Is_paused bool
  | Account_id "string option"
  | Idempotency_key "string option"
  | Payload_hash "string option"
  | Unknown_attr string

text \<open>An explicit None on a column with a default is stored as that default.\<close>

fun mb_setattr :: "mb_attr \<Rightarrow> media_buy \<Rightarrow> media_buy" where
  "mb_setattr (Media_buy_id v) b = b\<lparr>mb_media_buy_id := v\<rparr>"
| "mb_setattr (Tenant_id v) b = b\<lparr>mb_tenant_id := v\<rparr>"
| "mb_setattr (Principal_id v) b = b\<lparr>mb_principal_id := v\<rparr>"
| "mb_setattr (Order_name v) b = b\<lparr>mb_order_name := v\<rparr>"
| "mb_setattr (Advertiser_name v) b = b\<lparr>mb_advertiser_name := v\<rparr>"
| "mb_setattr (Campaign_objective v) b = b\<lparr>mb_campaign_objective := v\<rparr>"
| "mb_setattr (Kpi_goal v) b = b\<lparr>mb_kpi_goal := v\<rparr>"
| "mb_setattr (Budget v) b = b\<lparr>mb_budget := v\<rparr>"
| "mb_setattr (Currency v) b = b\<lparr>mb_currency := v\<rparr>"
| "mb_setattr (Start_date v) b = b\<lparr>mb_start_date := v\<rparr>"
| "mb_setattr (End_date v) b = b\<lparr>mb_end_date := v\<rparr>"
| "mb_setattr (Start_time v) b = b\<lparr>mb_start_time := v\<rparr>"
| "mb_setattr (End_time v) b = b\<lparr>mb_end_time := v\<rparr>"
| "mb_setattr (Status v) b = b\<lparr>mb_status := (case v of None \<Rightarrow> ''draft'' | Some s \<Rightarrow> s)\<rparr>"
| "mb_setattr (Revision v) b = b\<lparr>mb_revision := (case v of None \<Rightarrow> 1 | Some n \<Rightarrow> n)\<rparr>"
| "mb_setattr (Confirmed_at v) b = b\<lparr>mb_confirmed_at := v\<rparr>"
| "mb_setattr (Created_at v) b = b\<lparr>mb_created_at := v\<rparr>"
| "mb_setattr (Approved_at v) b = b\<lparr>mb_approved_at := v\<rparr>"
| "mb_setattr (Approved_by v) b = b\<lparr>mb_approved_by := v\<rparr>"
| "mb_setattr (Raw_request v) b = b\<lparr>mb_raw_request := v\<rparr>"
| "mb_setattr (Strategy_id v) b = b\<lparr>mb_strategy_id := v\<rparr>"
| "mb_setattr (Is_paused v) b = b\<lparr>mb_is_paused := v\<rparr>"
| "mb_setattr (Account_id v) b = b\<lparr>mb_account_id := v\<rparr>"
| "mb_setattr (Idempotency_key v) b = b\<lparr>mb_idempotency_key := v\<rparr>"
| "mb_setattr (Payload_hash v) b = b\<lparr>mb_payload_hash := v\<rparr>"
| "mb_setattr (Unknown_attr k) b = b"

text \<open>
  \<open>_SEAM_MANAGED_FIELDS\<close>: a keyword that presets a repository-managed column. Passing None is
  not a preset.
\<close>

fun seam_preset :: "mb_attr \<Rightarrow> bool" where
  "seam_preset (Confirmed_at v) = (v \<noteq> None)"
| "seam_preset (Revision v) = (v \<noteq> None)"
| "seam_preset _ = False"

fun unknown_attr :: "mb_attr \<Rightarrow> bool" where
  "unknown_attr (Unknown_attr k) = True"
| "unknown_attr _ = False"

text \<open>
  A row before its keyword arguments, with the column defaults; \<open>now\<close> is the server default of
  the two timestamps. The required columns have no default: they are blank here and are all
  supplied by create_from_request.
\<close>

definition media_buy_blank :: "instant \<Rightarrow> media_buy" where
  "media_buy_blank now = \<lparr>
     mb_media_buy_id = '''', mb_tenant_id = '''', mb_principal_id = '''', mb_order_name = '''',
     mb_advertiser_name = '''', mb_campaign_objective = None, mb_kpi_goal = None,
     mb_budget = None, mb_currency = Some ''USD'', mb_start_date = 0, mb_end_date = 0,
     mb_start_time = None, mb_end_time = None, mb_status = ''draft'', mb_revision = 1,
     mb_confirmed_at = None, mb_created_at = now, mb_updated_at = now, mb_approved_at = None,
     mb_approved_by = None, mb_raw_request = JNull, mb_strategy_id = None, mb_is_paused = False,
     mb_account_id = None, mb_idempotency_key = None, mb_payload_hash = None \<rparr>"

definition media_buy_init :: "mb_attr list \<Rightarrow> instant \<Rightarrow> media_buy res" where
  "media_buy_init kwargs now = (
     if list_ex seam_preset kwargs then Inl TypeError
     else if list_ex unknown_attr kwargs then Inl TypeError
     else Inr (fold mb_setattr kwargs (media_buy_blank now)))"

lemma mb_setattr_unmanaged:
  assumes "\<not> seam_preset a"
  shows "mb_confirmed_at b = None \<Longrightarrow> mb_confirmed_at (mb_setattr a b) = None"
    and "mb_revision b = 1 \<Longrightarrow> mb_revision (mb_setattr a b) = 1"
  using assms by (cases a; simp)+

lemma fold_setattr_unmanaged:
  assumes "\<not> list_ex seam_preset kwargs" "mb_confirmed_at b = None" "mb_revision b = 1"
  shows "mb_confirmed_at (fold mb_setattr kwargs b) = None \<and> mb_revision (fold mb_setattr kwargs b) = 1"
  using assms by (induction kwargs arbitrary: b) (auto simp: mb_setattr_unmanaged)

text \<open>No spelling of the constructor call yields a confirmed row or a chosen revision.\<close>

lemma media_buy_init_unmanaged:
  assumes "media_buy_init kwargs now = Inr b"
  shows "mb_confirmed_at b = None \<and> mb_revision b = 1"
  using assms
  by (auto simp: media_buy_init_def media_buy_blank_def fold_setattr_unmanaged split: if_splits)

lemma parse_upper_active: "parse_or_none (Some ''ACTIVE'') = Some ACTIVE"
  by code_simp

end
