(* ===== verification/Tenant_Scope.thy ===== *)
theory Tenant_Scope
  imports Prelude
begin

text \<open>
  The contract every tenant-scoped repository of src/src/core/database/repositories offers its
  callers, as a locale: a write made for one tenant keeps the table's invariant and leaves what
  any other tenant can see exactly as it was. The client lemmas carry both over runs of writes
  by many tenants. A second locale carries a row-wise order (an identity that is kept, a
  counter that grows) over runs.
\<close>

inductive steps :: "(string \<Rightarrow> 's \<Rightarrow> 's \<Rightarrow> bool) \<Rightarrow> string list \<Rightarrow> 's \<Rightarrow> 's \<Rightarrow> bool"
  for step where
    steps_Nil: "steps step [] s s"
  | steps_Cons: "steps step (t # ts) s s''" if "step t s s'" "steps step ts s' s''"

inductive_cases steps_NilE [elim!]: "steps step [] s s'"
inductive_cases steps_ConsE [elim!]: "steps step (t # ts) s s'"

locale tenant_scoped =
  fixes inv :: "'s \<Rightarrow> bool"
    and step :: "string \<Rightarrow> 's \<Rightarrow> 's \<Rightarrow> bool"
    and view :: "string \<Rightarrow> 's \<Rightarrow> 'v"
  assumes inv_step: "inv s \<Longrightarrow> step t s s' \<Longrightarrow> inv s'"
    and other_step: "inv s \<Longrightarrow> step t s s' \<Longrightarrow> u \<noteq> t \<Longrightarrow> view u s' = view u s"
begin

lemma inv_steps: "steps step ts s s' \<Longrightarrow> inv s \<Longrightarrow> inv s'"
  by (induction rule: steps.induct) (auto dest: inv_step)

lemma isolated: "steps step ts s s' \<Longrightarrow> inv s \<Longrightarrow> u \<notin> set ts \<Longrightarrow> view u s' = view u s"
proof (induction rule: steps.induct)
  case (steps_Cons t s s' ts s'')
  then have "view u s' = view u s" "inv s'"
    by (auto dest: inv_step other_step)
  with steps_Cons show ?case by simp
qed simp

text \<open>What a tenant sees depends only on its own writes up to the last write of another.\<close>

lemma own_last:
  assumes "steps step ts s s'" "inv s" "\<forall>t\<in>set ts. t \<noteq> u" "step u s' s''"
  shows "view u s' = view u s \<and> inv s''"
proof -
  have "u \<notin> set ts" using assms(3) by auto
  then show ?thesis
    using isolated [OF assms(1,2)] inv_step [OF inv_steps [OF assms(1,2)] assms(4)] by simp
qed

end

locale step_order =
  fixes inv :: "'s \<Rightarrow> bool"
    and step :: "string \<Rightarrow> 's \<Rightarrow> 's \<Rightarrow> bool"
    and le :: "'s \<Rightarrow> 's \<Rightarrow> bool"
  assumes ord_inv: "inv s \<Longrightarrow> step t s s' \<Longrightarrow> inv s'"
    and ord_refl: "le s s"
    and ord_trans: "le s s' \<Longrightarrow> le s' s'' \<Longrightarrow> le s s''"
    and ord_step: "inv s \<Longrightarrow> step t s s' \<Longrightarrow> le s s'"
begin

lemma le_steps: "steps step ts s s' \<Longrightarrow> inv s \<Longrightarrow> le s s'"
proof (induction rule: steps.induct)
  case (steps_Nil s)
  show ?case by (rule ord_refl)
next
  case (steps_Cons t s s' ts s'')
  then have "le s s'" "le s' s''" by (auto dest: ord_inv ord_step)
  then show ?case by (rule ord_trans)
qed

end

end
