(* ===== verification/Media_Buy_Repo.thy ===== *)
theory Media_Buy_Repo
  imports Media_Buy Tenant_Scope
begin

text \<open>
  MediaBuyRepository of src/src/core/database/repositories/media_buy.py: every lookup, list
  query and write on the tables media_buys and media_packages. A write returns the session's
  view of the tables beside its result, so what an exception leaves pending is visible; the
  unit of work (theory Unit_Of_Work) decides whether that view is kept. SQL gives no order to
  an unordered SELECT; the model returns storage order. Foreign keys to tables outside this
  record (tenants, principals, accounts, strategies) are not modelled.
\<close>

record mb_db =
  media_buys :: "media_buy list"
  media_packages :: "media_package list"

section \<open>Lookups\<close>

definition get_by_id :: "string \<Rightarrow> 'a mb_db_scheme \<Rightarrow> string \<Rightarrow> media_buy option" where
  "get_by_id tenant db media_buy_id =
     find (\<lambda>b. mb_tenant_id b = tenant \<and> mb_media_buy_id b = media_buy_id) (media_buys db)"

definition get_by_id_or_raise :: "string \<Rightarrow> 'a mb_db_scheme \<Rightarrow> string \<Rightarrow> media_buy res" where
  "get_by_id_or_raise tenant db media_buy_id = (case get_by_id tenant db media_buy_id of
     None \<Rightarrow> Inl (AdCPMediaBuyNotFoundError media_buy_id)
   | Some b \<Rightarrow> Inr b)"

text \<open>\<open>== None\<close> on the account column is IS NULL, so equality of options is the SQL condition.\<close>

definition find_by_idempotency_key ::
    "string \<Rightarrow> 'a mb_db_scheme \<Rightarrow> string \<Rightarrow> string \<Rightarrow> string option \<Rightarrow> media_buy option" where
  "find_by_idempotency_key tenant db idempotency_key principal_id account_id =
     find (\<lambda>b. mb_tenant_id b = tenant \<and> mb_principal_id b = principal_id \<and>
             mb_account_id b = account_id \<and> mb_idempotency_key b = Some idempotency_key)
       (media_buys db)"

definition get_by_id_or_idempotency_key ::
    "string \<Rightarrow> 'a mb_db_scheme \<Rightarrow> string \<Rightarrow> string \<Rightarrow> string option \<Rightarrow> media_buy option" where
  "get_by_id_or_idempotency_key tenant db identifier principal_id account_id =
     (case get_by_id tenant db identifier of
        None \<Rightarrow> find_by_idempotency_key tenant db identifier principal_id account_id
      | Some b \<Rightarrow> Some b)"

section \<open>List queries\<close>

definition in_opt :: "'v list option \<Rightarrow> 'v \<Rightarrow> bool" where
  "in_opt vs v = (case vs of None \<Rightarrow> True | Some xs \<Rightarrow> v \<in> set xs)"

definition get_by_principal ::
    "string \<Rightarrow> 'a mb_db_scheme \<Rightarrow> string \<Rightarrow> string list option \<Rightarrow> media_buy_status list option
      \<Rightarrow> string option \<Rightarrow> media_buy list" where
  "get_by_principal tenant db principal_id ids statuses account_id =
     filter (\<lambda>b. mb_tenant_id b = tenant \<and> mb_principal_id b = principal_id \<and>
               in_opt ids (mb_media_buy_id b) \<and>
               in_opt (map_option (map status_value) statuses) (mb_status b) \<and>
               (account_id = None \<or> mb_account_id b = account_id))
       (media_buys db)"

definition get_active :: "string \<Rightarrow> 'a mb_db_scheme \<Rightarrow> media_buy list" where
  "get_active tenant db =
     filter (\<lambda>b. mb_tenant_id b = tenant \<and> (mb_status b = ''active'' \<or> mb_status b = ''approved''))
       (media_buys db)"

text \<open>
  media_packages has no tenant column: a package belongs to a tenant through its buy, and every
  package query joins through it.
\<close>

definition package_join :: "string \<Rightarrow> 'a mb_db_scheme \<Rightarrow> (media_package \<times> media_buy) list" where
  "package_join tenant db =
     [(p, b). p \<leftarrow> media_packages db, b \<leftarrow> media_buys db,
        mp_media_buy_id p = mb_media_buy_id b \<and> mb_tenant_id b = tenant]"

definition get_packages :: "string \<Rightarrow> 'a mb_db_scheme \<Rightarrow> string \<Rightarrow> media_package list" where
  "get_packages tenant db media_buy_id =
     map fst (filter (\<lambda>(p, b). mp_media_buy_id p = media_buy_id) (package_join tenant db))"

definition get_package :: "string \<Rightarrow> 'a mb_db_scheme \<Rightarrow> string \<Rightarrow> string \<Rightarrow> media_package option" where
  "get_package tenant db media_buy_id package_id =
     map_option fst (find (\<lambda>(p, b). mp_media_buy_id p = media_buy_id \<and> mp_package_id p = package_id)
       (package_join tenant db))"

definition get_package_or_raise ::
    "string \<Rightarrow> 'a mb_db_scheme \<Rightarrow> string \<Rightarrow> string \<Rightarrow> media_package res" where
  "get_package_or_raise tenant db media_buy_id package_id =
     (case get_package tenant db media_buy_id package_id of
        None \<Rightarrow> Inl (AdCPPackageNotFoundError package_id media_buy_id)
      | Some p \<Rightarrow> Inr p)"

text \<open>\<open>result.setdefault(k, []).append(v)\<close> on a dict kept in insertion order.\<close>

fun add_group :: "'k \<Rightarrow> 'v \<Rightarrow> ('k \<times> 'v list) list \<Rightarrow> ('k \<times> 'v list) list" where
  "add_group k v [] = [(k, [v])]"
| "add_group k v ((k', vs) # rest) =
     (if k = k' then (k', vs @ [v]) # rest else (k', vs) # add_group k v rest)"

definition get_packages_for_ids ::
    "string \<Rightarrow> 'a mb_db_scheme \<Rightarrow> string list \<Rightarrow> (string \<times> media_package list) list" where
  "get_packages_for_ids tenant db ids =
     (if ids = [] then []
      else fold (\<lambda>p. add_group (mp_media_buy_id p) p)
        (map fst (filter (\<lambda>(p, b). mp_media_buy_id p \<in> set ids) (package_join tenant db))) [])"

definition find_package_with_media_buy ::
    "string \<Rightarrow> 'a mb_db_scheme \<Rightarrow> string \<Rightarrow> (media_package \<times> media_buy) option" where
  "find_package_with_media_buy tenant db package_id =
     find (\<lambda>(p, b). mp_package_id p = package_id) (package_join tenant db)"

definition list_all_buys :: "string \<Rightarrow> 'a mb_db_scheme \<Rightarrow> media_buy list" where
  "list_all_buys tenant db = filter (\<lambda>b. mb_tenant_id b = tenant) (media_buys db)"

definition list_by_statuses ::
    "string \<Rightarrow> 'a mb_db_scheme \<Rightarrow> media_buy_status list \<Rightarrow> media_buy list" where
  "list_by_statuses tenant db statuses =
     filter (\<lambda>b. mb_tenant_id b = tenant \<and> mb_status b \<in> set (map status_value statuses))
       (media_buys db)"

definition list_all_ordered_by_created :: "string \<Rightarrow> 'a mb_db_scheme \<Rightarrow> media_buy list" where
  "list_all_ordered_by_created tenant db = sort_key (\<lambda>b. - mb_created_at b) (list_all_buys tenant db)"

definition list_recent :: "string \<Rightarrow> 'a mb_db_scheme \<Rightarrow> nat \<Rightarrow> media_buy list" where
  "list_recent tenant db limit =
     take limit (sort_key (\<lambda>b. - mb_created_at b)
       (filter (\<lambda>b. mb_tenant_id b = tenant) (media_buys db)))"

text \<open>An empty status list is no filter here, unlike in get_by_principal.\<close>

definition list_in_flight_on_date ::
    "string \<Rightarrow> 'a mb_db_scheme \<Rightarrow> day \<Rightarrow> media_buy_status list option \<Rightarrow> media_buy list" where
  "list_in_flight_on_date tenant db target_date statuses =
     filter (\<lambda>b. mb_tenant_id b = tenant \<and> mb_start_date b \<le> target_date \<and>
               target_date \<le> mb_end_date b \<and>
               (case statuses of None \<Rightarrow> True
                | Some ss \<Rightarrow> ss = [] \<or> mb_status b \<in> set (map status_value ss)))
       (media_buys db)"

text \<open>The one query that is not scoped to a tenant.\<close>

definition get_all_by_statuses :: "'a mb_db_scheme \<Rightarrow> media_buy_status list \<Rightarrow> media_buy list" where
  "get_all_by_statuses db statuses =
     filter (\<lambda>b. mb_status b \<in> set (map status_value statuses)) (media_buys db)"

section \<open>Writes on media_buys\<close>

text \<open>
  The partial unique index idx_media_buys_idempotency_key: two rows with a key clash when the
  whole tuple (tenant, principal, account, key) is equal, a NULL account equal to a NULL account.
\<close>

definition idem_clash :: "media_buy \<Rightarrow> media_buy \<Rightarrow> bool" where
  "idem_clash a b = (mb_idempotency_key a \<noteq> None \<and> mb_idempotency_key a = mb_idempotency_key b \<and>
     mb_tenant_id a = mb_tenant_id b \<and> mb_principal_id a = mb_principal_id b \<and>
     mb_account_id a = mb_account_id b)"

text \<open>\<open>session.add(row); session.flush()\<close>: the INSERT fails on the primary key or the index.\<close>

definition insert_media_buy :: "'a mb_db_scheme \<Rightarrow> media_buy \<Rightarrow> 'a mb_db_scheme \<times> media_buy res" where
  "insert_media_buy db b = (
     if list_ex (\<lambda>r. mb_media_buy_id r = mb_media_buy_id b \<or> idem_clash r b) (media_buys db)
     then (db, Inl IntegrityError)
     else (db\<lparr>media_buys := media_buys db @ [b]\<rparr>, Inr b))"

text \<open>The session's changed row, written over the row with its primary key.\<close>

definition write_media_buy :: "'a mb_db_scheme \<Rightarrow> media_buy \<Rightarrow> 'a mb_db_scheme" where
  "write_media_buy db b =
     db\<lparr>media_buys := update_where (\<lambda>r. mb_media_buy_id r = mb_media_buy_id b) (\<lambda>r. b) (media_buys db)\<rparr>"

text \<open>
  \<open>session.flush()\<close> of a changed row: the UPDATE sets \<open>updated_at\<close> (onupdate) and fails on the
  unique index.
\<close>

definition flush_media_buy ::
    "instant \<Rightarrow> 'a mb_db_scheme \<Rightarrow> media_buy \<Rightarrow> 'a mb_db_scheme \<times> media_buy option res" where
  "flush_media_buy now db b = (
     if list_ex (\<lambda>r. mb_media_buy_id r \<noteq> mb_media_buy_id b \<and> idem_clash r b) (media_buys db)
     then (db, Inl IntegrityError)
     else let b' = b\<lparr>mb_updated_at := now\<rparr> in (write_media_buy db b', Inr (Some b')))"

text \<open>
  \<open>revision = revision + 1\<close> as a SQL expression: it is evaluated on the stored row, which is
  the row the session read.
\<close>

definition bump_revision :: "media_buy \<Rightarrow> media_buy" where
  "bump_revision b = b\<lparr>mb_revision := mb_revision b + 1\<rparr>"

text \<open>Write-once; the boolean says whether it stamped.\<close>

definition stamp_confirmation_if_needed :: "instant \<Rightarrow> bool \<Rightarrow> media_buy \<Rightarrow> media_buy \<times> bool" where
  "stamp_confirmation_if_needed now seller_committed b = (
     if mb_confirmed_at b \<noteq> None then (b, False)
     else if \<not> seller_committed then (b, False)
     else (b\<lparr>mb_confirmed_at := Some now\<rparr>, True))"

text \<open>
  The request model: its JSON dump under either naming, and the two attributes the repository
  reads. \<open>dict_set\<close> is item assignment on a dict.
\<close>

record create_req =
  rq_dump :: "bool \<Rightarrow> json"
  rq_idempotency_key :: "string option"
  rq_po_number :: "string option"

fun dict_set :: "string \<Rightarrow> json \<Rightarrow> (string \<times> json) list \<Rightarrow> (string \<times> json) list" where
  "dict_set k v [] = [(k, v)]"
| "dict_set k v ((k', v') # rest) =
     (if k' = k then (k', v) # rest else (k', v') # dict_set k v rest)"

fun set_package_id :: "string \<Rightarrow> json \<Rightarrow> json res" where
  "set_package_id pid (JObj kvs) = Inr (JObj (dict_set ''package_id'' (JStr pid) kvs))"
| "set_package_id pid _ = Inl TypeError"

fun inject_ids :: "(nat \<times> string) list \<Rightarrow> json list \<Rightarrow> json list res" where
  "inject_ids [] packages = Inr packages"
| "inject_ids ((idx, pid) # rest) packages = (
     if idx < length packages then
       (case set_package_id pid (packages ! idx) of
          Inl e \<Rightarrow> Inl e
        | Inr p \<Rightarrow> inject_ids rest (packages[idx := p]))
     else inject_ids rest packages)"

definition inject_package_ids :: "(nat \<times> string) list option \<Rightarrow> json \<Rightarrow> json res" where
  "inject_package_ids id_map raw = (case id_map of
     None \<Rightarrow> Inr raw
   | Some m \<Rightarrow>
       if m = [] then Inr raw
       else (case raw of
          JObj kvs \<Rightarrow> (case map_of kvs ''packages'' of
             None \<Rightarrow> Inr raw
           | Some (JList ps) \<Rightarrow> (case inject_ids m ps of
                Inl e \<Rightarrow> Inl e
              | Inr ps' \<Rightarrow> Inr (JObj (dict_set ''packages'' (JList ps') kvs)))
           | Some _ \<Rightarrow> Inl TypeError)
        | _ \<Rightarrow> Inl TypeError))"

record create_args =
  ca_seller_committed :: bool
  ca_media_buy_id :: string
  ca_req :: create_req
  ca_principal_id :: string
  ca_advertiser_name :: string
  ca_budget :: rat
  ca_currency :: string
  ca_start_time :: pydatetime
  ca_end_time :: pydatetime
  ca_status :: string
  ca_order_name :: "string option"
  ca_campaign_objective :: "string option"
  ca_kpi_goal :: "string option"
  ca_package_id_map :: "(nat \<times> string) list option"
  ca_by_alias :: bool
  ca_created_at :: "instant option"
  ca_account_id :: "string option"

text \<open>
  The keyword dict create_from_request builds. \<open>request_hash\<close> stands for canonical_request_hash
  (RFC 8785 canonicalisation and SHA-256 of the request), which the model takes as a parameter.
\<close>

definition create_kwargs ::
    "(create_req \<Rightarrow> string) \<Rightarrow> string \<Rightarrow> create_args \<Rightarrow> json \<Rightarrow> media_buy_status \<Rightarrow> mb_attr list" where
  "create_kwargs request_hash tenant a raw status = (let req = ca_req a in
     [ Media_buy_id (ca_media_buy_id a), Tenant_id tenant, Principal_id (ca_principal_id a),
       Idempotency_key (rq_idempotency_key req),
       Order_name (or_str (ca_order_name a) (or_str (rq_po_number req) (''Order-'' @ ca_media_buy_id a))),
       Advertiser_name (ca_advertiser_name a), Budget (Some (ca_budget a)),
       Currency (Some (ca_currency a)),
       Start_date (date_of (ca_start_time a)), End_date (date_of (ca_end_time a)),
       Start_time (Some (ca_start_time a)), End_time (Some (ca_end_time a)),
       Status (Some (status_value status)), Raw_request raw,
       Payload_hash (if truthy_str (rq_idempotency_key req) then Some (request_hash req) else None) ]
     @ (case ca_campaign_objective a of None \<Rightarrow> [] | Some v \<Rightarrow> [Campaign_objective (Some v)])
     @ (case ca_kpi_goal a of None \<Rightarrow> [] | Some v \<Rightarrow> [Kpi_goal (Some v)])
     @ (case ca_created_at a of None \<Rightarrow> [] | Some v \<Rightarrow> [Created_at v])
     @ (case ca_account_id a of None \<Rightarrow> [] | Some v \<Rightarrow> [Account_id (Some v)]))"

definition create_from_request ::
    "(create_req \<Rightarrow> string) \<Rightarrow> string \<Rightarrow> instant \<Rightarrow> 'a mb_db_scheme \<Rightarrow> create_args
      \<Rightarrow> 'a mb_db_scheme \<times> media_buy res" where
  "create_from_request request_hash tenant now db a =
     (case inject_package_ids (ca_package_id_map a) (rq_dump (ca_req a) (ca_by_alias a)) of
        Inl e \<Rightarrow> (db, Inl e)
      | Inr raw \<Rightarrow> (case parse_status (Some (ca_status a)) (Some (ca_media_buy_id a)) of
          Inl e \<Rightarrow> (db, Inl e)
        | Inr status \<Rightarrow> (case media_buy_init (create_kwargs request_hash tenant a raw status) now of
            Inl e \<Rightarrow> (db, Inl e)
          | Inr b \<Rightarrow> insert_media_buy db
              (fst (stamp_confirmation_if_needed now (ca_seller_committed a) b)))))"

definition create_media_buy_row ::
    "string \<Rightarrow> instant \<Rightarrow> 'a mb_db_scheme \<Rightarrow> media_buy \<Rightarrow> bool \<Rightarrow> 'a mb_db_scheme \<times> media_buy res" where
  "create_media_buy_row tenant now db b seller_committed = (
     if mb_tenant_id b \<noteq> tenant then (db, Inl ValueError)
     else (case parse_status (Some (mb_status b)) (Some (mb_media_buy_id b)) of
        Inl e \<Rightarrow> (db, Inl e)
      | Inr m \<Rightarrow> insert_media_buy db
          (fst (stamp_confirmation_if_needed now seller_committed (b\<lparr>mb_status := status_value m\<rparr>)))))"

definition update_status ::
    "string \<Rightarrow> instant \<Rightarrow> 'a mb_db_scheme \<Rightarrow> string \<Rightarrow> string \<Rightarrow> bool \<Rightarrow> instant option \<Rightarrow> string option
      \<Rightarrow> 'a mb_db_scheme \<times> media_buy option res" where
  "update_status tenant now db media_buy_id status seller_committed approved_at approved_by =
     (case parse_status (Some status) (Some media_buy_id) of
        Inl e \<Rightarrow> (db, Inl e)
      | Inr normalized \<Rightarrow> (case get_by_id tenant db media_buy_id of
          None \<Rightarrow> (db, Inr None)
        | Some b \<Rightarrow>
            let b1 = b\<lparr>mb_status := status_value normalized\<rparr>;
                b2 = (if approved_at \<noteq> None then b1\<lparr>mb_approved_at := approved_at\<rparr> else b1);
                b3 = (if approved_by \<noteq> None then b2\<lparr>mb_approved_by := approved_by\<rparr> else b2);
                b4 = fst (stamp_confirmation_if_needed now seller_committed b3)
            in flush_media_buy now db (bump_revision b4)))"

fun immutable_attr :: "mb_attr \<Rightarrow> bool" where
  "immutable_attr (Tenant_id _) = True"
| "immutable_attr (Media_buy_id _) = True"
| "immutable_attr (Created_at _) = True"
| "immutable_attr (Revision _) = True"
| "immutable_attr (Confirmed_at _) = True"
| "immutable_attr _ = False"

text \<open>\<open>kwargs["status"] = parse(kwargs["status"])\<close>; every other keyword is untouched.\<close>

fun parse_status_kw :: "string \<Rightarrow> mb_attr list \<Rightarrow> mb_attr list res" where
  "parse_status_kw i [] = Inr []"
| "parse_status_kw i (Status v # rest) = (case parse_status v (Some i) of
     Inl e \<Rightarrow> Inl e
   | Inr m \<Rightarrow> (case parse_status_kw i rest of
       Inl e \<Rightarrow> Inl e
     | Inr rest' \<Rightarrow> Inr (Status (Some (status_value m)) # rest')))"
| "parse_status_kw i (a # rest) = (case parse_status_kw i rest of
     Inl e \<Rightarrow> Inl e
   | Inr rest' \<Rightarrow> Inr (a # rest'))"

text \<open>
  The assignment loop. An unknown name raises in the middle of it: the assignments made before
  it stay on the session's object.
\<close>

fun assign_fields :: "mb_attr list \<Rightarrow> media_buy \<Rightarrow> media_buy \<times> bool" where
  "assign_fields [] b = (b, True)"
| "assign_fields (a # rest) b =
     (if unknown_attr a then (b, False) else assign_fields rest (mb_setattr a b))"

definition update_fields ::
    "string \<Rightarrow> instant \<Rightarrow> 'a mb_db_scheme \<Rightarrow> string \<Rightarrow> bool \<Rightarrow> mb_attr list
      \<Rightarrow> 'a mb_db_scheme \<times> media_buy option res" where
  "update_fields tenant now db media_buy_id seller_committed kwargs = (
     if list_ex immutable_attr kwargs then (db, Inl ValueError)
     else (case parse_status_kw media_buy_id kwargs of
        Inl e \<Rightarrow> (db, Inl e)
      | Inr kwargs' \<Rightarrow> (case get_by_id tenant db media_buy_id of
          None \<Rightarrow> (db, Inr None)
        | Some b \<Rightarrow>
            let (b1, known) = assign_fields kwargs' b
            in if \<not> known then (write_media_buy db b1, Inl ValueError)
               else flush_media_buy now db
                 (bump_revision (fst (stamp_confirmation_if_needed now seller_committed b1))))))"

section \<open>Writes on media_packages\<close>

text \<open>
  A pending package INSERT fails on the primary key or a check constraint; a changed package
  fails on a check constraint.
\<close>

definition package_key :: "media_package \<Rightarrow> string \<times> string" where
  "package_key p = (mp_media_buy_id p, mp_package_id p)"

definition write_package :: "'a mb_db_scheme \<Rightarrow> media_package \<Rightarrow> 'a mb_db_scheme" where
  "write_package db p =
     db\<lparr>media_packages := update_where (\<lambda>r. package_key r = package_key p) (\<lambda>r. p) (media_packages db)\<rparr>"

text \<open>
  The flush that ends a package write: the pending inserts in order, then the parent's new
  revision.
\<close>

fun insert_packages :: "media_package list \<Rightarrow> 'a mb_db_scheme \<Rightarrow> 'a mb_db_scheme res" where
  "insert_packages [] db = Inr db"
| "insert_packages (p # ps) db = (
     if list_ex (\<lambda>r. package_key r = package_key p) (media_packages db) \<or> \<not> package_checks p
     then Inl IntegrityError
     else insert_packages ps (db\<lparr>media_packages := media_packages db @ [p]\<rparr>))"

definition flush_parent_bump :: "instant \<Rightarrow> media_buy \<Rightarrow> 'a mb_db_scheme \<Rightarrow> 'a mb_db_scheme" where
  "flush_parent_bump now b db = write_media_buy db ((bump_revision b)\<lparr>mb_updated_at := now\<rparr>)"

definition create_package ::
    "string \<Rightarrow> instant \<Rightarrow> 'a mb_db_scheme \<Rightarrow> media_package \<Rightarrow> 'a mb_db_scheme \<times> media_package res" where
  "create_package tenant now db p = (case get_by_id tenant db (mp_media_buy_id p) of
     None \<Rightarrow> (db, Inl ValueError)
   | Some b \<Rightarrow> (case insert_packages [p] db of
       Inl e \<Rightarrow> (db, Inl e)
     | Inr db' \<Rightarrow> (flush_parent_bump now b db', Inr p)))"

text \<open>
  \<open>_bump_parent_revision\<close> looks the parent up again and raises when it is missing; the flush
  then writes the package and the parent together.
\<close>

definition bump_parent_revision ::
    "string \<Rightarrow> instant \<Rightarrow> 'a mb_db_scheme \<Rightarrow> string \<Rightarrow> 'a mb_db_scheme res" where
  "bump_parent_revision tenant now db media_buy_id =
     (case get_by_id_or_raise tenant db media_buy_id of
        Inl e \<Rightarrow> Inl e
      | Inr b \<Rightarrow> Inr (flush_parent_bump now b db))"

definition store_package ::
    "string \<Rightarrow> instant \<Rightarrow> 'a mb_db_scheme \<Rightarrow> media_package
      \<Rightarrow> 'a mb_db_scheme \<times> media_package option res" where
  "store_package tenant now db p = (
     if \<not> package_checks p then (db, Inl IntegrityError)
     else (case bump_parent_revision tenant now (write_package db p) (mp_media_buy_id p) of
        Inl e \<Rightarrow> (write_package db p, Inl e)
      | Inr db' \<Rightarrow> (db', Inr (Some p))))"

definition update_package_config ::
    "string \<Rightarrow> instant \<Rightarrow> 'a mb_db_scheme \<Rightarrow> string \<Rightarrow> string \<Rightarrow> json
      \<Rightarrow> 'a mb_db_scheme \<times> media_package option res" where
  "update_package_config tenant now db media_buy_id package_id config =
     (case get_package tenant db media_buy_id package_id of
        None \<Rightarrow> (db, Inr None)
      | Some p \<Rightarrow> store_package tenant now db (p\<lparr>mp_package_config := config\<rparr>))"

datatype mp_attr =
    P_media_buy_id string
  | P_package_id string
  | P_budget "rat option"
  | P_bid_price "rat option"
  | P_pacing "string option"
  | P_package_config json
  | P_unknown string

fun mp_setattr :: "mp_attr \<Rightarrow> media_package \<Rightarrow> media_package" where
  "mp_setattr (P_media_buy_id v) p = p\<lparr>mp_media_buy_id := v\<rparr>"
| "mp_setattr (P_package_id v) p = p\<lparr>mp_package_id := v\<rparr>"
| "mp_setattr (P_budget v) p = p\<lparr>mp_budget := v\<rparr>"
| "mp_setattr (P_bid_price v) p = p\<lparr>mp_bid_price := v\<rparr>"
| "mp_setattr (P_pacing v) p = p\<lparr>mp_pacing := v\<rparr>"
| "mp_setattr (P_package_config v) p = p\<lparr>mp_package_config := v\<rparr>"
| "mp_setattr (P_unknown k) p = p"

fun immutable_mp_attr :: "mp_attr \<Rightarrow> bool" where
  "immutable_mp_attr (P_media_buy_id _) = True"
| "immutable_mp_attr (P_package_id _) = True"
| "immutable_mp_attr _ = False"

fun assign_package_fields :: "mp_attr list \<Rightarrow> media_package \<Rightarrow> media_package \<times> bool" where
  "assign_package_fields [] p = (p, True)"
| "assign_package_fields (P_unknown k # rest) p = (p, False)"
| "assign_package_fields (a # rest) p = assign_package_fields rest (mp_setattr a p)"

definition update_package_fields ::
    "string \<Rightarrow> instant \<Rightarrow> 'a mb_db_scheme \<Rightarrow> string \<Rightarrow> string \<Rightarrow> mp_attr list
      \<Rightarrow> 'a mb_db_scheme \<times> media_package option res" where
  "update_package_fields tenant now db media_buy_id package_id kwargs = (
     if list_ex immutable_mp_attr kwargs then (db, Inl ValueError)
     else (case get_package tenant db media_buy_id package_id of
        None \<Rightarrow> (db, Inr None)
      | Some p \<Rightarrow>
          let (p1, known) = assign_package_fields kwargs p
          in if \<not> known then (write_package db p1, Inl ValueError)
             else store_package tenant now db p1))"

text \<open>
  The packages before a mismatched one are already added to the session when it raises; they
  stay pending there.
\<close>

definition create_packages_bulk ::
    "string \<Rightarrow> instant \<Rightarrow> 'a mb_db_scheme \<Rightarrow> string \<Rightarrow> media_package list
      \<Rightarrow> 'a mb_db_scheme \<times> media_package list res" where
  "create_packages_bulk tenant now db media_buy_id packages =
     (case get_by_id tenant db media_buy_id of
        None \<Rightarrow> (db, Inl ValueError)
      | Some b \<Rightarrow>
          let added = takeWhile (\<lambda>p. mp_media_buy_id p = media_buy_id) packages
          in if added \<noteq> packages
             then (db\<lparr>media_packages := media_packages db @ added\<rparr>, Inl ValueError)
             else (case insert_packages packages db of
                Inl e \<Rightarrow> (db, Inl e)
              | Inr db' \<Rightarrow> (flush_parent_bump now b db', Inr packages)))"

section \<open>Well-formed tables\<close>

text \<open>
  What the schema promises of the stored rows: primary keys, the idempotency index, the check
  constraints and the parent of every package.
\<close>

definition idem_unique :: "media_buy list \<Rightarrow> bool" where
  "idem_unique rows = (\<forall>a\<in>set rows. \<forall>b\<in>set rows. idem_clash a b \<longrightarrow> mb_media_buy_id a = mb_media_buy_id b)"

definition mb_db_ok :: "'a mb_db_scheme \<Rightarrow> bool" where
  "mb_db_ok db = (
     distinct (map mb_media_buy_id (media_buys db)) \<and>
     idem_unique (media_buys db) \<and>
     distinct (map package_key (media_packages db)) \<and>
     (\<forall>p\<in>set (media_packages db). package_checks p \<and>
        mp_media_buy_id p \<in> mb_media_buy_id ` set (media_buys db)))"

text \<open>Every stored status is in the vocabulary, spelled canonically.\<close>

definition statuses_ok :: "'a mb_db_scheme \<Rightarrow> bool" where
  "statuses_ok db = (\<forall>b\<in>set (media_buys db). mb_status b \<in> range status_value)"

section \<open>What a write does to a row\<close>

text \<open>
  A successful write on an existing buy keeps its identity, moves its revision by one and never
  changes a confirmation instant once it is set.
\<close>

definition mb_evolves :: "media_buy \<Rightarrow> media_buy \<Rightarrow> bool" where
  "mb_evolves b b' = (
     mb_media_buy_id b' = mb_media_buy_id b \<and> mb_tenant_id b' = mb_tenant_id b \<and>
     mb_created_at b' = mb_created_at b \<and> mb_revision b' = mb_revision b + 1 \<and>
     (mb_confirmed_at b \<noteq> None \<longrightarrow> mb_confirmed_at b' = mb_confirmed_at b) \<and>
     (mb_status b \<in> range status_value \<longrightarrow> mb_status b' \<in> range status_value))"

text \<open>The packages of one buy: some added, or one replaced under its key.\<close>

inductive pk_change :: "string \<Rightarrow> media_package list \<Rightarrow> media_package list \<Rightarrow> bool"
  for i ps where
    pk_same: "pk_change i ps ps"
  | pk_added: "pk_change i ps (ps @ qs)"
      if "distinct (map package_key qs)" "package_key ` set qs \<inter> package_key ` set ps = {}"
        "\<forall>q\<in>set qs. package_checks q \<and> mp_media_buy_id q = i"
  | pk_updated: "pk_change i ps (update_where (\<lambda>r. package_key r = package_key p) (\<lambda>r. p) ps)"
      if "package_key p \<in> package_key ` set ps" "mp_media_buy_id p = i" "package_checks p"

text \<open>
  What a committed write of a tenant does to the two tables: nothing, a new buy, or one buy of
  the tenant evolved together with a change among that buy's packages.
\<close>

inductive mb_change ::
    "string \<Rightarrow> media_buy list \<Rightarrow> media_package list \<Rightarrow> media_buy list \<Rightarrow> media_package list \<Rightarrow> bool"
  for tenant rows ps where
    mb_same: "mb_change tenant rows ps rows ps"
  | mb_added: "mb_change tenant rows ps (rows @ [b]) ps"
      if "mb_tenant_id b = tenant" "mb_media_buy_id b \<notin> mb_media_buy_id ` set rows"
        "mb_status b \<in> range status_value" "\<forall>r\<in>set rows. \<not> idem_clash r b"
  | mb_evolved: "mb_change tenant rows ps
        (update_where (\<lambda>r. mb_media_buy_id r = mb_media_buy_id b) (\<lambda>r. b') rows) ps'"
      if "b \<in> set rows" "mb_tenant_id b = tenant" "mb_evolves b b'"
        "\<forall>r\<in>set rows. mb_media_buy_id r \<noteq> mb_media_buy_id b \<longrightarrow> \<not> idem_clash r b'"
        "pk_change (mb_media_buy_id b) ps ps'"

abbreviation db_change :: "string \<Rightarrow> 'a mb_db_scheme \<Rightarrow> 'a mb_db_scheme \<Rightarrow> bool" where
  "db_change tenant db db' \<equiv>
     mb_change tenant (media_buys db) (media_packages db) (media_buys db') (media_packages db')"

lemma get_by_idD:
  assumes "get_by_id tenant db i = Some b"
  shows "b \<in> set (media_buys db)" "mb_tenant_id b = tenant" "mb_media_buy_id b = i"
  using assms by (auto simp: get_by_id_def dest: find_SomeD)

lemma get_by_id_eq_SomeI:
  assumes "distinct (map mb_media_buy_id (media_buys db))" "b \<in> set (media_buys db)"
    "mb_tenant_id b = tenant" "mb_media_buy_id b = i"
  shows "get_by_id tenant db i = Some b"
  unfolding get_by_id_def using assms by (intro find_key [where k = mb_media_buy_id]) auto

lemma get_by_id_packages [simp]:
  "get_by_id tenant (db\<lparr>media_packages := ps\<rparr>) i = get_by_id tenant db i"
  by (simp add: get_by_id_def)

lemma bump_revision_simps [simp]:
  "mb_media_buy_id (bump_revision b) = mb_media_buy_id b"
  "mb_tenant_id (bump_revision b) = mb_tenant_id b"
  "mb_created_at (bump_revision b) = mb_created_at b"
  "mb_confirmed_at (bump_revision b) = mb_confirmed_at b"
  "mb_status (bump_revision b) = mb_status b"
  "mb_revision (bump_revision b) = mb_revision b + 1"
  "mb_principal_id (bump_revision b) = mb_principal_id b"
  "mb_account_id (bump_revision b) = mb_account_id b"
  "mb_idempotency_key (bump_revision b) = mb_idempotency_key b"
  by (simp_all add: bump_revision_def)

lemma stamp_simps [simp]:
  "mb_media_buy_id (fst (stamp_confirmation_if_needed now c b)) = mb_media_buy_id b"
  "mb_tenant_id (fst (stamp_confirmation_if_needed now c b)) = mb_tenant_id b"
  "mb_created_at (fst (stamp_confirmation_if_needed now c b)) = mb_created_at b"
  "mb_revision (fst (stamp_confirmation_if_needed now c b)) = mb_revision b"
  "mb_status (fst (stamp_confirmation_if_needed now c b)) = mb_status b"
  by (simp_all add: stamp_confirmation_if_needed_def)

lemma stamp_write_once:
  "mb_confirmed_at b \<noteq> None \<Longrightarrow> mb_confirmed_at (fst (stamp_confirmation_if_needed now c b)) = mb_confirmed_at b"
  by (simp add: stamp_confirmation_if_needed_def)

lemma idem_clash_updated [simp]:
  "idem_clash r (b\<lparr>mb_updated_at := now\<rparr>) = idem_clash r b"
  "idem_clash r (bump_revision b) = idem_clash r b"
  by (simp_all add: idem_clash_def)

lemma mb_evolves_updated [simp]: "mb_evolves b (c\<lparr>mb_updated_at := now\<rparr>) = mb_evolves b c"
  by (simp add: mb_evolves_def)

lemma insert_media_buy_change:
  assumes "insert_media_buy db b = (db', Inr x)" "mb_tenant_id b = tenant" "mb_status b \<in> range status_value"
  shows "db_change tenant db db'"
  using assms
  by (fastforce simp: insert_media_buy_def list_ex_iff split: if_splits intro!: mb_added)

lemma flush_media_buy_change:
  assumes "flush_media_buy now db b' = (db', Inr x)" "b \<in> set (media_buys db)"
    "mb_tenant_id b = tenant" "mb_evolves b b'"
  shows "db_change tenant db db'"
proof -
  have i: "mb_media_buy_id b' = mb_media_buy_id b" using assms(4) by (simp add: mb_evolves_def)
  from assms(1) have "db' = write_media_buy db (b'\<lparr>mb_updated_at := now\<rparr>)"
    and "\<forall>r\<in>set (media_buys db). mb_media_buy_id r \<noteq> mb_media_buy_id b \<longrightarrow> \<not> idem_clash r b'"
    by (auto simp: flush_media_buy_def Let_def list_ex_iff i split: if_splits)
  with mb_evolved [OF assms(2,3), of "b'\<lparr>mb_updated_at := now\<rparr>", OF _ _ pk_same] assms(4) i
  show ?thesis by (simp add: write_media_buy_def)
qed

lemma flush_parent_bump_change:
  assumes "mb_db_ok db0" "media_buys db = media_buys db0" "b \<in> set (media_buys db)"
    "mb_tenant_id b = tenant" "pk_change (mb_media_buy_id b) (media_packages db0) (media_packages db)"
  shows "db_change tenant db0 (flush_parent_bump now b db)"
proof -
  have "mb_evolves b ((bump_revision b)\<lparr>mb_updated_at := now\<rparr>)" by (simp add: mb_evolves_def)
  moreover have "\<forall>r\<in>set (media_buys db). mb_media_buy_id r \<noteq> mb_media_buy_id b \<longrightarrow>
      \<not> idem_clash r ((bump_revision b)\<lparr>mb_updated_at := now\<rparr>)"
    using assms by (auto simp: mb_db_ok_def idem_unique_def)
  ultimately show ?thesis
    using mb_evolved [OF assms(3,4) _ _ assms(5)] assms(2)
    by (simp add: flush_parent_bump_def write_media_buy_def)
qed

lemma update_status_change:
  assumes "update_status tenant now db i s c ap ab = (db', Inr x)"
  shows "db_change tenant db db'"
proof -
  from assms obtain m where m: "parse_status (Some s) (Some i) = Inr m"
    by (auto simp: update_status_def split: sum.splits)
  show ?thesis
  proof (cases "get_by_id tenant db i")
    case None
    with assms m show ?thesis by (auto simp: update_status_def intro: mb_same)
  next
    case (Some b)
    define b3 where "b3 = (let b1 = b\<lparr>mb_status := status_value m\<rparr>;
      b2 = (if ap \<noteq> None then b1\<lparr>mb_approved_at := ap\<rparr> else b1)
      in if ab \<noteq> None then b2\<lparr>mb_approved_by := ab\<rparr> else b2)"
    have f: "flush_media_buy now db (bump_revision (fst (stamp_confirmation_if_needed now c b3))) = (db', Inr x)"
      using assms m Some by (simp add: update_status_def b3_def Let_def)
    have "mb_evolves b (bump_revision (fst (stamp_confirmation_if_needed now c b3)))"
      by (auto simp: mb_evolves_def b3_def Let_def stamp_write_once)
    with f get_by_idD [OF Some] show ?thesis
      using flush_media_buy_change [OF f] by blast
  qed
qed

lemma setattr_keeps:
  assumes "\<not> immutable_attr a"
  shows "mb_media_buy_id (mb_setattr a b) = mb_media_buy_id b"
    "mb_tenant_id (mb_setattr a b) = mb_tenant_id b"
    "mb_created_at (mb_setattr a b) = mb_created_at b"
    "mb_revision (mb_setattr a b) = mb_revision b"
    "mb_confirmed_at (mb_setattr a b) = mb_confirmed_at b"
  using assms by (cases a; simp)+

definition status_attr_ok :: "mb_attr \<Rightarrow> bool" where
  "status_attr_ok a = (\<forall>v. a = Status v \<longrightarrow> v \<in> Some ` range status_value)"

lemma setattr_status:
  assumes "status_attr_ok a" "mb_status b \<in> range status_value"
  shows "mb_status (mb_setattr a b) \<in> range status_value"
  using assms by (cases a) (auto simp: status_attr_ok_def)

lemma assign_fields_keeps:
  assumes "\<not> list_ex immutable_attr kwargs"
  shows "mb_media_buy_id (fst (assign_fields kwargs b)) = mb_media_buy_id b \<and>
    mb_tenant_id (fst (assign_fields kwargs b)) = mb_tenant_id b \<and>
    mb_created_at (fst (assign_fields kwargs b)) = mb_created_at b \<and>
    mb_revision (fst (assign_fields kwargs b)) = mb_revision b \<and>
    mb_confirmed_at (fst (assign_fields kwargs b)) = mb_confirmed_at b"
  using assms by (induction kwargs arbitrary: b) (auto simp: setattr_keeps)

lemma assign_fields_status:
  assumes "list_all status_attr_ok kwargs" "mb_status b \<in> range status_value"
  shows "mb_status (fst (assign_fields kwargs b)) \<in> range status_value"
  using assms by (induction kwargs arbitrary: b) (auto simp: setattr_status)

lemma parse_status_kw_ok:
  assumes "parse_status_kw i kwargs = Inr kwargs'"
  shows "list_all status_attr_ok kwargs' \<and> (list_ex immutable_attr kwargs' = list_ex immutable_attr kwargs)"
  using assms
  by (induction i kwargs arbitrary: kwargs' rule: parse_status_kw.induct)
    (auto simp: status_attr_ok_def split: sum.splits)

lemma update_fields_change:
  assumes "update_fields tenant now db i c kwargs = (db', Inr x)"
  shows "db_change tenant db db'"
proof -
  from assms obtain kw where imm: "\<not> list_ex immutable_attr kwargs"
    and kw: "parse_status_kw i kwargs = Inr kw"
    by (auto simp: update_fields_def split: if_splits sum.splits)
  note ok = parse_status_kw_ok [OF kw]
  show ?thesis
  proof (cases "get_by_id tenant db i")
    case None
    with assms imm kw show ?thesis by (auto simp: update_fields_def intro: mb_same)
  next
    case (Some b)
    define b1 where "b1 = fst (assign_fields kw b)"
    have f: "flush_media_buy now db (bump_revision (fst (stamp_confirmation_if_needed now c b1))) = (db', Inr x)"
      using assms imm kw Some
      by (auto simp: update_fields_def b1_def split: prod.splits if_splits)
    have "mb_evolves b (bump_revision (fst (stamp_confirmation_if_needed now c b1)))"
      using ok imm assign_fields_keeps [of kw b] assign_fields_status [of kw b]
      by (simp add: mb_evolves_def b1_def stamp_write_once)
    with f get_by_idD [OF Some] show ?thesis
      using flush_media_buy_change [OF f] by blast
  qed
qed

lemma insert_packages_spec:
  assumes "insert_packages ps db = Inr db'"
  shows "db' = db\<lparr>media_packages := media_packages db @ ps\<rparr> \<and> distinct (map package_key ps) \<and>
    package_key ` set ps \<inter> package_key ` set (media_packages db) = {} \<and> list_all package_checks ps"
  using assms
proof (induction ps arbitrary: db)
  case (Cons p ps)
  then have fresh: "package_key p \<notin> package_key ` set (media_packages db)" and chk: "package_checks p"
    and rec: "insert_packages ps (db\<lparr>media_packages := media_packages db @ [p]\<rparr>) = Inr db'"
    by (auto simp: list_ex_iff split: if_splits)
  from Cons.IH [OF rec] fresh chk show ?case by auto
qed simp

lemma get_packageD:
  assumes "get_package tenant db i pid = Some p"
  shows "p \<in> set (media_packages db)" "mp_media_buy_id p = i" "mp_package_id p = pid"
  using assms by (auto simp: get_package_def package_join_def dest!: find_SomeD)

lemma assign_package_fields_key:
  assumes "\<not> list_ex immutable_mp_attr kwargs"
  shows "package_key (fst (assign_package_fields kwargs p)) = package_key p"
  using assms
proof (induction kwargs arbitrary: p)
  case (Cons a kwargs)
  then show ?case by (cases a) (auto simp: package_key_def)
qed simp

lemma create_package_change:
  assumes "create_package tenant now db p = (db', Inr x)" "mb_db_ok db"
  shows "db_change tenant db db'"
proof -
  from assms(1) obtain b db1 where b: "get_by_id tenant db (mp_media_buy_id p) = Some b"
    and ins: "insert_packages [p] db = Inr db1" and db': "db' = flush_parent_bump now b db1"
    by (auto simp: create_package_def split: option.splits sum.splits)
  note spec = insert_packages_spec [OF ins] and bD = get_by_idD [OF b]
  have "pk_change (mb_media_buy_id b) (media_packages db) (media_packages db @ [p])"
    using spec bD by (intro pk_added) auto
  with spec flush_parent_bump_change [OF assms(2), of db1 b tenant now] bD db'
  show ?thesis by simp
qed

lemma create_packages_bulk_change:
  assumes "create_packages_bulk tenant now db i ps = (db', Inr x)" "mb_db_ok db"
  shows "db_change tenant db db'"
proof -
  from assms(1) obtain b db1 where b: "get_by_id tenant db i = Some b"
    and same: "takeWhile (\<lambda>p. mp_media_buy_id p = i) ps = ps"
    and ins: "insert_packages ps db = Inr db1" and db': "db' = flush_parent_bump now b db1"
    by (auto simp: create_packages_bulk_def Let_def split: option.splits sum.splits if_splits)
  note spec = insert_packages_spec [OF ins] and bD = get_by_idD [OF b]
  have "\<forall>q\<in>set ps. mp_media_buy_id q = i" using same by (metis set_takeWhileD)
  then have "pk_change (mb_media_buy_id b) (media_packages db) (media_packages db @ ps)"
    using spec bD by (intro pk_added) (auto simp: list_all_iff)
  with spec flush_parent_bump_change [OF assms(2), of db1 b tenant now] bD db'
  show ?thesis by simp
qed

lemma store_package_change:
  assumes "store_package tenant now db p = (db', Inr x)" "mb_db_ok db"
    and "package_key p \<in> package_key ` set (media_packages db)"
  shows "db_change tenant db db'"
proof -
  from assms(1) obtain b where b: "get_by_id tenant db (mp_media_buy_id p) = Some b"
    and chk: "package_checks p" and db': "db' = flush_parent_bump now b (write_package db p)"
    by (auto simp: store_package_def bump_parent_revision_def get_by_id_or_raise_def write_package_def
      split: option.splits if_splits sum.splits)
  have "pk_change (mb_media_buy_id b) (media_packages db)
      (update_where (\<lambda>r. package_key r = package_key p) (\<lambda>r. p) (media_packages db))"
    by (rule pk_updated) (use assms(3) chk get_by_idD [OF b] in auto)
  with flush_parent_bump_change [OF assms(2), of "write_package db p" b tenant now] get_by_idD [OF b] db'
  show ?thesis by (simp add: write_package_def)
qed

lemma update_package_config_change:
  assumes "update_package_config tenant now db i pid cfg = (db', Inr x)" "mb_db_ok db"
  shows "db_change tenant db db'"
proof (cases "get_package tenant db i pid")
  case None
  with assms show ?thesis by (auto simp: update_package_config_def intro: mb_same)
next
  case (Some p)
  note pD = get_packageD [OF Some]
  have "store_package tenant now db (p\<lparr>mp_package_config := cfg\<rparr>) = (db', Inr x)"
    using assms Some by (simp add: update_package_config_def)
  moreover have "package_key (p\<lparr>mp_package_config := cfg\<rparr>) \<in> package_key ` set (media_packages db)"
    using pD(1) by (intro image_eqI [of _ _ p]) (simp_all add: package_key_def)
  ultimately show ?thesis using store_package_change assms(2) pD by fastforce
qed

lemma update_package_fields_change:
  assumes "update_package_fields tenant now db i pid kwargs = (db', Inr x)" "mb_db_ok db"
  shows "db_change tenant db db'"
proof (cases "get_package tenant db i pid")
  case None
  with assms show ?thesis
    by (auto simp: update_package_fields_def intro: mb_same split: if_splits)
next
  case (Some p)
  note pD = get_packageD [OF Some]
  define p1 where "p1 = fst (assign_package_fields kwargs p)"
  from assms(1) Some have imm: "\<not> list_ex immutable_mp_attr kwargs"
    and st: "store_package tenant now db p1 = (db', Inr x)"
    by (auto simp: update_package_fields_def p1_def split: if_splits prod.splits)
  have key: "package_key p1 = package_key p" using assign_package_fields_key [OF imm] by (simp add: p1_def)
  then have "mp_media_buy_id p1 = i" using pD by (simp add: package_key_def)
  with st key pD assms(2) show ?thesis using store_package_change [OF st] by auto
qed

section \<open>Runs of writes\<close>

text \<open>One committed write by a tenant: any write method that returned.\<close>

inductive mb_step :: "(create_req \<Rightarrow> string) \<Rightarrow> string \<Rightarrow> 'a mb_db_scheme \<Rightarrow> 'a mb_db_scheme \<Rightarrow> bool"
  for h tenant db where
    "create_from_request h tenant now db a = (db', Inr b) \<Longrightarrow> mb_step h tenant db db'"
  | "create_media_buy_row tenant now db b c = (db', Inr b') \<Longrightarrow> mb_step h tenant db db'"
  | "update_status tenant now db i s c ap ab = (db', Inr r) \<Longrightarrow> mb_step h tenant db db'"
  | "update_fields tenant now db i c kwargs = (db', Inr r) \<Longrightarrow> mb_step h tenant db db'"
  | "create_package tenant now db p = (db', Inr p') \<Longrightarrow> mb_step h tenant db db'"
  | "update_package_config tenant now db i pid cfg = (db', Inr q) \<Longrightarrow> mb_step h tenant db db'"
  | "update_package_fields tenant now db i pid pkw = (db', Inr q) \<Longrightarrow> mb_step h tenant db db'"
  | "create_packages_bulk tenant now db i ps = (db', Inr ps') \<Longrightarrow> mb_step h tenant db db'"

lemma create_from_request_change:
  assumes "create_from_request h tenant now db a = (db', Inr b)"
  shows "db_change tenant db db'"
proof -
  from assms obtain raw m row where
    row: "media_buy_init (create_kwargs h tenant a raw m) now = Inr row"
    and ins: "insert_media_buy db (fst (stamp_confirmation_if_needed now (ca_seller_committed a) row)) = (db', Inr b)"
    by (auto simp: create_from_request_def split: sum.splits)
  have "row = fold mb_setattr (create_kwargs h tenant a raw m) (media_buy_blank now)"
    using row by (auto simp: media_buy_init_def split: if_splits)
  then have "mb_tenant_id row = tenant" "mb_status row = status_value m"
    by (simp_all add: create_kwargs_def Let_def split: option.splits)
  then show ?thesis using insert_media_buy_change [OF ins, of tenant] by auto
qed

lemma create_media_buy_row_change:
  assumes "create_media_buy_row tenant now db b c = (db', Inr b')"
  shows "db_change tenant db db'"
proof -
  from assms obtain m where t: "mb_tenant_id b = tenant"
    and ins: "insert_media_buy db (fst (stamp_confirmation_if_needed now c (b\<lparr>mb_status := status_value m\<rparr>))) = (db', Inr b')"
    by (auto simp: create_media_buy_row_def split: sum.splits if_splits)
  show ?thesis using insert_media_buy_change [OF ins, of tenant] t by simp
qed

lemma mb_step_change:
  assumes "mb_step h tenant db db'" "mb_db_ok db"
  shows "db_change tenant db db'"
  using assms
  by (auto elim!: mb_step.cases
      intro: create_from_request_change create_media_buy_row_change update_status_change
        update_fields_change create_package_change update_package_config_change
        update_package_fields_change create_packages_bulk_change)

lemma mb_change_ids:
  assumes "mb_change tenant rows ps rows' ps'" "distinct (map mb_media_buy_id rows)"
  shows "distinct (map mb_media_buy_id rows')" "mb_media_buy_id ` set rows \<subseteq> mb_media_buy_id ` set rows'"
proof -
  have "distinct (map mb_media_buy_id rows') \<and> mb_media_buy_id ` set rows \<subseteq> mb_media_buy_id ` set rows'"
    using assms
  proof (cases rule: mb_change.cases)
    case (mb_evolved b b')
    then have "map mb_media_buy_id rows' = map mb_media_buy_id rows"
      by (auto simp: mb_evolves_def intro: map_update_where)
    then show ?thesis using assms(2) by (metis image_set order_refl)
  qed auto
  then show "distinct (map mb_media_buy_id rows')"
    "mb_media_buy_id ` set rows \<subseteq> mb_media_buy_id ` set rows'" by auto
qed

lemma idem_clash_sym: "idem_clash a b \<Longrightarrow> idem_clash b a"
  by (auto simp: idem_clash_def)

lemma mb_change_unique:
  assumes "mb_change tenant rows ps rows' ps'" "idem_unique rows"
  shows "idem_unique rows'"
  using assms
proof (cases rule: mb_change.cases)
  case (mb_added b)
  then show ?thesis using assms(2) by (auto simp: idem_unique_def dest: idem_clash_sym)
next
  case (mb_evolved b b')
  then have i: "mb_media_buy_id b' = mb_media_buy_id b" by (simp add: mb_evolves_def)
  show ?thesis
    unfolding idem_unique_def
  proof (intro ballI impI)
    fix x y assume "x \<in> set rows'" "y \<in> set rows'" and cl: "idem_clash x y"
    with mb_evolved have "(x \<in> set rows \<and> mb_media_buy_id x \<noteq> mb_media_buy_id b) \<or> x = b'"
      "(y \<in> set rows \<and> mb_media_buy_id y \<noteq> mb_media_buy_id b) \<or> y = b'"
      by (auto elim!: update_whereE)
    with cl mb_evolved(5) assms(2) i show "mb_media_buy_id x = mb_media_buy_id y"
      by (auto simp: idem_unique_def dest: idem_clash_sym)
  qed
qed simp

definition packages_ok :: "string set \<Rightarrow> media_package list \<Rightarrow> bool" where
  "packages_ok ids ps = (distinct (map package_key ps) \<and>
     (\<forall>p\<in>set ps. package_checks p \<and> mp_media_buy_id p \<in> ids))"

lemma mb_db_ok_alt: "mb_db_ok db \<longleftrightarrow> distinct (map mb_media_buy_id (media_buys db)) \<and>
    idem_unique (media_buys db) \<and> packages_ok (mb_media_buy_id ` set (media_buys db)) (media_packages db)"
  by (simp add: mb_db_ok_def packages_ok_def)

lemma pk_change_ok:
  assumes "pk_change i ps ps'" "packages_ok ids ps" "i \<in> ids"
  shows "packages_ok ids ps'"
  using assms
proof (cases rule: pk_change.cases)
  case (pk_added qs)
  then show ?thesis using assms(2,3) by (auto simp: packages_ok_def)
next
  case (pk_updated p)
  then have "map package_key ps' = map package_key ps" by (auto intro: map_update_where)
  with pk_updated assms(2,3) show ?thesis
    by (auto simp: packages_ok_def elim!: update_whereE)
qed simp

lemma mb_change_ok:
  assumes "db_change tenant db db'" "mb_db_ok db"
  shows "mb_db_ok db'"
proof -
  from assms(2) have d: "distinct (map mb_media_buy_id (media_buys db))"
    and u: "idem_unique (media_buys db)"
    and p: "packages_ok (mb_media_buy_id ` set (media_buys db)) (media_packages db)"
    by (simp_all add: mb_db_ok_alt)
  have "packages_ok (mb_media_buy_id ` set (media_buys db)) (media_packages db')"
    using assms(1) p by (cases rule: mb_change.cases) (auto intro: pk_change_ok)
  then have "packages_ok (mb_media_buy_id ` set (media_buys db')) (media_packages db')"
    using mb_change_ids(2) [OF assms(1) d] by (auto simp: packages_ok_def)
  then show ?thesis
    using mb_change_ids(1) [OF assms(1) d] mb_change_unique [OF assms(1) u]
    by (simp add: mb_db_ok_alt)
qed

lemma mb_change_statuses:
  assumes "db_change tenant db db'" "statuses_ok db"
  shows "statuses_ok db'"
  using assms
  by (cases rule: mb_change.cases)
    (auto simp: statuses_ok_def mb_evolves_def elim!: update_whereE)

text \<open>What a tenant can see: its buys, and the packages of its buys.\<close>

definition tenant_view :: "string \<Rightarrow> 'a mb_db_scheme \<Rightarrow> media_buy list \<times> media_package list" where
  "tenant_view tenant db = (list_all_buys tenant db,
     filter (\<lambda>p. mp_media_buy_id p \<in> set (map mb_media_buy_id (list_all_buys tenant db))) (media_packages db))"

lemma filter_evolved:
  assumes "distinct (map mb_media_buy_id rows)" "b \<in> set rows" "mb_tenant_id b = t"
    "mb_tenant_id b' = t" "u \<noteq> t"
  shows "filter (\<lambda>r. mb_tenant_id r = u) (update_where (\<lambda>r. mb_media_buy_id r = mb_media_buy_id b) (\<lambda>r. b') rows)
    = filter (\<lambda>r. mb_tenant_id r = u) rows"
proof (rule filter_update_where_other)
  fix r assume "r \<in> set rows" "mb_media_buy_id r = mb_media_buy_id b"
  with assms have "r = b" by (auto intro: distinct_key_eq)
  with assms show "\<not> mb_tenant_id r = u \<and> \<not> mb_tenant_id b' = u" by simp
qed

lemma pk_change_other:
  assumes "pk_change i ps ps'" "i \<notin> ids"
  shows "filter (\<lambda>p. mp_media_buy_id p \<in> ids) ps' = filter (\<lambda>p. mp_media_buy_id p \<in> ids) ps"
  using assms
proof (cases rule: pk_change.cases)
  case (pk_updated p)
  have "filter (\<lambda>p. mp_media_buy_id p \<in> ids) (update_where (\<lambda>r. package_key r = package_key p) (\<lambda>r. p) ps)
    = filter (\<lambda>p. mp_media_buy_id p \<in> ids) ps"
    by (rule filter_update_where_other) (use pk_updated assms(2) in \<open>auto simp: package_key_def\<close>)
  with pk_updated show ?thesis by simp
qed auto

lemma mb_change_view:
  assumes "db_change t db db'" "mb_db_ok db" "u \<noteq> t"
  shows "tenant_view u db' = tenant_view u db"
  using assms(1)
proof (cases rule: mb_change.cases)
  case (mb_evolved b b')
  have d: "distinct (map mb_media_buy_id (media_buys db))" using assms(2) by (simp add: mb_db_ok_def)
  have "list_all_buys u db' = list_all_buys u db"
    unfolding list_all_buys_def mb_evolved(1)
    by (rule filter_evolved [OF d mb_evolved(2,3) _ assms(3)])
      (use mb_evolved in \<open>simp add: mb_evolves_def\<close>)
  moreover have "mb_media_buy_id b \<notin> set (map mb_media_buy_id (list_all_buys u db))"
    using d mb_evolved(2,3) assms(3) by (auto simp: list_all_buys_def dest: distinct_key_eq)
  ultimately show ?thesis
    using pk_change_other [OF mb_evolved(6)] by (simp add: tenant_view_def)
qed (use assms(3) in \<open>simp_all add: tenant_view_def list_all_buys_def\<close>)

interpretation buys: tenant_scoped mb_db_ok "mb_step h" tenant_view
  by unfold_locales (blast intro: mb_step_change mb_change_ok mb_change_view)+

text \<open>The buyer's order on the tables: a buy stays, its revision grows, its confirmation is final.\<close>

definition buys_grow :: "'a mb_db_scheme \<Rightarrow> 'a mb_db_scheme \<Rightarrow> bool" where
  "buys_grow db db' = (\<forall>b\<in>set (media_buys db). \<exists>b'\<in>set (media_buys db').
     mb_media_buy_id b' = mb_media_buy_id b \<and> mb_tenant_id b' = mb_tenant_id b \<and>
     mb_created_at b' = mb_created_at b \<and> mb_revision b \<le> mb_revision b' \<and>
     (mb_confirmed_at b \<noteq> None \<longrightarrow> mb_confirmed_at b' = mb_confirmed_at b))"

lemma buys_grow_trans: "buys_grow a b \<Longrightarrow> buys_grow b c \<Longrightarrow> buys_grow a c"
  unfolding buys_grow_def by (metis order_trans)

lemma mb_change_grow:
  assumes "db_change tenant db db'" "mb_db_ok db"
  shows "buys_grow db db'"
  using assms(1)
proof (cases rule: mb_change.cases)
  case (mb_evolved b b')
  have d: "distinct (map mb_media_buy_id (media_buys db))" using assms(2) by (simp add: mb_db_ok_def)
  show ?thesis
    unfolding buys_grow_def
  proof
    fix r assume r: "r \<in> set (media_buys db)"
    show "\<exists>b'\<in>set (media_buys db'). mb_media_buy_id b' = mb_media_buy_id r \<and>
        mb_tenant_id b' = mb_tenant_id r \<and> mb_created_at b' = mb_created_at r \<and>
        mb_revision r \<le> mb_revision b' \<and>
        (mb_confirmed_at r \<noteq> None \<longrightarrow> mb_confirmed_at b' = mb_confirmed_at r)"
    proof (cases "mb_media_buy_id r = mb_media_buy_id b")
      case True
      then have "r = b" using d r mb_evolved(2) by (auto intro: distinct_key_eq)
      with mb_evolved(1,4) r show ?thesis
        by (intro bexI [of _ b']) (auto simp: mb_evolves_def set_update_where image_iff)
    next
      case False
      with mb_evolved(1) r show ?thesis
        by (intro bexI [of _ r]) (auto simp: set_update_where image_iff)
    qed
  qed
qed (auto simp: buys_grow_def)

interpretation buys_order: step_order mb_db_ok "mb_step h" buys_grow
  by unfold_locales
    (blast intro: mb_step_change mb_change_ok mb_change_grow buys_grow_trans | simp add: buys_grow_def)+

section \<open>Properties\<close>

text \<open>A table with one confirmed and one unconfirmed buy of different tenants, for the witnesses.\<close>

definition ex_buy :: "string \<Rightarrow> string \<Rightarrow> string \<Rightarrow> instant option \<Rightarrow> media_buy" where
  "ex_buy i tenant status confirmed = (media_buy_blank 0)\<lparr>mb_media_buy_id := i, mb_tenant_id := tenant,
     mb_principal_id := ''p1'', mb_order_name := ''o'', mb_start_date := 10, mb_end_date := 20,
     mb_status := status, mb_confirmed_at := confirmed, mb_idempotency_key := Some i\<rparr>"

definition ex_pkg :: "string \<Rightarrow> string \<Rightarrow> media_package" where
  "ex_pkg i pid = \<lparr>mp_media_buy_id = i, mp_package_id = pid, mp_budget = Some 5, mp_bid_price = None,
     mp_pacing = Some ''even'', mp_package_config = JObj []\<rparr>"

definition ex_db :: mb_db where
  "ex_db = \<lparr>media_buys = [ex_buy ''b1'' ''t1'' ''pending_start'' (Some 7), ex_buy ''b2'' ''t2'' ''draft'' None],
     media_packages = [ex_pkg ''b2'' ''k1'']\<rparr>"

lemma ex_db_ok: "mb_db_ok ex_db"
  by (simp add: mb_db_ok_def ex_db_def ex_buy_def ex_pkg_def idem_unique_def idem_clash_def
      package_checks_def package_key_def)

lemma ex_db_statuses: "statuses_ok ex_db"
  unfolding statuses_ok_def ex_db_def ex_buy_def
  by (auto intro: rev_image_eqI [of PENDING_START] rev_image_eqI [of DRAFT])

definition ex_run :: "mb_db \<times> media_buy option res" where
  "ex_run = update_status ''t1'' 100 ex_db ''b1'' ''ACTIVE'' True None None"

lemmas ex_run_simps = ex_run_def update_status_def parse_status_def parse_upper_active get_by_id_def
  ex_db_def ex_buy_def flush_media_buy_def stamp_confirmation_if_needed_def bump_revision_def
  idem_clash_def Let_def

lemma ex_run_mb_step: "mb_step h ''t1'' ex_db (fst ex_run)"
proof -
  have "\<exists>r. ex_run = (fst ex_run, Inr r)"
    by (simp add: ex_run_simps)
  then show ?thesis
    unfolding ex_run_def by (elim exE) (rule mb_step.intros(3))
qed

lemma ex_run_step: "steps (mb_step h) [''t1''] ex_db (fst ex_run)"
  by (auto intro: steps_Cons steps_Nil ex_run_mb_step)

text \<open>C1. Over any sequence of committed writes by any tenants, every buy stays in the table
  under its id, tenant and creation instant, its revision never decreases, and a confirmation
  instant that is set is never changed (write-once).\<close>

theorem revision_and_confirmation_over_runs:
  assumes "steps (mb_step h) ts db db'" "mb_db_ok db" "b \<in> set (media_buys db)"
  shows "\<exists>b'\<in>set (media_buys db'). mb_media_buy_id b' = mb_media_buy_id b \<and>
    mb_tenant_id b' = mb_tenant_id b \<and> mb_created_at b' = mb_created_at b \<and>
    mb_revision b \<le> mb_revision b' \<and>
    (mb_confirmed_at b \<noteq> None \<longrightarrow> mb_confirmed_at b' = mb_confirmed_at b)"
  using buys_order.le_steps [OF assms(1,2)] assms(3) by (simp add: buys_grow_def)

lemma revision_and_confirmation_over_runs_witness:
  "\<exists>b'\<in>set (media_buys (fst ex_run)). mb_media_buy_id b' = ''b1'' \<and> mb_confirmed_at b' = Some 7"
  using revision_and_confirmation_over_runs [OF ex_run_step ex_db_ok,
      of "ex_buy ''b1'' ''t1'' ''pending_start'' (Some 7)"]
  by (simp add: ex_db_def ex_buy_def) blast

text \<open>C2. What a tenant can see, its buys and their packages, is unchanged by any sequence of
  writes made for other tenants.\<close>

theorem tenants_isolated:
  assumes "steps (mb_step h) ts db db'" "mb_db_ok db" "u \<notin> set ts"
  shows "tenant_view u db' = tenant_view u db"
  using assms by (rule buys.isolated)

lemma tenants_isolated_witness:
  "tenant_view ''t2'' (fst ex_run) = tenant_view ''t2'' ex_db"
  using tenants_isolated [OF ex_run_step ex_db_ok, of "''t2''"] by simp

lemma get_by_id_evolved:
  assumes "distinct (map mb_media_buy_id rows)" "b \<in> set rows" "mb_tenant_id b = t" "mb_evolves b b'"
    and "db = db0\<lparr>media_buys := update_where (\<lambda>r. mb_media_buy_id r = mb_media_buy_id b) (\<lambda>r. b') rows,
      media_packages := ps\<rparr>"
  shows "get_by_id t db (mb_media_buy_id b) = Some b'"
proof (rule get_by_id_eq_SomeI)
  have "map mb_media_buy_id (update_where (\<lambda>r. mb_media_buy_id r = mb_media_buy_id b) (\<lambda>r. b') rows)
    = map mb_media_buy_id rows"
    using assms(4) by (intro map_update_where) (simp add: mb_evolves_def)
  with assms(1,5) show "distinct (map mb_media_buy_id (media_buys db))" by simp
  show "b' \<in> set (media_buys db)" "mb_tenant_id b' = t" "mb_media_buy_id b' = mb_media_buy_id b"
    using assms(2-5) by (auto simp: mb_evolves_def set_update_where image_iff)
qed

text \<open>For a buy of the tenant, the join is the selection of the buy's packages.\<close>

lemma get_packages_eq:
  assumes "mb_db_ok db" "get_by_id t db i = Some b"
  shows "get_packages t db i = filter (\<lambda>p. mp_media_buy_id p = i) (media_packages db)"
proof -
  have one: "filter (\<lambda>x. i = mb_media_buy_id x \<and> mb_tenant_id x = t) (media_buys db) = [b]"
    using assms get_by_idD [OF assms(2)]
    by (intro filter_key [where k = mb_media_buy_id]) (auto simp: mb_db_ok_def)
  have "map fst (filter (\<lambda>(p, b). mp_media_buy_id p = i)
      (concat (map (\<lambda>p. concat (map (\<lambda>x. if mp_media_buy_id p = mb_media_buy_id x \<and> mb_tenant_id x = t
          then [(p, x)] else []) (media_buys db))) ps)))
    = filter (\<lambda>p. mp_media_buy_id p = i) ps" for ps
  proof (induction ps)
    case (Cons p ps)
    have c: "concat (map (\<lambda>x. if mp_media_buy_id p = mb_media_buy_id x \<and> mb_tenant_id x = t
        then [(p, x)] else []) rows)
      = map (Pair p) (filter (\<lambda>x. mp_media_buy_id p = mb_media_buy_id x \<and> mb_tenant_id x = t) rows)"
      for rows :: "media_buy list" by (induction rows) auto
    show ?case
    proof (cases "mp_media_buy_id p = i")
      case True
      then show ?thesis using Cons.IH one c [of "media_buys db"] by simp
    next
      case False
      then show ?thesis using Cons.IH by (simp add: c filter_map comp_def)
    qed
  qed simp
  then show ?thesis by (simp add: get_packages_def package_join_def)
qed

text \<open>C3. The revision is a sound concurrency token: when a committed write changes what the
  buyer sees of a buy, its row or its packages, the buy's revision goes up by exactly one.\<close>

theorem visible_change_bumps_revision:
  assumes "mb_step h t db db'" "mb_db_ok db" "get_by_id t db i = Some b"
    and "get_by_id t db' i \<noteq> Some b \<or> get_packages t db' i \<noteq> get_packages t db i"
  shows "\<exists>b'. get_by_id t db' i = Some b' \<and> mb_revision b' = mb_revision b + 1"
proof -
  note ch = mb_step_change [OF assms(1,2)] and bD = get_by_idD [OF assms(3)]
  have d: "distinct (map mb_media_buy_id (media_buys db))" using assms(2) by (simp add: mb_db_ok_def)
  have ok': "mb_db_ok db'" by (rule mb_change_ok [OF ch assms(2)])
  from ch show ?thesis
  proof (cases rule: mb_change.cases)
    case mb_same
    then have "get_by_id t db' i = Some b" using assms(3) by (simp add: get_by_id_def)
    moreover from this have "get_packages t db' i = get_packages t db i"
      using mb_same get_packages_eq [OF assms(2,3)] get_packages_eq [OF ok'] by simp
    ultimately show ?thesis using assms(4) by simp
  next
    case (mb_added c)
    have "get_by_id t db' i = Some b"
      using assms(3) by (simp add: get_by_id_def mb_added(1) find_append)
    moreover from this have "get_packages t db' i = get_packages t db i"
      using mb_added get_packages_eq [OF assms(2,3)] get_packages_eq [OF ok'] by simp
    ultimately show ?thesis using assms(4) by simp
  next
    case (mb_evolved c c')
    have db': "db' = db'\<lparr>media_buys := update_where (\<lambda>r. mb_media_buy_id r = mb_media_buy_id c) (\<lambda>r. c') (media_buys db),
        media_packages := media_packages db'\<rparr>"
      using mb_evolved(1) by simp
    show ?thesis
    proof (cases "mb_media_buy_id c = i")
      case True
      then have "c = b" using d bD mb_evolved(2) by (auto intro: distinct_key_eq)
      with get_by_id_evolved [OF d mb_evolved(2,3,4) db'] True mb_evolved(4)
      show ?thesis by (simp add: mb_evolves_def)
    next
      case False
      have "get_by_id t db' i = Some b"
        unfolding get_by_id_def mb_evolved(1)
        by (subst find_update_where_miss) (use False mb_evolved(4) assms(3) in \<open>auto simp: mb_evolves_def get_by_id_def\<close>)
      moreover have "filter (\<lambda>p. mp_media_buy_id p = i) (media_packages db')
          = filter (\<lambda>p. mp_media_buy_id p = i) (media_packages db)"
        using pk_change_other [OF mb_evolved(6), of "{i}"] False by simp
      ultimately show ?thesis
        using assms(4) get_packages_eq [OF assms(2,3)] get_packages_eq [OF ok'] by simp
    qed
  qed
qed

lemma visible_change_bumps_revision_witness:
  "\<exists>b'. get_by_id ''t1'' (fst ex_run) ''b1'' = Some b' \<and> mb_revision b' = 2"
proof -
  have b: "get_by_id ''t1'' ex_db ''b1'' = Some (ex_buy ''b1'' ''t1'' ''pending_start'' (Some 7))"
    by (simp add: get_by_id_def ex_db_def ex_buy_def)
  have "get_by_id ''t1'' (fst ex_run) ''b1'' \<noteq> Some (ex_buy ''b1'' ''t1'' ''pending_start'' (Some 7))"
    by (simp add: ex_run_simps write_media_buy_def update_where_def media_buy_blank_def)
  then show ?thesis
    using visible_change_bumps_revision [OF ex_run_mb_step ex_db_ok b]
    by (simp add: ex_buy_def media_buy_blank_def)
qed

text \<open>Committed writes keep the tables well-formed (primary keys, the idempotency index, the
  package checks and parents) and every stored status inside the closed vocabulary.\<close>

theorem writes_keep_tables_ok:
  assumes "steps (mb_step h) ts db db'" "mb_db_ok db" "statuses_ok db"
  shows "mb_db_ok db' \<and> statuses_ok db'"
  using assms
proof (induction rule: steps.induct)
  case (steps_Cons t s s' ts s'')
  then have "mb_db_ok s' \<and> statuses_ok s'"
    by (blast intro: mb_step_change mb_change_ok mb_change_statuses)
  with steps_Cons show ?case by simp
qed simp

lemma writes_keep_tables_ok_witness: "mb_db_ok (fst ex_run) \<and> statuses_ok (fst ex_run)"
  using writes_keep_tables_ok [OF ex_run_step ex_db_ok ex_db_statuses] by simp

text \<open>The dup-booking backstop: while a buy holds an idempotency key in the scope of its
  tenant, principal and account, no request with that key in that scope inserts a second row;
  the insert is refused and the tables are unchanged, for any new id, status and payload.\<close>

theorem idempotency_key_books_once:
  assumes "find_by_idempotency_key tenant db key pid (ca_account_id a) = Some b"
    and "rq_idempotency_key (ca_req a) = Some key" "ca_principal_id a = pid"
  shows "\<exists>e. create_from_request h tenant now db a = (db, Inl e)"
proof -
  have b: "b \<in> set (media_buys db)" "mb_tenant_id b = tenant" "mb_principal_id b = pid"
    "mb_account_id b = ca_account_id a" "mb_idempotency_key b = Some key"
    using assms(1) by (auto simp: find_by_idempotency_key_def dest: find_SomeD)
  have "\<exists>e. insert_media_buy db (fst (stamp_confirmation_if_needed now c row)) = (db, Inl e)"
    if "media_buy_init (create_kwargs h tenant a raw m) now = Inr row" for raw m row c
  proof -
    have "row = fold mb_setattr (create_kwargs h tenant a raw m) (media_buy_blank now)"
      using that by (auto simp: media_buy_init_def split: if_splits)
    then have "mb_tenant_id row = tenant" "mb_principal_id row = pid"
      "mb_account_id row = ca_account_id a" "mb_idempotency_key row = Some key"
      using assms(2,3) by (simp_all add: create_kwargs_def Let_def media_buy_blank_def split: option.splits)
    with b have "idem_clash b (fst (stamp_confirmation_if_needed now c row))"
      by (simp add: idem_clash_def stamp_confirmation_if_needed_def)
    with b(1) show ?thesis by (auto simp: insert_media_buy_def list_ex_iff)
  qed
  then show ?thesis
    by (auto simp: create_from_request_def split: sum.splits)
qed

definition ex_args :: create_args where
  "ex_args = \<lparr>ca_seller_committed = True, ca_media_buy_id = ''b9'',
     ca_req = \<lparr>rq_dump = \<lambda>_. JObj [], rq_idempotency_key = Some ''b1'', rq_po_number = None\<rparr>,
     ca_principal_id = ''p1'', ca_advertiser_name = ''x'', ca_budget = 10, ca_currency = ''USD'',
     ca_start_time = Naive 0, ca_end_time = Naive 5, ca_status = ''active'', ca_order_name = None,
     ca_campaign_objective = None, ca_kpi_goal = None, ca_package_id_map = None, ca_by_alias = False,
     ca_created_at = None, ca_account_id = None\<rparr>"

lemma idempotency_key_books_once_witness:
  "\<exists>e. create_from_request (\<lambda>_. ''hash'') ''t1'' 5 ex_db ex_args = (ex_db, Inl e)"
  by (rule idempotency_key_books_once [where pid = "''p1''" and key = "''b1''"
        and b = "ex_buy ''b1'' ''t1'' ''pending_start'' (Some 7)"])
    (simp_all add: find_by_idempotency_key_def ex_db_def ex_buy_def ex_args_def media_buy_blank_def)

section \<open>What a package write shows to others\<close>

lemma tenant_view_cong: "media_buys v = media_buys w \<Longrightarrow> media_packages v = media_packages w \<Longrightarrow>
    tenant_view u v = tenant_view u w \<and> mb_db_ok v = mb_db_ok w"
  by (simp add: tenant_view_def list_all_buys_def mb_db_ok_def)

lemma write_package_keeps:
  assumes "mb_db_ok v" "package_checks q" "mp_media_buy_id q \<notin> mb_media_buy_id ` set (list_all_buys u v)"
  shows "mb_db_ok (write_package v q) \<and> tenant_view u (write_package v q) = tenant_view u v"
proof
  let ?ps = "update_where (\<lambda>r. package_key r = package_key q) (\<lambda>r. q) (media_packages v)"
  have "map package_key ?ps = map package_key (media_packages v)" by (rule map_update_where) auto
  moreover have "package_checks p \<and> mp_media_buy_id p \<in> mb_media_buy_id ` set (media_buys v)" if "p \<in> set ?ps" for p
    using that assms(1,2) by (elim update_whereE) (auto simp: mb_db_ok_def package_key_def, metis)
  ultimately show "mb_db_ok (write_package v q)" using assms(1) by (simp add: mb_db_ok_def write_package_def)
  have "filter (\<lambda>p. mp_media_buy_id p \<in> mb_media_buy_id ` set (list_all_buys u v)) ?ps =
      filter (\<lambda>p. mp_media_buy_id p \<in> mb_media_buy_id ` set (list_all_buys u v)) (media_packages v)"
    by (rule filter_update_where_other) (use assms(3) in \<open>auto simp: package_key_def\<close>)
  then show "tenant_view u (write_package v q) = tenant_view u v"
    by (simp add: tenant_view_def list_all_buys_def write_package_def)
qed

lemma own_package:
  assumes "mb_db_ok w" "u \<noteq> tenant" "p \<in> set (get_packages tenant w i)" "tenant_view u w = tenant_view u v"
  shows "mp_media_buy_id p \<notin> mb_media_buy_id ` set (list_all_buys u v)"
proof -
  from assms(3) obtain b where b: "b \<in> set (media_buys w)" "mb_tenant_id b = tenant" "mp_media_buy_id p = mb_media_buy_id b"
    by (auto simp: get_packages_def package_join_def)
  then have "mp_media_buy_id p \<notin> mb_media_buy_id ` set (list_all_buys u w)"
    using assms(1,2) by (auto simp: list_all_buys_def mb_db_ok_def dest: distinct_key_eq)
  moreover have "list_all_buys u w = list_all_buys u v" using assms(4) by (simp add: tenant_view_def)
  ultimately show ?thesis by simp
qed

lemma get_package_in: "get_package tenant db i k = Some p \<Longrightarrow> p \<in> set (get_packages tenant db i)"
  by (force simp: get_package_def get_packages_def dest!: find_SomeD)

end
