(* ===== verification/Creative_Repo.thy ===== *)
theory Creative_Repo
  imports Media_Buy_Repo "HOL-Library.Product_Lexorder"
begin

text \<open>
  Creatives, their reviews and their assignments to packages:
  src/src/core/database/repositories/creative.py over the tables creatives, creative_reviews and
  creative_assignments, beside the products a query reads. A write that only adds to the session
  is checked at the next flush: \<open>flush_creatives\<close>. SQL's text comparison uses the database's
  collation and its text of a JSON value that is not a string: both are parameters.
\<close>

section \<open>Rows\<close>

record creative_row =
  cr_creative_id :: string
  cr_tenant_id :: string
  cr_principal_id :: string
  cr_name :: string
  cr_agent_url :: string
  cr_format :: string
  cr_status :: string
  cr_data :: json
  cr_format_parameters :: "json option"
  cr_group_id :: "string option"
  cr_created_at :: "instant option"
  cr_updated_at :: "instant option"
  cr_approved_at :: "instant option"
  cr_approved_by :: "string option"
  cr_strategy_id :: "string option"

record creative_assignment =
  asg_assignment_id :: string
  asg_tenant_id :: string
  asg_creative_id :: string
  asg_principal_id :: string
  asg_media_buy_id :: string
  asg_package_id :: string
  asg_weight :: int
  asg_placement_ids :: "string list option"
  asg_created_at :: instant

record creative_review =
  rv_review_id :: string
  rv_creative_id :: string
  rv_tenant_id :: string
  rv_principal_id :: string
  rv_reviewed_at :: instant
  rv_review_type :: string
  rv_reviewer_email :: "string option"
  rv_ai_decision :: "string option"
  rv_confidence_score :: "rat option"
  rv_policy_triggered :: "string option"
  rv_reason :: "string option"
  rv_recommendations :: "json option"
  rv_human_override :: bool
  rv_final_decision :: string

text \<open>The columns of a product that the modelled code reads, with its pricing options.\<close>

record pricing_option =
  po_pricing_option_id :: string
  po_pricing_model :: string
  po_rate :: "rat option"
  po_currency :: string
  po_is_fixed :: bool
  po_price_guidance :: "json option"
  po_min_spend_per_package :: "rat option"
  po_parameters :: "json option"

record product_row =
  prod_tenant_id :: string
  prod_product_id :: string
  prod_name :: string
  prod_format_ids :: "json list"
  prod_creative_policy :: "json option"
  prod_placements :: "json list option"
  prod_property_targeting_allowed :: bool
  prod_delivery_type :: string
  prod_pricing_options :: "pricing_option list"
  prod_implementation_config :: "(string \<times> json) list option"

record creative_db = mb_db +
  creative_assignments :: "creative_assignment list"
  creative_rows :: "creative_row list"
  creative_reviews :: "creative_review list"
  product_rows :: "product_row list"

text \<open>With the rows a media buy is checked against: the tenants and their budget limits per currency.\<close>

record currency_limit =
  cl_tenant_id :: string
  cl_currency_code :: string
  cl_min_package_budget :: "rat option"
  cl_max_daily_package_spend :: "rat option"

record tenant_row =
  tn_tenant_id :: string
  tn_slack_webhook_url :: "string option"

record update_db = creative_db +
  currency_limits :: "currency_limit list"
  tenant_rows :: "tenant_row list"

definition get_for_currency :: "string \<Rightarrow> string \<Rightarrow> update_db \<Rightarrow> currency_limit option" where
  "get_for_currency tenant code db =
     find (\<lambda>l. cl_tenant_id l = tenant \<and> cl_currency_code l = code) (currency_limits db)"

definition get_tenant :: "string \<Rightarrow> update_db \<Rightarrow> tenant_row option" where
  "get_tenant tenant db = find (\<lambda>r. tn_tenant_id r = tenant) (tenant_rows db)"

text \<open>A row with the column defaults.\<close>

definition creative_blank :: "string \<Rightarrow> string \<Rightarrow> string \<Rightarrow> creative_row" where
  "creative_blank i tenant pid = \<lparr>cr_creative_id = i, cr_tenant_id = tenant, cr_principal_id = pid,
     cr_name = [], cr_agent_url = [], cr_format = [], cr_status = ''pending_review'', cr_data = JObj [],
     cr_format_parameters = None, cr_group_id = None, cr_created_at = None, cr_updated_at = None,
     cr_approved_at = None, cr_approved_by = None, cr_strategy_id = None\<rparr>"

definition assignment_row ::
    "string \<Rightarrow> string \<Rightarrow> instant \<Rightarrow> string \<Rightarrow> string \<Rightarrow> string \<Rightarrow> string \<Rightarrow> creative_assignment" where
  "assignment_row aid tenant now mb pkg cid pid = \<lparr>asg_assignment_id = aid, asg_tenant_id = tenant,
     asg_creative_id = cid, asg_principal_id = pid, asg_media_buy_id = mb, asg_package_id = pkg,
     asg_weight = 100, asg_placement_ids = None, asg_created_at = now\<rparr>"

section \<open>Constraints\<close>

text \<open>Primary keys, the unique key of an assignment (which has no principal), and the foreign keys.\<close>

definition creative_key :: "creative_row \<Rightarrow> string \<times> string \<times> string" where
  "creative_key c = (cr_creative_id c, cr_tenant_id c, cr_principal_id c)"

definition assignment_key :: "creative_assignment \<Rightarrow> string \<times> string \<times> string \<times> string" where
  "assignment_key a = (asg_tenant_id a, asg_creative_id a, asg_media_buy_id a, asg_package_id a)"

definition assigned_creative :: "creative_assignment \<Rightarrow> string \<times> string \<times> string" where
  "assigned_creative a = (asg_creative_id a, asg_tenant_id a, asg_principal_id a)"

definition reviewed_creative :: "creative_review \<Rightarrow> string \<times> string \<times> string" where
  "reviewed_creative r = (rv_creative_id r, rv_tenant_id r, rv_principal_id r)"

definition creative_tables_ok :: "'a creative_db_scheme \<Rightarrow> bool" where
  "creative_tables_ok db = (
     distinct (map creative_key (creative_rows db)) \<and>
     distinct (map asg_assignment_id (creative_assignments db)) \<and>
     distinct (map assignment_key (creative_assignments db)) \<and>
     (\<forall>a\<in>set (creative_assignments db). assigned_creative a \<in> creative_key ` set (creative_rows db) \<and>
        asg_media_buy_id a \<in> mb_media_buy_id ` set (media_buys db)) \<and>
     distinct (map rv_review_id (creative_reviews db)) \<and>
     (\<forall>r\<in>set (creative_reviews db). reviewed_creative r \<in> creative_key ` set (creative_rows db)))"

definition flush_creatives :: "'a creative_db_scheme \<Rightarrow> unit res" where
  "flush_creatives db = (if creative_tables_ok db then Inr () else Inl IntegrityError)"

section \<open>CreativeRepository: lookups\<close>

definition creative_get_by_id :: "string \<Rightarrow> 'a creative_db_scheme \<Rightarrow> string \<Rightarrow> string \<Rightarrow> creative_row option" where
  "creative_get_by_id tenant db creative_id pid =
     find (\<lambda>c. cr_tenant_id c = tenant \<and> cr_principal_id c = pid \<and> cr_creative_id c = creative_id) (creative_rows db)"

definition creative_get_by_ids :: "string \<Rightarrow> 'a creative_db_scheme \<Rightarrow> string list \<Rightarrow> string \<Rightarrow> creative_row list" where
  "creative_get_by_ids tenant db ids pid = (if ids = [] then [] else
     filter (\<lambda>c. cr_tenant_id c = tenant \<and> cr_principal_id c = pid \<and> cr_creative_id c \<in> set ids) (creative_rows db))"

text \<open>
  \<open>column ILIKE pattern\<close>: \<open>%\<close> is any text, \<open>_\<close> any character, a backslash quotes the next
  character. The pattern of a search ends in \<open>%\<close>, so a backslash always has a next character.
\<close>

fun sql_like :: "string \<Rightarrow> string \<Rightarrow> bool" where
  "sql_like [] t = (t = [])"
| "sql_like (p # ps) t =
     (if p = CHR ''%'' then sql_like ps t \<or> (case t of [] \<Rightarrow> False | _ # t' \<Rightarrow> sql_like (p # ps) t')
      else if p = CHR ''_'' then (case t of [] \<Rightarrow> False | _ # t' \<Rightarrow> sql_like ps t')
      else if p = CHR 0x5C then (case (ps, t) of (q # qs, x # t') \<Rightarrow> x = q \<and> sql_like qs t' | _ \<Rightarrow> False)
      else (case t of [] \<Rightarrow> False | x # t' \<Rightarrow> x = p \<and> sql_like ps t'))"

definition sql_ilike :: "string \<Rightarrow> string \<Rightarrow> bool" where
  "sql_ilike pattern t = sql_like (lower pattern) (lower t)"

text \<open>\<open>jsonb ? text\<close>: a key of an object, a string element of an array, or the string itself.\<close>

definition jsonb_exists :: "json option \<Rightarrow> string \<Rightarrow> bool" where
  "jsonb_exists j k = (case j of
     Some (JObj kvs) \<Rightarrow> k \<in> fst ` set kvs
   | Some (JList xs) \<Rightarrow> JStr k \<in> set xs
   | Some (JStr s) \<Rightarrow> s = k
   | _ \<Rightarrow> False)"

record sql_env =
  sq_rank :: "string \<Rightarrow> int"
  sq_text :: "json \<Rightarrow> string"

definition sql_as_string :: "sql_env \<Rightarrow> json option \<Rightarrow> string option" where
  "sql_as_string env j = (case j of None \<Rightarrow> None | Some JNull \<Rightarrow> None | Some (JStr s) \<Rightarrow> Some s
     | Some x \<Rightarrow> Some (sq_text env x))"

definition variable_count :: "json option \<Rightarrow> nat" where
  "variable_count j = (case j of Some (JList xs) \<Rightarrow> length xs | _ \<Rightarrow> 0)"

definition rstrip_slash :: "string \<Rightarrow> string" where
  "rstrip_slash s = rev (dropWhile (\<lambda>c. c = CHR ''/'') (rev s))"

record creative_query =
  lq_statuses :: "string list option"
  lq_format :: "string option"
  lq_tags :: "string list option"
  lq_tags_any :: "string list option"
  lq_has_variables :: "bool option"
  lq_creative_ids :: "string list option"
  lq_format_ids :: "(string \<times> string) list option"
  lq_created_after :: "instant option"
  lq_created_before :: "instant option"
  lq_search :: "string option"
  lq_media_buy_ids :: "string list option"
  lq_concept_ids :: "string list option"
  lq_sort_by :: string
  lq_sort_order :: string
  lq_offset :: nat
  lq_limit :: nat

definition default_query :: creative_query where
  "default_query = \<lparr>lq_statuses = None, lq_format = None, lq_tags = None, lq_tags_any = None,
     lq_has_variables = None, lq_creative_ids = None, lq_format_ids = None, lq_created_after = None,
     lq_created_before = None, lq_search = None, lq_media_buy_ids = None, lq_concept_ids = None,
     lq_sort_by = ''created_date'', lq_sort_order = ''desc'', lq_offset = 0, lq_limit = 50\<rparr>"

definition given :: "'b list option \<Rightarrow> 'b list" where
  "given xs = (case xs of None \<Rightarrow> [] | Some l \<Rightarrow> l)"

text \<open>The conditions on a creative's own columns; a comparison with NULL is not true.\<close>

definition creative_matches :: "sql_env \<Rightarrow> creative_query \<Rightarrow> creative_row \<Rightarrow> bool" where
  "creative_matches env q c = (
     jget (cr_data c) ''assets'' \<noteq> None \<and>
     (if given (lq_statuses q) \<noteq> [] then cr_status c \<in> set (given (lq_statuses q)) else cr_status c \<noteq> ''archived'') \<and>
     (truthy_str (lq_format q) \<longrightarrow> Some (cr_format c) = lq_format q) \<and>
     (given (lq_creative_ids q) \<noteq> [] \<longrightarrow> cr_creative_id c \<in> set (given (lq_creative_ids q))) \<and>
     (given (lq_format_ids q) \<noteq> [] \<longrightarrow> list_ex (\<lambda>(agent_url, format_id).
        (cr_agent_url c = agent_url \<or> cr_agent_url c = rstrip_slash agent_url) \<and> cr_format c = format_id)
        (given (lq_format_ids q))) \<and>
     (given (lq_concept_ids q) \<noteq> [] \<longrightarrow> (case sql_as_string env (jget (cr_data c) ''concept_id'') of
        None \<Rightarrow> False | Some s \<Rightarrow> s \<in> set (given (lq_concept_ids q)))) \<and>
     list_all (jsonb_exists (jget (cr_data c) ''tags'')) (given (lq_tags q)) \<and>
     (given (lq_tags_any q) \<noteq> [] \<longrightarrow> list_ex (jsonb_exists (jget (cr_data c) ''tags'')) (given (lq_tags_any q))) \<and>
     (case lq_has_variables q of None \<Rightarrow> True
      | Some v \<Rightarrow> (0 < variable_count (jget (cr_data c) ''variables'')) = v) \<and>
     (case lq_created_after q of None \<Rightarrow> True
      | Some t \<Rightarrow> (case cr_created_at c of None \<Rightarrow> False | Some x \<Rightarrow> t \<le> x)) \<and>
     (case lq_created_before q of None \<Rightarrow> True
      | Some t \<Rightarrow> (case cr_created_at c of None \<Rightarrow> False | Some x \<Rightarrow> x \<le> t)) \<and>
     (truthy_str (lq_search q) \<longrightarrow> sql_ilike (''%'' @ the (lq_search q) @ ''%'') (cr_name c)))"

text \<open>The join gives one row per matching assignment, whatever its tenant and principal.\<close>

definition join_assignments :: "'a creative_db_scheme \<Rightarrow> string list \<Rightarrow> creative_row list \<Rightarrow> creative_row list" where
  "join_assignments db ids cs = (if ids = [] then cs
     else concat (map (\<lambda>c. map (\<lambda>_. c) (filter (\<lambda>a. asg_creative_id a = cr_creative_id c \<and>
       asg_media_buy_id a \<in> set ids) (creative_assignments db))) cs))"

definition assignment_count_of :: "'a creative_db_scheme \<Rightarrow> creative_row \<Rightarrow> nat" where
  "assignment_count_of db c = length (filter (\<lambda>a. asg_tenant_id a = cr_tenant_id c \<and>
     asg_creative_id a = cr_creative_id c) (creative_assignments db))"

text \<open>PostgreSQL puts NULL last in ascending and first in descending order.\<close>

definition sort_column :: "sql_env \<Rightarrow> 'a creative_db_scheme \<Rightarrow> string \<Rightarrow> creative_row \<Rightarrow> int option" where
  "sort_column env db sort_by c =
     (if sort_by = ''name'' then Some (sq_rank env (cr_name c))
      else if sort_by = ''status'' then Some (sq_rank env (cr_status c))
      else if sort_by = ''updated_date'' then cr_updated_at c
      else if sort_by = ''assignment_count'' then Some (int (assignment_count_of db c))
      else cr_created_at c)"

definition order_key :: "string \<Rightarrow> int option \<Rightarrow> int \<times> int" where
  "order_key sort_order v =
     (if sort_order = ''asc'' then (case v of None \<Rightarrow> (1, 0) | Some x \<Rightarrow> (0, x))
      else (case v of None \<Rightarrow> (0, 0) | Some x \<Rightarrow> (1, - x)))"

definition query_rows :: "sql_env \<Rightarrow> string \<Rightarrow> 'a creative_db_scheme \<Rightarrow> string \<Rightarrow> creative_query \<Rightarrow> creative_row list" where
  "query_rows env tenant db pid q = filter (creative_matches env q) (join_assignments db (given (lq_media_buy_ids q))
     (filter (\<lambda>c. cr_tenant_id c = tenant \<and> cr_principal_id c = pid) (creative_rows db)))"

text \<open>The page and the total count.\<close>

definition creatives_by_principal ::
    "sql_env \<Rightarrow> string \<Rightarrow> 'a creative_db_scheme \<Rightarrow> string \<Rightarrow> creative_query \<Rightarrow> creative_row list \<times> nat" where
  "creatives_by_principal env tenant db pid q = (let rows = query_rows env tenant db pid q in
     (take (lq_limit q) (drop (lq_offset q)
        (sort_key (\<lambda>c. order_key (lq_sort_order q) (sort_column env db (lq_sort_by q) c)) rows)), length rows))"

definition assignments_by_creative ::
    "string \<Rightarrow> 'a creative_db_scheme \<Rightarrow> string list \<Rightarrow> string \<Rightarrow> (string \<times> creative_assignment list) list" where
  "assignments_by_creative tenant db ids pid = (if ids = [] then [] else
     fold (\<lambda>a. add_group (asg_creative_id a) a)
       (filter (\<lambda>a. asg_tenant_id a = tenant \<and> asg_principal_id a = pid \<and> asg_creative_id a \<in> set ids)
         (creative_assignments db)) [])"

definition list_by_principal :: "string \<Rightarrow> 'a creative_db_scheme \<Rightarrow> string \<Rightarrow> creative_row list" where
  "list_by_principal tenant db pid =
     filter (\<lambda>c. cr_tenant_id c = tenant \<and> cr_principal_id c = pid) (creative_rows db)"

definition get_provenance_policies :: "string \<Rightarrow> 'a creative_db_scheme \<Rightarrow> json list" where
  "get_provenance_policies tenant db = List.map_filter (\<lambda>p. case prod_creative_policy p of
       None \<Rightarrow> None
     | Some pol \<Rightarrow> (if json_truthy pol \<and> (case jget pol ''provenance_required'' of None \<Rightarrow> False | Some v \<Rightarrow> json_truthy v)
         then Some pol else None))
     (filter (\<lambda>p. prod_tenant_id p = tenant) (product_rows db))"

definition get_prior_ai_review :: "string \<Rightarrow> 'a creative_db_scheme \<Rightarrow> string \<Rightarrow> creative_review option" where
  "get_prior_ai_review tenant db creative_id =
     (case sort_key (\<lambda>r. - rv_reviewed_at r) (filter (\<lambda>r. rv_creative_id r = creative_id \<and> rv_tenant_id r = tenant \<and>
        rv_review_type r = ''ai'') (creative_reviews db)) of [] \<Rightarrow> None | r # _ \<Rightarrow> Some r)"

definition admin_get_by_id :: "string \<Rightarrow> 'a creative_db_scheme \<Rightarrow> string \<Rightarrow> creative_row option" where
  "admin_get_by_id tenant db creative_id =
     find (\<lambda>c. cr_tenant_id c = tenant \<and> cr_creative_id c = creative_id) (creative_rows db)"

definition admin_list_all :: "sql_env \<Rightarrow> string \<Rightarrow> 'a creative_db_scheme \<Rightarrow> creative_row list" where
  "admin_list_all env tenant db =
     sort_key (\<lambda>c. (sq_rank env (cr_status c), order_key ''desc'' (cr_created_at c)))
       (filter (\<lambda>c. cr_tenant_id c = tenant) (creative_rows db))"

definition admin_get_by_ids :: "string \<Rightarrow> 'a creative_db_scheme \<Rightarrow> string list \<Rightarrow> creative_row list" where
  "admin_get_by_ids tenant db ids = (if ids = [] then [] else
     filter (\<lambda>c. cr_tenant_id c = tenant \<and> cr_creative_id c \<in> set ids) (creative_rows db))"

section \<open>CreativeRepository: writes\<close>

text \<open>\<open>fresh\<close> is the uuid4 a missing id is replaced by. The flush fails on the primary key.\<close>

definition creative_create ::
    "string \<Rightarrow> instant \<Rightarrow> string \<Rightarrow> 'a creative_db_scheme \<Rightarrow> string option \<Rightarrow> string \<Rightarrow> string \<Rightarrow> string
      \<Rightarrow> json option \<Rightarrow> string \<Rightarrow> string \<Rightarrow> json option \<Rightarrow> 'a creative_db_scheme \<times> creative_row res" where
  "creative_create tenant now fresh db creative_id name agent_url fmt params pid status data =
     (let c = (creative_blank (or_str creative_id fresh) tenant pid)\<lparr>cr_name := name, cr_agent_url := agent_url,
        cr_format := fmt, cr_format_parameters := params, cr_status := status, cr_created_at := Some now,
        cr_data := (case data of None \<Rightarrow> JObj [] | Some d \<Rightarrow> if json_truthy d then d else JObj [])\<rparr>
      in if creative_key c \<in> creative_key ` set (creative_rows db) then (db, Inl IntegrityError)
         else (db\<lparr>creative_rows := creative_rows db @ [c]\<rparr>, Inr c))"

definition update_data :: "creative_row \<Rightarrow> json \<Rightarrow> 'a creative_db_scheme \<Rightarrow> 'a creative_db_scheme" where
  "update_data c data db = db\<lparr>creative_rows :=
     update_where (\<lambda>r. creative_key r = creative_key c) (\<lambda>r. r\<lparr>cr_data := data\<rparr>) (creative_rows db)\<rparr>"

definition create_review :: "string \<Rightarrow> creative_review \<Rightarrow> 'a creative_db_scheme \<Rightarrow> 'a creative_db_scheme res" where
  "create_review tenant r db = (if rv_tenant_id r \<noteq> tenant then Inl ValueError
     else Inr (db\<lparr>creative_reviews := creative_reviews db @ [r]\<rparr>))"

section \<open>CreativeAssignmentRepository\<close>

definition assignments_where ::
    "string \<Rightarrow> 'a creative_db_scheme \<Rightarrow> (creative_assignment \<Rightarrow> bool) \<Rightarrow> creative_assignment list" where
  "assignments_where tenant db P = filter (\<lambda>a. asg_tenant_id a = tenant \<and> P a) (creative_assignments db)"

definition get_by_creative :: "string \<Rightarrow> 'a creative_db_scheme \<Rightarrow> string \<Rightarrow> creative_assignment list" where
  "get_by_creative tenant db cid = assignments_where tenant db (\<lambda>a. asg_creative_id a = cid)"

definition get_by_media_buy :: "string \<Rightarrow> 'a creative_db_scheme \<Rightarrow> string \<Rightarrow> creative_assignment list" where
  "get_by_media_buy tenant db mb = assignments_where tenant db (\<lambda>a. asg_media_buy_id a = mb)"

definition unapproved_creative_ids :: "string \<Rightarrow> 'a creative_db_scheme \<Rightarrow> string \<Rightarrow> string list" where
  "unapproved_creative_ids tenant db mb = (let as = get_by_media_buy tenant db mb in
     if as = [] then []
     else map cr_creative_id (filter (\<lambda>c. cr_status c \<notin> {''approved'', ''active''})
       (admin_get_by_ids tenant db (map asg_creative_id as))))"

definition get_by_package :: "string \<Rightarrow> 'a creative_db_scheme \<Rightarrow> string \<Rightarrow> creative_assignment list" where
  "get_by_package tenant db pkg = assignments_where tenant db (\<lambda>a. asg_package_id a = pkg)"

definition get_by_media_buy_and_package ::
    "string \<Rightarrow> 'a creative_db_scheme \<Rightarrow> string \<Rightarrow> string \<Rightarrow> creative_assignment list" where
  "get_by_media_buy_and_package tenant db mb pkg =
     assignments_where tenant db (\<lambda>a. asg_media_buy_id a = mb \<and> asg_package_id a = pkg)"

definition get_existing ::
    "string \<Rightarrow> 'a creative_db_scheme \<Rightarrow> string \<Rightarrow> string \<Rightarrow> string \<Rightarrow> string \<Rightarrow> creative_assignment option" where
  "get_existing tenant db mb pkg cid pid =
     find (\<lambda>a. asg_tenant_id a = tenant \<and> asg_media_buy_id a = mb \<and> asg_package_id a = pkg \<and>
       asg_creative_id a = cid \<and> asg_principal_id a = pid) (creative_assignments db)"

definition assignment_create ::
    "string \<Rightarrow> instant \<Rightarrow> string \<Rightarrow> string \<Rightarrow> string \<Rightarrow> string \<Rightarrow> string \<Rightarrow> int \<Rightarrow> string list option
      \<Rightarrow> 'a creative_db_scheme \<Rightarrow> 'a creative_db_scheme" where
  "assignment_create tenant now fresh mb pkg cid pid weight placements db = db\<lparr>creative_assignments :=
     creative_assignments db @ [(assignment_row fresh tenant now mb pkg cid pid)\<lparr>asg_weight := weight,
       asg_placement_ids := placements\<rparr>]\<rparr>"

definition delete_row :: "creative_assignment \<Rightarrow> 'a creative_db_scheme \<Rightarrow> 'a creative_db_scheme" where
  "delete_row a db = db\<lparr>creative_assignments :=
     filter (\<lambda>r. asg_assignment_id r \<noteq> asg_assignment_id a) (creative_assignments db)\<rparr>"

definition assignment_delete :: "string \<Rightarrow> string \<Rightarrow> 'a creative_db_scheme \<Rightarrow> 'a creative_db_scheme \<times> bool" where
  "assignment_delete tenant aid db =
     (case find (\<lambda>a. asg_tenant_id a = tenant \<and> asg_assignment_id a = aid) (creative_assignments db) of
        None \<Rightarrow> (db, False) | Some a \<Rightarrow> (delete_row a db, True))"

definition get_product_by_id :: "string \<Rightarrow> 'a creative_db_scheme \<Rightarrow> string \<Rightarrow> product_row option" where
  "get_product_by_id tenant db product_id =
     find (\<lambda>p. prod_tenant_id p = tenant \<and> prod_product_id p = product_id) (product_rows db)"

section \<open>Queries stay with their owner\<close>

lemmas creative_reads = creative_get_by_id_def creative_get_by_ids_def list_by_principal_def
  admin_get_by_id_def admin_get_by_ids_def assignments_where_def get_by_creative_def
  get_by_media_buy_def get_by_media_buy_and_package_def get_by_package_def

lemma get_by_ids_iff:
  "c \<in> set (creative_get_by_ids tenant db ids pid) \<longleftrightarrow>
     c \<in> set (creative_rows db) \<and> cr_tenant_id c = tenant \<and> cr_principal_id c = pid \<and> cr_creative_id c \<in> set ids"
  by (auto simp: creative_get_by_ids_def)

lemma get_existing_Some:
  "get_existing tenant db mb pkg cid pid = Some a \<Longrightarrow> a \<in> set (creative_assignments db) \<and>
     assignment_key a = (tenant, cid, mb, pkg) \<and> asg_principal_id a = pid"
  by (auto simp: get_existing_def assignment_key_def dest: find_SomeD)

lemma count_list_copies: "count_list (map (\<lambda>_. c) xs) d = (if c = d then length xs else 0)"
  by (induction xs) auto

lemma count_list_append: "count_list (xs @ ys) d = count_list xs d + count_list ys d"
  by (induction xs) auto

lemma count_list_filter: "count_list (filter P xs) d = (if P d then count_list xs d else 0)"
  by (induction xs) auto

lemma count_list_concat: "count_list (concat (map f cs)) d = sum_list (map (\<lambda>c. count_list (f c) d) cs)"
  by (induction cs) (auto simp: count_list_append)

lemma sum_list_only: "distinct cs \<Longrightarrow> sum_list (map (\<lambda>c. if c = d then n c else 0) cs) = (if d \<in> set cs then n d else (0::nat))"
  by (induction cs) auto

lemma count_list_distinct: "distinct cs \<Longrightarrow> count_list cs d = (if d \<in> set cs then 1 else 0)"
  by (induction cs) auto

lemma count_list_insort [simp]: "count_list (insort_key f x xs) d = count_list (x # xs) d"
  by (induction xs) auto

lemma count_list_sort [simp]: "count_list (sort_key f xs) d = count_list xs d"
  by (induction xs) (auto simp: sort_key_simps)

text \<open>How often a query without a page limit lists a creative, in whatever order.\<close>

lemma count_list_join:
  assumes "distinct cs"
  shows "count_list (join_assignments db ids cs) c = (if c \<notin> set cs then 0 else if ids = [] then 1
     else length (filter (\<lambda>a. asg_creative_id a = cr_creative_id c \<and> asg_media_buy_id a \<in> set ids) (creative_assignments db)))"
proof (cases "ids = []")
  case True
  then show ?thesis using assms by (simp add: join_assignments_def count_list_distinct)
next
  case False
  have "(\<Sum>x\<leftarrow>cs. count_list (map (\<lambda>_. x) (f x)) c) = (\<Sum>x\<leftarrow>cs. if x = c then length (f x) else 0)"
    for f :: "creative_row \<Rightarrow> creative_assignment list"
    by (intro arg_cong [where f = sum_list] map_cong) (auto simp: count_list_copies)
  with False show ?thesis using assms
    by (simp add: join_assignments_def count_list_concat sum_list_only)
qed

lemma sort_column_rows [simp]:
  "length (fst (creatives_by_principal env tenant db pid q)) =
     min (lq_limit q) (snd (creatives_by_principal env tenant db pid q) - lq_offset q)"
  by (simp add: creatives_by_principal_def Let_def)

text \<open>A listing shows a principal its own creatives only, and only matching ones. Read through all
  pages, a creative appears once; but with a filter by media buys it appears once per assignment of
  its id to one of them, whoever made the assignment, and as often in the total.\<close>

theorem listing_shows_own_creatives:
  assumes "creative_tables_ok db" "lq_offset q = 0" "length (query_rows env tenant db pid q) \<le> lq_limit q"
  shows "count_list (fst (creatives_by_principal env tenant db pid q)) c =
    (if c \<in> set (creative_rows db) \<and> cr_tenant_id c = tenant \<and> cr_principal_id c = pid \<and> creative_matches env q c
     then (if given (lq_media_buy_ids q) = [] then 1
           else length (filter (\<lambda>a. asg_creative_id a = cr_creative_id c \<and>
             asg_media_buy_id a \<in> set (given (lq_media_buy_ids q))) (creative_assignments db)))
     else 0)"
proof -
  have d: "distinct (filter (\<lambda>c. cr_tenant_id c = tenant \<and> cr_principal_id c = pid) (creative_rows db))"
    using assms(1) by (auto simp: creative_tables_ok_def distinct_map)
  have "count_list (fst (creatives_by_principal env tenant db pid q)) c = count_list (query_rows env tenant db pid q) c"
    using assms(2,3) by (simp add: creatives_by_principal_def Let_def)
  then show ?thesis
    by (simp add: query_rows_def count_list_filter count_list_join [OF d])
qed

section \<open>Writes\<close>

text \<open>
  A committed write of a tenant: what one repository call leaves when the flush that follows it
  passes. Rows handed back to \<open>update_data\<close> and \<open>delete_row\<close> come from this tenant's own lookups.
\<close>

inductive creative_step :: "string \<Rightarrow> 'a creative_db_scheme \<Rightarrow> 'a creative_db_scheme \<Rightarrow> bool" where
  C_create: "creative_step t db db'"
    if "creative_create t now fresh db cid name url fmt params pid status data = (db', Inr c)"
| C_data: "creative_step t db (update_data c data db)" if "cr_tenant_id c = t"
| C_review: "creative_step t db db'" if "create_review t r db = Inr db'" "creative_tables_ok db'"
| C_assign: "creative_step t db (assignment_create t now fresh mb pkg cid pid weight placements db)"
    if "creative_tables_ok (assignment_create t now fresh mb pkg cid pid weight placements db)"
| C_delete_row: "creative_step t db (delete_row a db)" if "a \<in> set (creative_assignments db)" "asg_tenant_id a = t"
| C_delete: "creative_step t db (fst (assignment_delete t aid db))"

definition creative_view :: "string \<Rightarrow> 'a creative_db_scheme \<Rightarrow>
    creative_row list \<times> creative_assignment list \<times> creative_review list" where
  "creative_view t db = (filter (\<lambda>c. cr_tenant_id c = t) (creative_rows db),
     filter (\<lambda>a. asg_tenant_id a = t) (creative_assignments db),
     filter (\<lambda>r. rv_tenant_id r = t) (creative_reviews db))"

lemma creative_view_cong: "creative_assignments v = creative_assignments w \<Longrightarrow> creative_rows v = creative_rows w \<Longrightarrow>
    creative_reviews v = creative_reviews w \<Longrightarrow> creative_view u v = creative_view u w"
  by (simp add: creative_view_def)

lemma creative_key_data [simp]: "creative_key (r\<lparr>cr_data := d\<rparr>) = creative_key r"
  by (simp add: creative_key_def)

lemma creative_key_tenant: "creative_key r = creative_key c \<Longrightarrow> cr_tenant_id r = cr_tenant_id c"
  by (simp add: creative_key_def)

lemma update_data_keys: "map creative_key (creative_rows (update_data c d db)) = map creative_key (creative_rows db)"
  by (simp add: update_data_def map_update_where)

lemma update_data_ok: "creative_tables_ok (update_data c d db) = creative_tables_ok db"
proof -
  have "creative_key ` set (creative_rows (update_data c d db)) = creative_key ` set (creative_rows db)"
    using update_data_keys [of c d db] by (metis set_map)
  then show ?thesis
    unfolding creative_tables_ok_def update_data_keys by (simp add: update_data_def)
qed

lemma update_data_view: "cr_tenant_id c \<noteq> u \<Longrightarrow> creative_view u (update_data c d db) = creative_view u db"
  by (auto simp: creative_view_def update_data_def dest: creative_key_tenant intro!: filter_update_where_other)

lemma creative_create_ok:
  assumes "creative_create t now fresh db cid name url fmt params pid status data = (db', Inr c)"
  shows "db' = db\<lparr>creative_rows := creative_rows db @ [c]\<rparr>" "cr_tenant_id c = t"
    "creative_key c \<notin> creative_key ` set (creative_rows db)"
  using assms by (auto simp: creative_create_def Let_def creative_blank_def split: if_splits)

lemma added_creative_ok:
  "creative_tables_ok db \<Longrightarrow> creative_key c \<notin> creative_key ` set (creative_rows db) \<Longrightarrow>
    creative_tables_ok (db\<lparr>creative_rows := creative_rows db @ [c]\<rparr>)"
  by (auto simp: creative_tables_ok_def)

lemma delete_row_ok: "creative_tables_ok db \<Longrightarrow> creative_tables_ok (delete_row a db)"
  by (auto simp: creative_tables_ok_def delete_row_def intro: distinct_map_filter)

lemma delete_row_view:
  assumes "creative_tables_ok db" "a \<in> set (creative_assignments db)" "asg_tenant_id a \<noteq> u"
  shows "creative_view u (delete_row a db) = creative_view u db"
proof -
  have "asg_assignment_id r \<noteq> asg_assignment_id a" if "r \<in> set (creative_assignments db)" "asg_tenant_id r = u" for r
    using assms that by (auto simp: creative_tables_ok_def dest: distinct_key_eq)
  then show ?thesis by (auto simp: creative_view_def delete_row_def intro!: filter_cong)
qed

lemma assignment_delete_cases:
  obtains "assignment_delete t aid db = (db, False)"
  | a where "a \<in> set (creative_assignments db)" "asg_tenant_id a = t" "assignment_delete t aid db = (delete_row a db, True)"
  by (cases "find (\<lambda>a. asg_tenant_id a = t \<and> asg_assignment_id a = aid) (creative_assignments db)")
    (auto simp: assignment_delete_def dest: find_SomeD)

interpretation creatives: tenant_scoped creative_tables_ok creative_step creative_view
proof
  fix s s' :: "'a creative_db_scheme" and t
  assume "creative_tables_ok s" "creative_step t s s'"
  from this(2,1) show "creative_tables_ok s'"
  proof (cases rule: creative_step.cases)
    case (C_delete aid)
    with \<open>creative_tables_ok s\<close> show ?thesis by (cases rule: assignment_delete_cases [of t aid s]) (auto simp: delete_row_ok)
  next
    case C_create
    from creative_create_ok [OF this] \<open>creative_tables_ok s\<close> show ?thesis by (simp add: added_creative_ok)
  qed (auto simp: update_data_ok delete_row_ok)
next
  fix s s' :: "'a creative_db_scheme" and t u
  assume ok: "creative_tables_ok s" and st: "creative_step t s s'" and u: "u \<noteq> t"
  from st show "creative_view u s' = creative_view u s"
  proof (cases rule: creative_step.cases)
    case (C_delete aid)
    with ok u show ?thesis
      by (cases rule: assignment_delete_cases [of t aid s]) (auto simp: delete_row_view)
  next
    case C_create
    from creative_create_ok [OF this] u show ?thesis by (simp add: creative_view_def)
  next
    case C_data
    with u show ?thesis by (simp add: update_data_view)
  next
    case C_delete_row
    with ok u show ?thesis by (simp add: delete_row_view)
  qed (use u in \<open>auto simp: create_review_def assignment_create_def assignment_row_def creative_view_def
      split: if_splits\<close>)
qed

section \<open>The existence gate protects the insert\<close>

text \<open>
  What the buyer's paths check before they assign a creative is what the insert needs: a creative
  found for the caller's own principal, a buy of the tenant, and no assignment of that id on the
  package yet. The flush that follows then cannot fail.
\<close>

lemma gated_assignment_flushes:
  assumes "creative_tables_ok db" "cid \<in> set (map cr_creative_id (creative_get_by_ids t db ids pid))"
    and "get_by_id t db mb = Some b"
    and "cid \<notin> set (map asg_creative_id (get_by_media_buy_and_package t db mb pkg))"
    and "fresh \<notin> asg_assignment_id ` set (creative_assignments db)"
  shows "creative_tables_ok (assignment_create t now fresh mb pkg cid pid weight placements db)"
proof -
  from assms(2) obtain c where c: "c \<in> set (creative_rows db)" "creative_key c = (cid, t, pid)"
    by (auto simp: get_by_ids_iff creative_key_def)
  have "mb \<in> mb_media_buy_id ` set (media_buys db)" using get_by_idD [OF assms(3)] by auto
  moreover have "(cid, t, pid) \<in> creative_key ` set (creative_rows db)" using c by force
  moreover have "(t, cid, mb, pkg) \<notin> assignment_key ` set (creative_assignments db)"
    using assms(4) by (auto simp: get_by_media_buy_and_package_def assignments_where_def assignment_key_def)
  ultimately show ?thesis
    using assms(1,5) by (auto simp: creative_tables_ok_def assignment_create_def assignment_row_def
        assignment_key_def assigned_creative_def)
qed

section \<open>At concrete tables\<close>

definition ex_creatives :: creative_db where
  "ex_creatives = \<lparr>media_buys = [ex_buy ''b1'' ''t1'' ''active'' (Some 3), ex_buy ''b2'' ''t1'' ''active'' (Some 3)],
     media_packages = [],
     creative_assignments = [assignment_row ''a1'' ''t1'' 0 ''b1'' ''k1'' ''c1'' ''p1'',
       assignment_row ''a2'' ''t1'' 0 ''b1'' ''k2'' ''c1'' ''p1'', assignment_row ''a3'' ''t1'' 0 ''b2'' ''k3'' ''c1'' ''p2''],
     creative_rows = [(creative_blank ''c1'' ''t1'' ''p1'')\<lparr>cr_status := ''active'', cr_data := JObj [(''assets'', JObj [])]\<rparr>,
       (creative_blank ''c1'' ''t1'' ''p2'')\<lparr>cr_status := ''rejected'', cr_data := JObj [(''assets'', JObj [])]\<rparr>],
     creative_reviews = [], product_rows = []\<rparr>"

lemma ex_creatives_ok: "creative_tables_ok ex_creatives"
  by (simp add: creative_tables_ok_def ex_creatives_def creative_key_def creative_blank_def assignment_row_def
      assignment_key_def assigned_creative_def ex_buy_def)

definition plain_sql :: sql_env where
  "plain_sql = \<lparr>sq_rank = (\<lambda>_. 0), sq_text = (\<lambda>_. [])\<rparr>"

text \<open>
  The page of p1 filtered by b1 lists its one creative twice, because it is on two packages; sorted
  or counted by assignments, p2's assignment of another creative with that id is counted too.
\<close>

lemma creative_listed_per_assignment:
  "map cr_creative_id (fst (creatives_by_principal plain_sql ''t1'' ex_creatives ''p1''
     (default_query\<lparr>lq_media_buy_ids := Some [''b1'']\<rparr>))) = [''c1'', ''c1'']"
  "snd (creatives_by_principal plain_sql ''t1'' ex_creatives ''p1'' (default_query\<lparr>lq_media_buy_ids := Some [''b1'']\<rparr>)) = 2"
  "map cr_creative_id (fst (creatives_by_principal plain_sql ''t1'' ex_creatives ''p1''
     (default_query\<lparr>lq_media_buy_ids := Some [''b2'']\<rparr>))) = [''c1'']"
  "map (assignment_count_of ex_creatives) (list_by_principal ''t1'' ex_creatives ''p1'') = [3]"
  by code_simp+

text \<open>
  The approval gate reads creatives by tenant and id: p2's rejected creative of the same id keeps
  p1's buy from being approved.
\<close>

lemma approval_gate_reads_other_principal: "unapproved_creative_ids ''t1'' ex_creatives ''b1'' = [''c1'']"
  by code_simp

lemma listing_shows_own_creatives_witness:
  "count_list (fst (creatives_by_principal plain_sql ''t1'' ex_creatives ''p1'' (default_query\<lparr>lq_media_buy_ids := Some [''b1'']\<rparr>)))
     (hd (creative_rows ex_creatives)) = 2"
proof -
  let ?q = "default_query\<lparr>lq_media_buy_ids := Some [''b1'']\<rparr>"
  have "lq_offset ?q = 0" "length (query_rows plain_sql ''t1'' ex_creatives ''p1'' ?q) \<le> lq_limit ?q" by code_simp+
  from listing_shows_own_creatives [OF ex_creatives_ok this, of "hd (creative_rows ex_creatives)"]
  show ?thesis by simp code_simp
qed

end
