(* ===== verification/Flight_Status.thy ===== *)
theory Flight_Status
  imports Media_Buy
begin

text \<open>
  What a flight window implies for a media buy, on the write side
  (src/src/core/tools/_media_buy_transitions.py, at the granularity of instants) and on the read
  side (src/src/core/tools/_media_buy_status.py, at the granularity of dates, with the projection of
  the persisted vocabulary onto the wire words), and when the two agree.
\<close>

section \<open>Write side\<close>

text \<open>
  The precise instants win over the dates. The date columns are NOT NULL, so a row always has
  both; the rule itself allows them to be missing.
\<close>

definition flight_edge :: "pydatetime option \<Rightarrow> instant option \<Rightarrow> instant option" where
  "flight_edge t fallback = (case aware t of None \<Rightarrow> fallback | Some i \<Rightarrow> Some i)"

definition flight_window_of ::
    "pydatetime option \<Rightarrow> pydatetime option \<Rightarrow> day option \<Rightarrow> day option \<Rightarrow> (instant \<times> instant) option" where
  "flight_window_of st et sd ed =
     (case (flight_edge st (map_option utc_flight_start sd), flight_edge et (map_option utc_flight_end ed)) of
        (Some s, Some e) \<Rightarrow> Some (s, e)
      | _ \<Rightarrow> None)"

definition flight_window :: "media_buy \<Rightarrow> (instant \<times> instant) option" where
  "flight_window b = flight_window_of (mb_start_time b) (mb_end_time b)
     (Some (mb_start_date b)) (Some (mb_end_date b))"

definition resolve_flight_window_status ::
    "media_buy \<Rightarrow> instant \<Rightarrow> bool \<Rightarrow> media_buy_status option" where
  "resolve_flight_window_status b now creatives_approved = (case flight_window b of
     None \<Rightarrow> None
   | Some (s, e) \<Rightarrow>
       if e < now then Some COMPLETED
       else if now < s then Some SCHEDULED
       else if \<not> creatives_approved then Some PENDING_CREATIVES
       else Some ACTIVE)"

section \<open>Read side\<close>

fun persisted_status_to_canonical :: "media_buy_status \<Rightarrow> string" where
  "persisted_status_to_canonical ACTIVE = ''active''"
| "persisted_status_to_canonical APPROVED = ''active''"
| "persisted_status_to_canonical READY = ''active''"
| "persisted_status_to_canonical SCHEDULED = ''active''"
| "persisted_status_to_canonical PENDING_ACTIVATION = ''pending_start''"
| "persisted_status_to_canonical PAUSED = ''paused''"
| "persisted_status_to_canonical COMPLETED = ''completed''"
| "persisted_status_to_canonical REJECTED = ''rejected''"
| "persisted_status_to_canonical CANCELED = ''canceled''"
| "persisted_status_to_canonical FAILED = ''failed''"
| "persisted_status_to_canonical DRAFT = ''pending_creatives''"
| "persisted_status_to_canonical PENDING = ''pending_start''"
| "persisted_status_to_canonical PENDING_APPROVAL = ''pending_start''"
| "persisted_status_to_canonical PENDING_CREATIVES = ''pending_creatives''"
| "persisted_status_to_canonical PENDING_START = ''pending_start''"

definition canonical_statuses :: "string list" where
  "canonical_statuses = remdups (map persisted_status_to_canonical status_members)"

definition canonical_serving :: string where
  "canonical_serving = ''active''"

definition terminal_statuses :: "string list" where
  "terminal_statuses = [''paused'', ''completed'', ''rejected'', ''canceled'', ''failed'']"

definition no_more_data_statuses :: "string list" where
  "no_more_data_statuses = filter (\<lambda>s. s \<noteq> ''paused'') terminal_statuses"

text \<open>The refinement of a generic serving state against the flight dates.\<close>

definition refine_serving ::
    "pydatetime option \<Rightarrow> pydatetime option \<Rightarrow> day option \<Rightarrow> day option \<Rightarrow> bool \<Rightarrow> day \<Rightarrow> string" where
  "refine_serving st et sd ed is_paused reference_date = (
     let start_compare = (case st of None \<Rightarrow> sd | Some t \<Rightarrow> Some (date_of t));
         end_compare = (case et of None \<Rightarrow> ed | Some t \<Rightarrow> Some (date_of t))
     in if is_paused then ''paused''
        else (case (start_compare, end_compare) of
          (Some s, Some e) \<Rightarrow>
            if reference_date < s then ''pending_start''
            else if e < reference_date then ''completed''
            else ''active''
        | _ \<Rightarrow> canonical_serving))"

definition resolve_canonical_status :: "media_buy \<Rightarrow> day \<Rightarrow> string res" where
  "resolve_canonical_status b reference_date =
     (case (if mb_status b = [] then Inr canonical_serving
            else (case parse_status (Some (mb_status b)) (Some (mb_media_buy_id b)) of
                Inl e \<Rightarrow> Inl e
              | Inr m \<Rightarrow> Inr (persisted_status_to_canonical m))) of
        Inl e \<Rightarrow> Inl e
      | Inr canonical \<Rightarrow>
          if canonical \<noteq> canonical_serving then Inr canonical
          else Inr (refine_serving (mb_start_time b) (mb_end_time b) (Some (mb_start_date b))
            (Some (mb_end_date b)) (mb_is_paused b) reference_date))"

section \<open>Lemmas\<close>

lemma flight_window_dates:
  assumes "mb_start_time b = None" "mb_end_time b = None"
  shows "flight_window b = Some (utc_flight_start (mb_start_date b), utc_flight_end (mb_end_date b))"
  using assms by (simp add: flight_window_def flight_window_of_def flight_edge_def aware_def)

lemma flight_window_row: "\<exists>s e. flight_window b = Some (s, e)"
  by (auto simp: flight_window_def flight_window_of_def flight_edge_def split: option.splits)

lemma canonical_statuses_eq:
  "set canonical_statuses = {''active'', ''pending_start'', ''paused'', ''completed'', ''rejected'',
     ''canceled'', ''failed'', ''pending_creatives''}"
  by (auto simp: canonical_statuses_def status_members_def)

lemma refine_serving_canonical: "refine_serving st et sd ed p d \<in> set canonical_statuses"
  by (auto simp: refine_serving_def canonical_serving_def canonical_statuses_eq Let_def
      split: option.split)

text \<open>Terminal words are the image of terminal statuses only, and are never refined.\<close>

lemma terminal_not_serving: "s \<in> set terminal_statuses \<Longrightarrow> s \<noteq> canonical_serving"
  by (auto simp: terminal_statuses_def canonical_serving_def)

section \<open>Properties\<close>

text \<open>The read-side resolver is total on the vocabulary and closed: a row with a blank status or
  one in the vocabulary resolves to a word of CANONICAL_STATUSES on every date, and a row with any
  other status is refused with the configuration error that names the buy and the value.\<close>

theorem canonical_status_closed:
  "case resolve_canonical_status b d of
     Inl e \<Rightarrow> mb_status b \<noteq> [] \<and> parse_or_none (Some (mb_status b)) = None \<and>
       e = AdCPPersistedStateError (Some (mb_media_buy_id b)) (Some (mb_status b))
   | Inr w \<Rightarrow> (mb_status b = [] \<or> parse_or_none (Some (mb_status b)) \<noteq> None) \<and> w \<in> set canonical_statuses"
proof -
  have "persisted_status_to_canonical m \<in> set canonical_statuses" for m
    by (cases m) (simp_all add: canonical_statuses_eq)
  then show ?thesis
    by (auto simp: resolve_canonical_status_def parse_status_def refine_serving_canonical
        split: option.splits)
qed

lemma canonical_status_closed_witness:
  "case resolve_canonical_status ((media_buy_blank 0)\<lparr>mb_status := ''flying''\<rparr>) 7 of
     Inl e \<Rightarrow> e = AdCPPersistedStateError (Some '''') (Some ''flying'') | Inr w \<Rightarrow> w \<in> set canonical_statuses"
  using canonical_status_closed [of "(media_buy_blank 0)\<lparr>mb_status := ''flying''\<rparr>" 7]
  by (auto simp: media_buy_blank_def split: sum.splits)

text \<open>A terminal decision (paused, completed, rejected, canceled, failed) is reported as it was
  stored on every reference date, whatever the flight dates say.\<close>

theorem terminal_status_verbatim:
  assumes "parse_or_none (Some (mb_status b)) = Some m" "persisted_status_to_canonical m \<in> set terminal_statuses"
  shows "resolve_canonical_status b d = Inr (persisted_status_to_canonical m)"
proof -
  have "mb_status b \<noteq> []"
    using assms(1) by (cases m) (auto simp: parse_or_none_Some_iff lower_def)
  with assms terminal_not_serving [OF assms(2)] show ?thesis
    by (simp add: resolve_canonical_status_def parse_status_def)
qed

lemma terminal_status_verbatim_witness:
  "resolve_canonical_status ((media_buy_blank 0)\<lparr>mb_status := ''canceled''\<rparr>) 7 = Inr ''canceled''"
  using terminal_status_verbatim [of "(media_buy_blank 0)\<lparr>mb_status := ''canceled''\<rparr>" CANCELED 7]
    parse_or_none_value [of CANCELED] by (simp add: terminal_statuses_def)

text \<open>On whole days the write rule and the read rule agree: for a serving, unpaused buy with
  approved creatives whose flight is given by dates in order, the word read on the UTC date of an
  instant is the projection of the status the write rule computes at that instant.\<close>

theorem read_and_write_agree_on_days:
  assumes "mb_start_time b = None" "mb_end_time b = None" "mb_start_date b \<le> mb_end_date b"
    and "\<not> mb_is_paused b" "parse_or_none (Some (mb_status b)) = Some m"
    and "persisted_status_to_canonical m = canonical_serving"
  shows "resolve_canonical_status b (utc_date now) = Inr (case resolve_flight_window_status b now True of
      Some COMPLETED \<Rightarrow> ''completed'' | Some SCHEDULED \<Rightarrow> ''pending_start'' | _ \<Rightarrow> ''active'')"
proof -
  have "resolve_canonical_status b (utc_date now)
      = Inr (refine_serving None None (Some (mb_start_date b)) (Some (mb_end_date b)) False (utc_date now))"
    using assms(1,2,4-6) by (simp add: resolve_canonical_status_def parse_status_def)
  then show ?thesis
    using assms(3) before_flight_start [of now "mb_start_date b"] after_flight_end [of "mb_end_date b" now]
    by (auto simp: resolve_flight_window_status_def flight_window_dates [OF assms(1,2)] refine_serving_def)
qed

lemma read_and_write_agree_on_days_witness:
  "resolve_canonical_status ((media_buy_blank 0)\<lparr>mb_status := ''active'', mb_start_date := 3, mb_end_date := 5\<rparr>)
     (utc_date (utc_flight_end 5 + 1)) = Inr ''completed''"
  using read_and_write_agree_on_days
      [of "(media_buy_blank 0)\<lparr>mb_status := ''active'', mb_start_date := 3, mb_end_date := 5\<rparr>" ACTIVE
        "utc_flight_end 5 + 1"]
    parse_or_none_value [of ACTIVE]
  by (simp add: media_buy_blank_def canonical_serving_def resolve_flight_window_status_def
      flight_window_def flight_window_of_def flight_edge_def aware_def)

text \<open>
  Inside a day they differ: a window that opens at noon is not open for the write rule in the
  morning, while the read rule reports it as serving from midnight.
\<close>

lemma read_and_write_differ_within_day:
  "let b = (media_buy_blank 0)\<lparr>mb_status := ''active'', mb_start_time := Some (Aware 43200000000 0),
       mb_end_time := Some (Aware 86400000000 0)\<rparr>
   in resolve_flight_window_status b 0 True = Some SCHEDULED \<and>
      resolve_canonical_status b (utc_date 0) = Inr ''active''"
  using parse_or_none_value [of ACTIVE]
  by (simp add: resolve_flight_window_status_def flight_window_def flight_window_of_def flight_edge_def
      aware_def resolve_canonical_status_def parse_status_def canonical_serving_def refine_serving_def
      date_of_def utc_date_def day_us_def media_buy_blank_def)

end
