(* ===== verification/Status_Scheduler.thy ===== *)
theory Status_Scheduler
  imports Creative_Repo Flight_Status
begin

text \<open>
  The unattended status sweep of src/src/services/media_buy_status_scheduler.py over the tables
  of media buys, creative assignments and creatives: which buys it reads, the status it computes
  for each, the write it makes through the repository, and the commit.
\<close>

definition activatable_statuses :: "media_buy_status list" where
  "activatable_statuses = [PENDING_START, PENDING_ACTIVATION, SCHEDULED]"

text \<open>True when no creative is assigned or all assigned creatives the query finds are approved.\<close>

definition are_creatives_approved :: "media_buy \<Rightarrow> 'a creative_db_scheme \<Rightarrow> bool" where
  "are_creatives_approved b db = (
     let assignments = filter (\<lambda>a. asg_tenant_id a = mb_tenant_id b \<and>
           asg_media_buy_id a = mb_media_buy_id b) (creative_assignments db);
         ids = remdups (map asg_creative_id assignments);
         found = filter (\<lambda>c. cr_tenant_id c = mb_tenant_id b \<and> cr_creative_id c \<in> set ids) (creative_rows db)
     in assignments = [] \<or> list_all (\<lambda>c. cr_status c = ''approved'') found)"

definition compute_new_status :: "media_buy \<Rightarrow> instant \<Rightarrow> 'a creative_db_scheme \<Rightarrow> media_buy_status option" where
  "compute_new_status b now db =
     (case resolve_flight_window_status b now (are_creatives_approved b db) of
        None \<Rightarrow> None
      | Some target \<Rightarrow>
          if status_value target = mb_status b then None
          else if target = COMPLETED then Some target
          else if target = ACTIVE \<and> mb_status b \<in> status_value ` set activatable_statuses then Some target
          else None)"

text \<open>
  The loop over the rows read at the start. \<open>clock i\<close> is the time at which buy i is written,
  \<open>now\<close> the instant read once for the whole sweep. An exception ends the loop.
\<close>

fun sweep_loop ::
    "instant \<Rightarrow> (string \<Rightarrow> instant) \<Rightarrow> media_buy list \<Rightarrow> 'a creative_db_scheme \<Rightarrow> nat
      \<Rightarrow> 'a creative_db_scheme \<times> nat res" where
  "sweep_loop now clock [] db count = (db, Inr count)"
| "sweep_loop now clock (b # bs) db count = (case compute_new_status b now db of
     None \<Rightarrow> sweep_loop now clock bs db count
   | Some new_status \<Rightarrow>
       if status_value new_status = mb_status b then sweep_loop now clock bs db count
       else (case update_status (mb_tenant_id b) (clock (mb_media_buy_id b)) db (mb_media_buy_id b)
               (status_value new_status) (new_status = ACTIVE) None None of
          (db', Inl e) \<Rightarrow> (db', Inl e)
        | (db', Inr None) \<Rightarrow> sweep_loop now clock bs db' count
        | (db', Inr (Some _)) \<Rightarrow> sweep_loop now clock bs db' (Suc count)))"

text \<open>The session commits when something was updated; an exception is logged and discards it.\<close>

definition update_statuses :: "instant \<Rightarrow> (string \<Rightarrow> instant) \<Rightarrow> 'a creative_db_scheme \<Rightarrow> 'a creative_db_scheme" where
  "update_statuses now clock db = (
     case sweep_loop now clock (get_all_by_statuses db (activatable_statuses @ [ACTIVE])) db 0 of
       (db', Inl e) \<Rightarrow> db
     | (db', Inr count) \<Rightarrow> if 0 < count then db' else db)"

section \<open>The sweep as a map over the rows\<close>

definition swept :: "media_buy \<Rightarrow> bool" where
  "swept b = (mb_status b \<in> set (map status_value (activatable_statuses @ [ACTIVE])))"

definition sweep_row :: "instant \<Rightarrow> (string \<Rightarrow> instant) \<Rightarrow> 'a creative_db_scheme \<Rightarrow> media_buy \<Rightarrow> media_buy" where
  "sweep_row now clock db b = (case (if swept b then compute_new_status b now db else None) of
     None \<Rightarrow> b
   | Some m \<Rightarrow> (bump_revision (fst (stamp_confirmation_if_needed (clock (mb_media_buy_id b)) (m = ACTIVE)
       (b\<lparr>mb_status := status_value m\<rparr>))))\<lparr>mb_updated_at := clock (mb_media_buy_id b)\<rparr>)"

lemma compute_new_status_changes: "compute_new_status b now db = Some m \<Longrightarrow> status_value m \<noteq> mb_status b"
  by (auto simp: compute_new_status_def split: option.splits if_splits)

lemma are_creatives_approved_buys [simp]:
  "are_creatives_approved b (db\<lparr>media_buys := rows\<rparr>) = are_creatives_approved b db"
  by (simp add: are_creatives_approved_def)

lemma compute_new_status_buys [simp]:
  "compute_new_status b now (db\<lparr>media_buys := rows\<rparr>) = compute_new_status b now db"
  by (simp add: compute_new_status_def)

lemma sweep_row_key: "mb_media_buy_id (sweep_row now clock db b) = mb_media_buy_id b"
  "mb_tenant_id (sweep_row now clock db b) = mb_tenant_id b"
  "idem_clash r (sweep_row now clock db b) = idem_clash r b"
  "idem_clash (sweep_row now clock db b) r = idem_clash b r"
  by (auto simp: sweep_row_def bump_revision_def stamp_confirmation_if_needed_def idem_clash_def
      split: option.split)

lemma stamp_idem [simp]:
  "idem_clash r (fst (stamp_confirmation_if_needed now c b)) = idem_clash r b"
  "idem_clash r (b\<lparr>mb_status := s\<rparr>) = idem_clash r b"
  by (simp_all add: stamp_confirmation_if_needed_def idem_clash_def)

text \<open>One write of the loop is the row's image under \<open>sweep_row\<close>.\<close>

lemma update_status_sweep_row:
  assumes "distinct (map mb_media_buy_id (media_buys db))" "idem_unique (media_buys db)"
    "b \<in> set (media_buys db)" "swept b" "compute_new_status b now db0 = Some m"
  shows "\<exists>x. update_status (mb_tenant_id b) (clock (mb_media_buy_id b)) db (mb_media_buy_id b)
      (status_value m) (m = ACTIVE) None None
    = (db\<lparr>media_buys := update_where (\<lambda>r. mb_media_buy_id r = mb_media_buy_id b)
        (\<lambda>r. sweep_row now clock db0 b) (media_buys db)\<rparr>, Inr (Some x))"
proof -
  have g: "get_by_id (mb_tenant_id b) db (mb_media_buy_id b) = Some b"
    using assms(1,3) by (intro get_by_id_eq_SomeI) auto
  have u: "list_ex (\<lambda>r. mb_media_buy_id r \<noteq> mb_media_buy_id b \<and> idem_clash r b) (media_buys db) = False"
    using assms(2,3) unfolding list_ex_iff idem_unique_def by blast
  show ?thesis
    by (simp add: update_status_def g flush_media_buy_def Let_def write_media_buy_def sweep_row_def u
        assms(4,5))
qed

definition swept_upto ::
    "instant \<Rightarrow> (string \<Rightarrow> instant) \<Rightarrow> 'a creative_db_scheme \<Rightarrow> string set \<Rightarrow> media_buy list" where
  "swept_upto now clock db ids =
     map (\<lambda>r. if mb_media_buy_id r \<in> ids then sweep_row now clock db r else r) (media_buys db)"

lemma swept_upto_keys: "map mb_media_buy_id (swept_upto now clock db ids) = map mb_media_buy_id (media_buys db)"
  by (auto simp: swept_upto_def sweep_row_key)

lemma swept_upto_unique:
  assumes "idem_unique (media_buys db)"
  shows "idem_unique (swept_upto now clock db ids)"
proof -
  have "idem_clash (if mb_media_buy_id x \<in> ids then sweep_row now clock db x else x)
      (if mb_media_buy_id y \<in> ids then sweep_row now clock db y else y) = idem_clash x y" for x y
    by (simp add: sweep_row_key)
  with assms show ?thesis
    by (auto simp: idem_unique_def swept_upto_def sweep_row_key split: if_splits)
qed

lemma swept_upto_step:
  assumes "distinct (map mb_media_buy_id (media_buys db))" "b \<in> set (media_buys db)" "mb_media_buy_id b \<notin> ids"
  shows "update_where (\<lambda>r. mb_media_buy_id r = mb_media_buy_id b) (\<lambda>r. sweep_row now clock db b)
      (swept_upto now clock db ids) = swept_upto now clock db (insert (mb_media_buy_id b) ids)"
    and "b \<in> set (swept_upto now clock db ids)"
    and "sweep_row now clock db b = b \<Longrightarrow>
      swept_upto now clock db (insert (mb_media_buy_id b) ids) = swept_upto now clock db ids"
proof -
  have only: "r = b" if "r \<in> set (media_buys db)" "mb_media_buy_id r = mb_media_buy_id b" for r
    using distinct_key_eq [OF assms(1) that(1) assms(2) that(2)] .
  show "update_where (\<lambda>r. mb_media_buy_id r = mb_media_buy_id b) (\<lambda>r. sweep_row now clock db b)
      (swept_upto now clock db ids) = swept_upto now clock db (insert (mb_media_buy_id b) ids)"
    using only by (auto simp: swept_upto_def update_where_def sweep_row_key)
  show "b \<in> set (swept_upto now clock db ids)"
    using assms(2,3) by (auto simp: swept_upto_def intro: rev_image_eqI)
  show "swept_upto now clock db (insert (mb_media_buy_id b) ids) = swept_upto now clock db ids"
    if "sweep_row now clock db b = b"
    using only that by (auto simp: swept_upto_def)
qed

lemma sweep_loop_map:
  assumes "distinct (map mb_media_buy_id (media_buys db))" "idem_unique (media_buys db)"
    and "set bs \<subseteq> set (media_buys db)" "distinct (map mb_media_buy_id bs)" "list_all swept bs"
    and "mb_media_buy_id ` set bs \<inter> ids = {}"
  shows "\<exists>n. sweep_loop now clock bs (db\<lparr>media_buys := swept_upto now clock db ids\<rparr>) c
      = (db\<lparr>media_buys := swept_upto now clock db (mb_media_buy_id ` set bs \<union> ids)\<rparr>, Inr (c + n)) \<and>
    (n = 0 \<longrightarrow> swept_upto now clock db (mb_media_buy_id ` set bs \<union> ids) = swept_upto now clock db ids)"
  using assms(3-6)
proof (induction bs arbitrary: ids c)
  case (Cons b bs)
  have b: "b \<in> set (media_buys db)" "mb_media_buy_id b \<notin> ids" "swept b" using Cons.prems by auto
  note step = swept_upto_step [OF assms(1) b(1,2), where now = now and clock = clock]
  have un: "mb_media_buy_id ` set (b # bs) \<union> ids = mb_media_buy_id ` set bs \<union> insert (mb_media_buy_id b) ids"
    by auto
  have prem: "set bs \<subseteq> set (media_buys db)" "distinct (map mb_media_buy_id bs)" "list_all swept bs"
    "mb_media_buy_id ` set bs \<inter> insert (mb_media_buy_id b) ids = {}" using Cons.prems by auto
  show ?case
  proof (cases "compute_new_status b now db")
    case None
    then have "sweep_row now clock db b = b" by (simp add: sweep_row_def)
    then have same: "swept_upto now clock db (insert (mb_media_buy_id b) ids) = swept_upto now clock db ids"
      by (rule step(3))
    from Cons.IH [OF prem, of c] None show ?thesis unfolding un same by simp
  next
    case (Some m)
    let ?db = "db\<lparr>media_buys := swept_upto now clock db ids\<rparr>"
    have "distinct (map mb_media_buy_id (media_buys ?db))" using assms(1) by (simp add: swept_upto_keys)
    moreover have "idem_unique (media_buys ?db)" using swept_upto_unique [OF assms(2)] by simp
    moreover have "b \<in> set (media_buys ?db)" using step(2) by simp
    ultimately obtain x where upd: "update_status (mb_tenant_id b) (clock (mb_media_buy_id b)) ?db (mb_media_buy_id b)
        (status_value m) (m = ACTIVE) None None
      = (db\<lparr>media_buys := swept_upto now clock db (insert (mb_media_buy_id b) ids)\<rparr>, Inr (Some x))"
      using update_status_sweep_row [OF _ _ _ b(3) Some, of ?db clock] step(1) by auto
    obtain n where n: "sweep_loop now clock bs (db\<lparr>media_buys := swept_upto now clock db (insert (mb_media_buy_id b) ids)\<rparr>) (Suc c)
        = (db\<lparr>media_buys := swept_upto now clock db (mb_media_buy_id ` set bs \<union> insert (mb_media_buy_id b) ids)\<rparr>, Inr (Suc c + n))"
      using Cons.IH [OF prem, of "Suc c"] by blast
    show ?thesis
      unfolding un
      by (rule exI [of _ "Suc n"]) (simp add: Some compute_new_status_changes [OF Some] upd n)
  qed
qed simp

text \<open>The refinement: the sequence of reads and writes is one map over the table.\<close>

lemma update_statuses_map:
  assumes "mb_db_ok db"
  shows "update_statuses now clock db = db\<lparr>media_buys := map (sweep_row now clock db) (media_buys db)\<rparr>"
proof -
  let ?bs = "get_all_by_statuses db (activatable_statuses @ [ACTIVE])"
  have bs: "?bs = filter swept (media_buys db)" by (simp add: get_all_by_statuses_def swept_def [abs_def])
  have d: "distinct (map mb_media_buy_id (media_buys db))" using assms by (simp add: mb_db_ok_def)
  have base: "swept_upto now clock db {} = media_buys db" by (simp add: swept_upto_def)
  have fin: "swept_upto now clock db (mb_media_buy_id ` set ?bs) = map (sweep_row now clock db) (media_buys db)"
    unfolding swept_upto_def bs
  proof (rule map_cong [OF refl])
    fix r assume r: "r \<in> set (media_buys db)"
    have "mb_media_buy_id r \<in> mb_media_buy_id ` set (filter swept (media_buys db)) \<longleftrightarrow> swept r"
      using d r by (auto dest: distinct_key_eq)
    then show "(if mb_media_buy_id r \<in> mb_media_buy_id ` set (filter swept (media_buys db))
        then sweep_row now clock db r else r) = sweep_row now clock db r"
      by (simp add: sweep_row_def)
  qed
  have u: "idem_unique (media_buys db)" using assms by (simp add: mb_db_ok_def)
  have prem: "set ?bs \<subseteq> set (media_buys db)" "distinct (map mb_media_buy_id ?bs)" "list_all swept ?bs"
    "mb_media_buy_id ` set ?bs \<inter> {} = {}"
    using d by (auto simp: bs list_all_iff distinct_map_filter)
  have db: "db\<lparr>media_buys := media_buys db\<rparr> = db" by simp
  from sweep_loop_map [OF d u prem, of now clock 0] obtain n
    where "sweep_loop now clock ?bs db 0
      = (db\<lparr>media_buys := map (sweep_row now clock db) (media_buys db)\<rparr>, Inr n)"
    "n = 0 \<longrightarrow> map (sweep_row now clock db) (media_buys db) = media_buys db"
    unfolding base Un_empty_right fin db add_0 by blast
  then show ?thesis by (cases n) (simp_all add: update_statuses_def)
qed

text \<open>What one row can become.\<close>

lemma sweep_row_cases:
  obtains "sweep_row now clock db b = b"
  | s e where "flight_window b = Some (s, e)" "e < now" "swept b"
      "mb_status (sweep_row now clock db b) = ''completed''"
      "mb_confirmed_at (sweep_row now clock db b) = mb_confirmed_at b"
      "mb_revision (sweep_row now clock db b) = mb_revision b + 1"
  | s e where "flight_window b = Some (s, e)" "s \<le> now" "now \<le> e" "are_creatives_approved b db"
      "mb_status b \<in> status_value ` set activatable_statuses"
      "mb_status (sweep_row now clock db b) = ''active''"
      "mb_confirmed_at (sweep_row now clock db b) \<noteq> None"
      "mb_revision (sweep_row now clock db b) = mb_revision b + 1"
proof (cases "swept b \<and> compute_new_status b now db \<noteq> None")
  case False
  then have "sweep_row now clock db b = b" by (auto simp: sweep_row_def)
  then show ?thesis by (rule that(1))
next
  case True
  then obtain m where m: "compute_new_status b now db = Some m" and sw: "swept b" by auto
  from flight_window_row obtain s e where w: "flight_window b = Some (s, e)" by blast
  show ?thesis
  proof (cases "e < now")
    case True
    then have "m = COMPLETED"
      using m w by (auto simp: compute_new_status_def resolve_flight_window_status_def split: if_splits)
    then show ?thesis
      using that(2) [OF w True sw] m sw by (simp add: sweep_row_def stamp_confirmation_if_needed_def)
  next
    case False
    then have c: "m = ACTIVE" "s \<le> now" "are_creatives_approved b db"
      "mb_status b \<in> status_value ` set activatable_statuses"
      using m w by (auto simp: compute_new_status_def resolve_flight_window_status_def split: if_splits)
    then show ?thesis
      using that(3) [OF w c(2) _ c(3,4)] False m sw
      by (simp add: sweep_row_def stamp_confirmation_if_needed_def)
  qed
qed

lemma sweep_row_window [simp]:
  "flight_window (sweep_row now clock db b) = flight_window b"
  "are_creatives_approved (sweep_row now clock db b) db = are_creatives_approved b db"
  by (auto simp: sweep_row_def flight_window_def are_creatives_approved_def bump_revision_def
      stamp_confirmation_if_needed_def split: option.split)

lemma sweep_row_db [simp]: "sweep_row now clock (db\<lparr>media_buys := rows\<rparr>) b = sweep_row now clock db b"
  by (simp add: sweep_row_def)

lemma sweep_row_settled:
  "sweep_row now clock' db (sweep_row now clock db b) = sweep_row now clock db b"
proof (cases now clock db b rule: sweep_row_cases)
  case 1
  have "compute_new_status b now db = None \<or> \<not> swept b"
  proof (rule ccontr)
    assume "\<not> ?thesis"
    then obtain m where "compute_new_status b now db = Some m" "swept b" by auto
    then have "mb_revision (sweep_row now clock db b) = mb_revision b + 1"
      by (simp add: sweep_row_def)
    with 1 show False by simp
  qed
  with 1 show ?thesis by (auto simp: sweep_row_def)
next
  case (2 s e)
  then have "\<not> swept (sweep_row now clock db b)" by (simp add: swept_def activatable_statuses_def)
  then show ?thesis by (simp add: sweep_row_def [of now clock'])
next
  case (3 s e)
  then have "compute_new_status (sweep_row now clock db b) now db = None"
    by (simp add: compute_new_status_def resolve_flight_window_status_def)
  then show ?thesis by (simp add: sweep_row_def [of now clock'])
qed

lemma sweep_ok:
  assumes "mb_db_ok db"
  shows "mb_db_ok (db\<lparr>media_buys := map (sweep_row now clock db) (media_buys db)\<rparr>)"
proof -
  have all: "map (sweep_row now clock db) (media_buys db) = swept_upto now clock db UNIV"
    by (simp add: swept_upto_def)
  have ids: "mb_media_buy_id ` set (map (sweep_row now clock db) (media_buys db)) = mb_media_buy_id ` set (media_buys db)"
    by (simp add: image_image sweep_row_key)
  from assms show ?thesis
    using swept_upto_unique [of db now clock UNIV] swept_upto_keys [of now clock db UNIV] ids
    by (simp add: mb_db_ok_def all)
qed

section \<open>Properties\<close>


definition ex_sched :: creative_db where
  "ex_sched = \<lparr>media_buys = [(ex_buy ''b1'' ''t1'' ''pending_start'' None), ex_buy ''b2'' ''t2'' ''draft'' None],
     media_packages = [], creative_assignments = [], creative_rows = [],
     creative_reviews = [], product_rows = []\<rparr>"

lemma ex_sched_ok: "mb_db_ok ex_sched"
  by (simp add: mb_db_ok_def ex_sched_def ex_buy_def idem_unique_def idem_clash_def)

lemma ex_sched_run: "media_buys (update_statuses (utc_flight_start 15) (\<lambda>_. 99) ex_sched)
    = [(ex_buy ''b1'' ''t1'' ''active'' (Some 99))\<lparr>mb_revision := 2, mb_updated_at := 99\<rparr>,
       ex_buy ''b2'' ''t2'' ''draft'' None]"
  unfolding update_statuses_map [OF ex_sched_ok]
  by (simp add: ex_sched_def sweep_row_def swept_def activatable_statuses_def compute_new_status_def
      resolve_flight_window_status_def flight_window_def flight_window_of_def flight_edge_def aware_def
      are_creatives_approved_def ex_buy_def utc_flight_start_def utc_flight_end_def day_us_def
      stamp_confirmation_if_needed_def bump_revision_def media_buy_blank_def)


text \<open>The sweep settles: a second sweep at the same instant finds nothing to do, so no buy whose
  window has ended is left active or waiting, and no revision moves without a cause.\<close>

theorem sweep_settles:
  assumes "mb_db_ok db"
  shows "update_statuses now clock' (update_statuses now clock db) = update_statuses now clock db"
  unfolding update_statuses_map [OF assms] update_statuses_map [OF sweep_ok [OF assms]]
  by (simp add: comp_def sweep_row_settled)

lemma sweep_settles_witness:
  "update_statuses 5 (\<lambda>_. 7) (update_statuses 5 (\<lambda>_. 6) ex_sched) = update_statuses 5 (\<lambda>_. 6) ex_sched"
  by (rule sweep_settles [OF ex_sched_ok])

text \<open>
  The creatives of an assignment are looked up by tenant and creative id, while the primary key
  also has the principal: another principal's creative with the same id holds the buy back.
\<close>

definition ex_collision :: creative_db where
  "ex_collision = \<lparr>media_buys = [ex_buy ''b1'' ''t1'' ''pending_start'' None], media_packages = [],
     creative_assignments = [assignment_row ''a1'' ''t1'' 0 ''b1'' ''k1'' ''c1'' ''p1''],
     creative_rows = [(creative_blank ''c1'' ''t1'' ''p1'')\<lparr>cr_status := ''approved''\<rparr>,
       (creative_blank ''c1'' ''t1'' ''p2'')\<lparr>cr_status := ''rejected''\<rparr>],
     creative_reviews = [], product_rows = []\<rparr>"

lemma other_principals_creative_blocks:
  "update_statuses (utc_flight_start 15) clock ex_collision = ex_collision"
  by (simp add: update_statuses_def get_all_by_statuses_def ex_collision_def activatable_statuses_def
      compute_new_status_def resolve_flight_window_status_def flight_window_def flight_window_of_def
      flight_edge_def aware_def are_creatives_approved_def ex_buy_def utc_flight_start_def
      utc_flight_end_def day_us_def media_buy_blank_def assignment_row_def creative_blank_def)

text \<open>
  The approval gate (unapproved_creative_ids) takes a serving creative as cleared; the sweep does
  not: a buy the gate lets through, with its creative already active, is never activated.
\<close>

definition ex_active_creative :: creative_db where
  "ex_active_creative = ex_collision\<lparr>creative_rows := [(creative_blank ''c1'' ''t1'' ''p1'')\<lparr>cr_status := ''active''\<rparr>]\<rparr>"

lemma gate_and_sweep_disagree:
  "unapproved_creative_ids ''t1'' ex_active_creative ''b1'' = []"
  "update_statuses (utc_flight_start 15) (\<lambda>_. 0) ex_active_creative = ex_active_creative"
  by (simp_all add: ex_active_creative_def unapproved_creative_ids_def get_by_media_buy_def assignments_where_def
      admin_get_by_ids_def update_statuses_def get_all_by_statuses_def ex_collision_def activatable_statuses_def
      compute_new_status_def resolve_flight_window_status_def flight_window_def flight_window_of_def
      flight_edge_def aware_def are_creatives_approved_def ex_buy_def utc_flight_start_def
      utc_flight_end_def day_us_def media_buy_blank_def assignment_row_def creative_blank_def)

end
