(* ===== verification/Readiness.thy ===== *)
theory Readiness
  imports Status_Scheduler
begin

text \<open>
  The operational readiness of a media buy, src/src/admin/services/media_buy_readiness_service.py:
  the counts over assignments and creatives, the blocking issues and warnings, the state, and the
  per-tenant summary. Issues are values of a datatype in place of the sentences the code formats.
\<close>

record gam_row =
  gam_tenant_id :: string
  gam_order_id :: string
  gam_status :: string

record ready_db = creative_db +
  tenant_ad_servers :: "(string \<times> string option) list"
  gam_orders :: "gam_row list"
  gam_line_items :: "gam_row list"

datatype issue =
    Buy_not_found
  | Creation_failed
  | Packages_missing_creatives nat
  | Creatives_rejected nat
  | No_creatives_uploaded
  | Gam_order_gone string

datatype readiness_warning =
    Creatives_pending nat
  | Gam_order_waiting string
  | Gam_line_items_pending nat

record readiness =
  rd_state :: string
  rd_is_ready_to_activate :: bool
  rd_packages_total :: nat
  rd_packages_with_creatives :: nat
  rd_creatives_total :: nat
  rd_creatives_approved :: nat
  rd_creatives_pending :: nat
  rd_creatives_rejected :: nat
  rd_blocking_issues :: "issue list"
  rd_warnings :: "readiness_warning list"
  rd_gam_order_status :: "string option"
  rd_gam_line_items_total :: nat
  rd_gam_line_items_ready :: nat

text \<open>\<open>len((raw_request or {}).get("packages", []))\<close>.\<close>

fun json_falsy :: "json \<Rightarrow> bool" where
  "json_falsy JNull = True"
| "json_falsy (JBool b) = (\<not> b)"
| "json_falsy (JNum n) = (n = 0)"
| "json_falsy (JStr s) = (s = [])"
| "json_falsy (JList xs) = (xs = [])"
| "json_falsy (JObj kvs) = (kvs = [])"

fun json_len :: "json \<Rightarrow> nat res" where
  "json_len (JStr s) = Inr (length s)"
| "json_len (JList xs) = Inr (length xs)"
| "json_len (JObj kvs) = Inr (length kvs)"
| "json_len _ = Inl TypeError"

definition packages_in_request :: "json \<Rightarrow> nat res" where
  "packages_in_request raw = (
     if json_falsy raw then Inr 0
     else (case raw of
        JObj kvs \<Rightarrow> (case map_of kvs ''packages'' of None \<Rightarrow> Inr 0 | Some p \<Rightarrow> json_len p)
      | _ \<Rightarrow> Inl (OtherException ''AttributeError'')))"

definition failed_readiness :: "issue \<Rightarrow> readiness" where
  "failed_readiness i = \<lparr>rd_state = ''failed'', rd_is_ready_to_activate = False, rd_packages_total = 0,
     rd_packages_with_creatives = 0, rd_creatives_total = 0, rd_creatives_approved = 0,
     rd_creatives_pending = 0, rd_creatives_rejected = 0, rd_blocking_issues = [i], rd_warnings = [],
     rd_gam_order_status = None, rd_gam_line_items_total = 0, rd_gam_line_items_ready = 0\<rparr>"

definition compute_state ::
    "media_buy \<Rightarrow> instant \<Rightarrow> nat \<Rightarrow> nat \<Rightarrow> nat \<Rightarrow> nat \<Rightarrow> nat \<Rightarrow> nat \<Rightarrow> issue list \<Rightarrow> string" where
  "compute_state b now packages_total packages_with_creatives creatives_total creatives_approved
       creatives_pending creatives_rejected blocking_issues = (
     if mb_status b = ''failed'' then ''failed''
     else if mb_status b = ''paused'' then ''paused''
     else if mb_status b = ''pending_approval'' then ''needs_approval''
     else let start_time = (case mb_start_time b of Some t \<Rightarrow> to_utc t | None \<Rightarrow> utc_flight_start (mb_start_date b));
              end_time = (case mb_end_time b of Some t \<Rightarrow> to_utc t | None \<Rightarrow> utc_flight_end (mb_end_date b));
              has_blockers = (0 < length blocking_issues)
       in if end_time < now then ''completed''
          else if start_time \<le> now \<and> now \<le> end_time \<and> \<not> has_blockers \<and> creatives_approved = creatives_total
          then ''live''
          else if now < start_time \<and> \<not> has_blockers \<and> creatives_approved = creatives_total \<and> 0 < creatives_total
          then ''scheduled''
          else if packages_total = 0 then ''draft''
          else if packages_with_creatives < packages_total \<or> 0 < creatives_pending \<or>
            0 < creatives_rejected \<or> creatives_total = 0
          then ''needs_creatives''
          else ''draft'')"

definition count_status :: "string \<Rightarrow> creative_row list \<Rightarrow> nat" where
  "count_status s cs = length (filter (\<lambda>c. cr_status c = s) cs)"

definition assignments_of :: "string \<Rightarrow> string \<Rightarrow> 'a ready_db_scheme \<Rightarrow> creative_assignment list" where
  "assignments_of tenant media_buy_id db =
     filter (\<lambda>a. asg_tenant_id a = tenant \<and> asg_media_buy_id a = media_buy_id) (creative_assignments db)"

definition creatives_of :: "string \<Rightarrow> creative_assignment list \<Rightarrow> 'a ready_db_scheme \<Rightarrow> creative_row list" where
  "creatives_of tenant assignments db =
     filter (\<lambda>c. cr_tenant_id c = tenant \<and> cr_creative_id c \<in> set (map asg_creative_id assignments))
       (creative_rows db)"

definition creative_issues :: "nat \<Rightarrow> nat \<Rightarrow> nat \<Rightarrow> nat \<Rightarrow> issue list" where
  "creative_issues packages_total packages_with_creatives rejected creatives_total =
     (if 0 < packages_total \<and> packages_with_creatives < packages_total
      then [Packages_missing_creatives (packages_total - packages_with_creatives)] else [])
     @ (if 0 < rejected then [Creatives_rejected rejected] else [])
     @ (if creatives_total = 0 \<and> 0 < packages_total then [No_creatives_uploaded] else [])"

text \<open>The GAM order of the buy and its line items, for a tenant whose ad server is GAM.\<close>

definition gam_order_of :: "string \<Rightarrow> string \<Rightarrow> 'a ready_db_scheme \<Rightarrow> gam_row option" where
  "gam_order_of tenant media_buy_id db =
     (if map_of (tenant_ad_servers db) tenant = Some (Some ''google_ad_manager'')
      then find (\<lambda>g. gam_tenant_id g = tenant \<and> gam_order_id g = media_buy_id) (gam_orders db)
      else None)"

definition gam_items_of :: "string \<Rightarrow> string \<Rightarrow> 'a ready_db_scheme \<Rightarrow> gam_row list" where
  "gam_items_of tenant media_buy_id db =
     (if gam_order_of tenant media_buy_id db = None then []
      else filter (\<lambda>g. gam_tenant_id g = tenant \<and> gam_order_id g = media_buy_id) (gam_line_items db))"

definition gam_issues :: "gam_row option \<Rightarrow> issue list" where
  "gam_issues order = (case order of None \<Rightarrow> [] | Some g \<Rightarrow>
     if gam_status g \<in> {''CANCELED'', ''DELETED''} then [Gam_order_gone (gam_status g)] else [])"

definition gam_warnings :: "gam_row option \<Rightarrow> nat \<Rightarrow> nat \<Rightarrow> readiness_warning list" where
  "gam_warnings order items ready =
     (case order of None \<Rightarrow> [] | Some g \<Rightarrow>
        if gam_status g \<in> {''DRAFT'', ''PENDING_APPROVAL''} then [Gam_order_waiting (gam_status g)] else [])
     @ (if 0 < items \<and> ready < items then [Gam_line_items_pending (items - ready)] else [])"

definition readiness_report ::
    "media_buy \<Rightarrow> string \<Rightarrow> string \<Rightarrow> instant \<Rightarrow> 'a ready_db_scheme \<Rightarrow> nat \<Rightarrow> readiness" where
  "readiness_report b media_buy_id tenant now db packages_total = (
     let assignments = assignments_of tenant media_buy_id db;
         packages_with_creatives = length (remdups (map asg_package_id assignments));
         creatives_total = length (remdups (map asg_creative_id assignments));
         creatives = creatives_of tenant assignments db;
         approved = count_status ''approved'' creatives;
         pending = count_status ''pending_review'' creatives;
         rejected = count_status ''rejected'' creatives;
         order = gam_order_of tenant media_buy_id db;
         items = gam_items_of tenant media_buy_id db;
         items_ready = length (filter (\<lambda>g. gam_status g \<in> {''APPROVED'', ''DELIVERING'', ''READY''}) items);
         issues = creative_issues packages_total packages_with_creatives rejected creatives_total
           @ gam_issues order;
         state = compute_state b now packages_total packages_with_creatives creatives_total approved
           pending rejected issues
     in \<lparr>rd_state = state,
          rd_is_ready_to_activate = (length issues = 0 \<and> 0 < packages_total \<and>
            packages_with_creatives = packages_total \<and> approved = creatives_total \<and>
            (state = ''scheduled'' \<or> state = ''live'')),
          rd_packages_total = packages_total, rd_packages_with_creatives = packages_with_creatives,
          rd_creatives_total = creatives_total, rd_creatives_approved = approved,
          rd_creatives_pending = pending, rd_creatives_rejected = rejected,
          rd_blocking_issues = issues,
          rd_warnings = (if 0 < pending then [Creatives_pending pending] else [])
            @ gam_warnings order (length items) items_ready,
          rd_gam_order_status = map_option gam_status order,
          rd_gam_line_items_total = length items, rd_gam_line_items_ready = items_ready\<rparr>)"

definition get_readiness_state ::
    "string \<Rightarrow> string \<Rightarrow> instant \<Rightarrow> 'a ready_db_scheme \<Rightarrow> readiness res" where
  "get_readiness_state media_buy_id tenant now db = (case get_by_id tenant db media_buy_id of
     None \<Rightarrow> Inr (failed_readiness Buy_not_found)
   | Some b \<Rightarrow>
       if mb_status b = ''failed'' then Inr (failed_readiness Creation_failed)
       else (case packages_in_request (mb_raw_request b) of
         Inl e \<Rightarrow> Inl e
       | Inr packages_total \<Rightarrow> Inr (readiness_report b media_buy_id tenant now db packages_total)))"

text \<open>\<open>summary[state] = summary.get(state, 0) + 1\<close>.\<close>

fun dict_incr :: "string \<Rightarrow> (string \<times> nat) list \<Rightarrow> (string \<times> nat) list" where
  "dict_incr k [] = [(k, 1)]"
| "dict_incr k ((k', n) # rest) = (if k' = k then (k', Suc n) # rest else (k', n) # dict_incr k rest)"

definition readiness_states :: "string list" where
  "readiness_states = [''live'', ''scheduled'', ''needs_creatives'', ''needs_approval'', ''paused'',
     ''completed'', ''failed'', ''draft'']"

fun summarise ::
    "string \<Rightarrow> instant \<Rightarrow> 'a ready_db_scheme \<Rightarrow> media_buy list \<Rightarrow> (string \<times> nat) list
      \<Rightarrow> (string \<times> nat) list res" where
  "summarise tenant now db [] summary = Inr summary"
| "summarise tenant now db (b # bs) summary =
     (case get_readiness_state (mb_media_buy_id b) tenant now db of
        Inl e \<Rightarrow> Inl e
      | Inr r \<Rightarrow> summarise tenant now db bs (dict_incr (rd_state r) summary))"

definition get_tenant_readiness_summary ::
    "string \<Rightarrow> instant \<Rightarrow> 'a ready_db_scheme \<Rightarrow> (string \<times> nat) list res" where
  "get_tenant_readiness_summary tenant now db =
     summarise tenant now db (list_all_buys tenant db) (map (\<lambda>s. (s, 0)) readiness_states)"

section \<open>Lemmas\<close>

lemma compute_state_vocabulary:
  "compute_state b now pt pc ct ap pe rj iss \<in> set readiness_states"
  by (simp add: compute_state_def readiness_states_def Let_def)

lemma readiness_report_state:
  "\<exists>pt pc ct ap pe rj iss. rd_state (readiness_report b i t now db n) = compute_state b now pt pc ct ap pe rj iss"
  unfolding readiness_report_def Let_def readiness.simps by blast

lemma get_readiness_state_vocabulary:
  assumes "get_readiness_state i t now db = Inr r"
  shows "rd_state r \<in> set readiness_states"
proof -
  have f: "rd_state (failed_readiness x) \<in> set readiness_states" for x
    by (simp add: failed_readiness_def readiness_states_def)
  have "rd_state (readiness_report b i t now db n) \<in> set readiness_states" for b n
    using readiness_report_state [of b i t now db n] compute_state_vocabulary by metis
  with assms f show ?thesis
    by (auto simp: get_readiness_state_def split: option.splits sum.splits if_splits)
qed

lemma dict_incr_keys: "k \<in> set (map fst d) \<Longrightarrow> map fst (dict_incr k d) = map fst d"
  by (induction k d rule: dict_incr.induct) auto

lemma dict_incr_total: "sum_list (map snd (dict_incr k d)) = Suc (sum_list (map snd d))"
  by (induction k d rule: dict_incr.induct) auto

lemma summarise_spec:
  assumes "summarise t now db bs d = Inr s" "map fst d = readiness_states"
  shows "map fst s = readiness_states \<and> sum_list (map snd s) = sum_list (map snd d) + length bs"
  using assms
proof (induction bs arbitrary: d)
  case (Cons b bs)
  from Cons.prems(1) obtain r where r: "get_readiness_state (mb_media_buy_id b) t now db = Inr r"
    and rec: "summarise t now db bs (dict_incr (rd_state r) d) = Inr s"
    by (auto split: sum.splits)
  have "map fst (dict_incr (rd_state r) d) = readiness_states"
    using dict_incr_keys [of "rd_state r" d] get_readiness_state_vocabulary [OF r] Cons.prems(2) by simp
  from Cons.IH [OF rec this] show ?case by (simp add: dict_incr_total)
qed simp

text \<open>The window the readiness state reads is the window of the write rule.\<close>

lemma readiness_window:
  "flight_window b = Some (case mb_start_time b of Some t \<Rightarrow> to_utc t | None \<Rightarrow> utc_flight_start (mb_start_date b),
     case mb_end_time b of Some t \<Rightarrow> to_utc t | None \<Rightarrow> utc_flight_end (mb_end_date b))"
  by (auto simp: flight_window_def flight_window_of_def flight_edge_def aware_def split: option.splits)

lemma compute_state_window:
  assumes "mb_status b \<notin> {''failed'', ''paused'', ''pending_approval''}"
  shows "compute_state b now pt pc ct ap pe rj iss = ''completed'' \<longleftrightarrow>
      resolve_flight_window_status b now True = Some COMPLETED"
    and "compute_state b now pt pc ct ap pe rj iss = ''live'' \<Longrightarrow>
      resolve_flight_window_status b now True = Some ACTIVE"
    and "compute_state b now pt pc ct ap pe rj iss = ''scheduled'' \<Longrightarrow>
      resolve_flight_window_status b now True = Some SCHEDULED"
  using assms
  by (auto simp: compute_state_def resolve_flight_window_status_def readiness_window Let_def
      split: if_splits)

text \<open>What a readiness report on an existing, not failed buy was computed from.\<close>

lemma get_readiness_stateD:
  assumes "get_readiness_state i t now db = Inr r" "get_by_id t db i = Some b" "mb_status b \<noteq> ''failed''"
  shows "\<exists>n. r = readiness_report b i t now db n"
  using assms by (auto simp: get_readiness_state_def split: sum.splits)

lemma readiness_report_ready:
  assumes "rd_is_ready_to_activate (readiness_report b i t now db n)"
  shows "count_status ''approved'' (creatives_of t (assignments_of t i db) db)
    = length (remdups (map asg_creative_id (assignments_of t i db)))"
  using assms by (simp add: readiness_report_def Let_def)

text \<open>When as many of the found creatives are approved as there are ids, all found are approved.\<close>

lemma all_found_approved:
  assumes "distinct (map cr_creative_id found)" "set (map cr_creative_id found) \<subseteq> set ids"
    and "count_status s found = length (remdups ids)"
  shows "list_all (\<lambda>c. cr_status c = s) found"
proof -
  have "length found = card (set (map cr_creative_id found))"
    using distinct_card [OF assms(1)] by simp
  also have "\<dots> \<le> card (set ids)" by (rule card_mono [OF _ assms(2)]) simp
  also have "\<dots> = length (remdups ids)" by (simp add: length_remdups_card_conv)
  finally have le: "length found \<le> length (filter (\<lambda>c. cr_status c = s) found)"
    using assms(3) by (simp add: count_status_def)
  have "filter (\<lambda>c. cr_status c = s) found = found"
  proof (rule ccontr)
    assume "filter (\<lambda>c. cr_status c = s) found \<noteq> found"
    then have "length (filter (\<lambda>c. cr_status c = s) found) < length found"
      by (metis filter_True length_filter_less)
    with le show False by simp
  qed
  then show ?thesis by (metis filter_id_conv list_all_iff)
qed

section \<open>Properties\<close>

text \<open>The tenant summary accounts for every buy: it has exactly the eight documented states as
  keys, in their order, and the counts add up to the number of the tenant's buys.\<close>

theorem summary_counts_every_buy:
  assumes "get_tenant_readiness_summary tenant now db = Inr s"
  shows "map fst s = readiness_states \<and> sum_list (map snd s) = length (list_all_buys tenant db)"
proof -
  have "map fst (map (\<lambda>s. (s, 0)) readiness_states) = readiness_states"
    by (simp add: readiness_states_def)
  from summarise_spec [OF assms [unfolded get_tenant_readiness_summary_def] this]
  show ?thesis by (simp add: readiness_states_def)
qed

definition ex_ready :: ready_db where
  "ex_ready = \<lparr>media_buys = [(ex_buy ''b1'' ''t1'' ''pending_start'' (Some 3))\<lparr>mb_raw_request := JObj [(''packages'', JList [JObj []])]\<rparr>],
     media_packages = [],
     creative_assignments = [assignment_row ''a1'' ''t1'' 0 ''b1'' ''k1'' ''c1'' ''p1''],
     creative_rows = [(creative_blank ''c1'' ''t1'' ''p1'')\<lparr>cr_status := ''approved''\<rparr>],
     creative_reviews = [], product_rows = [],
     tenant_ad_servers = [(''t1'', None)], gam_orders = [], gam_line_items = []\<rparr>"

lemmas ex_ready_simps = ex_ready_def ex_buy_def media_buy_blank_def get_by_id_def get_readiness_state_def
  packages_in_request_def readiness_report_def assignments_of_def creatives_of_def count_status_def
  creative_issues_def gam_order_of_def gam_items_of_def gam_issues_def gam_warnings_def compute_state_def
  utc_flight_start_def utc_flight_end_def day_us_def Let_def assignment_row_def creative_blank_def

lemma ex_ready_state: "\<exists>r. get_readiness_state ''b1'' ''t1'' (utc_flight_start 15) ex_ready = Inr r \<and>
    rd_state r = ''live'' \<and> rd_is_ready_to_activate r"
  by (simp add: ex_ready_simps)

lemma summary_counts_every_buy_witness:
  "\<exists>s. get_tenant_readiness_summary ''t1'' (utc_flight_start 15) ex_ready = Inr s \<and>
     sum_list (map snd s) = 1"
proof -
  obtain r where r: "get_readiness_state ''b1'' ''t1'' (utc_flight_start 15) ex_ready = Inr r"
    using ex_ready_state by blast
  have bs: "list_all_buys ''t1'' ex_ready = media_buys ex_ready" "map mb_media_buy_id (media_buys ex_ready) = [''b1'']"
    by (simp_all add: list_all_buys_def ex_ready_def ex_buy_def)
  then obtain s where s: "get_tenant_readiness_summary ''t1'' (utc_flight_start 15) ex_ready = Inr s"
    using r by (auto simp: get_tenant_readiness_summary_def)
  with summary_counts_every_buy [OF s] bs show ?thesis by (auto dest: map_eq_imp_length_eq)
qed


lemma ex_ready_ok: "mb_db_ok ex_ready"
  by (simp add: mb_db_ok_def ex_ready_def ex_buy_def idem_unique_def idem_clash_def)


text \<open>
  The final fallback of \<open>_compute_state\<close>, which its comment calls unreachable, is reached by a
  buy whose one assigned creative is still processing: it is reported as a draft without any
  blocking issue.
\<close>

lemma readiness_fallback_reached:
  "\<exists>r. get_readiness_state ''b1'' ''t1'' (utc_flight_start 15)
      (ex_ready\<lparr>creative_rows := [(creative_blank ''c1'' ''t1'' ''p1'')\<lparr>cr_status := ''processing''\<rparr>]\<rparr>) = Inr r \<and>
     rd_state r = ''draft'' \<and> rd_blocking_issues r = [] \<and> rd_packages_total r = rd_packages_with_creatives r"
  by (simp add: ex_ready_simps)

end
