(* ===== verification/Unit_Of_Work.thy ===== *)
theory Unit_Of_Work
  imports Prelude
begin

text \<open>
  The transaction boundary. BaseUoW of src/src/core/database/repositories/uow.py commits on a
  clean exit and discards on an exception or a preview; the effects a rollback cannot reach
  (outbound calls, background jobs) are queued in the transaction's scope by
  src/src/core/database/repositories/effects.py and run only after the commit. \<open>'w\<close> is
  everything an effect or a commit can change (the committed database and the outside world);
  the stack of scopes is \<open>session.info\<close> of the scoped session.
\<close>

section \<open>Deferred effects\<close>

text \<open>
  A queued effect: its label, whether its failure is fatal, and its run, which changes the
  world, may queue follow-ups on this transaction, and may raise.
\<close>

datatype 'w effect = Deferred_effect (ef_label: string) (ef_fatal: bool)
  (ef_run: "'w \<Rightarrow> 'w \<times> 'w effect list \<times> exn option")

record 'w effect_scope =
  sc_preview :: bool
  sc_queue :: "'w effect list"

type_synonym 'w scopes = "'w effect_scope list"

definition max_drain_rounds :: nat where
  "max_drain_rounds = 10"

text \<open>\<open>_current_scope\<close>: the last scope pushed.\<close>

definition current_scope :: "'w scopes \<Rightarrow> 'w effect_scope option" where
  "current_scope ss = (if ss = [] then None else Some (last ss))"

definition begin_effects :: "bool \<Rightarrow> 'w scopes \<Rightarrow> 'w scopes" where
  "begin_effects preview ss = ss @ [\<lparr>sc_preview = preview, sc_queue = []\<rparr>]"

definition end_effects :: "'w scopes \<Rightarrow> 'w scopes" where
  "end_effects ss = butlast ss"

definition register_after_commit :: "'w effect \<Rightarrow> 'w scopes \<Rightarrow> 'w scopes res" where
  "register_after_commit e ss = (case current_scope ss of
     None \<Rightarrow> Inl RuntimeError
   | Some sc \<Rightarrow> Inr (butlast ss @ [sc\<lparr>sc_queue := sc_queue sc @ [e]\<rparr>]))"

definition is_preview :: "'w scopes \<Rightarrow> bool" where
  "is_preview ss = list_ex sc_preview ss"

text \<open>
  A savepoint owns the effects queued inside it: when its block raises, the queue of the scope
  that was current on entry is cut back to its length on entry.
\<close>

definition effect_savepoint :: "('w scopes \<Rightarrow> 'w scopes \<times> 'a res) \<Rightarrow> 'w scopes \<Rightarrow> 'w scopes \<times> 'a res" where
  "effect_savepoint body ss = (
     let mark = (case current_scope ss of None \<Rightarrow> 0 | Some sc \<Rightarrow> length (sc_queue sc))
     in case body ss of
          (ss', Inr x) \<Rightarrow> (ss', Inr x)
        | (ss', Inl e) \<Rightarrow>
            (if ss = [] then (ss', Inl e)
             else let n = length ss - 1
               in (if n < length ss'
                   then ss'[n := (ss' ! n)\<lparr>sc_queue := take mark (sc_queue (ss' ! n))\<rparr>]
                   else ss', Inl e)))"

text \<open>\<open>outbound\<close>: the call, unless the owning transaction is a preview.\<close>

definition outbound :: "'w scopes \<Rightarrow> ('w \<Rightarrow> 'w \<times> 'a) \<Rightarrow> 'a option \<Rightarrow> 'w \<Rightarrow> 'w \<times> 'a option" where
  "outbound ss call preview_result w = (
     if is_preview ss then (w, preview_result)
     else (case call w of (w', x) \<Rightarrow> (w', Some x)))"

text \<open>
  One round of the drain over a snapshot of the queue, collecting what the effects queue
  meanwhile. A non-fatal failure is logged and swallowed; a fatal one ends the drain.
\<close>

fun run_batch :: "'w effect list \<Rightarrow> 'w \<Rightarrow> 'w \<times> 'w effect list \<times> exn option" where
  "run_batch [] w = (w, [], None)"
| "run_batch (e # es) w = (case ef_run e w of
     (w1, queued, raised) \<Rightarrow>
       (if raised \<noteq> None \<and> ef_fatal e then (w1, queued, raised)
        else (case run_batch es w1 of
          (w2, queued', raised') \<Rightarrow> (w2, queued @ queued', raised'))))"

fun drain_rounds :: "nat \<Rightarrow> 'w effect list \<Rightarrow> 'w \<Rightarrow> 'w \<times> 'w effect list \<times> exn option" where
  "drain_rounds 0 queue w = (w, queue, Some RuntimeError)"
| "drain_rounds (Suc n) queue w = (
     if queue = [] then (w, [], None)
     else (case run_batch queue w of
       (w', queue', Some e) \<Rightarrow> (w', queue', Some e)
     | (w', queue', None) \<Rightarrow> drain_rounds n queue' w'))"

definition drain_after_commit :: "'w scopes \<Rightarrow> 'w \<Rightarrow> 'w \<times> 'w scopes \<times> exn option" where
  "drain_after_commit ss w = (case current_scope ss of
     None \<Rightarrow> (w, ss, None)
   | Some sc \<Rightarrow> (case drain_rounds max_drain_rounds (sc_queue sc) w of
       (w', queue', raised) \<Rightarrow> (w', butlast ss @ [sc\<lparr>sc_queue := queue'\<rparr>], raised)))"

section \<open>The unit of work\<close>

text \<open>
  \<open>__exit__\<close> with the session's view and the outcome of the block. \<open>commit_raises\<close> is what
  \<open>session.commit()\<close> raises, if it does: that exception leaves \<open>__exit__\<close> from its first
  \<open>try\<close>, before the second one that drains and pops the scope.
\<close>

definition uow_exit ::
    "bool \<Rightarrow> exn option \<Rightarrow> 'w \<Rightarrow> 'w \<times> 'w scopes \<times> 'a res \<Rightarrow> 'w \<times> 'w scopes \<times> 'a res" where
  "uow_exit dry_run commit_raises w0 outcome = (case outcome of
     (view, ss, Inl e) \<Rightarrow> (w0, end_effects ss, Inl e)
   | (view, ss, Inr x) \<Rightarrow>
       if dry_run then (w0, end_effects ss, Inr x)
       else (case commit_raises of
          Some e \<Rightarrow> (w0, ss, Inl e)
        | None \<Rightarrow> (case drain_after_commit ss view of
            (w', ss', None) \<Rightarrow> (w', end_effects ss', Inr x)
          | (w', ss', Some e) \<Rightarrow> (w', end_effects ss', Inl e))))"

text \<open>
  \<open>with UoW(...) as uow: body\<close>. The body works on the session's view of \<open>w\<close>, which reaches
  the world only through the commit.
\<close>

definition run_uow ::
    "bool \<Rightarrow> exn option \<Rightarrow> ('w \<Rightarrow> 'w scopes \<Rightarrow> 'w \<times> 'w scopes \<times> 'a res) \<Rightarrow> 'w \<Rightarrow> 'w scopes
      \<Rightarrow> 'w \<times> 'w scopes \<times> 'a res" where
  "run_uow dry_run commit_raises body w ss =
     uow_exit dry_run commit_raises w (body w (begin_effects dry_run ss))"

section \<open>The drain\<close>

text \<open>An effect that neither queues a follow-up nor raises fatally.\<close>

definition plain_effect :: "'w effect \<Rightarrow> bool" where
  "plain_effect e = (\<forall>w. fst (snd (ef_run e w)) = [] \<and> (ef_fatal e \<longrightarrow> snd (snd (ef_run e w)) = None))"

definition apply_effect :: "'w effect \<Rightarrow> 'w \<Rightarrow> 'w" where
  "apply_effect e w = fst (ef_run e w)"

lemma run_batch_plain:
  assumes "\<forall>e\<in>set es. plain_effect e"
  shows "run_batch es w = (fold apply_effect es w, [], None)"
  using assms
proof (induction es arbitrary: w)
  case (Cons e es)
  obtain w1 q r where run: "ef_run e w = (w1, q, r)" by (metis prod_cases3)
  have "plain_effect e" using Cons.prems by simp
  then have "fst (snd (ef_run e w)) = [] \<and> (ef_fatal e \<longrightarrow> snd (snd (ef_run e w)) = None)"
    unfolding plain_effect_def by (rule spec)
  with run have "q = []" "ef_fatal e \<longrightarrow> r = None" by simp_all
  with run Cons.IH [of w1] Cons.prems show ?case
    by (cases "ef_fatal e") (simp_all add: apply_effect_def)
qed simp

lemma drain_rounds_plain:
  assumes "\<forall>e\<in>set es. plain_effect e" "1 < n"
  shows "drain_rounds n es w = (fold apply_effect es w, [], None)"
proof -
  obtain m where n: "n = Suc (Suc m)" using less_imp_Suc_add [OF assms(2)] by auto
  show ?thesis by (simp add: n run_batch_plain [OF assms(1)])
qed

text \<open>A chain of effects, each queueing the next: \<open>log_chain k\<close> runs k effects in k rounds.\<close>

fun log_chain :: "nat \<Rightarrow> nat effect list" where
  "log_chain 0 = []"
| "log_chain (Suc k) = [Deferred_effect ''follow-up'' False (\<lambda>w. (Suc w, log_chain k, None))]"

lemma drain_rounds_chain:
  "drain_rounds n (log_chain k) w =
     (if k < n then (w + k, [], None) else (w + n, log_chain (k - n), Some RuntimeError))"
proof (induction n arbitrary: k w)
  case (Suc n)
  then show ?case by (cases k) auto
qed simp

section \<open>Properties\<close>


text \<open>The deferred effects of a committed unit run exactly once each, in the order they were
  registered, on the committed view, and failures of non-fatal ones do not surface: when none of
  them queues a follow-up or fails fatally, the unit returns the block's value.\<close>

theorem effects_run_in_order:
  assumes "body w (begin_effects False ss) = (view, ss @ [\<lparr>sc_preview = False, sc_queue = es\<rparr>], Inr x)"
    and "\<forall>e\<in>set es. plain_effect e"
  shows "run_uow False None body w ss = (fold apply_effect es view, ss, Inr x)"
  using assms(1) drain_rounds_plain [OF assms(2), of max_drain_rounds view]
  by (simp add: run_uow_def uow_exit_def drain_after_commit_def current_scope_def end_effects_def
      max_drain_rounds_def)

definition log_effect :: "string \<Rightarrow> string list effect" where
  "log_effect l = Deferred_effect l False (\<lambda>w. (w @ [l], [], Some ValueError))"

lemma effects_run_in_order_witness:
  "run_uow False None (\<lambda>w ss. (w @ [''row''],
       butlast ss @ [(last ss)\<lparr>sc_queue := [log_effect ''a'', log_effect ''b'']\<rparr>], Inr (5::nat))) [] []
     = ([''row'', ''a'', ''b''], [], Inr 5)"
  using effects_run_in_order [of "\<lambda>w ss. (w @ [''row''],
       butlast ss @ [(last ss)\<lparr>sc_queue := [log_effect ''a'', log_effect ''b'']\<rparr>], Inr (5::nat))"
      "[]" "[]" "[''row'']" "[log_effect ''a'', log_effect ''b'']" 5]
  by (simp add: begin_effects_def plain_effect_def log_effect_def apply_effect_def)

text \<open>The drain bound: a chain of k follow-ups drains cleanly exactly when k is below
  _MAX_DRAIN_ROUNDS. At k equal to the bound every effect has run and nothing is pending, and the
  drain still raises, because emptiness is only tested at the start of a round.\<close>

theorem drain_chain_bound:
  "drain_rounds max_drain_rounds (log_chain k) w =
     (if k < max_drain_rounds then (w + k, [], None)
      else if k = max_drain_rounds then (w + k, [], Some RuntimeError)
      else (w + max_drain_rounds, log_chain (k - max_drain_rounds), Some RuntimeError))"
  by (simp add: drain_rounds_chain)

text \<open>A savepoint that rolls back discards exactly the effects queued inside it, whatever was
  queued before stays, and the exception goes on.\<close>

theorem savepoint_discards_queued:
  assumes "body (ss @ [sc]) = (ss @ [sc\<lparr>sc_queue := sc_queue sc @ new\<rparr>], Inl e)"
  shows "effect_savepoint body (ss @ [sc]) = (ss @ [sc], Inl e)"
  using assms by (simp add: effect_savepoint_def current_scope_def nth_append list_update_append)

lemma savepoint_discards_queued_witness:
  "effect_savepoint (\<lambda>ss. (butlast ss @ [(last ss)\<lparr>sc_queue := sc_queue (last ss) @ [log_effect ''ai_review'']\<rparr>],
       Inl ValueError :: nat res)) [\<lparr>sc_preview = False, sc_queue = [log_effect ''slack'']\<rparr>]
     = ([\<lparr>sc_preview = False, sc_queue = [log_effect ''slack'']\<rparr>], Inl ValueError)"
  by (rule savepoint_discards_queued [of _ "[]" "\<lparr>sc_preview = False, sc_queue = [log_effect ''slack'']\<rparr>"
        "[log_effect ''ai_review'']", simplified]) simp

text \<open>The scope a unit pushes is popped again on every exit but one: when the commit itself
  raises, the scope with its queued effects stays on the stack.\<close>

theorem scope_popped_unless_commit_raises:
  assumes "\<exists>view es r. body w (begin_effects dry_run ss)
      = (view, ss @ [\<lparr>sc_preview = dry_run, sc_queue = es\<rparr>], r)"
  shows "fst (snd (run_uow dry_run commit_raises body w ss)) = ss \<longleftrightarrow>
    (commit_raises = None \<or> dry_run \<or> \<not> is_ok (snd (snd (body w (begin_effects dry_run ss)))))"
proof -
  obtain view es r where b: "body w (begin_effects dry_run ss)
      = (view, ss @ [\<lparr>sc_preview = dry_run, sc_queue = es\<rparr>], r)" using assms by blast
  obtain w' q e where d: "drain_rounds max_drain_rounds es view = (w', q, e)" by (metis prod_cases3)
  show ?thesis
    using b d
    by (cases dry_run; cases r; cases commit_raises; cases e)
      (simp_all add: run_uow_def uow_exit_def end_effects_def drain_after_commit_def current_scope_def)
qed

text \<open>
  Consequence for a unit nested in another on the same scoped session: the effect queued by the
  inner unit, whose commit failed, is run by the commit of the outer unit, in place of the
  outer unit's own effects.
\<close>

definition queue_effect :: "'w effect \<Rightarrow> 'w \<Rightarrow> 'w scopes \<Rightarrow> 'w \<times> 'w scopes \<times> unit res" where
  "queue_effect e w ss = (case register_after_commit e ss of
     Inl x \<Rightarrow> (w, ss, Inl x)
   | Inr ss' \<Rightarrow> (w, ss', Inr ()))"

definition nested_body :: "string list \<Rightarrow> string list scopes \<Rightarrow> string list \<times> string list scopes \<times> unit res" where
  "nested_body w ss = (case queue_effect (log_effect ''outer'') w ss of
     (w1, ss1, _) \<Rightarrow> (case run_uow False (Some IntegrityError) (queue_effect (log_effect ''inner'')) w1 ss1 of
       (w2, ss2, _) \<Rightarrow> (w2, ss2, Inr ())))"

lemma failed_inner_effect_runs:
  "fst (run_uow False None nested_body [] []) = [''inner'']"
  by (simp add: run_uow_def uow_exit_def nested_body_def queue_effect_def register_after_commit_def
      begin_effects_def current_scope_def log_effect_def drain_after_commit_def max_drain_rounds_def
      numeral_eq_Suc)

lemma scope_popped_unless_commit_raises_witness:
  "fst (snd (run_uow False (Some IntegrityError) (queue_effect (log_effect ''x'')) [] [])) \<noteq> []"
  using scope_popped_unless_commit_raises [of "queue_effect (log_effect ''x'')" "[]" False "[]" "Some IntegrityError"]
  by (simp add: queue_effect_def register_after_commit_def begin_effects_def current_scope_def)

end
