(* ===== verification/Db_Session.thy ===== *)
theory Db_Session
  imports Clock
begin

text \<open>
  The session gate and the retry loop of src/src/core/database/database_session.py: how a
  database error is classified, the process-wide fail-fast state that get_db_session consults
  and trips, execute_with_retry, and check_database_health. The work done in a session is a
  parameter: what attempt n returns or raises, and when.
\<close>

text \<open>
  What the code reads of a SQLAlchemyError: its classes, \<open>connection_invalidated\<close>, and the two
  spellings of the SQLSTATE on \<open>orig\<close>.
\<close>

record sa_error =
  sa_operational :: bool
  sa_disconnection :: bool
  sa_dbapi :: bool
  sa_invalidated :: bool
  sa_pgcode :: "string option"
  sa_sqlstate :: "string option"

datatype session_exn =
    Sa_exn sa_error
  | Other_exn exn

definition sqlstate :: "sa_error \<Rightarrow> string option" where
  "sqlstate e = (if truthy_str (sa_pgcode e) then sa_pgcode e else sa_sqlstate e)"

definition connection_lost :: "sa_error \<Rightarrow> bool" where
  "connection_lost e = (sa_disconnection e \<or> (sa_dbapi e \<and> sa_invalidated e))"

definition server_never_answered :: "sa_error \<Rightarrow> bool" where
  "server_never_answered e = (sa_operational e \<and> \<not> connection_lost e \<and> sqlstate e = None)"

definition worth_retrying :: "sa_error \<Rightarrow> bool" where
  "worth_retrying e = (connection_lost e \<or> prefix ''40'' (or_str (sqlstate e) ''''))"

record db_health =
  dh_healthy :: bool
  dh_last_check :: instant

definition fail_fast_window :: int where
  "fail_fast_window = 10 * second_us"

definition health_check_interval :: int where
  "health_check_interval = 60 * second_us"

text \<open>get_db_session: the gate on entry, and what an exception from the block does to it.\<close>

definition session_enter :: "instant \<Rightarrow> db_health \<Rightarrow> unit res" where
  "session_enter now h =
     (if \<not> dh_healthy h \<and> now - dh_last_check h < fail_fast_window then Inl RuntimeError else Inr ())"

fun session_raised :: "instant \<Rightarrow> session_exn \<Rightarrow> db_health \<Rightarrow> db_health" where
  "session_raised now (Sa_exn e) h =
     (if server_never_answered e then h\<lparr>dh_healthy := False, dh_last_check := now\<rparr> else h)"
| "session_raised now (Other_exn e) h = h"

text \<open>
  execute_with_retry. \<open>enter n\<close> and \<open>left n\<close> are the times attempt n opens and leaves its
  session, \<open>run n\<close> is what \<open>func\<close> and the commit did. The result carries the gate, the number of
  runs, the waits in units of half a second, and None for a loop of no attempts.
\<close>

fun retry_from ::
    "nat \<Rightarrow> nat \<Rightarrow> (nat \<Rightarrow> instant) \<Rightarrow> (nat \<Rightarrow> instant) \<Rightarrow> (nat \<Rightarrow> session_exn + 'a) \<Rightarrow> db_health
      \<Rightarrow> db_health \<times> nat \<times> nat list \<times> (session_exn + 'a) option" where
  "retry_from 0 attempt enter left run h = (h, 0, [], None)"
| "retry_from (Suc remaining) attempt enter left run h = (case session_enter (enter attempt) h of
     Inl e \<Rightarrow> (h, 0, [], Some (Inl (Other_exn e)))
   | Inr _ \<Rightarrow> (case run attempt of
       Inr x \<Rightarrow> (h, 1, [], Some (Inr x))
     | Inl e \<Rightarrow> (let h' = session_raised (left attempt) e h in
         (case e of
            Other_exn _ \<Rightarrow> (h', 1, [], Some (Inl e))
          | Sa_exn s \<Rightarrow>
              if remaining = 0 \<or> \<not> worth_retrying s then (h', 1, [], Some (Inl e))
              else (case retry_from remaining (Suc attempt) enter left run h' of
                (h'', n, waits, r) \<Rightarrow> (h'', Suc n, 2 ^ attempt # waits, r))))))"

definition execute_with_retry ::
    "nat \<Rightarrow> (nat \<Rightarrow> instant) \<Rightarrow> (nat \<Rightarrow> instant) \<Rightarrow> (nat \<Rightarrow> session_exn + 'a) \<Rightarrow> db_health
      \<Rightarrow> db_health \<times> nat \<times> nat list \<times> (session_exn + 'a) option" where
  "execute_with_retry max_retries = retry_from max_retries 0"

text \<open>
  check_database_health; \<open>probe\<close> is what SELECT 1 did when the gate let it through, \<open>t\<close> the time
  it ended. The boolean is the reported health.
\<close>

definition check_database_health ::
    "bool \<Rightarrow> instant \<Rightarrow> instant \<Rightarrow> (session_exn + unit) \<Rightarrow> db_health \<Rightarrow> db_health \<times> bool" where
  "check_database_health force now t probe h = (
     if \<not> force \<and> now - dh_last_check h < health_check_interval then (h, dh_healthy h)
     else (case session_enter now h of
        Inl e \<Rightarrow> (h\<lparr>dh_healthy := False, dh_last_check := t\<rparr>, False)
      | Inr _ \<Rightarrow> (case probe of
          Inr _ \<Rightarrow> (h\<lparr>dh_healthy := True, dh_last_check := t\<rparr>, True)
        | Inl e \<Rightarrow> (h\<lparr>dh_healthy := False, dh_last_check := t\<rparr>, False))))"

section \<open>Classification\<close>

text \<open>A statement the server cancelled is neither retried nor trips the gate.\<close>

lemma answered_error_inert:
  assumes "sqlstate e = Some code" "\<not> prefix ''40'' code" "\<not> connection_lost e"
  shows "\<not> worth_retrying e \<and> \<not> server_never_answered e"
  using assms by (cases code) (auto simp: worth_retrying_def server_never_answered_def or_str_def)

lemma never_answered_not_retried: "server_never_answered e \<Longrightarrow> \<not> worth_retrying e"
  by (auto simp: server_never_answered_def worth_retrying_def)

section \<open>The retry loop\<close>

lemma session_raised_worth: "worth_retrying s \<Longrightarrow> session_raised t (Sa_exn s) h = h"
  using never_answered_not_retried by auto

lemma session_enter_open: "dh_healthy h \<Longrightarrow> session_enter t h = Inr ()"
  by (simp add: session_enter_def)

lemma retry_from_open:
  assumes "dh_healthy h"
  shows "case retry_from m a enter left run h of (h', n, waits, r) \<Rightarrow>
    n \<le> m \<and> (m \<noteq> 0 \<longrightarrow> 1 \<le> n \<and> r = Some (run (a + n - 1))) \<and>
    (\<forall>i. i < n - 1 \<longrightarrow> (\<exists>s. run (a + i) = Inl (Sa_exn s) \<and> worth_retrying s)) \<and>
    waits = map (\<lambda>i. 2 ^ (a + i)) [0..<n - 1]"
  using assms
proof (induction m arbitrary: a h)
  case (Suc m)
  note op = session_enter_open [OF Suc.prems]
  show ?case
  proof (cases "\<exists>s. run a = Inl (Sa_exn s) \<and> worth_retrying s \<and> m \<noteq> 0")
    case True
    then obtain s where s: "run a = Inl (Sa_exn s)" "worth_retrying s" "m \<noteq> 0" by blast
    obtain h' n waits r where rec: "retry_from m (Suc a) enter left run h = (h', n, waits, r)"
      by (metis prod_cases4)
    have IH: "n \<le> m" "1 \<le> n" "r = Some (run (Suc a + n - 1))"
      "\<forall>i. i < n - 1 \<longrightarrow> (\<exists>s. run (Suc a + i) = Inl (Sa_exn s) \<and> worth_retrying s)"
      "waits = map (\<lambda>i. 2 ^ (Suc a + i)) [0..<n - 1]"
      using Suc.IH [OF Suc.prems, of "Suc a"] rec s(3) by auto
    have w: "2 ^ a # waits = map (\<lambda>i. 2 ^ (a + i)) [0..<n]"
    proof -
      have "[0..<n] = 0 # map Suc [0..<n - 1]"
        using IH(2) by (cases n) (simp_all add: upt_conv_Cons map_Suc_upt)
      then show ?thesis by (simp add: IH(5))
    qed
    have early: "\<exists>s. run (a + i) = Inl (Sa_exn s) \<and> worth_retrying s" if "i < n" for i
      using that s IH(4) by (cases i) auto
    show ?thesis
      using s IH(1-3) w early op rec by (simp add: session_raised_worth del: session_raised.simps)
  next
    case False
    then show ?thesis using op
      by (auto split: sum.splits session_exn.splits simp: Let_def)
  qed
qed simp

section \<open>Properties\<close>

text \<open>execute_with_retry with an open gate runs its transaction between once and max_retries
  times and returns what the last run returned or raised; every run before the last ended in an
  error worth retrying, so a run that commits is never repeated, and the waits double from half
  a second.\<close>

theorem execute_with_retry_runs:
  assumes "dh_healthy h" "0 < m" "execute_with_retry m enter left run h = (h', n, waits, r)"
  shows "1 \<le> n \<and> n \<le> m \<and> r = Some (run (n - 1)) \<and>
    (\<forall>i. i < n - 1 \<longrightarrow> (\<exists>s. run i = Inl (Sa_exn s) \<and> worth_retrying s)) \<and>
    waits = map (\<lambda>i. 2 ^ i) [0..<n - 1]"
  using retry_from_open [OF assms(1), where m = m and a = 0 and enter = enter and left = left and run = run] assms(2,3)
  by (simp add: execute_with_retry_def)

definition deadlock :: sa_error where
  "deadlock = \<lparr>sa_operational = True, sa_disconnection = False, sa_dbapi = True,
     sa_invalidated = False, sa_pgcode = Some ''40P01'', sa_sqlstate = None\<rparr>"

lemma execute_with_retry_runs_witness:
  "fst (snd (execute_with_retry 3 (\<lambda>_. 0) (\<lambda>_. 0)
     (\<lambda>n. if n < 2 then Inl (Sa_exn deadlock) else Inr (7::nat)) \<lparr>dh_healthy = True, dh_last_check = 0\<rparr>)) \<le> 3"
proof -
  define run where "run = (\<lambda>n::nat. if n < 2 then Inl (Sa_exn deadlock) else Inr (7::nat))"
  obtain h' n waits r where e: "execute_with_retry 3 (\<lambda>_. 0) (\<lambda>_. 0) run
      \<lparr>dh_healthy = True, dh_last_check = 0\<rparr> = (h', n, waits, r)" by (metis prod_cases4)
  have "n \<le> 3" using execute_with_retry_runs [OF _ _ e] by simp
  then show ?thesis using e by (simp add: run_def)
qed

text \<open>
  A forced health check that arrives inside the fail-fast window is refused by the gate it is
  meant to test, and records that refusal as a fresh failed check. \<open>polls\<close> are the start and end
  times of forced checks; each probe would succeed.
\<close>

fun forced_checks :: "(instant \<times> instant) list \<Rightarrow> db_health \<Rightarrow> db_health" where
  "forced_checks [] h = h"
| "forced_checks ((now, t) # polls) h = forced_checks polls (fst (check_database_health True now t (Inr ()) h))"

fun polled_within :: "instant \<Rightarrow> (instant \<times> instant) list \<Rightarrow> bool" where
  "polled_within prev [] = True"
| "polled_within prev ((now, t) # polls) = (now - prev < fail_fast_window \<and> polled_within t polls)"

text \<open>Once the gate is shut, forced health checks spaced closer than the fail-fast window keep
  it shut for ever, although the database answers every probe: no session opens until the polling
  pauses.\<close>

theorem forced_checks_keep_gate_shut:
  assumes "\<not> dh_healthy h" "polled_within (dh_last_check h) (polls @ [(now, t)])"
  shows "session_enter now (forced_checks polls h) = Inl RuntimeError"
  using assms
proof (induction polls arbitrary: h)
  case Nil
  then show ?case by (simp add: session_enter_def)
next
  case (Cons p polls)
  obtain a b where p: "p = (a, b)" by (cases p)
  let ?h = "h\<lparr>dh_healthy := False, dh_last_check := b\<rparr>"
  have "fst (check_database_health True a b (Inr ()) h) = ?h"
    using Cons.prems by (simp add: p check_database_health_def session_enter_def)
  then show ?case using Cons.IH [of ?h] Cons.prems by (simp add: p)
qed

lemma forced_checks_keep_gate_shut_witness:
  "session_enter 18000000 (forced_checks [(9000000, 9000001)] \<lparr>dh_healthy = False, dh_last_check = 0\<rparr>)
     = Inl RuntimeError"
  using forced_checks_keep_gate_shut [of "\<lparr>dh_healthy = False, dh_last_check = 0\<rparr>"
      "[(9000000, 9000001)]" 18000000 18000001]
  by (simp add: fail_fast_window_def second_us_def)

end
