(* ===== verification/Retry_After.thy ===== *)
theory Retry_After
  imports Prelude
begin

text \<open>
  Python floats as far as a Retry-After needs them (finite values as rationals, the infinities
  and not-a-number, with the comparisons \<open>min\<close> and \<open>max\<close> make) and the clamp of
  src/src/core/exceptions.py that every emitted retry_after goes through.
\<close>

datatype pyfloat =
    Fin rat
  | PInf
  | NInf
  | NaN

fun py_less :: "pyfloat \<Rightarrow> pyfloat \<Rightarrow> bool" where
  "py_less NaN _ = False"
| "py_less _ NaN = False"
| "py_less (Fin a) (Fin b) = (a < b)"
| "py_less (Fin _) PInf = True"
| "py_less (Fin _) NInf = False"
| "py_less PInf _ = False"
| "py_less NInf NInf = False"
| "py_less NInf _ = True"

text \<open>\<open>min(a, b)\<close> keeps its first argument unless the second is less; \<open>max\<close> likewise.\<close>

definition py_min :: "pyfloat \<Rightarrow> pyfloat \<Rightarrow> pyfloat" where
  "py_min a b = (if py_less b a then b else a)"

definition py_max :: "pyfloat \<Rightarrow> pyfloat \<Rightarrow> pyfloat" where
  "py_max a b = (if py_less a b then b else a)"

definition retry_after_max :: int where
  "retry_after_max = 3600"

text \<open>The clamp on a finite number of seconds.\<close>

definition clamp_retry_after :: "rat \<Rightarrow> int" where
  "clamp_retry_after seconds = min (max 1 \<lceil>seconds\<rceil>) retry_after_max"

text \<open>The clamp on any float: \<open>math.ceil\<close> raises on an infinity and on not-a-number.\<close>

fun clamp_float :: "pyfloat \<Rightarrow> int res" where
  "clamp_float (Fin s) = Inr (clamp_retry_after s)"
| "clamp_float PInf = Inl OverflowError"
| "clamp_float NInf = Inl OverflowError"
| "clamp_float NaN = Inl ValueError"

lemma clamp_retry_after_bounds: "1 \<le> clamp_retry_after s" "clamp_retry_after s \<le> 3600"
  by (simp_all add: clamp_retry_after_def retry_after_max_def)

end
