(* ===== verification/Idempotency.thy ===== *)
theory Idempotency
  imports Clock Tenant_Scope Retry_After
begin

text \<open>
  At-most-once execution of keyed requests: the declared posture
  (src/src/core/idempotency_policy.py), the verbatim success cache
  (src/src/core/database/repositories/idempotency_attempt.py), its admission policy
  (src/src/services/idempotency_policy.py), the shared replay path
  (src/src/core/idempotency_replay.py) and the boundary's use of it (\<open>_keyed_scope\<close>,
  \<open>_deserializer_for\<close> and \<open>_invoke\<close> of src/src/core/tools/_boundary.py). Response models and tool
  implementations are parameters; times are microseconds in UTC.
\<close>

section \<open>Declared posture\<close>

definition default_replay_ttl_seconds :: int where
  "default_replay_ttl_seconds = 86400"

definition default_replay_ttl :: int where
  "default_replay_ttl = default_replay_ttl_seconds * second_us"

definition min_replay_ttl_seconds :: int where
  "min_replay_ttl_seconds = 3600"

definition max_replay_ttl_seconds :: int where
  "max_replay_ttl_seconds = 604800"

record idempotency_posture =
  ip_supported :: bool
  ip_replay_ttl_seconds :: "int option"
  ip_in_flight_max_seconds :: "int option"
  ip_account_id_is_opaque :: bool

definition check_bounds :: "idempotency_posture \<Rightarrow> unit res" where
  "check_bounds p = (
     if \<not> ip_supported p then Inr ()
     else (case ip_replay_ttl_seconds p of
        None \<Rightarrow> Inl AdCPConfigurationError
      | Some ttl \<Rightarrow>
          if \<not> (min_replay_ttl_seconds \<le> ttl \<and> ttl \<le> max_replay_ttl_seconds) then Inl AdCPConfigurationError
          else (case ip_in_flight_max_seconds p of
             None \<Rightarrow> Inr ()
           | Some m \<Rightarrow> if ttl < m then Inl AdCPConfigurationError else Inr ())))"

datatype sdk_idempotency =
    Idempotency_unsupported
  | Idempotency_supported "int option" "int option" bool

definition to_sdk_union :: "idempotency_posture \<Rightarrow> sdk_idempotency" where
  "to_sdk_union p = (if \<not> ip_supported p then Idempotency_unsupported
     else Idempotency_supported (ip_replay_ttl_seconds p) (ip_in_flight_max_seconds p)
       (ip_account_id_is_opaque p))"

definition get_idempotency_posture :: idempotency_posture where
  "get_idempotency_posture = \<lparr>ip_supported = True,
     ip_replay_ttl_seconds = Some default_replay_ttl_seconds, ip_in_flight_max_seconds = None,
     ip_account_id_is_opaque = False\<rparr>"

lemma declared_posture_in_bounds: "check_bounds get_idempotency_posture = Inr ()"
  by (simp add: check_bounds_def get_idempotency_posture_def default_replay_ttl_seconds_def
      min_replay_ttl_seconds_def max_replay_ttl_seconds_def)

section \<open>The cache\<close>

record idem_attempt =
  ia_tenant_id :: string
  ia_principal_id :: string
  ia_account_id :: "string option"
  ia_tool_name :: string
  ia_idempotency_key :: string
  ia_payload_hash :: "string option"
  ia_envelope :: json
  ia_expires_at :: instant
  ia_created_at :: instant

definition scope_prefix :: "string \<Rightarrow> string \<Rightarrow> string option \<Rightarrow> idem_attempt \<Rightarrow> bool" where
  "scope_prefix tenant pid account r =
     (ia_tenant_id r = tenant \<and> ia_principal_id r = pid \<and> ia_account_id r = account)"

definition scope_filter :: "string \<Rightarrow> string \<Rightarrow> string option \<Rightarrow> string \<Rightarrow> idem_attempt \<Rightarrow> bool" where
  "scope_filter tenant pid account key r =
     (scope_prefix tenant pid account r \<and> ia_idempotency_key r = key)"

definition count_and_oldest ::
    "(idem_attempt \<Rightarrow> bool) \<Rightarrow> (idem_attempt \<Rightarrow> instant) \<Rightarrow> idem_attempt list \<Rightarrow> nat \<times> instant option" where
  "count_and_oldest scope column rows =
     (length (filter scope rows), min_of (map column (filter scope rows)))"

definition find_by_key ::
    "string \<Rightarrow> string \<Rightarrow> string option \<Rightarrow> string \<Rightarrow> instant \<Rightarrow> idem_attempt list \<Rightarrow> idem_attempt option" where
  "find_by_key tenant pid account key now rows =
     find (\<lambda>r. scope_filter tenant pid account key r \<and> now < ia_expires_at r) rows"

definition find_including_expired ::
    "string \<Rightarrow> string \<Rightarrow> string option \<Rightarrow> string \<Rightarrow> idem_attempt list \<Rightarrow> idem_attempt option" where
  "find_including_expired tenant pid account key rows = find (scope_filter tenant pid account key) rows"

text \<open>\<open>{"status": ..., "response": ...}\<close>.\<close>

definition success_envelope :: "string \<Rightarrow> json \<Rightarrow> json" where
  "success_envelope status body = JObj [(''status'', JStr status), (''response'', body)]"

definition record_success ::
    "string \<Rightarrow> string \<Rightarrow> string option \<Rightarrow> string \<Rightarrow> string \<Rightarrow> json \<Rightarrow> string \<Rightarrow> string \<Rightarrow> int \<Rightarrow> instant
      \<Rightarrow> idem_attempt list \<Rightarrow> idem_attempt list res" where
  "record_success tenant pid account tool key body status hash ttl now rows =
     (let a = \<lparr>ia_tenant_id = tenant, ia_principal_id = pid, ia_account_id = account, ia_tool_name = tool,
          ia_idempotency_key = key, ia_payload_hash = Some hash, ia_envelope = success_envelope status body,
          ia_expires_at = now + ttl, ia_created_at = now\<rparr>
      in if list_ex (scope_filter tenant pid account key) rows then Inl IntegrityError
         else Inr (rows @ [a]))"

definition count_inserts_since ::
    "string \<Rightarrow> string \<Rightarrow> string option \<Rightarrow> instant \<Rightarrow> idem_attempt list \<Rightarrow> nat \<times> instant option" where
  "count_inserts_since tenant pid account since rows =
     count_and_oldest (\<lambda>r. scope_prefix tenant pid account r \<and> since < ia_created_at r) ia_created_at rows"

definition count_active ::
    "string \<Rightarrow> string \<Rightarrow> string option \<Rightarrow> instant \<Rightarrow> idem_attempt list \<Rightarrow> nat \<times> instant option" where
  "count_active tenant pid account now rows =
     count_and_oldest (\<lambda>r. scope_prefix tenant pid account r \<and> now < ia_expires_at r) ia_expires_at rows"

definition expire_old :: "string \<Rightarrow> instant \<Rightarrow> idem_attempt list \<Rightarrow> idem_attempt list \<times> nat" where
  "expire_old tenant now rows = (
     let dead = (\<lambda>r. ia_tenant_id r = tenant \<and> ia_expires_at r \<le> now)
     in (filter (\<lambda>r. \<not> dead r) rows, length (filter dead rows)))"

section \<open>Admission\<close>

record limit_settings =
  ls_max_active_attempts_per_scope :: nat
  ls_insert_rate_window_seconds :: int
  ls_max_inserts_per_window :: nat

definition total_seconds :: "int \<Rightarrow> rat" where
  "total_seconds us = of_int us / 1000000"

definition enforce_insert_ceiling ::
    "limit_settings \<Rightarrow> string \<Rightarrow> string \<Rightarrow> string option \<Rightarrow> nat option \<Rightarrow> nat option \<Rightarrow> instant
      \<Rightarrow> idem_attempt list \<Rightarrow> unit res" where
  "enforce_insert_ceiling limits tenant pid account max_active rate_ceiling now rows = (
     let rate_limit = (case rate_ceiling of Some n \<Rightarrow> n | None \<Rightarrow> ls_max_inserts_per_window limits);
         window = ls_insert_rate_window_seconds limits * second_us;
         (recent, oldest_in_window) = count_inserts_since tenant pid account (now - window) rows
     in if rate_limit \<le> recent then
          (let window_seconds = \<lceil>total_seconds window\<rceil>;
               raw_wait = (case oldest_in_window of
                  None \<Rightarrow> 1
                | Some t \<Rightarrow> of_int window_seconds - total_seconds (now - t))
           in Inl (AdCPRateLimitError (min (clamp_retry_after raw_wait) window_seconds)))
        else
          (let limit = (case max_active of Some n \<Rightarrow> n | None \<Rightarrow> ls_max_active_attempts_per_scope limits);
               (active, oldest_expiry) = count_active tenant pid account now rows
           in if active < limit then Inr ()
              else Inl (AdCPRateLimitError (clamp_retry_after
                (case oldest_expiry of None \<Rightarrow> 1 | Some t \<Rightarrow> total_seconds (t - now))))))"

section \<open>Probe, cache and evict\<close>

definition raise_on_payload_conflict :: "string option \<Rightarrow> string option \<Rightarrow> unit res" where
  "raise_on_payload_conflict stored_hash request_hash =
     (if stored_hash \<noteq> None \<and> stored_hash \<noteq> request_hash then Inl AdCPIdempotencyConflictError else Inr ())"

definition lookup_cached_replay ::
    "limit_settings \<Rightarrow> (json \<Rightarrow> 'r option) \<Rightarrow> string \<Rightarrow> string \<Rightarrow> string option \<Rightarrow> string \<Rightarrow> string option
      \<Rightarrow> bool \<Rightarrow> instant \<Rightarrow> idem_attempt list \<Rightarrow> 'r option res" where
  "lookup_cached_replay limits deserialize tenant pid account key request_hash enforce_ceiling now rows =
     (case find_by_key tenant pid account key now rows of
        None \<Rightarrow>
          if enforce_ceiling then
            (case enforce_insert_ceiling limits tenant pid account None None now rows of
               Inl e \<Rightarrow> Inl e
             | Inr _ \<Rightarrow> Inr None)
          else Inr None
      | Some cached \<Rightarrow> (case raise_on_payload_conflict (ia_payload_hash cached) request_hash of
          Inl e \<Rightarrow> Inl e
        | Inr _ \<Rightarrow> Inr (deserialize (ia_envelope cached))))"

text \<open>Best effort: an IntegrityError is a lost race, and no failure reaches the caller.\<close>

definition cache_success ::
    "string \<Rightarrow> string \<Rightarrow> string option \<Rightarrow> string \<Rightarrow> string \<Rightarrow> json \<Rightarrow> string \<Rightarrow> string \<Rightarrow> instant
      \<Rightarrow> idem_attempt list \<Rightarrow> idem_attempt list" where
  "cache_success tenant pid account tool key body status hash now rows =
     (case record_success tenant pid account tool key body status hash default_replay_ttl now rows of
        Inl e \<Rightarrow> rows
      | Inr rows' \<Rightarrow> rows')"

text \<open>\<open>chosen\<close> is whether the draw fell below EVICTION_PROBABILITY.\<close>

definition maybe_evict_expired :: "bool \<Rightarrow> string \<Rightarrow> instant \<Rightarrow> idem_attempt list \<Rightarrow> idem_attempt list" where
  "maybe_evict_expired chosen tenant now rows = (if chosen then fst (expire_old tenant now rows) else rows)"

section \<open>The boundary\<close>

text \<open>
  What the boundary needs of a tool's response model: its protocol status, its JSON dump,
  \<open>revive\<close> (None when the body no longer validates or the model is unknown), and the replay
  marker.
\<close>

record 'r response_model =
  rm_status :: "'r \<Rightarrow> string option"
  rm_dump :: "'r \<Rightarrow> json"
  rm_revive :: "json \<Rightarrow> 'r option"
  rm_mark_replayed :: "'r \<Rightarrow> 'r"

definition deserializer_for :: "'r response_model \<Rightarrow> json \<Rightarrow> 'r option" where
  "deserializer_for model envelope = (case jget envelope ''response'' of
     None \<Rightarrow> None
   | Some body \<Rightarrow> map_option (rm_mark_replayed model) (rm_revive model body))"

definition keyed_scope ::
    "string option \<Rightarrow> (string \<times> string \<times> string option) option
      \<Rightarrow> (string \<times> string \<times> string option \<times> string) option" where
  "keyed_scope key replay_scope = (
     if \<not> truthy_str key then None
     else (case replay_scope of
        None \<Rightarrow> None
      | Some (tenant, pid, account) \<Rightarrow> Some (tenant, pid, account, the key)))"

text \<open>
  One request at the boundary: what the resolver and the registry supply, the implementation,
  and the times of the probe and of the cache write. The state is the cache beside \<open>'w\<close>, what
  implementations act on.
\<close>

record ('w, 'r) invocation =
  iv_tool :: string
  iv_impl :: "'w \<Rightarrow> 'w \<times> 'r res"
  iv_model :: "'r response_model"
  iv_key :: "string option"
  iv_scope :: "(string \<times> string \<times> string option) option"
  iv_hash :: string
  iv_start :: instant
  iv_done :: instant
  iv_evict :: bool

definition invoke ::
    "limit_settings \<Rightarrow> ('w, 'r) invocation \<Rightarrow> idem_attempt list \<times> 'w \<Rightarrow> (idem_attempt list \<times> 'w) \<times> 'r res" where
  "invoke limits iv st = (let (rows, w) = st in
     (case keyed_scope (iv_key iv) (iv_scope iv) of
        None \<Rightarrow> (case iv_impl iv w of (w', r) \<Rightarrow> ((rows, w'), r))
      | Some (tenant, pid, account, key) \<Rightarrow>
          (case lookup_cached_replay limits (deserializer_for (iv_model iv)) tenant pid account key
               (Some (iv_hash iv)) True (iv_start iv) rows of
             Inl e \<Rightarrow> (st, Inl e)
           | Inr (Some replay) \<Rightarrow> (st, Inr replay)
           | Inr None \<Rightarrow> (case iv_impl iv w of
               (w', Inl e) \<Rightarrow> ((rows, w'), Inl e)
             | (w', Inr result) \<Rightarrow>
                 (let rows' = cache_success tenant pid account (iv_tool iv) key (rm_dump (iv_model iv) result)
                        (or_str (rm_status (iv_model iv) result) ''completed'') (iv_hash iv) (iv_done iv) rows
                  in ((maybe_evict_expired (iv_evict iv) tenant (iv_done iv) rows', w'), Inr result))))))"

fun invoke_all ::
    "limit_settings \<Rightarrow> ('w, 'r) invocation list \<Rightarrow> idem_attempt list \<times> 'w \<Rightarrow> idem_attempt list \<times> 'w" where
  "invoke_all limits [] st = st"
| "invoke_all limits (iv # ivs) st = invoke_all limits ivs (fst (invoke limits iv st))"

section \<open>Lemmas\<close>

text \<open>The unique index on (tenant, principal, account, key), a NULL account equal to a NULL account.\<close>

definition ia_key :: "idem_attempt \<Rightarrow> string \<times> string \<times> string option \<times> string" where
  "ia_key r = (ia_tenant_id r, ia_principal_id r, ia_account_id r, ia_idempotency_key r)"

definition attempts_ok :: "idem_attempt list \<Rightarrow> bool" where
  "attempts_ok rows = distinct (map ia_key rows)"

lemma scope_filter_key: "scope_filter t p a k r \<longleftrightarrow> ia_key r = (t, p, a, k)"
  by (auto simp: scope_filter_def scope_prefix_def ia_key_def)

lemma record_success_ok:
  assumes "record_success t p a tool k body s h ttl now rows = Inr rows'" "attempts_ok rows"
  shows "attempts_ok rows'"
  using assms
  by (auto simp: record_success_def Let_def attempts_ok_def list_ex_iff scope_filter_key ia_key_def
      split: if_splits)

lemma cache_success_ok: "attempts_ok rows \<Longrightarrow> attempts_ok (cache_success t p a tool k body s h now rows)"
  by (auto simp: cache_success_def intro: record_success_ok split: sum.split)

lemma evict_ok: "attempts_ok rows \<Longrightarrow> attempts_ok (maybe_evict_expired c t now rows)"
  by (simp add: maybe_evict_expired_def expire_old_def Let_def attempts_ok_def distinct_map_filter)

lemma cache_success_subset: "set rows \<subseteq> set (cache_success t p a tool k body s h now rows)"
  by (auto simp: cache_success_def record_success_def Let_def split: sum.splits)

lemma evict_keeps_live:
  "r \<in> set rows \<Longrightarrow> now < ia_expires_at r \<Longrightarrow> r \<in> set (maybe_evict_expired c t now rows)"
  by (simp add: maybe_evict_expired_def expire_old_def Let_def)

text \<open>A row survives every invocation that is over before the row expires.\<close>

lemma invoke_rows:
  obtains "fst (fst (invoke limits iv (rows, w))) = rows"
  | t p a k body s where "fst (fst (invoke limits iv (rows, w)))
      = maybe_evict_expired (iv_evict iv) t (iv_done iv)
          (cache_success t p a (iv_tool iv) k body s (iv_hash iv) (iv_done iv) rows)"
proof (cases "keyed_scope (iv_key iv) (iv_scope iv)")
  case None
  then have "fst (fst (invoke limits iv (rows, w))) = rows"
    by (simp add: invoke_def split: prod.splits)
  then show ?thesis by (rule that(1))
next
  case (Some sc)
  obtain t p a k where sc: "sc = (t, p, a, k)" by (metis prod_cases4)
  consider (err) e where "lookup_cached_replay limits (deserializer_for (iv_model iv)) t p a k
      (Some (iv_hash iv)) True (iv_start iv) rows = Inl e"
    | (hit) r where "lookup_cached_replay limits (deserializer_for (iv_model iv)) t p a k
      (Some (iv_hash iv)) True (iv_start iv) rows = Inr (Some r)"
    | (miss) "lookup_cached_replay limits (deserializer_for (iv_model iv)) t p a k
      (Some (iv_hash iv)) True (iv_start iv) rows = Inr None"
    by (metis not_Some_eq obj_sumE)
  then show ?thesis
  proof cases
    case err
    then show ?thesis using Some sc by (intro that(1)) (simp add: invoke_def)
  next
    case hit
    then show ?thesis using Some sc by (intro that(1)) (simp add: invoke_def)
  next
    case miss
    obtain w' out where run: "iv_impl iv w = (w', out)" by (cases "iv_impl iv w")
    show ?thesis
    proof (cases out)
      case (Inl e)
      then show ?thesis using Some sc miss run by (intro that(1)) (simp add: invoke_def)
    next
      case (Inr result)
      then show ?thesis
        using Some sc miss run
        by (intro that(2) [of t p a k "rm_dump (iv_model iv) result"
              "or_str (rm_status (iv_model iv) result) ''completed''"])
          (simp add: invoke_def Let_def)
    qed
  qed
qed

lemma invoke_ok:
  assumes "attempts_ok rows"
  shows "attempts_ok (fst (fst (invoke limits iv (rows, w))))"
  by (cases rule: invoke_rows [where limits = limits and iv = iv and rows = rows and w = w]) (simp_all add: assms evict_ok cache_success_ok)

lemma invoke_keeps_live:
  assumes "r \<in> set rows" "iv_done iv < ia_expires_at r"
  shows "r \<in> set (fst (fst (invoke limits iv (rows, w))))"
proof (cases rule: invoke_rows [where limits = limits and iv = iv and rows = rows and w = w])
  case 1
  then show ?thesis using assms by simp
next
  case (2 t p a k body s)
  then show ?thesis
    using evict_keeps_live [OF subsetD [OF cache_success_subset assms(1)] assms(2)] by simp
qed

lemma invoke_all_keeps_live:
  assumes "attempts_ok (fst st)" "r \<in> set (fst st)" "\<forall>iv\<in>set ivs. iv_done iv < ia_expires_at r"
  shows "attempts_ok (fst (invoke_all limits ivs st)) \<and> r \<in> set (fst (invoke_all limits ivs st))"
  using assms
proof (induction ivs arbitrary: st)
  case (Cons iv ivs)
  obtain rows w where st: "st = (rows, w)" by (cases st)
  have "attempts_ok (fst (fst (invoke limits iv st)))" "r \<in> set (fst (fst (invoke limits iv st)))"
    using Cons.prems by (simp_all add: st invoke_ok invoke_keeps_live)
  with Cons.IH Cons.prems show ?case by simp
qed simp

lemma find_by_key_live:
  assumes "attempts_ok rows" "r \<in> set rows" "ia_key r = (t, p, a, k)" "now < ia_expires_at r"
  shows "find_by_key t p a k now rows = Some r"
  unfolding find_by_key_def
  by (rule find_key [where k = ia_key]) (use assms in \<open>auto simp: attempts_ok_def scope_filter_key\<close>)

text \<open>What a request meets when its scope holds a live row: a conflict or the stored answer.\<close>

lemma invoke_on_live_row:
  assumes "attempts_ok rows" "r \<in> set rows" "ia_key r = (t, p, a, k)" "iv_start iv < ia_expires_at r"
    and "keyed_scope (iv_key iv) (iv_scope iv) = Some (t, p, a, k)"
  shows "ia_payload_hash r = Some h \<Longrightarrow> h \<noteq> iv_hash iv \<Longrightarrow>
      invoke limits iv (rows, w) = ((rows, w), Inl AdCPIdempotencyConflictError)"
    and "ia_payload_hash r = Some (iv_hash iv) \<Longrightarrow> deserializer_for (iv_model iv) (ia_envelope r) = Some x \<Longrightarrow>
      invoke limits iv (rows, w) = ((rows, w), Inr x)"
  using find_by_key_live [OF assms(1-4)] assms(5)
  by (simp_all add: invoke_def lookup_cached_replay_def raise_on_payload_conflict_def)

section \<open>The storage bound\<close>

abbreviation active_count :: "string \<Rightarrow> string \<Rightarrow> string option \<Rightarrow> instant \<Rightarrow> idem_attempt list \<Rightarrow> nat" where
  "active_count t p a now rows \<equiv> fst (count_active t p a now rows)"

lemma active_count_antimono:
  assumes "now \<le> now'"
  shows "active_count t p a now' rows \<le> active_count t p a now rows"
proof -
  have "length (filter P rows) \<le> length (filter Q rows)" if "\<And>r. P r \<Longrightarrow> Q r" for P Q and rows :: "idem_attempt list"
    using that by (induction rows) (auto simp: le_SucI)
  then show ?thesis
    unfolding count_active_def count_and_oldest_def fst_conv using assms by fastforce
qed

lemma active_count_cache:
  "active_count t p a now (cache_success t' p' a' tool k body s h done rows) \<le>
     active_count t p a now rows + (if (t', p', a') = (t, p, a) then 1 else 0)"
  by (auto simp: cache_success_def record_success_def Let_def count_active_def count_and_oldest_def
      scope_prefix_def split: sum.splits)

lemma active_count_evict: "active_count t p a now (maybe_evict_expired c t' done rows) \<le> active_count t p a now rows"
proof -
  have "length (filter P (filter Q rows)) \<le> length (filter P rows)" for P Q and rows :: "idem_attempt list"
    by (induction rows) (auto simp: le_SucI)
  then show ?thesis
    by (simp add: maybe_evict_expired_def expire_old_def Let_def count_active_def count_and_oldest_def
        del: filter_filter)
qed

lemma enforce_insert_ceiling_admits:
  assumes "enforce_insert_ceiling limits t p a None None now rows = Inr u"
  shows "active_count t p a now rows < ls_max_active_attempts_per_scope limits"
  using assms by (auto simp: enforce_insert_ceiling_def Let_def split: prod.splits if_splits)

lemma invoke_storage:
  assumes "active_count t p a now0 rows \<le> ls_max_active_attempts_per_scope limits"
    and "now0 \<le> iv_start iv" "iv_start iv \<le> iv_done iv"
  shows "active_count t p a (iv_done iv) (fst (fst (invoke limits iv (rows, w)))) \<le> ls_max_active_attempts_per_scope limits"
proof -
  let ?L = "ls_max_active_attempts_per_scope limits"
  have base: "active_count t p a (iv_done iv) rows \<le> ?L"
    using active_count_antimono [of now0 "iv_done iv" t p a rows] assms by linarith
  show ?thesis
  proof (cases "fst (fst (invoke limits iv (rows, w))) = rows")
    case True
    with base show ?thesis by simp
  next
    case False
    then obtain t' p' a' k where sc: "keyed_scope (iv_key iv) (iv_scope iv) = Some (t', p', a', k)"
      by (cases "keyed_scope (iv_key iv) (iv_scope iv)") (auto simp: invoke_def split: prod.splits)
    have miss: "lookup_cached_replay limits (deserializer_for (iv_model iv)) t' p' a' k
        (Some (iv_hash iv)) True (iv_start iv) rows = Inr None"
      using False sc by (auto simp: invoke_def split: sum.splits option.splits)
    obtain body s where rows': "fst (fst (invoke limits iv (rows, w)))
        = maybe_evict_expired (iv_evict iv) t' (iv_done iv)
          (cache_success t' p' a' (iv_tool iv) k body s (iv_hash iv) (iv_done iv) rows)"
      using False sc miss by (auto simp: invoke_def Let_def split: prod.splits sum.splits)
    show ?thesis
    proof (cases "(t', p', a') = (t, p, a) \<and> find_by_key t' p' a' k (iv_start iv) rows = None")
      case True
      then have "active_count t p a (iv_start iv) rows < ?L"
        using miss enforce_insert_ceiling_admits
        by (auto simp: lookup_cached_replay_def split: sum.splits)
      then have "active_count t p a (iv_done iv) rows + 1 \<le> ?L"
        using active_count_antimono [OF assms(3), of t p a rows] by linarith
      then show ?thesis
        unfolding rows'
        using active_count_evict active_count_cache [of t p a "iv_done iv" t' p' a'] True
        by (smt (verit) le_trans)
    next
      case False
      have "cache_success t' p' a' (iv_tool iv) k body s (iv_hash iv) (iv_done iv) rows = rows"
        if same: "(t', p', a') = (t, p, a)"
      proof -
        obtain r where "find_by_key t' p' a' k (iv_start iv) rows = Some r" using False same by auto
        then have "list_ex (scope_filter t' p' a' k) rows"
          by (auto simp: find_by_key_def list_ex_iff dest: find_SomeD)
        then show ?thesis by (simp add: cache_success_def record_success_def)
      qed
      then have "active_count t p a (iv_done iv) (cache_success t' p' a' (iv_tool iv) k body s (iv_hash iv) (iv_done iv) rows) \<le> ?L"
        using base active_count_cache [of t p a "iv_done iv" t' p' a'] by (smt (verit) add_0_right le_trans)
      then show ?thesis unfolding rows' using active_count_evict le_trans by blast
    qed
  qed
qed

section \<open>The tenant contract\<close>

text \<open>One committed write of the repository by a tenant.\<close>

inductive idem_step :: "string \<Rightarrow> idem_attempt list \<Rightarrow> idem_attempt list \<Rightarrow> bool" for tenant rows where
  "record_success tenant pid account tool key body status hash ttl now rows = Inr rows' \<Longrightarrow>
     idem_step tenant rows rows'"
| "idem_step tenant rows (fst (expire_old tenant now rows))"

lemma idem_step_ok: "idem_step t rows rows' \<Longrightarrow> attempts_ok rows \<Longrightarrow> attempts_ok rows'"
  by (auto elim!: idem_step.cases intro: record_success_ok)
    (simp add: expire_old_def Let_def attempts_ok_def distinct_map_filter)

lemma idem_step_other:
  assumes "idem_step t rows rows'" "u \<noteq> t"
  shows "filter (\<lambda>r. ia_tenant_id r = u) rows' = filter (\<lambda>r. ia_tenant_id r = u) rows"
  using assms
proof (cases rule: idem_step.cases)
  case (1 pid account tool key body status hash ttl now)
  then show ?thesis using assms(2) by (auto simp: record_success_def Let_def split: if_splits)
next
  case (2 now)
  then show ?thesis
    unfolding 2 expire_old_def Let_def fst_conv filter_filter
    using assms(2) by (intro filter_cong) auto
qed

interpretation attempts: tenant_scoped attempts_ok idem_step "\<lambda>t. filter (\<lambda>r. ia_tenant_id r = t)"
  by unfold_locales (auto intro: idem_step_ok idem_step_other)

section \<open>Properties\<close>


definition ex_model :: "nat response_model" where
  "ex_model = \<lparr>rm_status = \<lambda>_. None, rm_dump = \<lambda>n. JNum (of_nat n),
     rm_revive = \<lambda>j. (case j of JNum q \<Rightarrow> Some (nat (floor q)) | _ \<Rightarrow> None), rm_mark_replayed = \<lambda>n. 100 + n\<rparr>"

definition ex_invocation :: "instant \<Rightarrow> (nat, nat) invocation" where
  "ex_invocation now = \<lparr>iv_tool = ''sync_creatives'', iv_impl = \<lambda>w. (Suc w, Inr w), iv_model = ex_model,
     iv_key = Some ''k'', iv_scope = Some (''t'', ''p'', None), iv_hash = ''h'', iv_start = now,
     iv_done = now, iv_evict = True\<rparr>"

definition ex_limits :: limit_settings where
  "ex_limits = \<lparr>ls_max_active_attempts_per_scope = 1000, ls_insert_rate_window_seconds = 10,
     ls_max_inserts_per_window = 300\<rparr>"


text \<open>A key that carries a different payload is refused for as long as its stored answer lives:
  over any later invocations inside the window the request conflicts, and neither runs the tool
  nor changes the cache.\<close>

theorem different_payload_conflicts:
  assumes "attempts_ok (fst st)" "r \<in> set (fst st)" "\<forall>i\<in>set ivs. iv_done i < ia_expires_at r"
    and "keyed_scope (iv_key iv) (iv_scope iv) = Some (ia_key r)" "iv_start iv < ia_expires_at r"
    and "ia_payload_hash r = Some h" "h \<noteq> iv_hash iv"
  shows "invoke limits iv (invoke_all limits ivs st) = (invoke_all limits ivs st, Inl AdCPIdempotencyConflictError)"
proof -
  obtain rows w where st2: "invoke_all limits ivs st = (rows, w)" by fastforce
  have "attempts_ok rows" "r \<in> set rows"
    using invoke_all_keeps_live [OF assms(1-3), of limits] st2 by auto
  moreover obtain t p a k where key: "ia_key r = (t, p, a, k)" by (metis prod_cases4)
  ultimately show ?thesis
    using invoke_on_live_row(1) [OF _ _ key assms(5) _ assms(6,7), of rows limits w] assms(4) st2 by simp
qed

definition ex_row :: idem_attempt where
  "ex_row = \<lparr>ia_tenant_id = ''t'', ia_principal_id = ''p'', ia_account_id = None, ia_tool_name = ''x'',
     ia_idempotency_key = ''k'', ia_payload_hash = Some ''other'', ia_envelope = JObj [], ia_expires_at = 50,
     ia_created_at = 1\<rparr>"

lemma different_payload_conflicts_witness:
  "snd (invoke ex_limits (ex_invocation 9) ([ex_row], 7)) = Inl AdCPIdempotencyConflictError"
  using different_payload_conflicts [of "([ex_row], 7)" ex_row "[] :: (nat, nat) invocation list" "ex_invocation 9" "''other''" ex_limits]
  by (simp add: attempts_ok_def ex_row_def ex_invocation_def keyed_scope_def ia_key_def)

text \<open>Admission decides exactly by its two bounds, and every refusal tells the buyer a wait that
  the protocol allows: an insert is admitted iff the scope is below both the rate and the storage
  bound, and otherwise retry_after is between 1 and 3600 seconds for any window of at least one
  second, whatever the clock skew on the stored rows.\<close>

theorem insert_ceiling_decision:
  assumes "1 \<le> ls_insert_rate_window_seconds limits"
  shows "case enforce_insert_ceiling limits t p a None None now rows of
      Inr _ \<Rightarrow>
        fst (count_inserts_since t p a (now - ls_insert_rate_window_seconds limits * second_us) rows)
          < ls_max_inserts_per_window limits \<and>
        active_count t p a now rows < ls_max_active_attempts_per_scope limits
    | Inl e \<Rightarrow> (\<exists>n. e = AdCPRateLimitError n \<and> 1 \<le> n \<and> n \<le> 3600) \<and>
        (ls_max_inserts_per_window limits
           \<le> fst (count_inserts_since t p a (now - ls_insert_rate_window_seconds limits * second_us) rows) \<or>
         ls_max_active_attempts_per_scope limits \<le> active_count t p a now rows)"
proof -
  have w: "\<lceil>total_seconds (ls_insert_rate_window_seconds limits * second_us)\<rceil> = ls_insert_rate_window_seconds limits"
    by (simp add: total_seconds_def second_us_def)
  have c: "1 \<le> clamp_retry_after s" "clamp_retry_after s \<le> 3600" for s
    by (simp_all add: clamp_retry_after_def retry_after_max_def)
  obtain n1 o1 where 1: "count_inserts_since t p a (now - ls_insert_rate_window_seconds limits * second_us) rows = (n1, o1)"
    by fastforce
  obtain n2 o2 where 2: "count_active t p a now rows = (n2, o2)" by fastforce
  show ?thesis
    using c assms by (auto simp: enforce_insert_ceiling_def Let_def 1 2 w min.coboundedI1)
qed

lemma insert_ceiling_decision_witness:
  "enforce_insert_ceiling ex_limits ''t'' ''p'' None None None 5 [] = Inr ()"
  using insert_ceiling_decision [of ex_limits "''t''" "''p''" None 5 "[]"]
  by (auto simp: enforce_insert_ceiling_def ex_limits_def count_inserts_since_def count_active_def
      count_and_oldest_def Let_def)

text \<open>\<open>in_order\<close>: each invocation starts after the previous one is over.\<close>

fun in_order :: "instant \<Rightarrow> ('w, 'r) invocation list \<Rightarrow> bool" where
  "in_order t [] = True"
| "in_order t (iv # ivs) = (t \<le> iv_start iv \<and> iv_start iv \<le> iv_done iv \<and> in_order (iv_done iv) ivs)"

fun end_time :: "instant \<Rightarrow> ('w, 'r) invocation list \<Rightarrow> instant" where
  "end_time t [] = t"
| "end_time t (iv # ivs) = end_time (iv_done iv) ivs"

text \<open>The storage bound is kept by the boundary: over any sequence of invocations in time order,
  whatever their tenants, keys, payloads and outcomes, no scope ever holds more live cached answers
  than the configured ceiling.\<close>

theorem storage_bound_kept:
  assumes "in_order now ivs" "active_count t p a now (fst st) \<le> ls_max_active_attempts_per_scope limits"
  shows "active_count t p a (end_time now ivs) (fst (invoke_all limits ivs st)) \<le> ls_max_active_attempts_per_scope limits"
  using assms
proof (induction ivs arbitrary: now st)
  case (Cons iv ivs)
  obtain rows w where st: "st = (rows, w)" by (cases st)
  have "active_count t p a (iv_done iv) (fst (fst (invoke limits iv st))) \<le> ls_max_active_attempts_per_scope limits"
    using invoke_storage [of t p a now rows limits iv w] Cons.prems st by simp
  with Cons.IH [of "iv_done iv" "fst (invoke limits iv st)"] Cons.prems(1) show ?case by simp
qed simp

lemma storage_bound_kept_witness:
  "active_count ''t'' ''p'' None 9 (fst (invoke_all ex_limits [ex_invocation 5, ex_invocation 9] ([], 0))) \<le> 1000"
  using storage_bound_kept [of 0 "[ex_invocation 5, ex_invocation 9]" "''t''" "''p''" None "([], 0)" ex_limits]
  by (simp add: ex_invocation_def ex_limits_def count_active_def count_and_oldest_def)

text \<open>
  The at-most-once promise ends for good with the window: an expired row that eviction has not
  yet removed is invisible to the lookup but still holds the unique index, so the new answer is
  never cached. Every retry of the key runs the tool again.
\<close>

lemma expired_row_defeats_caching:
  assumes "list_ex (scope_filter t p a k) rows" "find_by_key t p a k (iv_start iv) rows = None"
    and "keyed_scope (iv_key iv) (iv_scope iv) = Some (t, p, a, k)" "\<not> iv_evict iv"
    and "enforce_insert_ceiling limits t p a None None (iv_start iv) rows = Inr ()"
    and "iv_impl iv w = (w', Inr x)"
  shows "invoke limits iv (rows, w) = ((rows, w'), Inr x)"
  using assms
  by (simp add: invoke_def lookup_cached_replay_def cache_success_def record_success_def
      maybe_evict_expired_def Let_def)

end
