(* ===== verification/Replay_Store.thy ===== *)
theory Replay_Store
  imports Clock "HOL-Library.AList"
begin

text \<open>
  The deployment-wide replay cache for RFC 9421 signatures: the single-statement repository
  src/src/core/database/repositories/replay_nonce.py and the store
  src/src/core/signing/replay_store.py over it. The table is its rows by primary key; every
  statement is one atomic step at the database clock, so an interleaving of workers is a
  sequence of timed statements. Lifetimes are in microseconds.
\<close>

section \<open>The interface of a claim ledger\<close>

text \<open>
  What a verifier relies on: a claim answers whether the key was live, makes it live for its
  lifetime, and no step of any worker cuts a live key short. The client lemma: within the
  lifetime of an accepted claim every further claim of the key is a replay.
\<close>

inductive timed_run :: "(instant \<Rightarrow> 's \<Rightarrow> 's \<Rightarrow> bool) \<Rightarrow> instant list \<Rightarrow> 's \<Rightarrow> 's \<Rightarrow> bool" for step where
  run_Nil: "timed_run step [] s s"
| run_Cons: "timed_run step (t # ts) s s''" if "step t s s'" "timed_run step ts s' s''"

locale claim_ledger =
  fixes inv :: "'s \<Rightarrow> bool"
    and expiry :: "'s \<Rightarrow> 'k \<Rightarrow> instant option"
    and claim :: "instant \<Rightarrow> 'k \<Rightarrow> int \<Rightarrow> 's \<Rightarrow> 's \<times> bool"
    and step :: "'k \<Rightarrow> instant \<Rightarrow> 's \<Rightarrow> 's \<Rightarrow> bool"
  assumes claim_replay: "inv s \<Longrightarrow> snd (claim now k ttl s) \<longleftrightarrow> (\<exists>e. expiry s k = Some e \<and> now < e)"
    and claim_accept: "inv s \<Longrightarrow> \<not> snd (claim now k ttl s) \<Longrightarrow> expiry (fst (claim now k ttl s)) k = Some (now + ttl)"
    and claim_inv: "inv s \<Longrightarrow> inv (fst (claim now k ttl s))"
    and step_inv: "inv s \<Longrightarrow> step k now s s' \<Longrightarrow> inv s'"
    and step_keeps: "inv s \<Longrightarrow> step k now s s' \<Longrightarrow> expiry s k = Some e \<Longrightarrow> now < e \<Longrightarrow>
        \<exists>e'\<ge>e. expiry s' k = Some e'"
begin

lemma run_keeps:
  assumes "timed_run (step k) ts s s'" "inv s" "expiry s k = Some e" "\<forall>t\<in>set ts. t < e"
  shows "inv s' \<and> (\<exists>e'\<ge>e. expiry s' k = Some e')"
  using assms
proof (induction arbitrary: e rule: timed_run.induct)
  case (run_Cons t s s' ts s'')
  from step_keeps [OF run_Cons.prems(1) run_Cons.hyps(1) run_Cons.prems(2)] run_Cons.prems(3)
  obtain e' where "e \<le> e'" "expiry s' k = Some e'" by auto
  moreover from this run_Cons.prems(3) have "\<forall>t\<in>set ts. t < e'" by auto
  moreover have "inv s'" using step_inv run_Cons by blast
  ultimately show ?case using run_Cons.IH [of e'] by (metis order_trans)
qed auto

lemma claimed_once:
  assumes "inv s" "claim t0 k ttl s = (s1, False)" "timed_run (step k) ts s1 s2"
    and "\<forall>t\<in>set ts. t < t0 + ttl" "t < t0 + ttl"
  shows "snd (claim t k ttl' s2)"
proof -
  have "expiry s1 k = Some (t0 + ttl)" "inv s1"
    using claim_accept [OF assms(1), of t0 k ttl] claim_inv [OF assms(1), of t0 k ttl] assms(2) by auto
  from run_keeps [OF assms(3) this(2,1) assms(4)] show ?thesis
    using claim_replay [of s2 t k ttl'] assms(5) by auto
qed

end

section \<open>The repository\<close>

type_synonym nonce_key = "string \<times> string"
type_synonym nonce_table = "(nonce_key \<times> instant) list"

text \<open>
  INSERT ... ON CONFLICT DO UPDATE SET expires_at = EXCLUDED.expires_at WHERE ... RETURNING 1:
  the boolean is whether a row was written.
\<close>

definition upsert_expiry ::
    "nonce_key \<Rightarrow> int \<Rightarrow> (instant \<Rightarrow> instant \<Rightarrow> bool) \<Rightarrow> instant \<Rightarrow> nonce_table \<Rightarrow> nonce_table \<times> bool" where
  "upsert_expiry k ttl conflict_when now tbl = (let excluded = now + ttl in
     (case map_of tbl k of
        None \<Rightarrow> (AList.update k excluded tbl, True)
      | Some stored \<Rightarrow>
          if conflict_when stored excluded then (AList.update k excluded tbl, True) else (tbl, False)))"

definition claim :: "instant \<Rightarrow> nonce_key \<Rightarrow> int \<Rightarrow> nonce_table \<Rightarrow> nonce_table \<times> bool" where
  "claim now k ttl tbl = (case upsert_expiry k ttl (\<lambda>stored _. stored \<le> now) now tbl of
     (tbl', wrote) \<Rightarrow> (tbl', \<not> wrote))"

definition extend_claim :: "instant \<Rightarrow> nonce_key \<Rightarrow> int \<Rightarrow> nonce_table \<Rightarrow> nonce_table" where
  "extend_claim now k ttl tbl = fst (upsert_expiry k ttl (\<lambda>stored excluded. stored < excluded) now tbl)"

text \<open>OFFSET cap - 1 LIMIT 1 over the live rows of the keyid.\<close>

definition at_or_above_cap :: "instant \<Rightarrow> string \<Rightarrow> int \<Rightarrow> nonce_table \<Rightarrow> bool" where
  "at_or_above_cap now keyid cap tbl = (
     if cap \<le> 0 then True
     else take 1 (drop (nat (cap - 1)) (filter (\<lambda>(k, e). fst k = keyid \<and> now < e) tbl)) \<noteq> [])"

definition forget :: "nonce_key \<Rightarrow> nonce_table \<Rightarrow> nonce_table" where
  "forget k tbl = filter (\<lambda>(k', e). k' \<noteq> k) tbl"

text \<open>The DELETE of up to \<open>limit\<close> expired rows, with the number deleted.\<close>

fun reap_rows :: "instant \<Rightarrow> nat \<Rightarrow> nonce_table \<Rightarrow> nonce_table \<times> nat" where
  "reap_rows now limit [] = ([], 0)"
| "reap_rows now 0 tbl = (tbl, 0)"
| "reap_rows now (Suc limit) ((k, e) # tbl) = (
     if e \<le> now then (case reap_rows now limit tbl of (tbl', n) \<Rightarrow> (tbl', Suc n))
     else (case reap_rows now (Suc limit) tbl of (tbl', n) \<Rightarrow> ((k, e) # tbl', n)))"

section \<open>The store\<close>

record signing_settings =
  ss_per_keyid_cap :: int
  ss_per_keyid_cap_overrides :: "(string \<times> int) list"
  ss_replay_ttl_overrides :: "(string \<times> int) list"
  ss_replay_claim_ttl :: int

definition reap_batch :: nat where
  "reap_batch = 20000"

definition clamped_ttl :: "signing_settings \<Rightarrow> string \<Rightarrow> int \<Rightarrow> int" where
  "clamped_ttl cfg keyid ttl = (case map_of (ss_replay_ttl_overrides cfg) keyid of
     None \<Rightarrow> ttl | Some o' \<Rightarrow> min ttl o')"

definition claim_ttl :: "signing_settings \<Rightarrow> string \<Rightarrow> int" where
  "claim_ttl cfg keyid = clamped_ttl cfg keyid (ss_replay_claim_ttl cfg)"

text \<open>\<open>chosen\<close> is whether the draw fell below the reaping probability.\<close>

definition maybe_reap_expired :: "bool \<Rightarrow> instant \<Rightarrow> nonce_table \<Rightarrow> nonce_table" where
  "maybe_reap_expired chosen now tbl = (if chosen then fst (reap_rows now reap_batch tbl) else tbl)"

definition seen :: "signing_settings \<Rightarrow> bool \<Rightarrow> instant \<Rightarrow> nonce_key \<Rightarrow> nonce_table \<Rightarrow> nonce_table \<times> bool" where
  "seen cfg chosen now k tbl = (case claim now k (claim_ttl cfg (fst k)) tbl of
     (tbl', replayed) \<Rightarrow> (maybe_reap_expired chosen now tbl', replayed))"

definition remember :: "signing_settings \<Rightarrow> instant \<Rightarrow> nonce_key \<Rightarrow> int \<Rightarrow> nonce_table \<Rightarrow> nonce_table" where
  "remember cfg now k ttl tbl = extend_claim now k (clamped_ttl cfg (fst k) ttl) tbl"

definition at_capacity :: "signing_settings \<Rightarrow> instant \<Rightarrow> string \<Rightarrow> nonce_table \<Rightarrow> bool" where
  "at_capacity cfg now keyid tbl = at_or_above_cap now keyid
     (case map_of (ss_per_keyid_cap_overrides cfg) keyid of None \<Rightarrow> ss_per_keyid_cap cfg | Some c \<Rightarrow> c) tbl"

section \<open>Lemmas\<close>

definition nonces_ok :: "nonce_table \<Rightarrow> bool" where
  "nonces_ok tbl = distinct (map fst tbl)"

lemma upsert_ok: "nonces_ok tbl \<Longrightarrow> nonces_ok (fst (upsert_expiry k ttl P now tbl))"
  by (auto simp: upsert_expiry_def Let_def nonces_ok_def distinct_update split: option.split)

lemma upsert_map:
  "map_of (fst (upsert_expiry k ttl P now tbl)) k' = (if k' = k \<and> (case map_of tbl k of None \<Rightarrow> True
      | Some s \<Rightarrow> P s (now + ttl)) then Some (now + ttl) else map_of tbl k')"
  by (auto simp: upsert_expiry_def Let_def update_conv' split: option.split)

lemma claim_spec:
  "snd (claim now k ttl tbl) \<longleftrightarrow> (\<exists>e. map_of tbl k = Some e \<and> now < e)"
  "map_of (fst (claim now k ttl tbl)) k' = (if k' = k \<and> \<not> snd (claim now k ttl tbl) then Some (now + ttl) else map_of tbl k')"
  by (auto simp: claim_def upsert_expiry_def Let_def update_conv' split: option.split)

lemma claim_ok: "nonces_ok tbl \<Longrightarrow> nonces_ok (fst (claim now k ttl tbl))"
  using upsert_ok [of tbl k ttl "\<lambda>s _. s \<le> now" now]
  by (cases "upsert_expiry k ttl (\<lambda>s _. s \<le> now) now tbl") (simp add: claim_def)

lemma extend_never_shortens:
  "map_of tbl k' = Some e \<Longrightarrow> \<exists>e'\<ge>e. map_of (extend_claim now k ttl tbl) k' = Some e'"
  by (auto simp: extend_claim_def upsert_map)

lemma reap_subset: "set (fst (reap_rows now n tbl)) \<subseteq> set tbl"
  by (induction now n tbl rule: reap_rows.induct) (auto split: prod.splits)

lemma reap_keeps_live: "(k, e) \<in> set tbl \<Longrightarrow> now < e \<Longrightarrow> (k, e) \<in> set (fst (reap_rows now n tbl))"
  by (induction now n tbl rule: reap_rows.induct) (auto split: prod.splits)

lemma reap_filter_live:
  "now \<le> t \<Longrightarrow> filter (\<lambda>(k, e). P k \<and> t < e) (fst (reap_rows now n tbl)) = filter (\<lambda>(k, e). P k \<and> t < e) tbl"
  by (induction now n tbl rule: reap_rows.induct) (auto split: prod.splits)

lemma reap_ok: "nonces_ok tbl \<Longrightarrow> nonces_ok (fst (reap_rows now n tbl))"
proof (induction now n tbl rule: reap_rows.induct)
  case (3 now n k e tbl)
  have "k \<notin> set (map fst (fst (reap_rows now m tbl)))" for m
    using reap_subset [of now m tbl] 3(3) by (auto simp: nonces_ok_def)
  from this [of "Suc n"] 3 show ?case by (auto simp: nonces_ok_def split: prod.splits)
qed (auto simp: nonces_ok_def)

lemma reap_map_live:
  assumes "nonces_ok tbl" "map_of tbl k = Some e" "now < e"
  shows "map_of (fst (reap_rows now n tbl)) k = Some e"
  using reap_keeps_live [OF map_of_SomeD [OF assms(2)] assms(3)] reap_ok [OF assms(1)]
  by (auto simp: nonces_ok_def)

lemma reap_count: "snd (reap_rows now n tbl) \<le> n \<and> length (fst (reap_rows now n tbl)) + snd (reap_rows now n tbl) = length tbl"
  by (induction now n tbl rule: reap_rows.induct) (auto split: prod.splits)

section \<open>Interleavings\<close>

text \<open>
  A statement of some worker on the shared table; \<open>nonce_step k\<close> is any of them but a
  \<open>forget\<close> of k (the harness's clean-up, which is meant to free a nonce).
\<close>

inductive nonce_step :: "nonce_key \<Rightarrow> instant \<Rightarrow> nonce_table \<Rightarrow> nonce_table \<Rightarrow> bool" for k now tbl where
  "nonce_step k now tbl (fst (claim now k' ttl tbl))"
| "nonce_step k now tbl (extend_claim now k' ttl tbl)"
| "nonce_step k now tbl (fst (reap_rows now limit tbl))"
| "k' \<noteq> k \<Longrightarrow> nonce_step k now tbl (forget k' tbl)"

lemma forget_ok: "nonces_ok tbl \<Longrightarrow> nonces_ok (forget k tbl)"
  by (simp add: forget_def nonces_ok_def distinct_map_filter)

lemma forget_map: "map_of (forget k' tbl) k = (if k = k' then None else map_of tbl k)"
  by (induction tbl) (auto simp: forget_def)

lemma nonce_step_ok: "nonces_ok tbl \<Longrightarrow> nonce_step k now tbl tbl' \<Longrightarrow> nonces_ok tbl'"
  by (auto elim!: nonce_step.cases simp: claim_ok extend_claim_def upsert_ok reap_ok forget_ok)

lemma nonce_step_keeps:
  assumes "nonces_ok tbl" "nonce_step k now tbl tbl'" "map_of tbl k = Some e" "now < e"
  shows "\<exists>e'\<ge>e. map_of tbl' k = Some e'"
  using assms(2)
proof (cases rule: nonce_step.cases)
  case (1 k' ttl)
  then show ?thesis using assms(3,4) claim_spec(1) [of now k' ttl tbl] by (auto simp: claim_spec(2))
next
  case (2 k' ttl)
  then show ?thesis using extend_never_shortens [OF assms(3)] by simp
next
  case (3 limit)
  then show ?thesis using reap_map_live [OF assms(1,3,4)] by auto
next
  case (4 k')
  then show ?thesis using assms(3) by (simp add: forget_map)
qed

interpretation replay: claim_ledger nonces_ok map_of claim nonce_step
  by unfold_locales
    (auto simp: claim_spec claim_ok intro: nonce_step_ok nonce_step_keeps)

section \<open>Properties\<close>

text \<open>C8. A nonce is accepted at most once deployment-wide: after the store accepts a pair, for as long
  as the claim it wrote lives and whatever statements other workers run in between (claims and
  extensions of any pair, reaping, forgetting of other pairs), presenting the pair again is
  reported as a replay.\<close>

theorem nonce_accepted_once:
  assumes "nonces_ok tbl" "seen cfg chosen t0 k tbl = (tbl1, False)" "timed_run (nonce_step k) ts tbl1 tbl2"
    and "\<forall>t\<in>set ts. t < t0 + claim_ttl cfg (fst k)" "t < t0 + claim_ttl cfg (fst k)"
    and "0 < claim_ttl cfg (fst k)"
  shows "snd (seen cfg' chosen' t k tbl2)"
proof -
  obtain tbl0 where c: "claim t0 k (claim_ttl cfg (fst k)) tbl = (tbl0, False)"
    and tbl1: "tbl1 = maybe_reap_expired chosen t0 tbl0"
    using assms(2) by (auto simp: seen_def split: prod.splits)
  have run: "timed_run (nonce_step k) (if chosen then t0 # ts else ts) tbl0 tbl2"
    using assms(3) by (auto simp: tbl1 maybe_reap_expired_def intro: run_Cons nonce_step.intros)
  have "snd (claim t k (claim_ttl cfg' (fst k)) tbl2)"
    by (rule replay.claimed_once [OF assms(1) c run _ assms(5)]) (use assms(4,6) in auto)
  then show ?thesis by (auto simp: seen_def split: prod.splits)
qed

definition ex_cfg :: signing_settings where
  "ex_cfg = \<lparr>ss_per_keyid_cap = 2, ss_per_keyid_cap_overrides = [], ss_replay_ttl_overrides = [],
     ss_replay_claim_ttl = 60 * second_us\<rparr>"

lemma nonce_accepted_once_witness:
  "snd (seen ex_cfg False 9 (''key'', ''n'') [((''key'', ''n''), 60000000)])"
  by (rule nonce_accepted_once [of "[]" ex_cfg False 0 "(''key'', ''n'')" _ "[]"])
    (auto simp: nonces_ok_def seen_def claim_def upsert_expiry_def maybe_reap_expired_def claim_ttl_def
      clamped_ttl_def ex_cfg_def second_us_def intro: run_Nil)

text \<open>The lifetime of a pair only grows: remembering the signature's own lifetime, at any time and
  with any clamp, leaves every stored pair and never brings an expiry forward.\<close>

theorem remember_never_shortens:
  assumes "map_of tbl k' = Some e"
  shows "\<exists>e'\<ge>e. map_of (remember cfg now k ttl tbl) k' = Some e'"
  using extend_never_shortens [OF assms] by (simp add: remember_def)

lemma remember_never_shortens_witness:
  "\<exists>e'\<ge>50. map_of (remember ex_cfg 0 (''a'', ''b'') 7 [((''a'', ''b''), 50)]) (''a'', ''b'') = Some e'"
  using remember_never_shortens [of "[((''a'', ''b''), 50)]" "(''a'', ''b'')" 50] by simp

text \<open>The capacity test counts the live rows of the keyid.\<close>

lemma at_or_above_cap_count:
  "at_or_above_cap now keyid cap tbl \<longleftrightarrow>
     cap \<le> int (length (filter (\<lambda>(k, e). fst k = keyid \<and> now < e) tbl))"
  by (auto simp: at_or_above_cap_def nat_less_iff take_Suc neq_Nil_conv)

text \<open>Reaping is invisible: at its own time or later, removing any number of expired rows changes
  neither which pairs are replays nor whether a keyid is at its capacity, and it removes no more
  rows than asked.\<close>

theorem reap_invisible:
  assumes "nonces_ok tbl" "now \<le> t"
  shows "(snd (claim t k ttl (fst (reap_rows now n tbl))) \<longleftrightarrow> snd (claim t k ttl tbl)) \<and>
    (at_capacity cfg t keyid (fst (reap_rows now n tbl)) \<longleftrightarrow> at_capacity cfg t keyid tbl) \<and>
    snd (reap_rows now n tbl) \<le> n"
proof -
  have "(\<exists>e. map_of (fst (reap_rows now n tbl)) k = Some e \<and> t < e) \<longleftrightarrow> (\<exists>e. map_of tbl k = Some e \<and> t < e)"
  proof
    assume "\<exists>e. map_of tbl k = Some e \<and> t < e"
    then show "\<exists>e. map_of (fst (reap_rows now n tbl)) k = Some e \<and> t < e"
      using reap_map_live [OF assms(1)] assms(2) by fastforce
  next
    assume "\<exists>e. map_of (fst (reap_rows now n tbl)) k = Some e \<and> t < e"
    then obtain e where "(k, e) \<in> set (fst (reap_rows now n tbl))" "t < e" by (auto dest: map_of_SomeD)
    moreover from this(1) have "(k, e) \<in> set tbl" using reap_subset by blast
    then have "map_of tbl k = Some e" using assms(1) by (simp add: nonces_ok_def)
    ultimately show "\<exists>e. map_of tbl k = Some e \<and> t < e" by blast
  qed
  moreover have "at_or_above_cap t keyid c (fst (reap_rows now n tbl)) \<longleftrightarrow> at_or_above_cap t keyid c tbl" for c
    using reap_filter_live [OF assms(2), of "\<lambda>k. fst k = keyid" n tbl] by (simp add: at_or_above_cap_def)
  ultimately show ?thesis using reap_count [of now n tbl] by (simp add: claim_spec(1) at_capacity_def)
qed

lemma reap_invisible_witness:
  "snd (claim 10 (''a'', ''b'') 5 (fst (reap_rows 9 3 [((''a'', ''b''), 20), ((''a'', ''c''), 8)])))"
  using reap_invisible [of "[((''a'', ''b''), 20), ((''a'', ''c''), 8)]" 9 10 "(''a'', ''b'')" 5 3]
  by (simp add: nonces_ok_def claim_spec(1))

end
