(* ===== verification/Egress_Attempts.thy ===== *)
theory Egress_Attempts
  imports Retry_After
begin

text \<open>
  The retry schedule and the per-attempt decision of src/src/core/security/egress/attempts.py:
  which statuses are retried, how long to wait (base doubling per attempt plus jitter, a
  Retry-After that can only lengthen the wait and only up to a minute), and the Attempts state
  machine both senders drive.
\<close>

definition max_honoured_retry_after_seconds :: rat where
  "max_honoured_retry_after_seconds = 60"

definition retryable_statuses :: "int list" where
  "retryable_statuses = [429, 500, 502, 503, 504]"

definition should_retry_status :: "int \<Rightarrow> bool" where
  "should_retry_status status = (status \<in> set retryable_statuses)"

text \<open>\<open>base * 2 ** (attempt - 1) + uniform(0, 1)\<close> for an attempt counted from 1.\<close>

definition backoff_seconds :: "rat \<Rightarrow> rat \<Rightarrow> nat \<Rightarrow> rat" where
  "backoff_seconds base jitter attempt = base * 2 ^ (attempt - 1) + jitter"

definition wait_seconds :: "rat \<Rightarrow> rat \<Rightarrow> nat \<Rightarrow> pyfloat option \<Rightarrow> pyfloat" where
  "wait_seconds base jitter attempt retry_after = (
     let honoured = py_min (case retry_after of None \<Rightarrow> Fin 0 | Some f \<Rightarrow> f) (Fin max_honoured_retry_after_seconds)
     in py_max (Fin (backoff_seconds base jitter attempt)) honoured)"

datatype attempt_outcome = Retry | Success | Terminal

record attempts =
  at_max_attempts :: nat
  at_attempt :: nat
  at_last_status :: "int option"
  at_last_retry_after :: "pyfloat option"

definition attempts_init :: "nat \<Rightarrow> attempts" where
  "attempts_init n = \<lparr>at_max_attempts = n, at_attempt = 0, at_last_status = None, at_last_retry_after = None\<rparr>"

text \<open>One step of \<open>next_attempt\<close>: the next attempt number, if the bound allows one.\<close>

definition next_attempt :: "attempts \<Rightarrow> attempts option" where
  "next_attempt a = (if at_attempt a < at_max_attempts a then Some (a\<lparr>at_attempt := Suc (at_attempt a)\<rparr>) else None)"

definition record_transport_failure :: "attempts \<Rightarrow> attempts" where
  "record_transport_failure a = a\<lparr>at_last_status := None, at_last_retry_after := None\<rparr>"

definition record_response :: "attempts \<Rightarrow> int \<Rightarrow> pyfloat option \<Rightarrow> attempts \<times> attempt_outcome" where
  "record_response a status retry_after =
     (a\<lparr>at_last_status := Some status, at_last_retry_after := retry_after\<rparr>,
      if should_retry_status status then Retry
      else if 200 \<le> status \<and> status < 300 then Success
      else Terminal)"

definition record_oversized_response :: "attempts \<Rightarrow> int \<Rightarrow> attempts" where
  "record_oversized_response a status = a\<lparr>at_last_status := Some status, at_last_retry_after := None\<rparr>"

text \<open>
  \<open>failure()\<close> builds the exception to raise; clamping a non-finite Retry-After raises another
  one in its place.
\<close>

definition attempts_failure :: "attempts \<Rightarrow> exn" where
  "attempts_failure a = (case at_last_retry_after a of
     None \<Rightarrow> OutboundDeliveryFailed (at_attempt a) (at_last_status a) None
   | Some f \<Rightarrow> (case clamp_float f of
       Inl e \<Rightarrow> e
     | Inr n \<Rightarrow> OutboundDeliveryFailed (at_attempt a) (at_last_status a) (Some n)))"

definition attempts_wait :: "rat \<Rightarrow> rat \<Rightarrow> attempts \<Rightarrow> pyfloat" where
  "attempts_wait base jitter a = wait_seconds base jitter (at_attempt a) (at_last_retry_after a)"

section \<open>The schedule\<close>

text \<open>Whatever the origin asks for, a wait is finite, at least the schedule's and boundedly longer.\<close>

lemma wait_seconds_cases:
  "wait_seconds base jitter n ra = Fin (case ra of
     None \<Rightarrow> max (backoff_seconds base jitter n) 0
   | Some (Fin q) \<Rightarrow> max (backoff_seconds base jitter n) (min q 60)
   | Some PInf \<Rightarrow> max (backoff_seconds base jitter n) 60
   | Some NInf \<Rightarrow> backoff_seconds base jitter n
   | Some NaN \<Rightarrow> backoff_seconds base jitter n)"
  by (auto simp: wait_seconds_def py_min_def py_max_def max_honoured_retry_after_seconds_def
      Let_def max_def min_def split: option.split pyfloat.split)

lemma wait_seconds_bounds:
  assumes "wait_seconds base jitter n ra = Fin w" "0 \<le> base" "0 \<le> jitter" "jitter \<le> 1"
  shows "base * 2 ^ (n - 1) \<le> w" "w \<le> max (base * 2 ^ (n - 1) + 1) 60"
  using assms
  by (auto simp: wait_seconds_cases backoff_seconds_def split: option.splits pyfloat.splits)

lemma success_status: "snd (record_response a s ra) = Success \<longleftrightarrow> 200 \<le> s \<and> s < 300"
  by (auto simp: record_response_def should_retry_status_def retryable_statuses_def)

lemma attempts_failure_shape:
  assumes "\<forall>f. at_last_retry_after a = Some f \<longrightarrow> (\<exists>q. f = Fin q)"
  shows "\<exists>r. attempts_failure a = OutboundDeliveryFailed (at_attempt a) (at_last_status a) r \<and>
    (\<forall>n. r = Some n \<longrightarrow> 1 \<le> n \<and> n \<le> 3600)"
  using assms clamp_retry_after_bounds
  by (auto simp: attempts_failure_def split: option.splits)

end
