(* ===== verification/Outbound_Http.thy ===== *)
theory Outbound_Http
  imports Egress_Attempts
begin

text \<open>
  The outbound seam of src/src/core/security/outbound_http.py: provenance and the leak check on
  a refusal's field, the per-attempt request with its signer, the capped read of a response, the
  conclusion of an attempt, and the send loop that drives Attempts. httpx, the SDK's pinned
  transport and the network are a parameter: what dialling the request of attempt n does. Bytes
  are strings. send and asend differ only in their I/O verbs, so one definition models both.
\<close>

section \<open>Provenance\<close>

datatype url_provenance =
    Counterparty_url "string option"
  | Operator_endpoint string

text \<open>\<open>OperatorEndpoint.__post_init__\<close>.\<close>

definition operator_endpoint :: "string \<Rightarrow> url_provenance res" where
  "operator_endpoint name = (if sublist ''://'' name then Inl ValueError else Inr (Operator_endpoint name))"

definition refusal_field :: "url_provenance option \<Rightarrow> string option" where
  "refusal_field p = (case p of Some (Counterparty_url f) \<Rightarrow> f | _ \<Rightarrow> None)"

definition is_counterparty :: "url_provenance option \<Rightarrow> bool" where
  "is_counterparty p = (case p of Some (Counterparty_url f) \<Rightarrow> True | _ \<Rightarrow> False)"

definition checked_field :: "url_provenance option \<Rightarrow> string \<Rightarrow> string option res" where
  "checked_field p url = (case refusal_field p of
     None \<Rightarrow> Inr None
   | Some f \<Rightarrow> if sublist ''://'' f \<or> sublist url f then Inl ValueError else Inr (Some f))"

text \<open>The 4xx the seam refused to retry.\<close>

definition terminal_client_error_status :: "exn \<Rightarrow> int option" where
  "terminal_client_error_status e = (case e of
     OutboundDeliveryFailed n (Some status) ra \<Rightarrow>
       if \<not> (400 \<le> status \<and> status < 500) \<or> status \<in> set retryable_statuses then None else Some status
   | _ \<Rightarrow> None)"

section \<open>One attempt's request\<close>

type_synonym headers = "(string \<times> string) list"

record http_request =
  hr_method :: string
  hr_url :: string
  hr_headers :: headers
  hr_content :: string

definition signer_reserved_headers :: "string list" where
  "signer_reserved_headers = [''content-length'', ''transfer-encoding'', ''host'']"

text \<open>
  \<open>request.headers[name] = value\<close>: header names are case-insensitive, the first entry is
  replaced and any other entry of that name removed.
\<close>

fun header_set :: "string \<Rightarrow> string \<Rightarrow> headers \<Rightarrow> headers" where
  "header_set name value [] = [(name, value)]"
| "header_set name value ((n, v) # hs) =
     (if lower n = lower name then (name, value) # filter (\<lambda>(n', v'). lower n' \<noteq> lower name) hs
      else (n, v) # header_set name value hs)"

fun merge_signed :: "headers \<Rightarrow> headers \<Rightarrow> headers" where
  "merge_signed [] hs = hs"
| "merge_signed ((n, v) # signed) hs = merge_signed signed
     (if lower n \<in> set signer_reserved_headers then hs else header_set n v hs)"

text \<open>
  \<open>built\<close> is what \<open>client.build_request\<close> returned; \<open>sign\<close> the signer for this attempt, which is
  handed the built method, url and body.
\<close>

definition build_request :: "http_request \<Rightarrow> (string \<Rightarrow> string \<Rightarrow> string \<Rightarrow> headers res) option \<Rightarrow> http_request res" where
  "build_request built sign = (case sign of
     None \<Rightarrow> Inr built
   | Some f \<Rightarrow> (case f (hr_method built) (hr_url built) (hr_content built) of
       Inl e \<Rightarrow> Inl e
     | Inr signed \<Rightarrow> Inr (built\<lparr>hr_headers := merge_signed signed (hr_headers built)\<rparr>)))"

section \<open>Reading a response\<close>

text \<open>
  A Retry-After header: absent, not a number of seconds, or a number (Python's \<open>float\<close> also
  reads "inf" and "nan").
\<close>

datatype retry_after_header =
    No_header
  | Not_seconds
  | Seconds pyfloat

fun retry_after_seconds :: "retry_after_header \<Rightarrow> pyfloat option" where
  "retry_after_seconds No_header = None"
| "retry_after_seconds Not_seconds = None"
| "retry_after_seconds (Seconds f) = Some f"

text \<open>How the body stream ends: complete, with a retryable transport exception, or with another one.\<close>

datatype body_end =
    Body_complete
  | Body_transport_failure
  | Body_raised exn

record http_response =
  rs_status :: int
  rs_retry_after :: retry_after_header
  rs_headers :: headers
  rs_chunks :: "string list"
  rs_end :: body_end

datatype dial =
    Dial_transport_failure
  | Dial_raised exn
  | Dial_response http_response

record outbound_result =
  or_http_status :: int
  or_headers :: headers
  or_content :: string
  or_attempts :: nat

definition max_response_bytes :: nat where
  "max_response_bytes = 10 * 1024 * 1024"

definition over_cap :: "nat \<Rightarrow> bool" where
  "over_cap n = (max_response_bytes < n)"

text \<open>
  Append one chunk; past the cap, record it and raise the failure. The result is the body so
  far, or the state at the raise.
\<close>

definition accumulate :: "string \<Rightarrow> string \<Rightarrow> attempts \<Rightarrow> int \<Rightarrow> attempts + string" where
  "accumulate body chunk a status = (let body' = body @ chunk in
     if over_cap (length body') then Inl (record_oversized_response a status) else Inr body')"

fun read_chunks :: "string \<Rightarrow> string list \<Rightarrow> attempts \<Rightarrow> int \<Rightarrow> attempts + string" where
  "read_chunks body [] a status = Inr body"
| "read_chunks body (c # cs) a status = (case accumulate body c a status of
     Inl a' \<Rightarrow> Inl a'
   | Inr body' \<Rightarrow> read_chunks body' cs a status)"

definition conclude_attempt :: "attempts \<Rightarrow> http_response \<Rightarrow> string \<Rightarrow> attempts \<times> outbound_result option res" where
  "conclude_attempt a r body = (case record_response a (rs_status r) (retry_after_seconds (rs_retry_after r)) of
     (a', Success) \<Rightarrow> (a', Inr (Some \<lparr>or_http_status = rs_status r,
        or_headers = map (\<lambda>(n, v). (lower n, v)) (rs_headers r), or_content = body, or_attempts = at_attempt a'\<rparr>))
   | (a', Terminal) \<Rightarrow> (a', Inl (attempts_failure a'))
   | (a', Retry) \<Rightarrow> (a', Inr None))"

text \<open>The body of the loop after the request is built: a result, a raise, or None to go on.\<close>

definition run_attempt :: "attempts \<Rightarrow> dial \<Rightarrow> attempts \<times> outbound_result option res" where
  "run_attempt a d = (case d of
     Dial_transport_failure \<Rightarrow> (record_transport_failure a, Inr None)
   | Dial_raised e \<Rightarrow> (a, Inl e)
   | Dial_response r \<Rightarrow> (case read_chunks [] (rs_chunks r) a (rs_status r) of
       Inl a' \<Rightarrow> (a', Inl (attempts_failure a'))
     | Inr body \<Rightarrow> (case rs_end r of
         Body_complete \<Rightarrow> conclude_attempt a r body
       | Body_transport_failure \<Rightarrow> (record_transport_failure a, Inr None)
       | Body_raised e \<Rightarrow> (a, Inl e))))"

section \<open>The send loop\<close>

text \<open>
  \<open>build n\<close> is the request of attempt n, \<open>net n\<close> what dialling it does, \<open>jitter n\<close> the uniform
  draw of the wait after it. The trace is the requests dialled and the waits slept, in order.
\<close>

record send_env =
  se_build :: "nat \<Rightarrow> http_request res"
  se_net :: "nat \<Rightarrow> http_request \<Rightarrow> dial"
  se_base :: rat
  se_jitter :: "nat \<Rightarrow> rat"

fun send_loop ::
    "nat \<Rightarrow> send_env \<Rightarrow> attempts \<Rightarrow> http_request list \<times> pyfloat list \<times> outbound_result res" where
  "send_loop 0 env a = ([], [], Inl (attempts_failure a))"
| "send_loop (Suc remaining) env a = (case next_attempt a of
     None \<Rightarrow> ([], [], Inl (attempts_failure a))
   | Some a1 \<Rightarrow> (case se_build env (at_attempt a1) of
       Inl e \<Rightarrow> ([], [], Inl e)
     | Inr request \<Rightarrow> (case run_attempt a1 (se_net env (at_attempt a1) request) of
         (a2, Inl e) \<Rightarrow> ([request], [], Inl e)
       | (a2, Inr (Some result)) \<Rightarrow> ([request], [], Inr result)
       | (a2, Inr None) \<Rightarrow>
           (let w = (if at_attempt a2 < at_max_attempts a2
               then [attempts_wait (se_base env) (se_jitter env (at_attempt a2)) a2] else [])
            in (case send_loop remaining env a2 of
                 (requests, waits, outcome) \<Rightarrow> (request # requests, w @ waits, outcome))))))"

text \<open>
  \<open>resolved\<close> is the verdict of \<open>EgressPolicy.resolve_for_dial\<close> on the url with the checked field;
  a refusal is raised before anything is dialled.
\<close>

definition send ::
    "string \<Rightarrow> url_provenance option \<Rightarrow> (string option \<Rightarrow> unit res) \<Rightarrow> nat \<Rightarrow> send_env
      \<Rightarrow> http_request list \<times> pyfloat list \<times> outbound_result res" where
  "send url provenance resolved max_attempts env = (case checked_field provenance url of
     Inl e \<Rightarrow> ([], [], Inl e)
   | Inr f \<Rightarrow> (case resolved f of
       Inl e \<Rightarrow> ([], [], Inl e)
     | Inr _ \<Rightarrow> send_loop max_attempts env (attempts_init max_attempts)))"

section \<open>Lemmas\<close>

lemma read_chunks_spec:
  assumes "length body \<le> max_response_bytes"
  shows "read_chunks body cs a s = (if max_response_bytes < length (body @ concat cs)
    then Inl (record_oversized_response a s) else Inr (body @ concat cs))"
  using assms by (induction cs arbitrary: body) (auto simp: accumulate_def over_cap_def Let_def)

lemma read_chunks_start:
  "read_chunks [] cs a s = (if max_response_bytes < length (concat cs)
    then Inl (record_oversized_response a s) else Inr (concat cs))"
  by (simp add: read_chunks_spec)

text \<open>What makes an attempt end in a retry, and what makes it a success.\<close>

definition retryable_dial :: "dial \<Rightarrow> bool" where
  "retryable_dial d = (case d of
     Dial_transport_failure \<Rightarrow> True
   | Dial_raised e \<Rightarrow> False
   | Dial_response r \<Rightarrow> length (concat (rs_chunks r)) \<le> max_response_bytes \<and>
       (rs_end r = Body_transport_failure \<or> rs_end r = Body_complete \<and> should_retry_status (rs_status r)))"

definition delivered :: "dial \<Rightarrow> nat \<Rightarrow> outbound_result \<Rightarrow> bool" where
  "delivered d n result = (case d of
     Dial_response r \<Rightarrow> 200 \<le> rs_status r \<and> rs_status r < 300 \<and> rs_end r = Body_complete \<and>
       length (or_content result) \<le> max_response_bytes \<and> or_content result = concat (rs_chunks r) \<and>
       or_http_status result = rs_status r \<and> or_attempts result = n \<and>
       or_headers result = map (\<lambda>(n, v). (lower n, v)) (rs_headers r)
   | _ \<Rightarrow> False)"

lemma run_attempt_counter:
  "run_attempt a d = (a', out) \<Longrightarrow> at_attempt a' = at_attempt a \<and> at_max_attempts a' = at_max_attempts a"
  by (auto simp: run_attempt_def conclude_attempt_def record_response_def record_transport_failure_def
      read_chunks_start record_oversized_response_def split: dial.splits body_end.splits if_splits)

lemma run_attempt_retry: "run_attempt a d = (a', Inr None) \<Longrightarrow> retryable_dial d"
  by (auto simp: run_attempt_def conclude_attempt_def record_response_def retryable_dial_def
      read_chunks_start split: dial.splits body_end.splits if_splits)

lemma run_attempt_success: "run_attempt a d = (a', Inr (Some r)) \<Longrightarrow> delivered d (at_attempt a) r"
  by (auto simp: run_attempt_def conclude_attempt_def record_response_def delivered_def
      read_chunks_start should_retry_status_def retryable_statuses_def
      split: dial.splits body_end.splits if_splits)

text \<open>Everything the loop does from attempt k on, in one statement over its trace.\<close>

lemma send_loop_trace:
  assumes "send_loop m env a = (rs, ws, out)" "at_max_attempts a = at_attempt a + m"
  shows "length rs \<le> m \<and> length ws \<le> length rs \<and> (0 < m \<longrightarrow> length ws < m) \<and>
    (\<forall>i<length rs. se_build env (at_attempt a + Suc i) = Inr (rs ! i)) \<and>
    (\<forall>i<length rs - 1. retryable_dial (se_net env (at_attempt a + Suc i) (rs ! i))) \<and>
    (\<forall>i<length ws. \<exists>ra. ws ! i = wait_seconds (se_base env) (se_jitter env (at_attempt a + Suc i)) (at_attempt a + Suc i) ra) \<and>
    (\<forall>r. out = Inr r \<longrightarrow> rs \<noteq> [] \<and> delivered (se_net env (at_attempt a + length rs) (last rs)) (at_attempt a + length rs) r)"
  using assms
proof (induction m arbitrary: a rs ws out)
  case (Suc m)
  let ?n = "Suc (at_attempt a)"
  have na: "next_attempt a = Some (a\<lparr>at_attempt := ?n\<rparr>)" using Suc.prems(2) by (simp add: next_attempt_def)
  show ?case
  proof (cases "se_build env ?n")
    case (Inl e)
    then show ?thesis using Suc.prems(1) by (auto simp: na)
  next
    case (Inr req)
    obtain a2 o2 where run: "run_attempt (a\<lparr>at_attempt := ?n\<rparr>) (se_net env ?n req) = (a2, o2)" by fastforce
    have cnt: "at_attempt a2 = ?n" "at_max_attempts a2 = at_attempt a2 + m"
      using run_attempt_counter [OF run] Suc.prems(2) by simp_all
    show ?thesis
    proof (cases "o2 = Inr None")
      case False
      then have "rs = [req] \<and> ws = [] \<and> (\<forall>r. out = Inr r \<longrightarrow> o2 = Inr (Some r))"
        using Suc.prems(1) run Inr by (cases o2) (auto simp: na split: option.splits)
      moreover have "\<forall>r. o2 = Inr (Some r) \<longrightarrow> delivered (se_net env ?n req) ?n r"
        using run_attempt_success run by fastforce
      ultimately show ?thesis using Inr by auto
    next
      case True
      obtain rs' ws' out' where rec: "send_loop m env a2 = (rs', ws', out')" by (metis prod_cases3)
      have tr: "rs = req # rs'" "out = out'"
        "ws = (if m = 0 then [] else [attempts_wait (se_base env) (se_jitter env ?n) a2]) @ ws'"
        using Suc.prems(1) run Inr True rec cnt by (auto simp: na Let_def split: if_splits)
      have rd: "retryable_dial (se_net env ?n req)" using run_attempt_retry run True by blast
      note IH = Suc.IH [OF rec cnt(2)]
      show ?thesis
      proof (cases m)
        case 0
        then have "rs' = []" "ws' = []" "\<exists>e. out' = Inl e" using rec by auto
        with tr 0 Inr show ?thesis by auto
      next
        case (Suc k)
        have b: "\<forall>i<length rs. se_build env (at_attempt a + Suc i) = Inr (rs ! i)"
          using IH Inr cnt by (auto simp: tr nth_Cons split: nat.split)
        have r: "\<forall>i<length rs - 1. retryable_dial (se_net env (at_attempt a + Suc i) (rs ! i))"
          using IH rd cnt by (auto simp: tr nth_Cons split: nat.split)
        have w: "\<forall>i<length ws. \<exists>ra. ws ! i = wait_seconds (se_base env) (se_jitter env (at_attempt a + Suc i)) (at_attempt a + Suc i) ra"
          using IH cnt Suc by (auto simp: tr nth_Cons attempts_wait_def split: nat.split)
        show ?thesis using IH b r w cnt Suc by (auto simp: tr)
      qed
    qed
  qed
qed simp

text \<open>What the transport did with the request of attempt n, when there was one.\<close>

definition dial_of :: "send_env \<Rightarrow> nat \<Rightarrow> dial option" where
  "dial_of env n = (case se_build env n of Inl e \<Rightarrow> None | Inr r \<Rightarrow> Some (se_net env n r))"

lemma run_attempt_of_retryable:
  "retryable_dial d \<Longrightarrow> \<exists>a'. run_attempt a d = (a', Inr None)"
  by (auto simp: run_attempt_def conclude_attempt_def record_response_def retryable_dial_def
      read_chunks_start split: dial.splits body_end.splits)

lemma run_attempt_of_delivered:
  "delivered d (at_attempt a) r \<Longrightarrow> \<exists>a'. run_attempt a d = (a', Inr (Some r))"
  by (auto simp: run_attempt_def conclude_attempt_def record_response_def delivered_def
      read_chunks_start should_retry_status_def retryable_statuses_def split: dial.splits body_end.splits)

text \<open>The loop reaches a delivery that only retryable attempts precede.\<close>

lemma send_loop_reaches:
  assumes "at_max_attempts a = at_attempt a + m" "k < m"
    "\<And>i. i < k \<Longrightarrow> \<exists>d. dial_of env (at_attempt a + Suc i) = Some d \<and> retryable_dial d"
    "dial_of env (at_attempt a + Suc k) = Some d" "delivered d (at_attempt a + Suc k) r"
  shows "snd (snd (send_loop m env a)) = Inr r"
  using assms
proof (induction m arbitrary: a k)
  case (Suc m)
  let ?n = "Suc (at_attempt a)"
  let ?a = "a\<lparr>at_attempt := ?n\<rparr>"
  have na: "next_attempt a = Some ?a" using Suc.prems(1) by (simp add: next_attempt_def)
  show ?case
  proof (cases k)
    case 0
    then obtain req where req: "se_build env ?n = Inr req" "d = se_net env ?n req"
      using Suc.prems(4) by (auto simp: dial_of_def split: sum.splits)
    obtain a' where "run_attempt ?a d = (a', Inr (Some r))"
      using run_attempt_of_delivered [of d ?a r] Suc.prems(5) 0 by auto
    with req na show ?thesis by simp
  next
    case (Suc j)
    obtain d0 where d0: "dial_of env ?n = Some d0" "retryable_dial d0"
      using Suc.prems(3) [of 0] Suc by auto
    then obtain req where req: "se_build env ?n = Inr req" "d0 = se_net env ?n req"
      by (auto simp: dial_of_def split: sum.splits)
    obtain a2 where run: "run_attempt ?a d0 = (a2, Inr None)" using run_attempt_of_retryable d0(2) by blast
    note cnt = run_attempt_counter [OF run]
    have "snd (snd (send_loop m env a2)) = Inr r"
    proof (rule Suc.IH [of a2 j])
      show "at_max_attempts a2 = at_attempt a2 + m" "j < m" using cnt Suc.prems(1,2) Suc by simp_all
      show "\<exists>d. dial_of env (at_attempt a2 + Suc i) = Some d \<and> retryable_dial d" if "i < j" for i
        using Suc.prems(3) [of "Suc i"] that Suc cnt by simp
      show "dial_of env (at_attempt a2 + Suc j) = Some d" "delivered d (at_attempt a2 + Suc j) r"
        using Suc.prems(4,5) Suc cnt by simp_all
    qed
    with req na run show ?thesis by (cases "send_loop m env a2") (simp add: Let_def)
  qed
qed simp

text \<open>An environment in which nothing raises and every Retry-After is a finite number.\<close>

definition tame_dial :: "dial \<Rightarrow> bool" where
  "tame_dial d = (case d of Dial_transport_failure \<Rightarrow> True | Dial_raised e \<Rightarrow> False
     | Dial_response r \<Rightarrow> (case rs_end r of Body_raised e \<Rightarrow> False | _ \<Rightarrow> True) \<and>
         (case retry_after_seconds (rs_retry_after r) of Some (Fin q) \<Rightarrow> True | None \<Rightarrow> True | _ \<Rightarrow> False))"

definition finite_hint :: "attempts \<Rightarrow> bool" where
  "finite_hint a = (\<forall>f. at_last_retry_after a = Some f \<longrightarrow> (\<exists>q. f = Fin q))"

definition delivery_failed :: "nat \<Rightarrow> exn \<Rightarrow> bool" where
  "delivery_failed n e = (\<exists>st ra. e = OutboundDeliveryFailed n st ra \<and> (\<forall>s. ra = Some s \<longrightarrow> 1 \<le> s \<and> s \<le> 3600))"

lemma attempts_failure_typed: "finite_hint a \<Longrightarrow> delivery_failed (at_attempt a) (attempts_failure a)"
  using attempts_failure_shape [of a] by (auto simp: finite_hint_def delivery_failed_def)

lemma run_attempt_tame:
  assumes "run_attempt a d = (a', out)" "tame_dial d" "finite_hint a"
  shows "finite_hint a'" "out = Inl e \<Longrightarrow> delivery_failed (at_attempt a) e"
proof -
  show "finite_hint a'"
    using assms by (auto simp: run_attempt_def conclude_attempt_def record_response_def tame_dial_def finite_hint_def
      record_transport_failure_def record_oversized_response_def read_chunks_start
      split: dial.splits body_end.splits if_splits option.splits pyfloat.splits)
  then have "delivery_failed (at_attempt a') (attempts_failure a')" by (rule attempts_failure_typed)
  moreover have "at_attempt a' = at_attempt a" using run_attempt_counter [OF assms(1)] by simp
  moreover assume "out = Inl e"
  then have "e = attempts_failure a'"
    using assms(1,2) by (auto simp: run_attempt_def conclude_attempt_def record_response_def tame_dial_def
      read_chunks_start split: dial.splits body_end.splits if_splits)
  ultimately show "delivery_failed (at_attempt a) e" by simp
qed

lemma send_loop_failure:
  assumes "send_loop m env a = (rs, ws, Inl e)" "at_max_attempts a = at_attempt a + m" "finite_hint a"
    "\<And>n. \<exists>d. dial_of env n = Some d \<and> tame_dial d"
  shows "delivery_failed (at_attempt a + length rs) e"
  using assms(1-3)
proof (induction m arbitrary: a rs ws)
  case 0
  then show ?case using attempts_failure_typed by auto
next
  case (Suc m)
  let ?n = "Suc (at_attempt a)"
  let ?a = "a\<lparr>at_attempt := ?n\<rparr>"
  have na: "next_attempt a = Some ?a" using Suc.prems(2) by (simp add: next_attempt_def)
  obtain req where req: "se_build env ?n = Inr req" and tame: "tame_dial (se_net env ?n req)"
    using assms(4) [of ?n] by (auto simp: dial_of_def split: sum.splits)
  obtain a2 o2 where run: "run_attempt ?a (se_net env ?n req) = (a2, o2)" by fastforce
  have fh: "finite_hint ?a" using Suc.prems(3) by (simp add: finite_hint_def)
  note fin = run_attempt_tame [OF run tame fh]
  note cnt = run_attempt_counter [OF run]
  show ?case
  proof (cases o2)
    case (Inl x)
    then have "rs = [req]" "e = x" using Suc.prems(1) run req by (auto simp: na)
    then show ?thesis using fin(2) [OF Inl] by simp
  next
    case (Inr q)
    then have q: "q = None" using Suc.prems(1) run req by (cases q) (auto simp: na)
    obtain rs' ws' where rec: "send_loop m env a2 = (rs', ws', Inl e)" "rs = req # rs'"
      using Suc.prems(1) run req Inr q by (auto simp: na Let_def split: prod.splits if_splits)
    have "delivery_failed (at_attempt a2 + length rs') e"
      using Suc.IH [OF rec(1)] cnt Suc.prems(2) fin(1) by simp
    then show ?thesis using cnt rec(2) by simp
  qed
qed

lemma finite_hint_init: "finite_hint (attempts_init m)"
  by (simp add: finite_hint_def attempts_init_def)

text \<open>How a send that got past the two checks relates to its loop.\<close>

lemma send_cases:
  "send url p resolved m env = (case checked_field p url of Inl e \<Rightarrow> ([], [], Inl e)
    | Inr f \<Rightarrow> (case resolved f of Inl e \<Rightarrow> ([], [], Inl e) | Inr u \<Rightarrow> send_loop m env (attempts_init m)))"
  by (simp add: send_def)

lemma init_attempts [simp]: "at_attempt (attempts_init m) = 0" "at_max_attempts (attempts_init m) = m"
  by (simp_all add: attempts_init_def)

section \<open>Properties\<close>

text \<open>A send makes at most max_attempts dials and sleeps strictly between them; the wait after
  attempt i+1 is a finite number of seconds, at least the base doubled i times and at most a second
  more than that or a minute, whatever Retry-After the origin sends.\<close>

theorem send_is_bounded:
  assumes "send url p resolved m env = (rs, ws, out)"
    "0 \<le> se_base env" "\<forall>n. 0 \<le> se_jitter env n \<and> se_jitter env n \<le> 1"
  shows "length rs \<le> m \<and> (m = 0 \<or> length ws < m) \<and> length ws \<le> length rs \<and>
    (\<forall>i<length ws. \<exists>w. ws ! i = Fin w \<and> se_base env * 2 ^ i \<le> w \<and> w \<le> max (se_base env * 2 ^ i + 1) 60)"
proof -
  have "\<exists>w. wait_seconds (se_base env) (se_jitter env (Suc i)) (Suc i) ra = Fin w \<and>
      se_base env * 2 ^ i \<le> w \<and> w \<le> max (se_base env * 2 ^ i + 1) 60" for i ra
    using wait_seconds_bounds [of "se_base env" "se_jitter env (Suc i)" "Suc i" ra] assms(2,3)
    by (metis diff_Suc_1 wait_seconds_cases)
  moreover have "rs = [] \<and> ws = [] \<or> send_loop m env (attempts_init m) = (rs, ws, out)"
    using assms(1) by (auto simp: send_cases split: sum.splits)
  ultimately show ?thesis using send_loop_trace [of m env "attempts_init m" rs ws out] by fastforce
qed

text \<open>When the loop of a fresh sequence of attempts returns a result.\<close>

lemma send_succeeds_exactly_loop:
  assumes run: "send_loop m env (attempts_init m) = (rs, ws, out)"
  shows "out = Inr r \<longleftrightarrow>
    (\<exists>k d. 1 \<le> k \<and> k \<le> m \<and> dial_of env k = Some d \<and> delivered d k r \<and>
      (\<forall>i. 1 \<le> i \<and> i < k \<longrightarrow> (\<exists>d'. dial_of env i = Some d' \<and> retryable_dial d')))"
proof
  note tr = send_loop_trace [OF run]
  assume out: "out = Inr r"
  then have rs: "0 < length rs" "length rs \<le> m" using tr by auto
  have build: "se_build env i = Inr (rs ! (i - 1))" if "1 \<le> i" "i \<le> length rs" for i
    using tr that by (auto dest!: spec [of _ "i - 1"])
  show "\<exists>k d. 1 \<le> k \<and> k \<le> m \<and> dial_of env k = Some d \<and> delivered d k r \<and>
      (\<forall>i. 1 \<le> i \<and> i < k \<longrightarrow> (\<exists>d'. dial_of env i = Some d' \<and> retryable_dial d'))"
  proof (intro exI conjI allI impI)
    show "1 \<le> length rs" "length rs \<le> m" using rs by (simp_all add: Suc_le_eq)
    show "dial_of env (length rs) = Some (se_net env (length rs) (rs ! (length rs - 1)))"
      using build [of "length rs"] rs by (simp add: dial_of_def Suc_le_eq)
    show "delivered (se_net env (length rs) (rs ! (length rs - 1))) (length rs) r"
      using tr out rs by (auto simp: last_conv_nth)
    fix i assume i: "1 \<le> i \<and> i < length rs"
    then have "retryable_dial (se_net env i (rs ! (i - 1)))"
      using tr by (auto dest!: spec [of _ "i - 1"])
    then show "retryable_dial (se_net env i (rs ! (i - 1)))" .
    show "dial_of env i = Some (se_net env i (rs ! (i - 1)))"
      using build [of i] i by (simp add: dial_of_def)
  qed
next
  assume "\<exists>k d. 1 \<le> k \<and> k \<le> m \<and> dial_of env k = Some d \<and> delivered d k r \<and>
      (\<forall>i. 1 \<le> i \<and> i < k \<longrightarrow> (\<exists>d'. dial_of env i = Some d' \<and> retryable_dial d'))"
  then obtain k d where k: "1 \<le> k" "k \<le> m" "dial_of env k = Some d" "delivered d k r"
    "\<And>i. 1 \<le> i \<Longrightarrow> i < k \<Longrightarrow> \<exists>d'. dial_of env i = Some d' \<and> retryable_dial d'" by blast
  have "snd (snd (send_loop m env (attempts_init m))) = Inr r"
    by (rule send_loop_reaches [where k = "k - 1" and d = d]) (use k in auto)
  then show "out = Inr r" using run by simp
qed

lemma header_set_other:
  "lower n \<noteq> lower k \<Longrightarrow> filter (\<lambda>(x, v). lower x = lower k) (header_set n val hs) = filter (\<lambda>(x, v). lower x = lower k) hs"
  by (induction hs) (auto simp: filter_filter conj_commute intro!: filter_cong split: prod.splits)

definition framing :: "string \<Rightarrow> headers \<Rightarrow> headers" where
  "framing name hs = filter (\<lambda>(n, v). lower n = lower name) hs"

lemma framing_merge_signed:
  "lower name \<in> set signer_reserved_headers \<Longrightarrow> framing name (merge_signed signed hs) = framing name hs"
proof (induction signed hs rule: merge_signed.induct)
  case (2 n v signed hs)
  show ?case
  proof (cases "lower n \<in> set signer_reserved_headers")
    case False
    then have "lower n \<noteq> lower name" using 2 by auto
    then show ?thesis using 2 False by (simp add: framing_def header_set_other)
  qed (use 2 in simp)
qed simp

text \<open>C9. A send returns a result exactly when some attempt within the bound was answered by a
  complete 2xx response under the size cap, every attempt before it having failed in a retryable
  way; the result is that response, under the number of the attempt.\<close>

theorem send_succeeds_exactly:
  assumes "checked_field p url = Inr f" "resolved f = Inr ()"
  shows "snd (snd (send url p resolved m env)) = Inr r \<longleftrightarrow>
    (\<exists>k d. 1 \<le> k \<and> k \<le> m \<and> dial_of env k = Some d \<and> delivered d k r \<and>
      (\<forall>i. 1 \<le> i \<and> i < k \<longrightarrow> (\<exists>d'. dial_of env i = Some d' \<and> retryable_dial d')))"
proof -
  obtain rs ws out where run: "send_loop m env (attempts_init m) = (rs, ws, out)" by (metis prod_cases3)
  with assms have "snd (snd (send url p resolved m env)) = out" by (simp add: send_cases)
  with send_succeeds_exactly_loop [OF run] show ?thesis by simp
qed

text \<open>A signer can add or replace headers of the request of its attempt, but the method, the
  url, the body and every framing header (Content-Length, Transfer-Encoding, Host) on the wire are
  those httpx built, in whatever case the signer spells them.\<close>

theorem signer_cannot_reframe:
  assumes "build_request built sign = Inr request" "lower name \<in> set signer_reserved_headers"
  shows "hr_method request = hr_method built \<and> hr_url request = hr_url built \<and>
    hr_content request = hr_content built \<and> framing name (hr_headers request) = framing name (hr_headers built)"
  using assms framing_merge_signed by (auto simp: build_request_def split: option.splits sum.splits)

definition ex_built :: http_request where
  "ex_built = \<lparr>hr_method = ''POST'', hr_url = ''https://x.test'', hr_headers = [(''Content-Length'', ''2'')], hr_content = ''{}''\<rparr>"

definition ex_signed :: http_request where
  "ex_signed = ex_built\<lparr>hr_headers := [(''Content-Length'', ''2''), (''Signature'', ''s'')]\<rparr>"

theorem signer_cannot_reframe_witness:
  "build_request ex_built (Some (\<lambda>m u b. Inr [(''CONTENT-length'', ''0''), (''Signature'', ''s'')])) = Inr ex_signed \<and>
   framing ''content-length'' (hr_headers ex_signed) = [(''Content-Length'', ''2'')]"
proof -
  have b: "build_request ex_built (Some (\<lambda>m u b. Inr [(''CONTENT-length'', ''0''), (''Signature'', ''s'')])) = Inr ex_signed"
    by code_simp
  have r: "lower ''content-length'' \<in> set signer_reserved_headers" by code_simp
  have "framing ''content-length'' (hr_headers ex_built) = [(''Content-Length'', ''2'')]" by code_simp
  with b signer_cannot_reframe [OF b r] show ?thesis by simp
qed

text \<open>When the signer and the builder never raise, the transport fails only in the ways the seam
  retries and every Retry-After is a finite number or unusable, a send that does not deliver raises
  the seam's own failure, with the number of requests dialled and a retry_after clamped to
  [1, 3600] or absent.\<close>

theorem failure_is_typed:
  assumes "checked_field p url = Inr f" "resolved f = Inr ()"
    "\<And>n. \<exists>d. dial_of env n = Some d \<and> tame_dial d"
    "send url p resolved m env = (rs, ws, Inl e)"
  shows "delivery_failed (length rs) e"
  using send_loop_failure [of m env "attempts_init m" rs ws e] assms finite_hint_init
  by (simp add: send_cases)

text \<open>A refused send dials nothing and sleeps nothing: a field that names or contains a URL is
  refused before the address policy is asked, and a refusal of the address policy is raised as it
  is; the field the policy is asked with never contains the url.\<close>

theorem refused_send_never_dials:
  assumes "send url p resolved m env = (rs, ws, out)"
    "checked_field p url = Inl e \<or> (checked_field p url = Inr f \<and> resolved f = Inl e)"
  shows "rs = [] \<and> ws = [] \<and> out = Inl e \<and>
    (\<forall>g. checked_field p url = Inr (Some g) \<longrightarrow> refusal_field p = Some g \<and> \<not> sublist url g \<and> \<not> sublist ''://'' g)"
  using assms by (auto simp: send_cases checked_field_def split: option.splits if_splits)

text \<open>A Retry-After that is not a finite number escapes the seam as an untyped exception.\<close>

lemma non_finite_retry_after_escapes:
  assumes "checked_field p url = Inr f" "resolved f = Inr ()" "0 < m"
    "se_build env 1 = Inr req" "se_net env 1 req = Dial_response r"
    "rs_end r = Body_complete" "length (concat (rs_chunks r)) \<le> max_response_bytes"
    "rs_status r = 400" "rs_retry_after r = Seconds PInf"
  shows "send url p resolved m env = ([req], [], Inl OverflowError)"
  using assms by (cases m) (auto simp: send_cases next_attempt_def run_attempt_def conclude_attempt_def
    record_response_def read_chunks_start should_retry_status_def retryable_statuses_def attempts_failure_def)

text \<open>An exception the transport raises outside the retryable ones leaves the seam unchanged.\<close>

lemma untyped_exception_escapes:
  assumes "checked_field p url = Inr f" "resolved f = Inr ()" "0 < m"
    "se_build env 1 = Inr req" "se_net env 1 req = Dial_raised x"
  shows "send url p resolved m env = ([req], [], Inl x)"
  using assms by (cases m) (auto simp: send_cases next_attempt_def run_attempt_def)

section \<open>Witnesses\<close>

definition ex_response :: "int \<Rightarrow> retry_after_header \<Rightarrow> http_response" where
  "ex_response s h = \<lparr>rs_status = s, rs_retry_after = h, rs_headers = [(''Server'', ''x'')],
     rs_chunks = [''o'', ''k''], rs_end = Body_complete\<rparr>"

text \<open>A destination that fails once, asks for a long wait, and then answers.\<close>

definition ex_env :: send_env where
  "ex_env = \<lparr>se_build = (\<lambda>n. Inr ex_built),
     se_net = (\<lambda>n req. if n = 1 then Dial_transport_failure
       else if n = 2 then Dial_response (ex_response 503 (Seconds (Fin 7000)))
       else Dial_response (ex_response 200 No_header)),
     se_base = 1, se_jitter = (\<lambda>n. 1/2)\<rparr>"

definition ex_result :: outbound_result where
  "ex_result = \<lparr>or_http_status = 200, or_headers = [(''server'', ''x'')], or_content = ''ok'', or_attempts = 3\<rparr>"

lemmas ex_eval = send_cases checked_field_def refusal_field_def attempts_init_def next_attempt_def ex_env_def ex_response_def
  run_attempt_def conclude_attempt_def record_response_def record_transport_failure_def read_chunks_start
  max_response_bytes_def should_retry_status_def retryable_statuses_def attempts_wait_def wait_seconds_cases
  backoff_seconds_def attempts_failure_def clamp_retry_after_def retry_after_max_def Let_def accumulate_def over_cap_def

lemma ex_lower: "lower ''Server'' = ''server''"
  by code_simp

lemma ex_send:
  "send ''u'' None (\<lambda>f. Inr ()) 3 ex_env = ([ex_built, ex_built, ex_built], [Fin (3/2), Fin 60], Inr ex_result)"
  by (simp add: ex_eval ex_result_def numeral_3_eq_3 ex_lower)

lemma ex_send_short:
  "send ''u'' None (\<lambda>f. Inr ()) 2 ex_env = ([ex_built, ex_built], [Fin (3/2)], Inl (OutboundDeliveryFailed 2 (Some 503) (Some 3600)))"
  by (simp add: ex_eval numeral_2_eq_2)

theorem send_is_bounded_witness:
  "length [ex_built, ex_built, ex_built] \<le> 3 \<and> (\<exists>w. [Fin (3/2), Fin 60] ! 1 = Fin w \<and> 2 \<le> w \<and> w \<le> 60)"
  using send_is_bounded [OF ex_send] by (auto simp: ex_env_def)

theorem send_succeeds_exactly_witness:
  "\<exists>k d. 1 \<le> k \<and> k \<le> 3 \<and> dial_of ex_env k = Some d \<and> delivered d k ex_result"
proof -
  have c: "checked_field None ''u'' = Inr None" by code_simp
  have "snd (snd (send ''u'' None (\<lambda>f. Inr ()) 3 ex_env)) = Inr ex_result" by (simp add: ex_send)
  with send_succeeds_exactly [OF c, of "\<lambda>f. Inr ()" 3 ex_env ex_result] show ?thesis by blast
qed

theorem failure_is_typed_witness:
  "delivery_failed (length [ex_built, ex_built]) (OutboundDeliveryFailed 2 (Some 503) (Some 3600))"
proof -
  have c: "checked_field None ''u'' = Inr None" by code_simp
  have t: "\<exists>d. dial_of ex_env n = Some d \<and> tame_dial d" for n
    by (simp add: dial_of_def ex_env_def tame_dial_def ex_response_def)
  show ?thesis by (rule failure_is_typed [OF c _ t ex_send_short]) simp
qed

theorem refused_send_never_dials_witness:
  "send ''http://a'' (Some (Counterparty_url (Some ''x.http://a''))) (\<lambda>f. Inr ()) 3 ex_env = ([], [], Inl ValueError) \<and>
   ([]::http_request list) = [] \<and> ([]::pyfloat list) = []"
proof -
  have s: "send ''http://a'' (Some (Counterparty_url (Some ''x.http://a''))) (\<lambda>f. Inr ()) 3 ex_env = ([], [], Inl ValueError)"
    by code_simp
  have c: "checked_field (Some (Counterparty_url (Some ''x.http://a''))) ''http://a'' = Inl ValueError" by code_simp
  from refused_send_never_dials [OF s, of ValueError] c s show ?thesis by blast
qed

end
