(* ===== verification/Wrapped_Failure.thy ===== *)
theory Wrapped_Failure
  imports Outbound_Http
begin

text \<open>
  The walk of src/src/core/security/outbound_http.py over an exception's chain: cause, then
  context, and the members of any exception group, in a graph that may share nodes and have
  cycles. Exceptions are objects of a heap, referred to by their index (their identity); the
  walk's recursion is bounded by fuel, one unit more than the heap has objects being enough.
\<close>

datatype exn_class =
    HTTPStatusError int retry_after_header
  | Other_error string

record exn_obj =
  eo_class :: exn_class
  eo_members :: "nat list option"
  eo_cause :: "nat option"
  eo_context :: "nat option"

type_synonym exn_heap = "exn_obj list"

text \<open>\<open>current.__cause__ or current.__context__\<close>.\<close>

definition next_exn :: "exn_obj \<Rightarrow> nat option" where
  "next_exn e = (case eo_cause e of Some c \<Rightarrow> Some c | None \<Rightarrow> eo_context e)"

definition members_of :: "exn_obj \<Rightarrow> nat list" where
  "members_of e = (case eo_members e of None \<Rightarrow> [] | Some ms \<Rightarrow> ms)"

text \<open>
  \<open>_find_wrapped\<close>: \<open>walk_chain\<close> is its while loop from \<open>current\<close>, \<open>walk_members\<close> the loop over a
  group's members; the seen-set is shared by all of them and returned. None is out of fuel.
\<close>

fun walk_chain :: "nat \<Rightarrow> exn_heap \<Rightarrow> (exn_class \<Rightarrow> bool) \<Rightarrow> nat option \<Rightarrow> nat set \<Rightarrow> (nat option \<times> nat set) option"
  and walk_members :: "nat \<Rightarrow> exn_heap \<Rightarrow> (exn_class \<Rightarrow> bool) \<Rightarrow> nat list \<Rightarrow> nat set \<Rightarrow> (nat option \<times> nat set) option"
where
  "walk_chain 0 h is_type current known = None"
| "walk_chain (Suc n) h is_type None known = Some (None, known)"
| "walk_chain (Suc n) h is_type (Some c) known = (
     if c \<in> known then Some (None, known)
     else if is_type (eo_class (h ! c)) then Some (Some c, insert c known)
     else (case walk_members n h is_type (members_of (h ! c)) (insert c known) of
         None \<Rightarrow> None
       | Some (Some found, known') \<Rightarrow> Some (Some found, known')
       | Some (None, known') \<Rightarrow> walk_chain n h is_type (next_exn (h ! c)) known'))"
| "walk_members n h is_type [] known = Some (None, known)"
| "walk_members n h is_type (sub # subs) known = (case walk_chain n h is_type (Some sub) known of
     None \<Rightarrow> None
   | Some (Some found, known') \<Rightarrow> Some (Some found, known')
   | Some (None, known') \<Rightarrow> walk_members n h is_type subs known')"

definition find_wrapped :: "exn_heap \<Rightarrow> nat \<Rightarrow> (exn_class \<Rightarrow> bool) \<Rightarrow> nat option option" where
  "find_wrapped h exc is_type = map_option fst (walk_chain (Suc (length h)) h is_type (Some exc) {})"

definition is_http_status :: "exn_class \<Rightarrow> bool" where
  "is_http_status c = (case c of HTTPStatusError s r \<Rightarrow> True | _ \<Rightarrow> False)"

text \<open>\<open>wrapped_failure\<close>: the status and Retry-After of the first wrapped HTTPStatusError.\<close>

definition wrapped_failure :: "exn_heap \<Rightarrow> nat \<Rightarrow> (int \<times> pyfloat option) option option" where
  "wrapped_failure h exc = map_option (\<lambda>found. case found of
       None \<Rightarrow> None
     | Some i \<Rightarrow> (case eo_class (h ! i) of
         HTTPStatusError s r \<Rightarrow> Some (s, retry_after_seconds r)
       | _ \<Rightarrow> None)) (find_wrapped h exc is_http_status)"

section \<open>Lemmas\<close>

definition links :: "exn_heap \<Rightarrow> nat \<Rightarrow> nat set" where
  "links h i = set (members_of (h ! i)) \<union> set_option (next_exn (h ! i))"

text \<open>Every reference of the heap is to an object of it.\<close>

definition heap_ok :: "exn_heap \<Rightarrow> bool" where
  "heap_ok h = (\<forall>i<length h. \<forall>j\<in>links h i. j < length h)"

definition chain :: "exn_heap \<Rightarrow> (nat \<times> nat) set" where
  "chain h = {(i, j). j \<in> links h i}"

text \<open>
  What a walk from the starts promises: it ran inside the heap, a hit is a matching object reached
  from a start, and without a hit the newly seen objects do not match and are closed under links.
\<close>

definition walk_ok :: "exn_heap \<Rightarrow> (exn_class \<Rightarrow> bool) \<Rightarrow> nat set \<Rightarrow> nat set \<Rightarrow> (nat option \<times> nat set) option \<Rightarrow> bool" where
  "walk_ok h is_type starts known out = (case out of
     None \<Rightarrow> False
   | Some (r, known') \<Rightarrow> known \<subseteq> known' \<and> known' \<subseteq> {..<length h} \<and>
       (case r of
          Some x \<Rightarrow> is_type (eo_class (h ! x)) \<and> (\<exists>s\<in>starts. (s, x) \<in> (chain h)\<^sup>*)
        | None \<Rightarrow> starts \<subseteq> known' \<and> (\<forall>x\<in>known' - known. \<not> is_type (eo_class (h ! x)) \<and> links h x \<subseteq> known')))"

lemma unknown_shrinks:
  assumes "known \<subseteq> known'" "known' \<subseteq> {..<length h}"
  shows "card ({..<length h} - known') \<le> card ({..<length h} - known)"
  using assms by (intro card_mono) auto

lemma walk_ok_hit: "walk_ok h is_type A known (Some (Some x, k1)) \<Longrightarrow> A \<subseteq> B \<Longrightarrow> walk_ok h is_type B known (Some (Some x, k1))"
  by (auto simp: walk_ok_def)

lemma walk_ok_miss:
  assumes "walk_ok h is_type A known (Some (None, k1))" "walk_ok h is_type B k1 out"
  shows "walk_ok h is_type (A \<union> B) known out"
proof (cases out)
  case (Some p)
  obtain r k2 where p: "p = (r, k2)" by fastforce
  have k: "known \<subseteq> k1" "A \<subseteq> k1" "\<forall>x\<in>k1 - known. \<not> is_type (eo_class (h ! x)) \<and> links h x \<subseteq> k1"
    using assms(1) by (simp_all add: walk_ok_def)
  show ?thesis
  proof (cases r)
    case None
    then have l: "k1 \<subseteq> k2" "\<forall>x\<in>k2 - k1. \<not> is_type (eo_class (h ! x)) \<and> links h x \<subseteq> k2"
      using assms(2) Some p by (simp_all add: walk_ok_def)
    then have "\<forall>x\<in>k2 - known. \<not> is_type (eo_class (h ! x)) \<and> links h x \<subseteq> k2" using k(3) by blast
    then show ?thesis using assms(2) k l Some p None by (auto simp: walk_ok_def)
  qed (use assms(2) k Some p in \<open>auto simp: walk_ok_def\<close>)
qed (use assms in \<open>simp add: walk_ok_def\<close>)

lemma walk_correct:
  "heap_ok h \<Longrightarrow> set_option current \<subseteq> {..<length h} \<Longrightarrow> known \<subseteq> {..<length h} \<Longrightarrow>
     card ({..<length h} - known) < n \<Longrightarrow> walk_ok h is_type (set_option current) known (walk_chain n h is_type current known)"
  "heap_ok h \<Longrightarrow> set subs \<subseteq> {..<length h} \<Longrightarrow> known \<subseteq> {..<length h} \<Longrightarrow>
     card ({..<length h} - known) < n \<Longrightarrow> walk_ok h is_type (set subs) known (walk_members n h is_type subs known)"
proof (induction n h is_type current known and n h is_type subs known rule: walk_chain_walk_members.induct)
  case (3 n h is_type c known)
  let ?k = "insert c known"
  have c: "c < length h" using 3 by simp
  show ?case
  proof (cases "c \<in> known \<or> is_type (eo_class (h ! c))")
    case True
    then show ?thesis using 3 c by (auto simp: walk_ok_def)
  next
    case False
    have less: "card ({..<length h} - ?k) < n"
    proof -
      have "{..<length h} - ?k = ({..<length h} - known) - {c}" by auto
      moreover have "c \<in> {..<length h} - known" using c False by simp
      ultimately have "card ({..<length h} - ?k) < card ({..<length h} - known)"
        by (metis card_Diff1_less finite_Diff finite_lessThan)
      then show ?thesis using 3 by linarith
    qed
    have lk: "set (members_of (h ! c)) \<subseteq> {..<length h}" "set_option (next_exn (h ! c)) \<subseteq> {..<length h}"
      using 3 c by (auto simp: heap_ok_def links_def)
    have m: "walk_ok h is_type (set (members_of (h ! c))) ?k (walk_members n h is_type (members_of (h ! c)) ?k)"
      using 3 False lk c less by simp
    then obtain r k1 where w: "walk_members n h is_type (members_of (h ! c)) ?k = Some (r, k1)"
      by (auto simp: walk_ok_def split: option.splits)
    have sub: "(c, s) \<in> chain h" if "s \<in> set (members_of (h ! c)) \<union> set_option (next_exn (h ! c))" for s
      using that by (simp add: chain_def links_def)
    show ?thesis
    proof (cases r)
      case (Some x)
      then have "\<exists>s\<in>set (members_of (h ! c)). (s, x) \<in> (chain h)\<^sup>*" using m w by (simp add: walk_ok_def)
      then have "(c, x) \<in> (chain h)\<^sup>*" using sub by (meson UnI1 converse_rtrancl_into_rtrancl)
      then show ?thesis using Some w m False by (simp add: walk_ok_def)
    next
      case None
      have k1: "?k \<subseteq> k1" "k1 \<subseteq> {..<length h}" using m w by (simp_all add: walk_ok_def)
      then have "card ({..<length h} - k1) < n" using less unknown_shrinks [of ?k k1 h] by linarith
      then have t: "walk_ok h is_type (set_option (next_exn (h ! c))) k1 (walk_chain n h is_type (next_exn (h ! c)) k1)"
        using "3.IH"(2) [OF _ _ w] None False 3 lk k1 by simp
      then obtain r2 k2 where w2: "walk_chain n h is_type (next_exn (h ! c)) k1 = Some (r2, k2)"
        by (auto simp: walk_ok_def split: option.splits)
      show ?thesis
      proof (cases r2)
        case (Some x)
        then have "\<exists>s\<in>set_option (next_exn (h ! c)). (s, x) \<in> (chain h)\<^sup>*" using t w2 by (simp add: walk_ok_def)
        then have "(c, x) \<in> (chain h)\<^sup>*" using sub by (meson UnI2 converse_rtrancl_into_rtrancl)
        then show ?thesis using Some w w2 None t False k1 by (auto simp: walk_ok_def)
      next
        case None2: None
        have "links h c \<subseteq> k2" using m t w w2 None None2 by (auto simp: walk_ok_def links_def)
        moreover have "\<forall>x\<in>k2 - k1. \<not> is_type (eo_class (h ! x)) \<and> links h x \<subseteq> k2" "k1 \<subseteq> k2"
          using t w2 None2 by (simp_all add: walk_ok_def)
        moreover have "\<forall>x\<in>k1 - ?k. \<not> is_type (eo_class (h ! x)) \<and> links h x \<subseteq> k1"
          using m w None by (simp add: walk_ok_def)
        ultimately have "\<forall>x\<in>k2 - known. \<not> is_type (eo_class (h ! x)) \<and> links h x \<subseteq> k2"
          using False by blast
        then show ?thesis using w w2 None None2 t k1 False by (auto simp: walk_ok_def)
      qed
    qed
  qed
next
  case (5 n h is_type sub subs known)
  have 1: "walk_ok h is_type {sub} known (walk_chain n h is_type (Some sub) known)" using 5 by simp
  then obtain r k1 where w: "walk_chain n h is_type (Some sub) known = Some (r, k1)"
    by (auto simp: walk_ok_def split: option.splits)
  have k1: "known \<subseteq> k1" "k1 \<subseteq> {..<length h}" using 1 w by (simp_all add: walk_ok_def)
  show ?case
  proof (cases r)
    case (Some x)
    then show ?thesis using walk_ok_hit [of h is_type "{sub}" known x k1 "set (sub # subs)"] 1 w by simp
  next
    case None
    have "card ({..<length h} - k1) < n" using 5 unknown_shrinks [OF k1] by linarith
    then have "walk_ok h is_type (set subs) k1 (walk_members n h is_type subs k1)"
      using "5.IH"(2) [OF w _ _] None 5 k1 by simp
    then show ?thesis using walk_ok_miss [of h is_type "{sub}" known k1 "set subs"] 1 w None by simp
  qed
qed (simp_all add: walk_ok_def)

section \<open>Property\<close>

text \<open>C10. The walk always ends, on cyclic chains too, and decides whether an exception of the asked type
  is reachable by causes, contexts and group members: what it returns is one, and when it returns
  none there is none.\<close>

theorem find_wrapped_decides:
  assumes "heap_ok h" "exc < length h"
  shows "\<exists>r. find_wrapped h exc is_type = Some r \<and>
    (case r of Some x \<Rightarrow> (exc, x) \<in> (chain h)\<^sup>* \<and> is_type (eo_class (h ! x))
     | None \<Rightarrow> \<forall>x. (exc, x) \<in> (chain h)\<^sup>* \<longrightarrow> \<not> is_type (eo_class (h ! x)))"
proof -
  have ok: "walk_ok h is_type {exc} {} (walk_chain (Suc (length h)) h is_type (Some exc) {})"
    using walk_correct(1) [of h "Some exc" "{}" "Suc (length h)" is_type] assms by simp
  then obtain r k where w: "walk_chain (Suc (length h)) h is_type (Some exc) {} = Some (r, k)"
    by (auto simp: walk_ok_def split: option.splits)
  show ?thesis
  proof (cases r)
    case (Some x)
    then show ?thesis using ok w by (simp add: walk_ok_def find_wrapped_def)
  next
    case None
    then have k: "exc \<in> k" "\<forall>x\<in>k. \<not> is_type (eo_class (h ! x)) \<and> links h x \<subseteq> k" using ok w by (simp_all add: walk_ok_def)
    have "x \<in> k" if "(exc, x) \<in> (chain h)\<^sup>*" for x
      using that by (induction rule: rtrancl_induct) (use k in \<open>auto simp: chain_def\<close>)
    then show ?thesis using k None w by (auto simp: find_wrapped_def)
  qed
qed

text \<open>A wrapper whose cause is a group: one member points back at the wrapper, the other is the 429.\<close>

definition ex_heap :: exn_heap where
  "ex_heap = [\<lparr>eo_class = Other_error ''RuntimeError'', eo_members = None, eo_cause = Some 1, eo_context = None\<rparr>,
     \<lparr>eo_class = Other_error ''ExceptionGroup'', eo_members = Some [2, 3], eo_cause = None, eo_context = Some 0\<rparr>,
     \<lparr>eo_class = Other_error ''ToolError'', eo_members = None, eo_cause = None, eo_context = Some 0\<rparr>,
     \<lparr>eo_class = HTTPStatusError 429 (Seconds (Fin 7)), eo_members = None, eo_cause = None, eo_context = None\<rparr>]"

theorem find_wrapped_decides_witness:
  "find_wrapped ex_heap 0 is_http_status = Some (Some 3) \<and> (0, 3) \<in> (chain ex_heap)\<^sup>*"
proof -
  have f: "find_wrapped ex_heap 0 is_http_status = Some (Some 3)" by code_simp
  have "heap_ok ex_heap" by code_simp
  moreover have "0 < length ex_heap" by (simp add: ex_heap_def)
  ultimately show ?thesis using find_wrapped_decides [of ex_heap 0 is_http_status] f by simp
qed

lemma ex_wrapped_failure: "wrapped_failure ex_heap 0 = Some (Some (429, Some (Fin 7)))"
  by code_simp

end
