(* ===== verification/Circuit_Breaker.thy ===== *)
theory Circuit_Breaker
  imports Clock
begin

text \<open>
  The per-endpoint fault isolation of src/src/services/webhook_delivery_service.py: the circuit
  breaker (CLOSED, OPEN, HALF_OPEN) and the bounded queue. Every method runs under the object's
  lock, so threads interleave whole methods. The queue's contract is a locale; its client lemma
  is that an interleaving of producers and consumers keeps the order of what was accepted.
\<close>

section \<open>The circuit breaker\<close>

datatype circuit_state = CLOSED | OPEN | HALF_OPEN

record circuit_breaker =
  cb_failure_threshold :: int
  cb_success_threshold :: int
  cb_timeout_seconds :: int
  cb_state :: circuit_state
  cb_failure_count :: int
  cb_success_count :: int
  cb_last_failure_time :: "instant option"

definition new_breaker :: "int \<Rightarrow> int \<Rightarrow> int \<Rightarrow> circuit_breaker" where
  "new_breaker n s t = \<lparr>cb_failure_threshold = n, cb_success_threshold = s, cb_timeout_seconds = t,
     cb_state = CLOSED, cb_failure_count = 0, cb_success_count = 0, cb_last_failure_time = None\<rparr>"

definition can_attempt :: "instant \<Rightarrow> circuit_breaker \<Rightarrow> circuit_breaker \<times> bool" where
  "can_attempt now cb = (case cb_state cb of
     CLOSED \<Rightarrow> (cb, True)
   | OPEN \<Rightarrow> (case cb_last_failure_time cb of
       None \<Rightarrow> (cb, False)
     | Some t \<Rightarrow> if cb_timeout_seconds cb * second_us \<le> now - t
         then (cb\<lparr>cb_state := HALF_OPEN, cb_success_count := 0\<rparr>, True) else (cb, False))
   | HALF_OPEN \<Rightarrow> (cb, True))"

definition breaker_success :: "circuit_breaker \<Rightarrow> circuit_breaker" where
  "breaker_success cb = (let cb0 = cb\<lparr>cb_failure_count := 0\<rparr> in
     (case cb_state cb0 of
        HALF_OPEN \<Rightarrow> (let cb1 = cb0\<lparr>cb_success_count := cb_success_count cb0 + 1\<rparr> in
          if cb_success_threshold cb1 \<le> cb_success_count cb1 then cb1\<lparr>cb_state := CLOSED\<rparr> else cb1)
      | OPEN \<Rightarrow> cb0\<lparr>cb_state := CLOSED\<rparr>
      | CLOSED \<Rightarrow> cb0))"

definition breaker_failure :: "instant \<Rightarrow> circuit_breaker \<Rightarrow> circuit_breaker" where
  "breaker_failure now cb =
     (let cb0 = cb\<lparr>cb_failure_count := cb_failure_count cb + 1, cb_last_failure_time := Some now\<rparr> in
      (case cb_state cb0 of
         CLOSED \<Rightarrow> if cb_failure_threshold cb0 \<le> cb_failure_count cb0 then cb0\<lparr>cb_state := OPEN\<rparr> else cb0
       | HALF_OPEN \<Rightarrow> cb0\<lparr>cb_state := OPEN, cb_failure_count := 0\<rparr>
       | OPEN \<Rightarrow> cb0))"

text \<open>
  One guarded call, as the delivery makes it, by its start, its finish and whether it succeeds:
  skipped when the breaker refuses at the start, else made and recorded at the finish. The
  boolean is whether the call was made.
\<close>

type_synonym call = "instant \<times> instant \<times> bool"

abbreviation (input) starts :: "call \<Rightarrow> instant" where "starts c \<equiv> fst c"
abbreviation (input) finishes :: "call \<Rightarrow> instant" where "finishes c \<equiv> fst (snd c)"
abbreviation (input) succeeds :: "call \<Rightarrow> bool" where "succeeds c \<equiv> snd (snd c)"

definition guarded_call :: "call \<Rightarrow> circuit_breaker \<Rightarrow> circuit_breaker \<times> bool" where
  "guarded_call c cb = (case can_attempt (starts c) cb of
     (cb1, admitted) \<Rightarrow> (if \<not> admitted then cb1 else if succeeds c then breaker_success cb1 else breaker_failure (finishes c) cb1, admitted))"

fun guarded_calls :: "call list \<Rightarrow> circuit_breaker \<Rightarrow> circuit_breaker \<times> bool list" where
  "guarded_calls [] cb = (cb, [])"
| "guarded_calls (c # cs) cb = (case guarded_call c cb of
     (cb1, b) \<Rightarrow> (case guarded_calls cs cb1 of (cb2, bs) \<Rightarrow> (cb2, b # bs)))"

lemma guarded_calls_Cons:
  "guarded_calls (c # cs) cb = (fst (guarded_calls cs (fst (guarded_call c cb))),
     snd (guarded_call c cb) # snd (guarded_calls cs (fst (guarded_call c cb))))"
  by (simp split: prod.splits)

lemma guarded_calls_append:
  "guarded_calls (cs @ ds) cb = (fst (guarded_calls ds (fst (guarded_calls cs cb))),
     snd (guarded_calls cs cb) @ snd (guarded_calls ds (fst (guarded_calls cs cb))))"
  by (induction cs arbitrary: cb) (simp_all add: guarded_calls_Cons del: guarded_calls.simps(2))

definition calls_made :: "bool list \<Rightarrow> nat" where
  "calls_made bs = length (filter id bs)"

lemmas breaker_defs = can_attempt_def breaker_success_def breaker_failure_def guarded_call_def Let_def

subsection \<open>The invariant\<close>

definition breaker_ok :: "circuit_breaker \<Rightarrow> bool" where
  "breaker_ok cb = ((cb_state cb = OPEN \<longrightarrow> cb_last_failure_time cb \<noteq> None) \<and>
     (cb_state cb = CLOSED \<longrightarrow> 0 \<le> cb_failure_count cb \<and> cb_failure_count cb < cb_failure_threshold cb) \<and>
     (cb_state cb = HALF_OPEN \<longrightarrow> 0 \<le> cb_success_count cb \<and> cb_success_count cb < cb_success_threshold cb) \<and>
     1 \<le> cb_failure_threshold cb \<and> 1 \<le> cb_success_threshold cb)"

lemma new_breaker_ok: "1 \<le> n \<Longrightarrow> 1 \<le> s \<Longrightarrow> breaker_ok (new_breaker n s t)"
  by (simp add: breaker_ok_def new_breaker_def)

lemma guarded_call_ok: "breaker_ok cb \<Longrightarrow> breaker_ok (fst (guarded_call c cb))"
  by (auto simp: breaker_ok_def breaker_defs split: circuit_state.splits option.splits)

lemma guarded_call_policy:
  "cb_failure_threshold (fst (guarded_call c cb)) = cb_failure_threshold cb"
  "cb_success_threshold (fst (guarded_call c cb)) = cb_success_threshold cb"
  "cb_timeout_seconds (fst (guarded_call c cb)) = cb_timeout_seconds cb"
  by (auto simp: breaker_defs split: circuit_state.splits option.splits)

subsection \<open>A dead endpoint\<close>

text \<open>
  The calls a failing endpoint can still cost from a state whose clock reads \<open>now\<close>, up to
  \<open>until\<close>: what is left of the threshold, and then one probe per timeout.
\<close>

definition cost_bound :: "instant \<Rightarrow> instant \<Rightarrow> circuit_breaker \<Rightarrow> int" where
  "cost_bound now until cb = (let w = cb_timeout_seconds cb * second_us in
     (case cb_state cb of
        CLOSED \<Rightarrow> cb_failure_threshold cb - cb_failure_count cb + (until - now) div w
      | HALF_OPEN \<Rightarrow> 1 + (until - now) div w
      | OPEN \<Rightarrow> (case cb_last_failure_time cb of Some t \<Rightarrow> (until - t) div w | None \<Rightarrow> 0)))"

lemma window_step: "0 < w \<Longrightarrow> t + w \<le> t' \<Longrightarrow> 1 + (u - t') div w \<le> (u - t) div (w::int)"
  by (metis add.commute add_diff_cancel_left' diff_diff_eq div_add_self2 div_le_mono2 le_diff_eq less_le
      order_less_irrefl zdiv_mono1 add_left_mono diff_add_cancel diff_left_mono)

definition clock_ok :: "instant \<Rightarrow> circuit_breaker \<Rightarrow> bool" where
  "clock_ok now cb = (breaker_ok cb \<and> 0 < cb_timeout_seconds cb \<and>
     (\<forall>t. cb_last_failure_time cb = Some t \<longrightarrow> t \<le> now))"

lemma cost_bound_nonneg: "clock_ok now cb \<Longrightarrow> now \<le> until \<Longrightarrow> 0 \<le> cost_bound now until cb"
  by (auto simp: cost_bound_def clock_ok_def breaker_ok_def Let_def second_us_def pos_imp_zdiv_nonneg_iff
      split: circuit_state.splits)

lemma guarded_call_clock:
  assumes "clock_ok now cb" "now \<le> finishes c"
  shows "clock_ok (finishes c) (fst (guarded_call c cb))"
proof -
  have "\<forall>t. cb_last_failure_time (fst (guarded_call c cb)) = Some t \<longrightarrow> t \<le> finishes c"
    using assms by (auto simp: clock_ok_def breaker_defs split: circuit_state.splits option.splits)
  then show ?thesis using assms guarded_call_ok by (simp add: clock_ok_def guarded_call_policy)
qed

lemma dead_call_cost:
  assumes "clock_ok now cb" "now \<le> t" "t \<le> f" "f \<le> until" "guarded_call (t, f, False) cb = (cb', made)"
  shows "(if made then 1 else 0) + cost_bound f until cb' \<le> cost_bound now until cb"
proof -
  let ?w = "cb_timeout_seconds cb * second_us"
  have w: "0 < ?w" using assms(1) by (simp add: clock_ok_def second_us_def)
  have later: "(until - f) div ?w \<le> (until - now) div ?w" using assms(2,3) w by (intro zdiv_mono1) auto
  show ?thesis
  proof (cases "cb_state cb")
    case CLOSED
    then show ?thesis using assms(1,5) later
      by (auto simp: breaker_defs cost_bound_def clock_ok_def breaker_ok_def split: if_splits)
  next
    case HALF_OPEN
    then show ?thesis using assms(1,5) later by (auto simp: breaker_defs cost_bound_def)
  next
    case OPEN
    then obtain l where l: "cb_last_failure_time cb = Some l" using assms(1) by (auto simp: clock_ok_def breaker_ok_def)
    show ?thesis
    proof (cases "?w \<le> t - l")
      case True
      then have "1 + (until - f) div ?w \<le> (until - l) div ?w" using w assms(3) by (intro window_step) auto
      then show ?thesis using OPEN l True assms(5) by (auto simp: breaker_defs cost_bound_def)
    next
      case False
      then show ?thesis using OPEN l assms(5) by (auto simp: breaker_defs cost_bound_def)
    qed
  qed
qed

fun in_time :: "instant \<Rightarrow> call list \<Rightarrow> instant \<Rightarrow> bool" where
  "in_time now [] until = (now \<le> until)"
| "in_time now (c # cs) until = (now \<le> starts c \<and> starts c \<le> finishes c \<and> in_time (finishes c) cs until)"

lemma in_time_le: "in_time now cs until \<Longrightarrow> now \<le> until"
  by (induction cs arbitrary: now) (auto intro: order_trans)

lemma dead_calls_cost:
  assumes "clock_ok now cb" "in_time now cs until" "\<forall>c\<in>set cs. \<not> succeeds c" "guarded_calls cs cb = (cb', bs)"
  shows "int (calls_made bs) \<le> cost_bound now until cb"
  using assms
proof (induction cs arbitrary: now cb bs)
  case Nil
  then show ?case using cost_bound_nonneg by (auto simp: calls_made_def)
next
  case (Cons c cs)
  obtain t f where c: "c = (t, f, False)" using Cons.prems(3) by (cases c) auto
  obtain cb1 b where g: "guarded_call (t, f, False) cb = (cb1, b)" by fastforce
  obtain bs' where bs: "bs = b # bs'" "guarded_calls cs cb1 = (cb', bs')"
    using Cons.prems(4) c g by (auto split: prod.splits)
  have t: "now \<le> t" "t \<le> f" "in_time f cs until" using Cons.prems(2) c by auto
  have "clock_ok f cb1" using guarded_call_clock [OF Cons.prems(1), of c] c g t(1,2) by simp
  then have "int (calls_made bs') \<le> cost_bound f until cb1" using Cons.IH t bs Cons.prems(3) by auto
  moreover have "(if b then 1 else 0) + cost_bound f until cb1 \<le> cost_bound now until cb"
    using dead_call_cost [OF Cons.prems(1) t(1,2) in_time_le [OF t(3)] g] .
  ultimately show ?case by (simp add: bs calls_made_def split: if_splits)
qed



subsection \<open>Recovery\<close>

lemma half_open_recovers:
  assumes "cb_state cb = HALF_OPEN" "\<forall>c\<in>set cs. succeeds c" "int (length cs) = cb_success_threshold cb - cb_success_count cb" "cs \<noteq> []"
    "cb_success_threshold cb \<le> m"
  shows "cb_state (fst (guarded_calls cs cb)) = CLOSED \<and> cb_failure_count (fst (guarded_calls cs cb)) = 0 \<and>
    snd (guarded_calls cs cb) = replicate (length cs) True"
  using assms
proof (induction cs arbitrary: cb)
  case (Cons c cs)
  let ?cb = "fst (guarded_call c cb)"
  have made: "snd (guarded_call c cb)" using Cons.prems(1) by (simp add: breaker_defs)
  show ?case
  proof (cases cs)
    case Nil
    then show ?thesis using Cons.prems by (auto simp: breaker_defs)
  next
    case (Cons d ds)
    have st: "cb_state ?cb = HALF_OPEN" "cb_success_count ?cb = cb_success_count cb + 1"
      using Cons.prems Cons by (auto simp: breaker_defs)
    have "cb_state (fst (guarded_calls cs ?cb)) = CLOSED \<and> cb_failure_count (fst (guarded_calls cs ?cb)) = 0 \<and>
      snd (guarded_calls cs ?cb) = replicate (length cs) True"
      by (rule Cons.IH) (use st Cons.prems Cons in \<open>auto simp: guarded_call_policy\<close>)
    then show ?thesis using made by (simp add: guarded_calls_Cons del: guarded_calls.simps(2))
  qed
qed simp

text \<open>An open breaker recovers: it refuses every call until the timeout has passed since the last
  failure, admits the first one after, and closes, with its failure count cleared, after as many
  consecutive successes as the success threshold; all of those calls are made.\<close>

theorem open_breaker_recovers:
  assumes "breaker_ok cb" "cb_state cb = OPEN" "cb_last_failure_time cb = Some l"
    and "l + cb_timeout_seconds cb * second_us \<le> fst (hd cs)" "\<forall>c\<in>set cs. succeeds c"
    and "int (length cs) = cb_success_threshold cb" "0 < cb_timeout_seconds cb"
  shows "(\<forall>t < l + cb_timeout_seconds cb * second_us. guarded_call (t, f, ok) cb = (cb, False)) \<and>
    cb_state (fst (guarded_calls cs cb)) = CLOSED \<and> cb_failure_count (fst (guarded_calls cs cb)) = 0 \<and>
    snd (guarded_calls cs cb) = replicate (length cs) True"
proof -
  have ne: "cs \<noteq> []" using assms(1,6) by (auto simp: breaker_ok_def)
  define hb where "hb = cb\<lparr>cb_state := HALF_OPEN, cb_success_count := 0\<rparr>"
  have first: "guarded_call (hd cs) cb = guarded_call (hd cs) hb"
    using assms(2-4) by (simp add: hb_def breaker_defs)
  have "guarded_calls cs cb = guarded_calls cs hb"
    using ne first by (cases cs) simp_all
  moreover have "cb_state (fst (guarded_calls cs hb)) = CLOSED \<and> cb_failure_count (fst (guarded_calls cs hb)) = 0 \<and>
    snd (guarded_calls cs hb) = replicate (length cs) True"
    by (rule half_open_recovers) (use assms ne in \<open>auto simp: hb_def\<close>)
  moreover have "\<forall>t < l + cb_timeout_seconds cb * second_us. guarded_call (t, f, ok) cb = (cb, False)"
    using assms(2,3) by (auto simp: breaker_defs)
  ultimately show ?thesis by simp
qed

definition ex_open :: circuit_breaker where
  "ex_open = (new_breaker 5 2 60)\<lparr>cb_state := OPEN, cb_failure_count := 5, cb_last_failure_time := Some 0\<rparr>"

theorem open_breaker_recovers_witness:
  "guarded_call (59999999, 60000000, True) ex_open = (ex_open, False) \<and>
   cb_state (fst (guarded_calls [(60000000, 60000000, True), (60000001, 60000002, True)] ex_open)) = CLOSED"
proof -
  have "breaker_ok ex_open" by (simp add: ex_open_def new_breaker_def breaker_ok_def)
  from open_breaker_recovers [OF this, of 0 "[(60000000, 60000000, True), (60000001, 60000002, True)]" 60000000 True]
  show ?thesis by (simp add: ex_open_def new_breaker_def second_us_def)
qed

subsection \<open>The trip\<close>

text \<open>The failures at the end of a sequence of outcomes.\<close>

definition trailing_failures :: "bool list \<Rightarrow> nat" where
  "trailing_failures os = length (takeWhile Not (rev os))"

lemma trailing_simps [simp]:
  "trailing_failures [] = 0" "trailing_failures (os @ [b]) = (if b then 0 else Suc (trailing_failures os))"
  by (simp_all add: trailing_failures_def)

lemma closed_counts:
  assumes "1 \<le> n" "1 \<le> s" "\<forall>k\<le>length cs. int (trailing_failures (take k (map succeeds cs))) < n"
  shows "cb_state (fst (guarded_calls cs (new_breaker n s t))) = CLOSED \<and>
    cb_failure_threshold (fst (guarded_calls cs (new_breaker n s t))) = n \<and>
    cb_failure_count (fst (guarded_calls cs (new_breaker n s t))) = int (trailing_failures (map succeeds cs)) \<and>
    snd (guarded_calls cs (new_breaker n s t)) = replicate (length cs) True"
  using assms(3)
proof (induction cs rule: rev_induct)
  case Nil
  then show ?case by (simp add: new_breaker_def)
next
  case (snoc c cs)
  have "\<forall>k\<le>length cs. int (trailing_failures (take k (map succeeds cs))) < n"
  proof (intro allI impI)
    fix k assume "k \<le> length cs"
    then show "int (trailing_failures (take k (map succeeds cs))) < n" using snoc.prems [rule_format, of k] by simp
  qed
  note IH = snoc.IH [OF this]
  have "int (trailing_failures (map succeeds cs @ [succeeds c])) < n"
    using snoc.prems [rule_format, of "Suc (length cs)"] by simp
  with IH show ?case
    by (auto simp: guarded_calls_append guarded_calls_Cons breaker_defs replicate_append_same
        simp del: guarded_calls.simps(2) split: if_splits)
qed

text \<open>The breaker trips exactly on the threshold: as long as no stretch of consecutive failures has
  reached it, every call is made and the breaker stays closed, and the next call opens it exactly
  when it is the failure that completes such a stretch.\<close>

theorem breaker_trips_exactly:
  assumes "1 \<le> n" "1 \<le> s" "\<forall>k\<le>length cs. int (trailing_failures (take k (map succeeds cs))) < n"
    "guarded_calls (cs @ [c]) (new_breaker n s t) = (cb, bs)"
  shows "bs = replicate (Suc (length cs)) True \<and>
    cb_state cb = (if int (trailing_failures (map succeeds cs @ [succeeds c])) = n then OPEN else CLOSED)"
  using closed_counts [OF assms(1-3), of t] assms
  by (auto simp: guarded_calls_append guarded_calls_Cons breaker_defs replicate_append_same
      simp del: guarded_calls.simps(2))

theorem breaker_trips_exactly_witness:
  "cb_state (fst (guarded_calls ([(1, 1, False), (2, 2, True), (3, 3, False)] @ [(4, 4, False)]) (new_breaker 2 1 60))) = OPEN"
proof -
  have "\<forall>k\<le>3. int (trailing_failures (take k [False, True, False])) < 2"
    by (auto simp: trailing_failures_def le_Suc_eq numeral_3_eq_3)
  then show ?thesis
    using breaker_trips_exactly [of 2 1 "[(1, 1, False), (2, 2, True), (3, 3, False)]" "(4, 4, False)" 60]
    by (simp add: trailing_failures_def numeral_3_eq_3 prod_eq_iff)
qed

section \<open>The bounded queue\<close>

text \<open>
  The interface of a bounded queue: what it holds, oldest first; a producer's call says whether
  the item was taken, a consumer's call hands out the oldest. Client lemma: over any interleaving
  of such calls the items handed out, followed by those still held, are the ones held at first
  followed by those taken, in order, and never more than the capacity is held.
\<close>

datatype 'x queue_call = Put 'x | Take

locale bounded_fifo =
  fixes held :: "'q \<Rightarrow> 'x list"
    and capacity :: "'q \<Rightarrow> nat"
    and put_item :: "'x \<Rightarrow> 'q \<Rightarrow> 'q \<times> bool"
    and take_item :: "'q \<Rightarrow> 'q \<times> 'x option"
  assumes put_law: "put_item x q = (q', took) \<Longrightarrow> took = (length (held q) < capacity q) \<and>
      held q' = (if took then held q @ [x] else held q) \<and> capacity q' = capacity q"
    and take_law: "take_item q = (q', r) \<Longrightarrow> capacity q' = capacity q \<and>
      (case held q of [] \<Rightarrow> r = None \<and> held q' = [] | x # xs \<Rightarrow> r = Some x \<and> held q' = xs)"
begin

fun run_calls :: "'x queue_call list \<Rightarrow> 'q \<Rightarrow> 'q \<times> 'x list \<times> 'x list" where
  "run_calls [] q = (q, [], [])"
| "run_calls (Put x # cs) q = (case put_item x q of (q1, took) \<Rightarrow>
     (case run_calls cs q1 of (q2, ins, outs) \<Rightarrow> (q2, (if took then x # ins else ins), outs)))"
| "run_calls (Take # cs) q = (case take_item q of (q1, r) \<Rightarrow>
     (case run_calls cs q1 of (q2, ins, outs) \<Rightarrow> (q2, ins, (case r of None \<Rightarrow> outs | Some x \<Rightarrow> x # outs))))"

lemma order_kept:
  "run_calls cs q = (q', ins, outs) \<Longrightarrow> outs @ held q' = held q @ ins \<and> capacity q' = capacity q \<and>
    (length (held q) \<le> capacity q \<longrightarrow> length (held q') \<le> capacity q')"
proof (induction cs arbitrary: q ins outs)
  case (Cons c cs)
  show ?case
  proof (cases c)
    case (Put x)
    obtain q1 took where p: "put_item x q = (q1, took)" by fastforce
    obtain i1 where r: "run_calls cs q1 = (q', i1, outs)" "ins = (if took then x # i1 else i1)"
      using Cons.prems Put p by (auto split: prod.splits)
    from Cons.IH [OF r(1)] put_law [OF p] r(2) show ?thesis by (auto split: if_splits)
  next
    case Take
    obtain q1 t where p: "take_item q = (q1, t)" by fastforce
    obtain o1 where r: "run_calls cs q1 = (q', ins, o1)" "outs = (case t of None \<Rightarrow> o1 | Some x \<Rightarrow> x # o1)"
      using Cons.prems Take p by (auto split: prod.splits)
    from Cons.IH [OF r(1)] take_law [OF p] r(2) show ?thesis by (auto split: list.splits)
  qed
qed simp

end

record 'x webhook_queue =
  wq_max_size :: nat
  wq_queue :: "'x list"
  wq_dropped_count :: nat

definition new_queue :: "nat \<Rightarrow> 'x webhook_queue" where
  "new_queue n = \<lparr>wq_max_size = n, wq_queue = [], wq_dropped_count = 0\<rparr>"

text \<open>\<open>deque(maxlen)\<close>: appending to a full one drops its oldest entry.\<close>

definition deque_append :: "nat \<Rightarrow> 'x \<Rightarrow> 'x list \<Rightarrow> 'x list" where
  "deque_append n x xs = (let ys = xs @ [x] in drop (length ys - n) ys)"

definition enqueue :: "'x \<Rightarrow> 'x webhook_queue \<Rightarrow> 'x webhook_queue \<times> bool" where
  "enqueue x q = (if wq_max_size q \<le> length (wq_queue q)
     then (q\<lparr>wq_dropped_count := Suc (wq_dropped_count q)\<rparr>, False)
     else (q\<lparr>wq_queue := deque_append (wq_max_size q) x (wq_queue q)\<rparr>, True))"

definition dequeue :: "'x webhook_queue \<Rightarrow> 'x webhook_queue \<times> 'x option" where
  "dequeue q = (case wq_queue q of [] \<Rightarrow> (q, None) | x # xs \<Rightarrow> (q\<lparr>wq_queue := xs\<rparr>, Some x))"

interpretation webhooks: bounded_fifo wq_queue wq_max_size enqueue dequeue
  by unfold_locales
    (auto simp: enqueue_def dequeue_def deque_append_def Let_def split: list.splits if_splits)

text \<open>The calls of all threads on one queue, in the order the lock let them through.\<close>

fun queue_calls :: "'x queue_call list \<Rightarrow> 'x webhook_queue \<Rightarrow> 'x webhook_queue \<times> 'x list \<times> 'x list" where
  "queue_calls [] q = (q, [], [])"
| "queue_calls (Put x # cs) q = (case enqueue x q of (q1, took) \<Rightarrow>
     (case queue_calls cs q1 of (q2, ins, outs) \<Rightarrow> (q2, (if took then x # ins else ins), outs)))"
| "queue_calls (Take # cs) q = (case dequeue q of (q1, r) \<Rightarrow>
     (case queue_calls cs q1 of (q2, ins, outs) \<Rightarrow> (q2, ins, (case r of None \<Rightarrow> outs | Some x \<Rightarrow> x # outs))))"

lemma queue_calls_run: "queue_calls cs q = webhooks.run_calls cs q"
  by (induction cs q rule: queue_calls.induct) (simp_all split: prod.splits)

lemma queue_drops:
  "queue_calls cs q = (q', ins, outs) \<Longrightarrow>
    wq_dropped_count q' + length ins = wq_dropped_count q + length (filter (\<lambda>c. c \<noteq> Take) cs)"
  by (induction cs q arbitrary: ins outs rule: queue_calls.induct)
    (auto simp: enqueue_def dequeue_def split: prod.splits if_splits list.splits)

text \<open>C13. However producers and consumers interleave on an endpoint's queue, entries leave it in the
  order they were accepted, none is lost, duplicated or overtaken, it never holds more than its
  bound, and the drop counter counts exactly the refused ones.\<close>

theorem queue_keeps_order:
  assumes "queue_calls cs (new_queue n) = (q, ins, outs)"
  shows "outs @ wq_queue q = ins \<and> length (wq_queue q) \<le> n \<and>
    wq_dropped_count q = length (filter (\<lambda>c. c \<noteq> Take) cs) - length ins"
  using webhooks.order_kept [of cs "new_queue n" q ins outs] queue_drops [OF assms] assms
  by (simp add: queue_calls_run new_queue_def)

theorem queue_keeps_order_witness:
  "[CHR ''a'', CHR ''b''] @ [CHR ''d''] = ''abd'' \<and>
   queue_calls [Put (CHR ''a''), Put (CHR ''b''), Put (CHR ''c''), Take, Take, Put (CHR ''d'')] (new_queue 2)
     = (\<lparr>wq_max_size = 2, wq_queue = ''d'', wq_dropped_count = 1\<rparr>, ''abd'', ''ab'')"
proof -
  have r: "queue_calls [Put (CHR ''a''), Put (CHR ''b''), Put (CHR ''c''), Take, Take, Put (CHR ''d'')] (new_queue 2)
     = (\<lparr>wq_max_size = 2, wq_queue = ''d'', wq_dropped_count = 1\<rparr>, ''abd'', ''ab'')"
    by (simp add: new_queue_def enqueue_def dequeue_def deque_append_def)
  from queue_keeps_order [OF r] r show ?thesis by simp
qed

end
