(* ===== verification/Push_Config.thy ===== *)
theory Push_Config
  imports Clock Tenant_Scope
begin

text \<open>
  Webhook registrations: the repository
  src/src/core/database/repositories/push_notification_config.py over the
  push_notification_configs table, the race recovery of src/src/core/database/integrity.py that
  its admin registration uses, and the block that src/src/core/webhook_delivery.py puts on a
  registration whose endpoint answered 401 or 403. The accepted registration is its stored
  columns; uuid5 is a parameter.
\<close>

record push_config =
  pc_id :: string
  pc_tenant_id :: string
  pc_principal_id :: string
  pc_session_id :: "string option"
  pc_url :: string
  pc_authentication_type :: "string option"
  pc_authentication_token :: "string option"
  pc_validation_token :: "string option"
  pc_webhook_secret :: "string option"
  pc_operation_id :: "string option"
  pc_token :: "string option"
  pc_created_at :: instant
  pc_updated_at :: instant
  pc_is_active :: bool
  pc_auth_blocked_at :: "instant option"

text \<open>\<open>WebhookConfigColumns\<close>.\<close>

record config_columns =
  cc_url :: string
  cc_authentication_type :: "string option"
  cc_authentication_token :: "string option"
  cc_operation_id :: "string option"
  cc_token :: "string option"

text \<open>A sideband argument: not passed, or passed with a value (None clears).\<close>

datatype sideband = Unset | Passed "string option"

definition keep_or :: "sideband \<Rightarrow> string option \<Rightarrow> string option" where
  "keep_or s old = (case s of Unset \<Rightarrow> old | Passed v \<Rightarrow> v)"

section \<open>Lookups\<close>

definition scoped :: "string \<Rightarrow> string \<Rightarrow> bool \<Rightarrow> push_config \<Rightarrow> bool" where
  "scoped tenant pid active_only c =
     (pc_tenant_id c = tenant \<and> pc_principal_id c = pid \<and> (active_only \<longrightarrow> pc_is_active c))"

definition get_config :: "string \<Rightarrow> string \<Rightarrow> string \<Rightarrow> bool \<Rightarrow> push_config list \<Rightarrow> push_config option" where
  "get_config tenant config_id pid active_only rows = find (\<lambda>c. scoped tenant pid active_only c \<and> pc_id c = config_id) rows"

definition find_by_url :: "string \<Rightarrow> string \<Rightarrow> string \<Rightarrow> bool \<Rightarrow> push_config list \<Rightarrow> push_config option" where
  "find_by_url tenant pid url active_only rows = find (\<lambda>c. scoped tenant pid active_only c \<and> pc_url c = url) rows"

definition list_active_by_principal :: "string \<Rightarrow> string \<Rightarrow> push_config list \<Rightarrow> push_config list" where
  "list_active_by_principal tenant pid rows = filter (scoped tenant pid True) rows"

section \<open>Writes\<close>

definition put_config :: "push_config \<Rightarrow> push_config list \<Rightarrow> push_config list" where
  "put_config c rows = update_where (\<lambda>x. pc_id x = pc_id c) (\<lambda>_. c) rows"

definition refreshed_config ::
    "config_columns \<Rightarrow> sideband \<Rightarrow> sideband \<Rightarrow> sideband \<Rightarrow> instant \<Rightarrow> push_config \<Rightarrow> push_config" where
  "refreshed_config cols validation session secret now c = c\<lparr>
     pc_url := cc_url cols, pc_authentication_type := cc_authentication_type cols,
     pc_authentication_token := cc_authentication_token cols, pc_operation_id := cc_operation_id cols,
     pc_token := cc_token cols,
     pc_validation_token := keep_or validation (pc_validation_token c),
     pc_session_id := keep_or session (pc_session_id c),
     pc_webhook_secret := keep_or secret (pc_webhook_secret c),
     pc_updated_at := now, pc_is_active := True\<rparr>"

definition new_config ::
    "string \<Rightarrow> string \<Rightarrow> string \<Rightarrow> config_columns \<Rightarrow> sideband \<Rightarrow> sideband \<Rightarrow> sideband \<Rightarrow> instant \<Rightarrow> push_config" where
  "new_config tenant config_id pid cols validation session secret now = \<lparr>
     pc_id = config_id, pc_tenant_id = tenant, pc_principal_id = pid, pc_session_id = keep_or session None,
     pc_url = cc_url cols, pc_authentication_type = cc_authentication_type cols,
     pc_authentication_token = cc_authentication_token cols, pc_validation_token = keep_or validation None,
     pc_webhook_secret = keep_or secret None, pc_operation_id = cc_operation_id cols, pc_token = cc_token cols,
     pc_created_at = now, pc_updated_at = now, pc_is_active = True, pc_auth_blocked_at = None\<rparr>"

text \<open>
  \<open>upsert\<close>. What its SELECT sees (\<open>seen_rows\<close>) may be older than what the flush meets
  (\<open>rows\<close>): another transaction may have inserted in between. Primary keys are global.
\<close>

definition upsert_config ::
    "string \<Rightarrow> config_columns \<Rightarrow> string \<Rightarrow> string \<Rightarrow> sideband \<Rightarrow> sideband \<Rightarrow> sideband \<Rightarrow> instant
      \<Rightarrow> push_config list \<Rightarrow> push_config list \<Rightarrow> (push_config list \<times> push_config \<times> bool) res" where
  "upsert_config tenant cols config_id pid validation session secret now seen_rows rows =
     (case get_config tenant config_id pid False seen_rows of
        Some c \<Rightarrow> let c' = refreshed_config cols validation session secret now c
          in Inr (put_config c' rows, c', False)
      | None \<Rightarrow> let c' = new_config tenant config_id pid cols validation session secret now
          in if config_id \<in> pc_id ` set rows then Inl IntegrityError else Inr (rows @ [c'], c', True))"

text \<open>
  \<open>resolve_or_write\<close> for the one constraint the write can violate: the pre-check on what is
  visible first, the write, and after a lost race the same check on what is visible then.
\<close>

definition resolve_or_write ::
    "('s \<Rightarrow> 'a option) \<Rightarrow> ('s \<Rightarrow> 's \<Rightarrow> 's res) \<Rightarrow> 's \<Rightarrow> 's \<Rightarrow> 's \<times> 'a option res" where
  "resolve_or_write conflict write seen_rows rows = (case conflict seen_rows of
     Some a \<Rightarrow> (seen_rows, Inr (Some a))
   | None \<Rightarrow> (case write seen_rows rows of
       Inr rows' \<Rightarrow> (rows', Inr None)
     | Inl IntegrityError \<Rightarrow> (case conflict rows of
         Some a \<Rightarrow> (rows, Inr (Some a))
       | None \<Rightarrow> (rows, Inl IntegrityError))
     | Inl e \<Rightarrow> (rows, Inl e)))"

definition admin_config_id :: "(string \<Rightarrow> string) \<Rightarrow> string \<Rightarrow> string \<Rightarrow> string \<Rightarrow> string" where
  "admin_config_id uuid5 tenant pid url = ''pnc_'' @ uuid5 (tenant @ '':'' @ pid @ '':'' @ url)"

definition register_admin_webhook ::
    "(string \<Rightarrow> string) \<Rightarrow> string \<Rightarrow> config_columns \<Rightarrow> string \<Rightarrow> string option \<Rightarrow> instant
      \<Rightarrow> push_config list \<Rightarrow> push_config list \<Rightarrow> push_config list \<times> push_config option res" where
  "register_admin_webhook uuid5 tenant cols pid secret now =
     resolve_or_write (find_by_url tenant pid (cc_url cols) True)
       (\<lambda>seen_rows rows. case upsert_config tenant cols (admin_config_id uuid5 tenant pid (cc_url cols)) pid
            Unset Unset (Passed secret) now seen_rows rows of
          Inl e \<Rightarrow> Inl e
        | Inr (rows', c, created) \<Rightarrow> Inr rows')"

definition delete_config :: "string \<Rightarrow> string \<Rightarrow> string \<Rightarrow> push_config list \<Rightarrow> push_config list \<times> bool" where
  "delete_config tenant config_id pid rows = (case get_config tenant config_id pid False rows of
     None \<Rightarrow> (rows, False)
   | Some c \<Rightarrow> (filter (\<lambda>x. pc_id x \<noteq> pc_id c) rows, True))"

definition toggle_active :: "string \<Rightarrow> string \<Rightarrow> string \<Rightarrow> instant \<Rightarrow> push_config list \<Rightarrow> push_config list \<times> bool option" where
  "toggle_active tenant config_id pid now rows = (case get_config tenant config_id pid False rows of
     None \<Rightarrow> (rows, None)
   | Some c \<Rightarrow> let c' = c\<lparr>pc_is_active := \<not> pc_is_active c, pc_updated_at := now\<rparr>
       in (put_config c' rows, Some (pc_is_active c')))"

definition soft_delete :: "string \<Rightarrow> string \<Rightarrow> string \<Rightarrow> instant \<Rightarrow> push_config list \<Rightarrow> push_config list \<times> bool" where
  "soft_delete tenant config_id pid now rows = (case get_config tenant config_id pid False rows of
     None \<Rightarrow> (rows, False)
   | Some c \<Rightarrow> (put_config (c\<lparr>pc_is_active := False, pc_updated_at := now\<rparr>) rows, True))"

text \<open>\<open>_set_auth_blocked\<close>; the column's onupdate also moves updated_at.\<close>

definition set_auth_blocked :: "string \<Rightarrow> string \<Rightarrow> instant \<Rightarrow> push_config list \<Rightarrow> push_config list" where
  "set_auth_blocked tenant url now rows =
     update_where (\<lambda>c. pc_tenant_id c = tenant \<and> pc_url c = url \<and> pc_auth_blocked_at c = None)
       (\<lambda>c. c\<lparr>pc_auth_blocked_at := Some now, pc_updated_at := now\<rparr>) rows"

section \<open>One committed write by a tenant\<close>

inductive config_step :: "string \<Rightarrow> push_config list \<Rightarrow> push_config list \<Rightarrow> bool" for t where
  step_upsert: "upsert_config t cols cid p v s w now rows rows = Inr (rows', c, created) \<Longrightarrow> config_step t rows rows'"
| step_register: "register_admin_webhook uuid5 t cols p secret now rows rows = (rows', out) \<Longrightarrow> config_step t rows rows'"
| step_delete: "delete_config t cid p rows = (rows', b) \<Longrightarrow> config_step t rows rows'"
| step_toggle: "toggle_active t cid p now rows = (rows', r) \<Longrightarrow> config_step t rows rows'"
| step_soft_delete: "soft_delete t cid p now rows = (rows', b) \<Longrightarrow> config_step t rows rows'"
| step_block: "config_step t rows (set_auth_blocked t url now rows)"

inductive_cases config_stepE: "config_step t rows rows'"

definition configs_ok :: "push_config list \<Rightarrow> bool" where
  "configs_ok rows = distinct (map pc_id rows)"

text \<open>The shape of a step: a row of the tenant added, changed under its key, or removed, or rows blocked.\<close>

lemma get_config_SomeD:
  "get_config t cid p a rows = Some c \<Longrightarrow> c \<in> set rows \<and> pc_tenant_id c = t \<and> pc_principal_id c = p \<and> pc_id c = cid"
  by (auto simp: get_config_def scoped_def dest!: find_SomeD)

lemma config_step_shape:
  assumes "config_step t rows rows'"
  obtains (same) "rows' = rows"
  | (added) c where "rows' = rows @ [c]" "pc_tenant_id c = t" "pc_id c \<notin> pc_id ` set rows" "pc_auth_blocked_at c = None"
  | (changed) c c' where "c \<in> set rows" "rows' = put_config c' rows" "pc_tenant_id c = t" "pc_id c' = pc_id c"
      "pc_tenant_id c' = t" "pc_principal_id c' = pc_principal_id c" "pc_auth_blocked_at c' = pc_auth_blocked_at c"
  | (removed) c where "c \<in> set rows" "rows' = filter (\<lambda>x. pc_id x \<noteq> pc_id c) rows" "pc_tenant_id c = t"
  | (blocked) url now where "rows' = set_auth_blocked t url now rows"
proof -
  have up: thesis if u: "upsert_config t cols cid p v s w now rows rows = Inr (r, c, b)" "rows' = r" for cols cid p v s w now r c b
  proof (cases "get_config t cid p False rows")
    case None
    then show thesis using u by (intro added) (auto simp: upsert_config_def new_config_def Let_def split: if_splits)
  next
    case (Some c0)
    from get_config_SomeD [OF this] show thesis
      using u Some by (intro changed [of c0 c]) (auto simp: upsert_config_def refreshed_config_def Let_def)
  qed
  from assms show thesis
  proof (cases rule: config_step.cases)
    case (step_upsert cols cid p v s w now c created)
    then show thesis using up by blast
  next
    case (step_register uuid5 cols p secret now out)
    show thesis
    proof (cases "find_by_url t p (cc_url cols) True rows")
      case (Some c)
      then show thesis using step_register same by (simp add: register_admin_webhook_def resolve_or_write_def)
    next
      case None
      show thesis
      proof (cases "upsert_config t cols (admin_config_id uuid5 t p (cc_url cols)) p Unset Unset (Passed secret) now rows rows")
        case (Inl e)
        then show thesis using step_register None same
          by (cases e) (simp_all add: register_admin_webhook_def resolve_or_write_def)
      next
        case (Inr x)
        obtain r c b where x: "x = (r, c, b)" by (metis prod_cases3)
        then have "rows' = r" using step_register None Inr by (simp add: register_admin_webhook_def resolve_or_write_def)
        then show thesis using up Inr x by blast
      qed
    qed
  next
    case (step_delete cid p b)
    show thesis
    proof (cases "get_config t cid p False rows")
      case (Some c)
      from get_config_SomeD [OF this] show thesis
        using step_delete Some by (intro removed [of c]) (auto simp: delete_config_def)
    qed (use step_delete same in \<open>simp add: delete_config_def\<close>)
  next
    case (step_toggle cid p now r)
    show thesis
    proof (cases "get_config t cid p False rows")
      case (Some c)
      from get_config_SomeD [OF this] show thesis
        using step_toggle Some by (intro changed [of c "c\<lparr>pc_is_active := \<not> pc_is_active c, pc_updated_at := now\<rparr>"]) (auto simp: toggle_active_def Let_def)
    qed (use step_toggle same in \<open>simp add: toggle_active_def\<close>)
  next
    case (step_soft_delete cid p now b)
    show thesis
    proof (cases "get_config t cid p False rows")
      case (Some c)
      from get_config_SomeD [OF this] show thesis
        using step_soft_delete Some by (intro changed [of c "c\<lparr>pc_is_active := False, pc_updated_at := now\<rparr>"]) (auto simp: soft_delete_def)
    qed (use step_soft_delete same in \<open>simp add: soft_delete_def\<close>)
  next
    case (step_block url now)
    then show thesis by (rule blocked)
  qed
qed

section \<open>Tenant scope\<close>

definition configs_view :: "string \<Rightarrow> push_config list \<Rightarrow> push_config list" where
  "configs_view u rows = filter (\<lambda>c. pc_tenant_id c = u) rows"

lemma put_config_ids: "map pc_id (put_config c rows) = map pc_id rows"
  unfolding put_config_def by (rule map_update_where) simp

lemma put_config_view:
  assumes "configs_ok rows" "c \<in> set rows" "pc_tenant_id c = t" "pc_id c' = pc_id c" "pc_tenant_id c' = t" "u \<noteq> t"
  shows "configs_view u (put_config c' rows) = configs_view u rows"
  unfolding configs_view_def put_config_def
proof (rule filter_update_where_other)
  fix x assume "x \<in> set rows" "pc_id x = pc_id c'"
  then have "x = c" using assms distinct_key_eq [of pc_id rows x c] by (simp add: configs_ok_def)
  then show "pc_tenant_id x \<noteq> u \<and> pc_tenant_id c' \<noteq> u" using assms by simp
qed

lemma set_auth_blocked_ids: "map pc_id (set_auth_blocked t url now rows) = map pc_id rows"
  unfolding set_auth_blocked_def by (rule map_update_where) simp

interpretation config_scope: tenant_scoped configs_ok config_step configs_view
proof
  fix s s' t u assume ok: "configs_ok s" and st: "config_step t s s'"
  show "configs_ok s'"
    using st ok by (cases rule: config_step_shape)
      (auto simp: configs_ok_def put_config_ids set_auth_blocked_ids distinct_map_filter)
  show "configs_view u s' = configs_view u s" if "u \<noteq> t"
    using st
  proof (cases rule: config_step_shape)
    case (changed c c')
    then show ?thesis using put_config_view ok that by simp
  next
    case (removed c)
    have "pc_id x \<noteq> pc_id c" if "x \<in> set s" "pc_tenant_id x = u" for x
      using distinct_key_eq [of pc_id s x c] ok removed that \<open>u \<noteq> t\<close> by (auto simp: configs_ok_def)
    then show ?thesis using removed by (auto simp: configs_view_def filter_filter intro: filter_cong)
  next
    case (blocked url now)
    show ?thesis unfolding configs_view_def blocked set_auth_blocked_def
      by (rule filter_update_where_other) (use that in auto)
  qed (use that in \<open>simp_all add: configs_view_def\<close>)
qed

section \<open>Properties\<close>

lemma block_step:
  assumes "config_step t rows rows'" "configs_ok rows" "c \<in> set rows" "pc_auth_blocked_at c = Some b"
    "c' \<in> set rows'" "pc_id c' = pc_id c"
  shows "pc_auth_blocked_at c' = Some b"
  using assms(1)
proof (cases rule: config_step_shape)
  case same
  then show ?thesis using assms distinct_key_eq [of pc_id rows c' c] by (simp add: configs_ok_def)
next
  case (added d)
  then have "c' \<in> set rows" using assms by auto
  then show ?thesis using assms distinct_key_eq [of pc_id rows c' c] by (simp add: configs_ok_def)
next
  case (changed d d')
  from assms(5) have "c' \<in> set (update_where (\<lambda>x. pc_id x = pc_id d') (\<lambda>_. d') rows)" using changed by (simp add: put_config_def)
  then show ?thesis
  proof (cases rule: update_whereE)
    case 1
    then show ?thesis using assms distinct_key_eq [of pc_id rows c' c] by (simp add: configs_ok_def)
  next
    case (2 r)
    then have "r = c" "d = c" using assms changed distinct_key_eq [of pc_id rows] by (auto simp: configs_ok_def)
    then show ?thesis using 2 changed assms by simp
  qed
next
  case (removed d)
  then show ?thesis using assms distinct_key_eq [of pc_id rows c' c] by (auto simp: configs_ok_def)
next
  case (blocked url now)
  from assms(5) show ?thesis unfolding blocked set_auth_blocked_def
  proof (cases rule: update_whereE)
    case 1
    then show ?thesis using assms distinct_key_eq [of pc_id rows c' c] by (simp add: configs_ok_def)
  next
    case (2 r)
    then have "r = c" using assms distinct_key_eq [of pc_id rows r c] by (auto simp: configs_ok_def)
    then show ?thesis using 2 assms by simp
  qed
qed

lemma ok_step: "configs_ok rows \<Longrightarrow> config_step t rows rows' \<Longrightarrow> configs_ok rows'"
  by (rule config_scope.inv_step)


definition ex_columns :: "string \<Rightarrow> config_columns" where
  "ex_columns cred = \<lparr>cc_url = ''https://r'', cc_authentication_type = Some ''Bearer'',
     cc_authentication_token = Some cred, cc_operation_id = None, cc_token = None\<rparr>"

definition ex_config :: "string \<Rightarrow> push_config" where
  "ex_config cred = new_config ''t'' ''c1'' ''p'' (ex_columns cred) Unset Unset Unset 0"

definition ex_blocked :: push_config where
  "ex_blocked = (ex_config ''old'')\<lparr>pc_auth_blocked_at := Some 5\<rparr>"


text \<open>Two buyers cannot use the same configuration id, even in different tenants: while one holds the
  id, every registration of another tenant or principal under it fails on the primary key, and
  nothing is stored.\<close>

theorem config_id_is_global:
  assumes "configs_ok rows" "c \<in> set rows" "pc_tenant_id c \<noteq> t \<or> pc_principal_id c \<noteq> p"
  shows "upsert_config t cols (pc_id c) p v s w now rows rows = Inl IntegrityError"
proof -
  have "get_config t (pc_id c) p False rows = None"
  proof (rule ccontr)
    assume "get_config t (pc_id c) p False rows \<noteq> None"
    then obtain d where d: "get_config t (pc_id c) p False rows = Some d" by blast
    from get_config_SomeD [OF d] have "d = c" using assms distinct_key_eq [of pc_id rows d c] by (simp add: configs_ok_def)
    with get_config_SomeD [OF d] assms(3) show False by simp
  qed
  then show ?thesis using assms(2) by (simp add: upsert_config_def Let_def)
qed

theorem config_id_is_global_witness:
  "upsert_config ''other'' (ex_columns ''mine'') ''c1'' ''p'' Unset Unset Unset 9 [ex_blocked] [ex_blocked] = Inl IntegrityError"
  using config_id_is_global [of "[ex_blocked]" ex_blocked "''other''" "''p''" "ex_columns ''mine''" Unset Unset Unset 9]
  by (simp add: configs_ok_def ex_blocked_def ex_config_def new_config_def)

lemma find_by_url_SomeD:
  "find_by_url t p u True rows = Some c \<Longrightarrow> c \<in> set (list_active_by_principal t p rows) \<and> pc_url c = u"
  by (auto simp: find_by_url_def list_active_by_principal_def dest!: find_SomeD)

lemma find_by_url_NoneD:
  "find_by_url t p u True rows = None \<Longrightarrow> filter (\<lambda>c. pc_url c = u) (list_active_by_principal t p rows) = []"
  by (auto simp: find_by_url_def list_active_by_principal_def filter_empty_conv find_None_iff)

definition active_at :: "string \<Rightarrow> string \<Rightarrow> string \<Rightarrow> push_config list \<Rightarrow> push_config list" where
  "active_at t p url rows = filter (\<lambda>c. pc_url c = url) (list_active_by_principal t p rows)"

lemma active_at_filter: "active_at t p url rows = filter (\<lambda>c. scoped t p True c \<and> pc_url c = url) rows"
  by (simp add: active_at_def list_active_by_principal_def conj_commute)

lemma upsert_activates:
  assumes "upsert_config t cols cid p v s w now seen_rows (seen_rows @ ins) = Inr (rows', c, created)"
    "configs_ok (seen_rows @ ins)" "active_at t p (cc_url cols) seen_rows = []"
  shows "c \<in> set (active_at t p (cc_url cols) rows')" "ins = [] \<Longrightarrow> active_at t p (cc_url cols) rows' = [c]"
proof -
  have none: "\<not> (scoped t p True x \<and> pc_url x = cc_url cols)" if "x \<in> set seen_rows" for x
    using assms(3) that by (auto simp: active_at_filter filter_empty_conv)
  have c: "scoped t p True c \<and> pc_url c = cc_url cols"
    using assms(1) get_config_SomeD
    by (fastforce simp: upsert_config_def refreshed_config_def new_config_def scoped_def Let_def split: option.splits if_splits)
  show "c \<in> set (active_at t p (cc_url cols) rows')"
  proof (cases "get_config t cid p False seen_rows")
    case None
    then have "rows' = (seen_rows @ ins) @ [c]" using assms(1) by (auto simp: upsert_config_def Let_def split: if_splits)
    then show ?thesis using c by (simp add: active_at_filter)
  next
    case (Some d)
    then have "rows' = put_config c (seen_rows @ ins)" "pc_id c = pc_id d" "d \<in> set seen_rows"
      using assms(1) get_config_SomeD by (auto simp: upsert_config_def refreshed_config_def Let_def)
    then have "c \<in> set rows'" by (force simp: put_config_def set_update_where)
    then show ?thesis using c by (simp add: active_at_filter)
  qed
  assume ins: "ins = []"
  show "active_at t p (cc_url cols) rows' = [c]"
  proof (cases "get_config t cid p False seen_rows")
    case None
    then have "rows' = seen_rows @ [c]" using assms(1) ins by (auto simp: upsert_config_def Let_def split: if_splits)
    then show ?thesis using assms(3) c by (simp add: active_at_filter)
  next
    case (Some d)
    then have d: "rows' = put_config c seen_rows" "pc_id c = pc_id d" "d \<in> set seen_rows"
      using assms(1) get_config_SomeD ins by (auto simp: upsert_config_def refreshed_config_def Let_def)
    have ids: "distinct (map pc_id rows')" using assms(2) ins by (simp add: d put_config_ids configs_ok_def)
    have mem: "c \<in> set rows'" using d by (force simp: put_config_def set_update_where)
    have other: "x = c" if "x \<in> set rows'" "scoped t p True x \<and> pc_url x = cc_url cols" for x
    proof -
      have "x \<in> set (update_where (\<lambda>y. pc_id y = pc_id c) (\<lambda>_. c) seen_rows)" using that(1) d(1) by (simp add: put_config_def)
      then show ?thesis
      proof (cases rule: update_whereE)
        case 1
        with none [OF 1(1)] that(2) show ?thesis by simp
      next
        case (2 r)
        then show ?thesis by simp
      qed
    qed
    have "filter (\<lambda>x. scoped t p True x \<and> pc_url x = cc_url cols) rows' = filter (\<lambda>x. x = c) rows'"
    proof (rule filter_cong [OF refl])
      fix x assume x: "x \<in> set rows'"
      show "(scoped t p True x \<and> pc_url x = cc_url cols) = (x = c)"
      proof
        assume "scoped t p True x \<and> pc_url x = cc_url cols"
        then show "x = c" by (rule other [OF x])
      next
        assume "x = c"
        then show "scoped t p True x \<and> pc_url x = cc_url cols" by (simp only: c)
      qed
    qed
    also have "\<dots> = [c]" by (rule filter_key [OF ids mem]) auto
    finally show ?thesis by (simp add: active_at_filter)
  qed
qed

text \<open>Admin registration is race-safe: whatever another transaction inserted between the pre-check and
  the write, a registration that does not raise leaves an active configuration of that url for that
  principal, it answers with one that is active exactly when it wrote nothing, and when no other
  transaction interfered the url is active once.\<close>

theorem admin_registration_is_race_safe:
  assumes "register_admin_webhook uuid5 t cols p secret now seen_rows (seen_rows @ ins) = (rows', Inr answer)"
    "configs_ok (seen_rows @ ins)" "length (active_at t p (cc_url cols) seen_rows) \<le> 1"
  shows "active_at t p (cc_url cols) rows' \<noteq> [] \<and>
    (case answer of Some c \<Rightarrow> c \<in> set (active_at t p (cc_url cols) rows') \<and> (rows' = seen_rows \<or> rows' = seen_rows @ ins)
     | None \<Rightarrow> active_at t p (cc_url cols) seen_rows = []) \<and>
    (ins = [] \<longrightarrow> length (active_at t p (cc_url cols) rows') = 1)"
proof (cases "find_by_url t p (cc_url cols) True seen_rows")
  case (Some c)
  then have r: "rows' = seen_rows" "answer = Some c" using assms(1) by (simp_all add: register_admin_webhook_def resolve_or_write_def)
  have "c \<in> set (active_at t p (cc_url cols) seen_rows)" using find_by_url_SomeD [OF Some] by (simp add: active_at_def)
  then show ?thesis using r assms(3) by (cases "active_at t p (cc_url cols) seen_rows") auto
next
  case None
  let ?u = "upsert_config t cols (admin_config_id uuid5 t p (cc_url cols)) p Unset Unset (Passed secret) now seen_rows (seen_rows @ ins)"
  have empty: "active_at t p (cc_url cols) seen_rows = []" using find_by_url_NoneD [OF None] by (simp add: active_at_def)
  show ?thesis
  proof (cases ?u)
    case (Inl e)
    then have "e = IntegrityError" by (auto simp: upsert_config_def Let_def split: option.splits if_splits)
    then obtain c where c: "find_by_url t p (cc_url cols) True (seen_rows @ ins) = Some c" "rows' = seen_rows @ ins" "answer = Some c"
      using assms(1) None Inl by (auto simp: register_admin_webhook_def resolve_or_write_def split: option.splits)
    then have "c \<in> set (active_at t p (cc_url cols) rows')" using find_by_url_SomeD by (simp add: active_at_def)
    moreover have "ins \<noteq> []" using calculation empty c by auto
    ultimately show ?thesis using c by (auto simp: list_ex_iff)
  next
    case (Inr x)
    obtain r c b where x: "x = (r, c, b)" by (metis prod_cases3)
    then have r: "rows' = r" "answer = None" using assms(1) None Inr by (simp_all add: register_admin_webhook_def resolve_or_write_def)
    from upsert_activates [OF Inr [unfolded x] assms(2) empty] show ?thesis using r empty by auto
  qed
qed

text \<open>The loser of a race over the same url is answered with the winner's row.\<close>

theorem admin_registration_is_race_safe_witness:
  "active_at ''t'' ''p'' ''https://r'' [(ex_config ''w'')\<lparr>pc_id := ''pnc_x''\<rparr>] \<noteq> []"
proof -
  let ?w = "(ex_config ''w'')\<lparr>pc_id := ''pnc_x''\<rparr>"
  have "register_admin_webhook (\<lambda>x. ''x'') ''t'' (ex_columns ''l'') ''p'' None 9 [] ([] @ [?w]) = ([?w], Inr (Some ?w))"
    by (simp add: register_admin_webhook_def resolve_or_write_def find_by_url_def upsert_config_def get_config_def scoped_def
        admin_config_id_def ex_config_def new_config_def ex_columns_def Let_def)
  from admin_registration_is_race_safe [OF this] show ?thesis
    by (auto simp: configs_ok_def active_at_def ex_columns_def list_active_by_principal_def split: if_splits)
qed

end
