(* ===== verification/Json_Text.thy ===== *)
theory Json_Text
  imports Prelude
begin

text \<open>
  The compact JSON text that src/src/core/security/webhook_egress.py sends and signs
  (\<open>json.dumps(payload, separators=(",", ":"))\<close> with its default ASCII escaping), on strings of
  code points below 256. How a number is spelled is a parameter; the lemmas ask of it what the
  standard library promises. The text determines the document, so a signature over the text
  covers the document.
\<close>

definition hex_digit :: "nat \<Rightarrow> char" where
  "hex_digit n = ''0123456789abcdef'' ! n"

text \<open>The two-character escapes of \<open>json.encoder\<close>.\<close>

definition short_escapes :: "(char \<times> char) list" where
  "short_escapes = [(CHR 0x22, CHR 0x22), (CHR 0x5C, CHR 0x5C), (CHR 0x08, CHR ''b''), (CHR 0x09, CHR ''t''),
     (CHR 0x0A, CHR ''n''), (CHR 0x0C, CHR ''f''), (CHR 0x0D, CHR ''r'')]"

definition escape_char :: "char \<Rightarrow> string" where
  "escape_char c = (case map_of short_escapes c of
     Some e \<Rightarrow> [CHR 0x5C, e]
   | None \<Rightarrow> let n = (of_char c :: nat) in
       if n < 32 \<or> 128 \<le> n then [CHR 0x5C, CHR ''u'', CHR ''0'', CHR ''0'', hex_digit (n div 16), hex_digit (n mod 16)]
       else [c])"

fun escape :: "string \<Rightarrow> string" where
  "escape [] = []"
| "escape (c # cs) = escape_char c @ escape cs"

definition quote_text :: "string \<Rightarrow> string" where
  "quote_text s = CHR 0x22 # escape s @ [CHR 0x22]"

fun dumps :: "(rat \<Rightarrow> string) \<Rightarrow> json \<Rightarrow> string"
  and dumps_list :: "(rat \<Rightarrow> string) \<Rightarrow> json list \<Rightarrow> string"
  and dumps_items :: "(rat \<Rightarrow> string) \<Rightarrow> (string \<times> json) list \<Rightarrow> string"
where
  "dumps num JNull = ''null''"
| "dumps num (JBool b) = (if b then ''true'' else ''false'')"
| "dumps num (JNum q) = num q"
| "dumps num (JStr s) = quote_text s"
| "dumps num (JList vs) = ''['' @ dumps_list num vs @ '']''"
| "dumps num (JObj kvs) = ''{'' @ dumps_items num kvs @ ''}''"
| "dumps_list num [] = []"
| "dumps_list num [v] = dumps num v"
| "dumps_list num (v # w # vs) = dumps num v @ '','' @ dumps_list num (w # vs)"
| "dumps_items num [] = []"
| "dumps_items num [(k, v)] = quote_text k @ '':'' @ dumps num v"
| "dumps_items num ((k, v) # kv # kvs) = quote_text k @ '':'' @ dumps num v @ '','' @ dumps_items num (kv # kvs)"

section \<open>Strings are self-delimiting\<close>

lemma hex_digit_inj: "m < 16 \<Longrightarrow> n < 16 \<Longrightarrow> hex_digit m = hex_digit n \<longleftrightarrow> m = n"
  unfolding hex_digit_def by (subst nth_eq_iff_index_eq) auto

lemma hex_pair_inj:
  assumes "m < 256" "n < (256::nat)" "hex_digit (m div 16) = hex_digit (n div 16)" "hex_digit (m mod 16) = hex_digit (n mod 16)"
  shows "m = n"
proof -
  have "m div 16 < 16" "n div 16 < 16" "m mod 16 < 16" "n mod 16 < 16" using assms(1,2) by auto
  then have "m div 16 = n div 16" "m mod 16 = n mod 16" using assms(3,4) hex_digit_inj by blast+
  then show ?thesis by (metis div_mult_mod_eq)
qed

lemma of_char_less [simp]: "(of_char c :: nat) < 256"
  by (cases c) (simp add: of_char_Char)

lemma short_escapes_inj:
  assumes "map_of short_escapes c = Some e" "map_of short_escapes d = Some e"
  shows "c = d"
proof -
  have "\<forall>x\<in>set short_escapes. \<forall>y\<in>set short_escapes. snd x = snd y \<longrightarrow> fst x = fst y" by code_simp
  then show ?thesis using map_of_SomeD [OF assms(1)] map_of_SomeD [OF assms(2)] by fastforce
qed

lemma short_escapes_not_u: "map_of short_escapes c \<noteq> Some CHR ''u''"
proof
  assume "map_of short_escapes c = Some CHR ''u''"
  then have "(c, CHR ''u'') \<in> set short_escapes" by (rule map_of_SomeD)
  moreover have "\<forall>x\<in>set short_escapes. snd x \<noteq> CHR ''u''" by code_simp
  ultimately show False by fastforce
qed

lemma short_escapes_special:
  "map_of short_escapes CHR 0x5C = Some CHR 0x5C" "map_of short_escapes CHR 0x22 = Some CHR 0x22"
  by code_simp+

lemma escape_char_cases:
  obtains (short) e where "map_of short_escapes c = Some e" "escape_char c = [CHR 0x5C, e]"
  | (hex) "escape_char c = [CHR 0x5C, CHR ''u'', CHR ''0'', CHR ''0'', hex_digit (of_char c div 16), hex_digit (of_char c mod 16)]"
  | (plain) "escape_char c = [c]" "c \<noteq> CHR 0x5C" "c \<noteq> CHR 0x22"
proof (cases "map_of short_escapes c")
  case None
  then have n: "c \<noteq> CHR 0x5C" "c \<noteq> CHR 0x22" using short_escapes_special by force+
  show thesis
  proof (cases "(of_char c :: nat) < 32 \<or> 128 \<le> (of_char c :: nat)")
    case True
    then show thesis using None by (intro hex) (simp add: escape_char_def Let_def)
  next
    case False
    then show thesis using None n by (intro plain) (simp_all add: escape_char_def Let_def)
  qed
next
  case (Some e)
  then show thesis by (intro short) (simp_all add: escape_char_def)
qed

lemma escape_char_self_delimiting:
  assumes "escape_char c @ r = escape_char d @ s"
  shows "c = d \<and> r = s"
proof (cases c rule: escape_char_cases)
  case (short e)
  with assms show ?thesis
    by (cases d rule: escape_char_cases) (use short_escapes_inj short_escapes_not_u in auto)
next
  case hex
  with assms show ?thesis
    using hex_pair_inj [OF of_char_less [of c] of_char_less [of d]]
    by (cases d rule: escape_char_cases) (use short_escapes_not_u in auto)
next
  case plain
  with assms show ?thesis by (cases d rule: escape_char_cases) auto
qed

lemma escape_char_no_quote: "escape_char c @ r \<noteq> CHR 0x22 # s"
  by (cases c rule: escape_char_cases) auto

lemma escape_self_delimiting:
  "escape s @ CHR 0x22 # r = escape t @ CHR 0x22 # q \<Longrightarrow> s = t \<and> r = q"
proof (induction s arbitrary: t)
  case Nil
  show ?case
  proof (cases t)
    case (Cons d t')
    then have "escape_char d @ (escape t' @ CHR 0x22 # q) = CHR 0x22 # r" using Nil by simp
    then show ?thesis by (simp only: escape_char_no_quote)
  qed (use Nil in simp)
next
  case (Cons c s)
  show ?case
  proof (cases t)
    case Nil
    then have "escape_char c @ (escape s @ CHR 0x22 # r) = CHR 0x22 # q" using Cons.prems by simp
    then show ?thesis by (simp only: escape_char_no_quote)
  next
    case t: (Cons d t')
    have "escape_char c @ (escape s @ CHR 0x22 # r) = escape_char d @ (escape t' @ CHR 0x22 # q)"
      using Cons.prems t by simp
    from escape_char_self_delimiting [OF this] Cons.IH [of t'] t show ?thesis by simp
  qed
qed

lemma quote_self_delimiting:
  assumes "quote_text s @ r = quote_text t @ q"
  shows "s = t \<and> r = q"
proof -
  have "escape s @ CHR 0x22 # r = escape t @ CHR 0x22 # q" using assms by (simp add: quote_text_def)
  then show ?thesis by (rule escape_self_delimiting)
qed

section \<open>Documents are self-delimiting\<close>

text \<open>
  What is asked of the number printer: it is injective, never empty, and spells with digits,
  signs, point and exponent only.
\<close>

definition number_chars :: "char list" where
  "number_chars = ''0123456789+-.e''"

definition number_printer :: "(rat \<Rightarrow> string) \<Rightarrow> bool" where
  "number_printer num = ((\<forall>p q. num p = num q \<longrightarrow> p = q) \<and> (\<forall>q. num q \<noteq> [] \<and> set (num q) \<subseteq> set number_chars))"

text \<open>What may follow a value: nothing, or a character no number has.\<close>

definition stops :: "string \<Rightarrow> bool" where
  "stops r = (r = [] \<or> hd r \<notin> set number_chars)"

lemma stops_simps [simp]: "stops []" "stops (c # r) \<longleftrightarrow> c \<notin> set number_chars"
  by (simp_all add: stops_def)

lemma delimiters [simp]:
  "CHR '','' \<notin> set number_chars" "CHR '']'' \<notin> set number_chars" "CHR ''}'' \<notin> set number_chars"
  by code_simp+

lemma number_self_delimiting:
  assumes "xs @ r = ys @ s" "set xs \<subseteq> set number_chars" "set ys \<subseteq> set number_chars" "stops r" "stops s"
  shows "xs = ys \<and> r = s"
  using assms
proof (induction xs arbitrary: ys)
  case Nil
  then show ?case by (cases ys) auto
next
  case (Cons x xs)
  show ?case
  proof (cases ys)
    case Nil
    then show ?thesis using Cons.prems by auto
  next
    case (Cons y ys')
    then show ?thesis using Cons.IH [of ys'] Cons.prems by auto
  qed
qed

text \<open>The first character tells the constructor.\<close>

fun tag_of :: "json \<Rightarrow> nat" where
  "tag_of JNull = 0" | "tag_of (JBool b) = 1" | "tag_of (JNum q) = 2" | "tag_of (JStr s) = 3"
| "tag_of (JList vs) = 4" | "tag_of (JObj kvs) = 5"

definition tag_of_char :: "char \<Rightarrow> nat" where
  "tag_of_char c = (if c = CHR ''n'' then 0 else if c = CHR ''t'' \<or> c = CHR ''f'' then 1
     else if c \<in> set number_chars then 2 else if c = CHR 0x22 then 3 else if c = CHR ''['' then 4
     else if c = CHR ''{'' then 5 else 6)"

lemma number_chars_tag: "c \<in> set number_chars \<Longrightarrow> tag_of_char c = 2"
  by (auto simp: tag_of_char_def number_chars_def)

lemma tag_consts:
  "tag_of_char CHR ''n'' = 0" "tag_of_char CHR ''t'' = 1" "tag_of_char CHR ''f'' = 1" "tag_of_char CHR 0x22 = 3"
  "tag_of_char CHR ''['' = 4" "tag_of_char CHR ''{'' = 5" "tag_of_char CHR '']'' = 6" "tag_of_char CHR ''}'' = 6"
  by code_simp+

lemma dumps_head:
  assumes "number_printer num"
  obtains c cs where "dumps num v = c # cs" "tag_of_char c = tag_of v"
proof (cases v)
  case (JNum q)
  then have "num q \<noteq> []" "set (num q) \<subseteq> set number_chars" using assms by (simp_all add: number_printer_def)
  then obtain c cs where "num q = c # cs" "c \<in> set number_chars" by (cases "num q") auto
  then show thesis using that JNum number_chars_tag by simp
next
  case (JBool b)
  then show thesis using that by (cases b) (simp_all add: tag_consts)
qed (use that in \<open>simp_all add: tag_consts quote_text_def\<close>)

lemma dumps_tag:
  assumes "number_printer num" "dumps num v @ r = dumps num w @ s"
  shows "tag_of v = tag_of w"
  using dumps_head [OF assms(1), of v] dumps_head [OF assms(1), of w] assms(2) by (metis append_Cons list.inject)

lemma dumps_not:
  assumes "number_printer num" "tag_of_char c = 6"
  shows "dumps num v @ r \<noteq> c # s"
proof -
  obtain d ds where d: "dumps num v = d # ds" "tag_of_char d = tag_of v" using dumps_head [OF assms(1), of v] .
  have "tag_of v < 6" by (cases v) auto
  with d assms(2) show ?thesis by auto
qed

lemma tag_cases: "tag_of v = tag_of w \<longleftrightarrow> (case v of JNull \<Rightarrow> w = JNull | JBool b \<Rightarrow> (\<exists>b'. w = JBool b') | JNum q \<Rightarrow> (\<exists>q'. w = JNum q')
  | JStr s \<Rightarrow> (\<exists>s'. w = JStr s') | JList vs \<Rightarrow> (\<exists>vs'. w = JList vs') | JObj kvs \<Rightarrow> (\<exists>kvs'. w = JObj kvs'))"
  by (cases v; cases w) auto

lemma list_shape:
  obtains (none) "xs = []" | (one) x where "xs = [x]" | (more) x y ys where "xs = x # y # ys"
  by (metis list.exhaust)

lemma items_shape:
  obtains (none) "xs = []" | (one) k v where "xs = [(k, v)]" | (more) k v y ys where "xs = (k, v) # y # ys"
  by (metis list.exhaust surj_pair)

lemma dumps_self_delimiting:
  "number_printer num \<Longrightarrow> dumps num v @ r = dumps num w @ s \<Longrightarrow> stops r \<Longrightarrow> stops s \<Longrightarrow> v = w \<and> r = s"
  "number_printer num \<Longrightarrow> dumps_list num vs @ CHR '']'' # r = dumps_list num ws @ CHR '']'' # s \<Longrightarrow> vs = ws \<and> r = s"
  "number_printer num \<Longrightarrow> dumps_items num kvs @ CHR ''}'' # r = dumps_items num lvs @ CHR ''}'' # s \<Longrightarrow> kvs = lvs \<and> r = s"
proof (induction num v and num vs and num kvs arbitrary: w r s and ws r s and lvs r s rule: dumps_dumps_list_dumps_items.induct)
  case (1 num)
  from dumps_tag [OF 1(1,2)] have "w = JNull" by (simp only: tag_cases json.case)
  then show ?case using 1 by simp
next
  case (2 num b)
  from dumps_tag [OF 2(1,2)] obtain b' where "w = JBool b'" by (auto simp only: tag_cases json.case)
  then show ?case using 2 by (auto split: if_splits)
next
  case (3 num q)
  from dumps_tag [OF 3(1,2)] obtain q' where w: "w = JNum q'" by (auto simp only: tag_cases json.case)
  then have "num q @ r = num q' @ s" using 3 by simp
  then have "num q = num q' \<and> r = s"
    by (rule number_self_delimiting) (use 3 in \<open>simp_all add: number_printer_def\<close>)
  then show ?case using 3 w by (auto simp: number_printer_def)
next
  case (4 num t)
  from dumps_tag [OF 4(1,2)] obtain t' where w: "w = JStr t'" by (auto simp only: tag_cases json.case)
  then have "quote_text t @ r = quote_text t' @ s" using 4 by simp
  from quote_self_delimiting [OF this] w show ?case by simp
next
  case (5 num vs)
  from dumps_tag [OF 5(2,3)] obtain vs' where w: "w = JList vs'" by (auto simp only: tag_cases json.case)
  then have "dumps_list num vs @ CHR '']'' # r = dumps_list num vs' @ CHR '']'' # s" using 5(3) by simp
  from "5.IH" [OF 5(2) this] w show ?case by simp
next
  case (6 num kvs)
  from dumps_tag [OF 6(2,3)] obtain kvs' where w: "w = JObj kvs'" by (auto simp only: tag_cases json.case)
  then have "dumps_items num kvs @ CHR ''}'' # r = dumps_items num kvs' @ CHR ''}'' # s" using 6(3) by simp
  from "6.IH" [OF 6(2) this] w show ?case by simp
next
  case (7 num)
  note no = dumps_not [OF 7(1) tag_consts(7)]
  show ?case
  proof (cases ws rule: list_shape)
    case (one v)
    then have "dumps num v @ (CHR '']'' # s) = CHR '']'' # r" using 7(2) by simp
    then show ?thesis by (simp only: no)
  next
    case (more v w2 ws')
    then have "dumps num v @ (CHR '','' # dumps_list num (w2 # ws') @ CHR '']'' # s) = CHR '']'' # r" using 7(2) by simp
    then show ?thesis by (simp only: no)
  qed (use 7(2) in auto)
next
  case (8 num v)
  show ?case
  proof (cases ws rule: list_shape)
    case none
    then have "dumps num v @ (CHR '']'' # r) = CHR '']'' # s" using 8(3) by simp
    then show ?thesis by (simp only: dumps_not [OF 8(2) tag_consts(7)])
  next
    case (one v')
    then have "dumps num v @ (CHR '']'' # r) = dumps num v' @ (CHR '']'' # s)" using 8(3) by simp
    from "8.IH" [OF 8(2) this] one show ?thesis by simp
  next
    case (more v' w2 ws')
    then have "dumps num v @ (CHR '']'' # r) = dumps num v' @ (CHR '','' # dumps_list num (w2 # ws') @ CHR '']'' # s)" using 8(3) by simp
    from "8.IH" [OF 8(2) this] show ?thesis by simp
  qed
next
  case (9 num v v2 vs)
  let ?tl = "CHR '','' # dumps_list num (v2 # vs) @ CHR '']'' # r"
  show ?case
  proof (cases ws rule: list_shape)
    case none
    then have "dumps num v @ ?tl = CHR '']'' # s" using 9(4) by simp
    then show ?thesis by (simp only: dumps_not [OF 9(3) tag_consts(7)])
  next
    case (one v')
    then have "dumps num v @ ?tl = dumps num v' @ (CHR '']'' # s)" using 9(4) by simp
    from "9.IH"(1) [OF 9(3) this] show ?thesis by simp
  next
    case (more v' w2 ws')
    then have "dumps num v @ ?tl = dumps num v' @ (CHR '','' # dumps_list num (w2 # ws') @ CHR '']'' # s)" using 9(4) by simp
    from "9.IH"(1) [OF 9(3) this] have h: "v = v'" "dumps_list num (v2 # vs) @ CHR '']'' # r = dumps_list num (w2 # ws') @ CHR '']'' # s" by auto
    from "9.IH"(2) [OF 9(3) h(2)] h(1) more show ?thesis by simp
  qed
next
  case (10 num)
  then show ?case by (cases lvs rule: items_shape) (auto simp: quote_text_def)
next
  case (11 num k v)
  let ?l = "CHR '':'' # dumps num v @ CHR ''}'' # r"
  show ?case
  proof (cases lvs rule: items_shape)
    case (one k' v')
    then have "quote_text k @ ?l = quote_text k' @ (CHR '':'' # dumps num v' @ CHR ''}'' # s)" using 11(3) by simp
    from quote_self_delimiting [OF this] have h: "k = k'" "dumps num v @ (CHR ''}'' # r) = dumps num v' @ (CHR ''}'' # s)" by auto
    from "11.IH" [OF 11(2) h(2)] h(1) one show ?thesis by simp
  next
    case (more k' v' kv kvs)
    then have "quote_text k @ ?l = quote_text k' @ (CHR '':'' # dumps num v' @ CHR '','' # dumps_items num (kv # kvs) @ CHR ''}'' # s)" using 11(3) by simp
    from quote_self_delimiting [OF this]
    have "dumps num v @ (CHR ''}'' # r) = dumps num v' @ (CHR '','' # dumps_items num (kv # kvs) @ CHR ''}'' # s)" by auto
    from "11.IH" [OF 11(2) this] show ?thesis by simp
  qed (use 11(3) in \<open>simp add: quote_text_def\<close>)
next
  case (12 num k v kv2 kvs2)
  let ?tl = "CHR '','' # dumps_items num (kv2 # kvs2) @ CHR ''}'' # r"
  show ?case
  proof (cases lvs rule: items_shape)
    case (one k' v')
    then have "quote_text k @ (CHR '':'' # dumps num v @ ?tl) = quote_text k' @ (CHR '':'' # dumps num v' @ CHR ''}'' # s)" using 12(4) by simp
    from quote_self_delimiting [OF this] have "dumps num v @ ?tl = dumps num v' @ (CHR ''}'' # s)" by auto
    from "12.IH"(1) [OF 12(3) this] show ?thesis by simp
  next
    case (more k' v' kv kvs)
    let ?tl' = "CHR '','' # dumps_items num (kv # kvs) @ CHR ''}'' # s"
    have "quote_text k @ (CHR '':'' # dumps num v @ ?tl) = quote_text k' @ (CHR '':'' # dumps num v' @ ?tl')" using 12(4) more by simp
    from quote_self_delimiting [OF this] have h: "k = k'" "dumps num v @ ?tl = dumps num v' @ ?tl'" by auto
    from "12.IH"(1) [OF 12(3) h(2)] have g: "v = v'" "dumps_items num (kv2 # kvs2) @ CHR ''}'' # r = dumps_items num (kv # kvs) @ CHR ''}'' # s" by auto
    from "12.IH"(2) [OF 12(3) g(2)] g(1) h(1) more show ?thesis by simp
  qed (use 12(4) in \<open>simp add: quote_text_def\<close>)
qed

text \<open>The text determines the document.\<close>

lemma dumps_inj:
  assumes "number_printer num" "dumps num v = dumps num w"
  shows "v = w"
  using dumps_self_delimiting(1) [OF assms(1), of v "[]" w "[]"] assms(2) by simp

text \<open>One such printer: the sign, the numerator and the denominator in unary.\<close>

definition unary_number :: "rat \<Rightarrow> string" where
  "unary_number q = (case quotient_of q of (a, b) \<Rightarrow>
     (if a < 0 then CHR ''-'' else CHR ''+'') # replicate (nat \<bar>a\<bar>) (CHR ''1'') @ CHR ''.'' # replicate (nat b) (CHR ''1''))"

lemma replicate_dot: "replicate m x @ d # ys = replicate n x @ d # zs \<Longrightarrow> d \<noteq> x \<Longrightarrow> m = n \<and> ys = zs"
proof (induction m arbitrary: n)
  case 0
  then show ?case by (cases n) auto
next
  case (Suc m)
  show ?case
  proof (cases n)
    case 0
    then show ?thesis using Suc.prems by auto
  next
    case (Suc n')
    then show ?thesis using Suc.IH [of n'] Suc.prems by simp
  qed
qed

lemma unary_number_printer: "number_printer unary_number"
  unfolding number_printer_def
proof (intro conjI allI impI)
  fix p q assume eq: "unary_number p = unary_number q"
  obtain a b where p: "quotient_of p = (a, b)" by fastforce
  obtain c d where q: "quotient_of q = (c, d)" by fastforce
  have pos: "0 < b" "0 < d" using quotient_of_denom_pos p q by blast+
  have sgn: "(a < 0) = (c < 0)" and r: "replicate (nat \<bar>a\<bar>) (CHR ''1'') @ CHR ''.'' # replicate (nat b) (CHR ''1'')
      = replicate (nat \<bar>c\<bar>) (CHR ''1'') @ CHR ''.'' # replicate (nat d) (CHR ''1'')"
    using eq by (auto simp: unary_number_def p q split: if_splits)
  from replicate_dot [OF r] have "nat \<bar>a\<bar> = nat \<bar>c\<bar>"
    "replicate (nat b) (CHR ''1'') = replicate (nat d) (CHR ''1'')" by simp_all
  then have "nat \<bar>a\<bar> = nat \<bar>c\<bar>" "nat b = nat d" by (simp, metis length_replicate)
  then have "a = c" "b = d" using sgn pos by linarith+
  then show "p = q" using p q by (metis quotient_of_inject_eq)
next
  fix q show "unary_number q \<noteq> []" by (simp add: unary_number_def split: prod.splits)
  show "set (unary_number q) \<subseteq> set number_chars"
    by (auto simp: unary_number_def number_chars_def split: prod.splits)
qed

end
