(* ===== verification/Webhook_Egress.thy ===== *)
theory Webhook_Egress
  imports Outbound_Http Json_Text "HOL-Library.AList"
begin

text \<open>
  The one place a webhook payload becomes signed bytes and goes out:
  src/src/core/security/webhook_egress.py, with the outcome value of
  src/src/core/webhooks/delivery.py. The stored scheme and credential are validated against the
  pinned authentication block, exactly one of three ways to authenticate is chosen, the payload
  is serialized once and sent through the outbound seam, and every failure of the seam becomes an
  outcome. The SDK's legacy signer, the tenant's RFC 9421 signer, httpx's request builder and the
  transport are parameters; an outcome's sentence is a value of \<open>delivery_detail\<close>.
\<close>

section \<open>Outcomes\<close>

datatype refusal_reason =
    No_credentials
  | Credentials_too_short
  | Scheme_not_in_spec
  | Multi_scheme
  | No_scheme

datatype outcome_kind =
    Out_delivered
  | Out_refused_destination
  | Out_refused_auth
  | Out_client_error
  | Out_exhausted

datatype delivery_detail =
    Refusal_sentence refusal_reason
  | Destination_refused
  | Receiver_answered "int option"
  | Budget_spent
  | Unexpected_exception exn

record webhook_outcome =
  wo_kind :: outcome_kind
  wo_attempts :: nat
  wo_http_status :: "int option"
  wo_detail :: "delivery_detail option"
  wo_payload_size :: "nat option"
  wo_reason :: "refusal_reason option"
  wo_scheme :: "string option"

datatype log_level = INFO | WARNING | ERROR

definition outcome_log_level :: "webhook_outcome \<Rightarrow> log_level" where
  "outcome_log_level w = (if wo_kind w = Out_delivered then INFO
     else if wo_kind w = Out_client_error then WARNING else ERROR)"

definition unexpected :: "exn \<Rightarrow> webhook_outcome" where
  "unexpected e = \<lparr>wo_kind = Out_exhausted, wo_attempts = 0, wo_http_status = None,
     wo_detail = Some (Unexpected_exception e), wo_payload_size = None, wo_reason = None, wo_scheme = None\<rparr>"

definition refusal :: "string option \<Rightarrow> refusal_reason \<Rightarrow> webhook_outcome" where
  "refusal scheme reason = \<lparr>wo_kind = Out_refused_auth, wo_attempts = 0, wo_http_status = None,
     wo_detail = Some (Refusal_sentence reason), wo_payload_size = None, wo_reason = Some reason, wo_scheme = scheme\<rparr>"

section \<open>The authentication block\<close>

datatype auth_scheme = Bearer | HMAC_SHA256

text \<open>The pinned enum, by its wire spelling.\<close>

definition scheme_of :: "string \<Rightarrow> auth_scheme option" where
  "scheme_of s = (if s = ''Bearer'' then Some Bearer else if s = ''HMAC-SHA256'' then Some HMAC_SHA256 else None)"

record push_authentication =
  pa_schemes :: "auth_scheme list"
  pa_credentials :: string

text \<open>
  One validation error: its location and its type. The block asks for at most one scheme, each
  from the enum, and a credential of at least 32 characters.
\<close>

type_synonym validation_error = "string list \<times> string"

definition scheme_errors :: "string list \<Rightarrow> validation_error list" where
  "scheme_errors ss = (if length ss = 0 then [([''schemes''], ''too_short'')]
     else if 1 < length ss then [([''schemes''], ''too_long'')]
     else map (\<lambda>s. ([''schemes'', ''0''], ''enum'')) (filter (\<lambda>s. scheme_of s = None) ss))"

definition credential_errors :: "string option \<Rightarrow> validation_error list" where
  "credential_errors c = (case c of
     None \<Rightarrow> [([''credentials''], ''string_type'')]
   | Some t \<Rightarrow> if length t < 32 then [([''credentials''], ''string_too_short'')] else [])"

definition push_authentication_block :: "string list \<Rightarrow> string option \<Rightarrow> validation_error list + push_authentication" where
  "push_authentication_block ss c = (case scheme_errors ss @ credential_errors c of
     [] \<Rightarrow> Inr \<lparr>pa_schemes = List.map_filter scheme_of ss, pa_credentials = the c\<rparr>
   | es \<Rightarrow> Inl es)"

fun reason_of :: "validation_error list \<Rightarrow> refusal_reason" where
  "reason_of [] = Scheme_not_in_spec"
| "reason_of ((loc, kind) # es) =
     (if ''credentials'' \<in> set loc then
        (if kind = ''string_too_short'' then Credentials_too_short else No_credentials)
      else if ''schemes'' \<in> set loc then (if kind = ''too_long'' then Multi_scheme else Scheme_not_in_spec)
      else reason_of es)"

text \<open>A refusal, or the block to use; None is that no block was registered.\<close>

definition authentication_or_refusal ::
    "string option \<Rightarrow> string option \<Rightarrow> webhook_outcome + push_authentication option" where
  "authentication_or_refusal scheme credentials =
     (if blank scheme then
        (if \<not> blank credentials then Inl (refusal None No_scheme) else Inr None)
      else (case push_authentication_block (case scheme of None \<Rightarrow> [] | Some s \<Rightarrow> [s]) credentials of
          Inr block \<Rightarrow> Inr (Some block)
        | Inl es \<Rightarrow> Inl (refusal scheme (reason_of es))))"

section \<open>One body, one way to authenticate\<close>

text \<open>A signer is the callback the seam invokes with an attempt's method, url and body.\<close>

type_synonym sign_attempt = "string \<Rightarrow> string \<Rightarrow> string \<Rightarrow> headers res"

record delivery_env =
  de_number :: "rat \<Rightarrow> string"
  de_sign_legacy :: "string \<Rightarrow> json \<Rightarrow> headers \<Rightarrow> headers \<times> string"
  de_httpx_request :: "string \<Rightarrow> headers \<Rightarrow> string \<Rightarrow> http_request"
  de_net :: "nat \<Rightarrow> http_request \<Rightarrow> dial"
  de_resolve :: "string \<Rightarrow> string option \<Rightarrow> unit res"
  de_base :: rat
  de_jitter :: "nat \<Rightarrow> rat"

definition canonical_body :: "delivery_env \<Rightarrow> json \<Rightarrow> string" where
  "canonical_body env payload = dumps (de_number env) payload"

definition setdefault :: "string \<Rightarrow> string \<Rightarrow> headers \<Rightarrow> headers" where
  "setdefault k v hs = (if map_of hs k = None then hs @ [(k, v)] else hs)"

definition prepare_signed_request :: "delivery_env \<Rightarrow> json \<Rightarrow> string option \<Rightarrow> headers \<Rightarrow> headers \<times> string" where
  "prepare_signed_request env payload secret hs =
     (let merged = setdefault ''Content-Type'' ''application/json'' hs in
      if truthy_str secret then de_sign_legacy env (or_str secret []) payload merged
      else (merged, canonical_body env payload))"

definition py_strip :: "string \<Rightarrow> string" where
  "py_strip s = rev (dropWhile is_space (rev (dropWhile is_space s)))"

definition check_signable_content_type :: "headers \<Rightarrow> unit res" where
  "check_signable_content_type hs =
     (if list_ex (\<lambda>(n, v). lower n = ''content-type'' \<and> py_strip v \<noteq> ''application/json'') hs
      then Inl ValueError else Inr ())"

text \<open>The headers, the HMAC secret and the per-attempt signer (indexed by the attempt).\<close>

definition headers_for ::
    "push_authentication option \<Rightarrow> headers option \<Rightarrow> (nat \<Rightarrow> sign_attempt) option
      \<Rightarrow> (headers \<times> string option \<times> (nat \<Rightarrow> sign_attempt) option) res" where
  "headers_for auth hs signer =
     (let prepared = (case hs of None \<Rightarrow> [] | Some h \<Rightarrow> h) in
      case auth of
        None \<Rightarrow> (case signer of
            None \<Rightarrow> Inr (prepared, None, None)
          | Some s \<Rightarrow> (case check_signable_content_type prepared of
              Inl e \<Rightarrow> Inl e
            | Inr _ \<Rightarrow> Inr (prepared, None, Some s)))
      | Some block \<Rightarrow> (case hd (pa_schemes block) of
            HMAC_SHA256 \<Rightarrow> Inr (prepared, Some (pa_credentials block), None)
          | Bearer \<Rightarrow> Inr (AList.update ''Authorization'' (''Bearer '' @ pa_credentials block) prepared, None, None)))"

text \<open>The probe behind the advertised legacy fallback.\<close>

definition legacy_hmac_fallback_supported :: "bool res" where
  "legacy_hmac_fallback_supported = (case headers_for
       (Some \<lparr>pa_schemes = [HMAC_SHA256], pa_credentials = replicate 32 (CHR ''x'')\<rparr>) None None of
     Inl e \<Rightarrow> Inl e
   | Inr (hs, secret, sign) \<Rightarrow> Inr (secret \<noteq> None))"

section \<open>The delivery\<close>

definition blank_outcome :: "outcome_kind \<Rightarrow> webhook_outcome" where
  "blank_outcome k = \<lparr>wo_kind = k, wo_attempts = 0, wo_http_status = None, wo_detail = None,
     wo_payload_size = None, wo_reason = None, wo_scheme = None\<rparr>"

text \<open>Only the two classes of the seam are outcomes; anything else goes on up.\<close>

definition outcome_for_outbound_error :: "exn \<Rightarrow> nat \<Rightarrow> webhook_outcome res" where
  "outcome_for_outbound_error e n = (case e of
     OutboundRequestBlocked \<Rightarrow>
       Inr ((blank_outcome Out_refused_destination)\<lparr>wo_detail := Some Destination_refused, wo_payload_size := Some n\<rparr>)
   | OutboundDeliveryFailed k status ra \<Rightarrow>
       Inr (if terminal_client_error_status e \<noteq> None
         then (blank_outcome Out_client_error)\<lparr>wo_attempts := k, wo_http_status := status,
           wo_detail := Some (Receiver_answered status), wo_payload_size := Some n\<rparr>
         else (blank_outcome Out_exhausted)\<lparr>wo_attempts := k, wo_http_status := status,
           wo_detail := Some Budget_spent, wo_payload_size := Some n\<rparr>)
   | _ \<Rightarrow> Inl e)"

definition delivered_outcome :: "outbound_result \<Rightarrow> nat \<Rightarrow> webhook_outcome" where
  "delivered_outcome r n = (blank_outcome Out_delivered)\<lparr>wo_attempts := or_attempts r,
     wo_http_status := Some (or_http_status r), wo_payload_size := Some n\<rparr>"

definition conclude_send :: "outbound_result res \<Rightarrow> nat \<Rightarrow> webhook_outcome res" where
  "conclude_send out n = (case out of
     Inr r \<Rightarrow> Inr (delivered_outcome r n)
   | Inl e \<Rightarrow> outcome_for_outbound_error e n)"

text \<open>The send a delivery makes: each attempt's request is built from the same headers and bytes.\<close>

definition webhook_send_env ::
    "delivery_env \<Rightarrow> string \<Rightarrow> headers \<Rightarrow> string \<Rightarrow> (nat \<Rightarrow> sign_attempt) option \<Rightarrow> send_env" where
  "webhook_send_env env url hs body sign = \<lparr>
     se_build = (\<lambda>n. build_request (de_httpx_request env url hs body) (map_option (\<lambda>s. s n) sign)),
     se_net = de_net env, se_base = de_base env, se_jitter = de_jitter env\<rparr>"

definition deliver_webhook ::
    "delivery_env \<Rightarrow> string \<Rightarrow> json \<Rightarrow> string option \<Rightarrow> string option \<Rightarrow> headers option \<Rightarrow> nat
      \<Rightarrow> (nat \<Rightarrow> sign_attempt) option \<Rightarrow> http_request list \<times> webhook_outcome res" where
  "deliver_webhook env url payload scheme credentials hs max_attempts signer =
     (case authentication_or_refusal scheme credentials of
        Inl refused \<Rightarrow> ([], Inr refused)
      | Inr decided \<Rightarrow> (case headers_for decided hs signer of
          Inl e \<Rightarrow> ([], Inl e)
        | Inr (auth_headers, secret, sign) \<Rightarrow>
            (case prepare_signed_request env payload secret auth_headers of (request_headers, body) \<Rightarrow>
              (case send url None (de_resolve env url) max_attempts (webhook_send_env env url request_headers body sign) of
                 (requests, waits, out) \<Rightarrow> (requests, conclude_send out (length body))))))"

section \<open>Lemmas\<close>

text \<open>The registrations this seller can deliver to.\<close>

definition deliverable_block :: "string option \<Rightarrow> string option \<Rightarrow> push_authentication \<Rightarrow> bool" where
  "deliverable_block scheme credentials b = (\<exists>s k c. scheme = Some s \<and> scheme_of s = Some k \<and> credentials = Some c \<and>
     32 \<le> length c \<and> b = \<lparr>pa_schemes = [k], pa_credentials = c\<rparr>)"

lemma scheme_of_not_blank: "scheme_of s = Some k \<Longrightarrow> \<not> blank (Some s)"
  by (auto simp: scheme_of_def blank_def is_space_def split: if_splits)

lemma push_block_one:
  "push_authentication_block [s] c = (case (scheme_of s, c) of
     (Some k, Some t) \<Rightarrow> if 32 \<le> length t then Inr \<lparr>pa_schemes = [k], pa_credentials = t\<rparr> else Inl [([''credentials''], ''string_too_short'')]
   | (Some k, None) \<Rightarrow> Inl [([''credentials''], ''string_type'')]
   | (None, Some t) \<Rightarrow> Inl (([''schemes'', ''0''], ''enum'') # (if 32 \<le> length t then [] else [([''credentials''], ''string_too_short'')]))
   | (None, None) \<Rightarrow> Inl [([''schemes'', ''0''], ''enum''), ([''credentials''], ''string_type'')])"
  by (auto simp: push_authentication_block_def scheme_errors_def credential_errors_def List.map_filter_def
      split: option.splits)

lemma auth_decision:
  "authentication_or_refusal scheme credentials =
     (case scheme of
        Some s \<Rightarrow> if blank (Some s) then (if blank credentials then Inr None else Inl (refusal None No_scheme))
          else (case (scheme_of s, credentials) of
             (Some k, Some t) \<Rightarrow> if 32 \<le> length t then Inr (Some \<lparr>pa_schemes = [k], pa_credentials = t\<rparr>)
               else Inl (refusal scheme Credentials_too_short)
           | (Some k, None) \<Rightarrow> Inl (refusal scheme No_credentials)
           | (None, _) \<Rightarrow> Inl (refusal scheme Scheme_not_in_spec))
      | None \<Rightarrow> if blank credentials then Inr None else Inl (refusal None No_scheme))"
  by (cases scheme) (auto simp: authentication_or_refusal_def push_block_one blank_def [of None] split: option.splits)

lemma auth_some:
  "authentication_or_refusal scheme credentials = Inr (Some b) \<longleftrightarrow> deliverable_block scheme credentials b"
  using scheme_of_not_blank
  by (auto simp: auth_decision deliverable_block_def split: option.splits if_splits)

lemma auth_none: "authentication_or_refusal scheme credentials = Inr None \<longleftrightarrow> blank scheme \<and> blank credentials"
  by (auto simp: auth_decision blank_def [of None] split: option.splits if_splits)

lemma auth_refused_kind: "authentication_or_refusal scheme credentials = Inl w \<Longrightarrow> wo_kind w = Out_refused_auth \<and> wo_attempts w = 0"
  by (auto simp: auth_decision refusal_def split: option.splits if_splits)

text \<open>What the seam writes as an outcome is never an authentication refusal.\<close>

lemma conclude_not_refused_auth: "conclude_send out n = Inr w \<Longrightarrow> wo_kind w \<noteq> Out_refused_auth"
  by (auto simp: conclude_send_def outcome_for_outbound_error_def delivered_outcome_def blank_outcome_def
      split: sum.splits exn.splits if_splits)

lemma deliver_webhook_decided:
  assumes "authentication_or_refusal scheme credentials = Inr decided"
    "headers_for decided hs signer = Inr (ah, secret, sign)"
    "prepare_signed_request env payload secret ah = (rh, body)"
    "send url None (de_resolve env url) m (webhook_send_env env url rh body sign) = (rs, ws, out)"
  shows "deliver_webhook env url payload scheme credentials hs m signer = (rs, conclude_send out (length body))"
  using assms by (simp add: deliver_webhook_def)

lemma deliver_webhook_cases:
  assumes "deliver_webhook env url payload scheme credentials hs m signer = (rs, out)"
  obtains (refused) w where "authentication_or_refusal scheme credentials = Inl w" "rs = []" "out = Inr w"
  | (raised) decided e where "authentication_or_refusal scheme credentials = Inr decided" "headers_for decided hs signer = Inl e" "rs = []" "out = Inl e"
  | (sent) decided ah secret sign rh body ws res where "authentication_or_refusal scheme credentials = Inr decided"
      "headers_for decided hs signer = Inr (ah, secret, sign)" "prepare_signed_request env payload secret ah = (rh, body)"
      "send url None (de_resolve env url) m (webhook_send_env env url rh body sign) = (rs, ws, res)" "out = conclude_send res (length body)"
  using assms unfolding deliver_webhook_def by (auto split: sum.splits prod.splits)

text \<open>The requests of a delivery are the built ones, attempt by attempt.\<close>

lemma send_requests_built:
  assumes "send url p resolved m (webhook_send_env env url rh body sign) = (rs, ws, out)" "i < length rs"
  shows "build_request (de_httpx_request env url rh body) (map_option (\<lambda>s. s (Suc i)) sign) = Inr (rs ! i)"
proof -
  let ?e = "webhook_send_env env url rh body sign"
  have "rs = [] \<or> send_loop m ?e (attempts_init m) = (rs, ws, out)"
    using assms(1) by (auto simp: send_cases split: sum.splits)
  then have "se_build ?e (Suc i) = Inr (rs ! i)"
    using send_loop_trace [of m ?e "attempts_init m" rs ws out] assms(2) by auto
  then show ?thesis by (simp add: webhook_send_env_def)
qed

lemma build_request_content: "build_request built sign = Inr r \<Longrightarrow> hr_content r = hr_content built"
  by (auto simp: build_request_def split: option.splits sum.splits)

lemma block_ignores_signer: "\<not> blank scheme \<Longrightarrow>
      deliver_webhook env url payload scheme credentials hs m signer = deliver_webhook env url payload scheme credentials hs m None"
proof -
  assume "\<not> blank scheme"
  then have "authentication_or_refusal scheme credentials \<noteq> Inr None" using auth_none by simp
  then show "deliver_webhook env url payload scheme credentials hs m signer = deliver_webhook env url payload scheme credentials hs m None"
    by (auto simp: deliver_webhook_def headers_for_def split: sum.splits option.splits)
qed

lemma no_block_signs_each: "blank scheme \<Longrightarrow> deliver_webhook env url payload scheme credentials hs m (Some s) = (rs, out) \<Longrightarrow> i < length rs \<Longrightarrow>
      \<exists>h body signed. rs ! i = (de_httpx_request env url h body)\<lparr>hr_headers := merge_signed signed (hr_headers (de_httpx_request env url h body))\<rparr> \<and>
        s (Suc i) (hr_method (rs ! i)) (hr_url (rs ! i)) (hr_content (rs ! i)) = Inr signed \<and> body = canonical_body env payload"
proof -
  assume b: "blank scheme" and i: "i < length rs"
  assume "deliver_webhook env url payload scheme credentials hs m (Some s) = (rs, out)"
  then show "\<exists>h body signed. rs ! i = (de_httpx_request env url h body)\<lparr>hr_headers := merge_signed signed (hr_headers (de_httpx_request env url h body))\<rparr> \<and>
        s (Suc i) (hr_method (rs ! i)) (hr_url (rs ! i)) (hr_content (rs ! i)) = Inr signed \<and> body = canonical_body env payload"
  proof (cases rule: deliver_webhook_cases)
    case (sent decided ah secret sign rh body ws res)
    have "decided = None"
      using sent(1) b auth_some [of scheme credentials] scheme_of_not_blank by (cases decided) (auto simp: deliverable_block_def)
    then have sg: "secret = None" "sign = Some s" using sent(2) by (auto simp: headers_for_def Let_def split: sum.splits)
    then have body: "body = canonical_body env payload" using sent(3) by (simp add: prepare_signed_request_def Let_def)
    let ?B = "de_httpx_request env url rh body"
    obtain signed where q: "s (Suc i) (hr_method ?B) (hr_url ?B) (hr_content ?B) = Inr signed"
      "rs ! i = ?B\<lparr>hr_headers := merge_signed signed (hr_headers ?B)\<rparr>"
      using send_requests_built [OF sent(4) i] sg by (auto simp: build_request_def split: sum.splits)
    show ?thesis by (rule exI [of _ rh], rule exI [of _ body], rule exI [of _ signed]) (use q body in simp)
  qed (use i in simp_all)
qed


section \<open>Properties\<close>

text \<open>A delivery is refused for its authentication exactly when the stored pair is neither empty nor
  a scheme of the pinned enum with a credential of at least 32 characters; the refusal dials nothing
  and counts no attempt.\<close>

theorem refused_registration_never_dialled:
  assumes "deliver_webhook env url payload scheme credentials hs m signer = (rs, out)"
  shows "((\<exists>w. out = Inr w \<and> wo_kind w = Out_refused_auth) \<longleftrightarrow>
      \<not> (blank scheme \<and> blank credentials) \<and> (\<forall>b. \<not> deliverable_block scheme credentials b)) \<and>
    (\<forall>w. out = Inr w \<and> wo_kind w = Out_refused_auth \<longrightarrow> rs = [] \<and> wo_attempts w = 0)"
  using assms
proof (cases rule: deliver_webhook_cases)
  case (refused w)
  then have "\<not> (blank scheme \<and> blank credentials)" "\<forall>b. \<not> deliverable_block scheme credentials b"
    using auth_none [of scheme credentials] auth_some [of scheme credentials] by auto
  then show ?thesis using refused auth_refused_kind by auto
next
  case (raised decided e)
  then show ?thesis using auth_none [of scheme credentials] auth_some [of scheme credentials] by (cases decided) auto
next
  case (sent decided ah secret sign rh body ws res)
  then show ?thesis
    using auth_none [of scheme credentials] auth_some [of scheme credentials] conclude_not_refused_auth [of res "length body"]
    by (cases decided) auto
qed

text \<open>C11. When httpx transmits the content it is given and the SDK's legacy signer signs the compact
  JSON text of the payload, every request a delivery dials, on every attempt and in every
  authentication mode, carries exactly that text, and the text determines the payload: no other
  document has it.\<close>

theorem one_body_every_attempt:
  assumes "deliver_webhook env url payload scheme credentials hs m signer = (rs, out)" "r \<in> set rs"
    and "\<And>u h b. hr_content (de_httpx_request env u h b) = b"
    and "\<And>k p h. snd (de_sign_legacy env k p h) = canonical_body env p"
    and "number_printer (de_number env)"
  shows "hr_content r = canonical_body env payload \<and> (\<forall>p. canonical_body env p = hr_content r \<longrightarrow> p = payload)"
  using assms(1)
proof (cases rule: deliver_webhook_cases)
  case (sent decided ah secret sign rh body ws res)
  have "body = canonical_body env payload"
    using sent(3) assms(4) by (auto simp: prepare_signed_request_def Let_def split: if_splits) (metis snd_conv)
  moreover obtain i where "i < length rs" "r = rs ! i" using assms(2) by (metis in_set_conv_nth)
  then have "hr_content r = body"
    using build_request_content [OF send_requests_built [OF sent(4)]] assms(3) by simp
  ultimately show ?thesis using dumps_inj [OF assms(5)] by (simp add: canonical_body_def)
qed (use assms(2) in simp_all)

text \<open>A delivery is authenticated one way. When a scheme is stored, the tenant's RFC 9421 signer
  changes nothing, neither what is dialled nor the outcome; when none is stored and the tenant has a
  signer, the request of every attempt is the built one with the signature made for that attempt,
  over its own body.\<close>

theorem signature_mode_exclusive:
  "(\<not> blank scheme \<longrightarrow>
      deliver_webhook env url payload scheme credentials hs m signer = deliver_webhook env url payload scheme credentials hs m None) \<and>
   (blank scheme \<and> deliver_webhook env url payload scheme credentials hs m (Some s) = (rs, out) \<and> i < length rs \<longrightarrow>
      (\<exists>h body signed. rs ! i = (de_httpx_request env url h body)\<lparr>hr_headers := merge_signed signed (hr_headers (de_httpx_request env url h body))\<rparr> \<and>
        s (Suc i) (hr_method (rs ! i)) (hr_url (rs ! i)) (hr_content (rs ! i)) = Inr signed \<and> body = canonical_body env payload))"
proof (intro conjI impI)
  show "deliver_webhook env url payload scheme credentials hs m signer = deliver_webhook env url payload scheme credentials hs m None"
    if "\<not> blank scheme" using block_ignores_signer [OF that] .
qed (elim conjE, rule no_block_signs_each)

text \<open>A deployment whose collaborators behave as documented.\<close>

definition env_tame :: "delivery_env \<Rightarrow> (nat \<Rightarrow> sign_attempt) option \<Rightarrow> bool" where
  "env_tame env signer = ((\<forall>n r. tame_dial (de_net env n r)) \<and>
     (\<forall>u f. de_resolve env u f = Inr () \<or> de_resolve env u f = Inl OutboundRequestBlocked) \<and>
     (\<forall>s n m u b. signer = Some s \<longrightarrow> (\<exists>h. s n m u b = Inr h)))"

lemma dial_of_tame:
  assumes "env_tame env signer" "sign = None \<or> sign = signer"
  shows "\<exists>d. dial_of (webhook_send_env env url rh body sign) n = Some d \<and> tame_dial d"
  using assms
  by (auto simp: env_tame_def dial_of_def webhook_send_env_def build_request_def split: option.splits sum.splits)
    (metis sum.distinct(1))+

lemma headers_for_signer: "headers_for auth hs signer = Inr (ah, secret, sign) \<Longrightarrow> sign = None \<or> sign = signer"
  by (auto simp: headers_for_def Let_def split: option.splits sum.splits auth_scheme.splits)

lemma conclude_failed:
  "delivery_failed n e \<Longrightarrow> \<exists>w. conclude_send (Inl e) k = Inr w \<and> wo_attempts w = n \<and> wo_payload_size w = Some k \<and>
    (wo_kind w = Out_client_error \<or> wo_kind w = Out_exhausted)"
  by (auto simp: delivery_failed_def conclude_send_def outcome_for_outbound_error_def blank_outcome_def)

text \<open>Every delivery of a deliverable registration ends in an outcome, never in an exception, when the
  address policy, the transport and the signer behave as documented: the outcome counts the
  requests dialled and the bytes of the body, a refused destination dialled nothing, and the
  outcome is a delivery exactly when some attempt within the bound, preceded only by retryable
  failures, was answered by a complete 2xx response under the size cap.\<close>

theorem webhook_outcome_classified:
  assumes "env_tame env signer" "authentication_or_refusal scheme credentials = Inr decided"
    "headers_for decided hs signer = Inr (ah, secret, sign)" "prepare_signed_request env payload secret ah = (rh, body)"
    "deliver_webhook env url payload scheme credentials hs m signer = (rs, out)"
  shows "\<exists>w. out = Inr w \<and> wo_attempts w = length rs \<and> wo_payload_size w = Some (length body) \<and>
    (wo_kind w = Out_refused_destination \<longleftrightarrow> de_resolve env url None = Inl OutboundRequestBlocked) \<and>
    (de_resolve env url None = Inr () \<longrightarrow> (wo_kind w = Out_delivered \<longleftrightarrow>
      (\<exists>k d r. 1 \<le> k \<and> k \<le> m \<and> dial_of (webhook_send_env env url rh body sign) k = Some d \<and> delivered d k r \<and>
        (\<forall>i. 1 \<le> i \<and> i < k \<longrightarrow> (\<exists>d'. dial_of (webhook_send_env env url rh body sign) i = Some d' \<and> retryable_dial d')))))"
proof -
  let ?e = "webhook_send_env env url rh body sign"
  obtain rs' ws res where send: "send url None (de_resolve env url) m ?e = (rs', ws, res)" by (metis prod_cases3)
  have o: "rs = rs'" "out = conclude_send res (length body)"
    using deliver_webhook_decided [OF assms(2-4) send] assms(5) by simp_all
  have cf: "checked_field None url = Inr None" by (simp add: checked_field_def refusal_field_def)
  show ?thesis
  proof (cases "de_resolve env url None")
    case (Inl e)
    then have "e = OutboundRequestBlocked" using assms(1) by (auto simp: env_tame_def) (metis sum.inject(1) Inl Inr_not_Inl)
    then show ?thesis using send Inl cf o
      by (auto simp: send_cases conclude_send_def outcome_for_outbound_error_def blank_outcome_def)
  next
    case (Inr u)
    then have loop: "send_loop m ?e (attempts_init m) = (rs', ws, res)" using send cf by (simp add: send_cases)
    have iff: "(\<exists>r. res = Inr r) \<longleftrightarrow> (\<exists>k d r. 1 \<le> k \<and> k \<le> m \<and> dial_of ?e k = Some d \<and> delivered d k r \<and>
        (\<forall>i. 1 \<le> i \<and> i < k \<longrightarrow> (\<exists>d'. dial_of ?e i = Some d' \<and> retryable_dial d')))"
      using send_succeeds_exactly_loop [OF loop] by blast
    show ?thesis
    proof (cases res)
      case (Inl e)
      have "delivery_failed (length rs') e"
        using send_loop_failure [OF loop [unfolded Inl] _ finite_hint_init dial_of_tame [OF assms(1) headers_for_signer [OF assms(3)]]] by simp
      from conclude_failed [OF this, of "length body"] show ?thesis using Inl iff o Inr by auto
    next
      case r: (Inr r)
      have "delivered (se_net ?e (length rs') (last rs')) (length rs') r"
        using send_loop_trace [OF loop] r by simp
      then have "or_attempts r = length rs'" by (auto simp: delivered_def split: dial.splits)
      then show ?thesis using r iff o Inr by (auto simp: conclude_send_def delivered_outcome_def blank_outcome_def)
    qed
  qed
qed

text \<open>A lower-case Content-Type passes the check and then ships beside the one the default adds.\<close>

lemma lowercase_content_type_doubled:
  "check_signable_content_type [(''content-type'', ''application/json'')] = Inr () \<and>
   fst (prepare_signed_request env payload None [(''content-type'', ''application/json'')])
     = [(''content-type'', ''application/json''), (''Content-Type'', ''application/json'')]"
proof
  show "check_signable_content_type [(''content-type'', ''application/json'')] = Inr ()" by code_simp
qed (simp add: prepare_signed_request_def setdefault_def)

section \<open>Witnesses\<close>

text \<open>A tenant with a signer, a receiver that drops the first connection, and an unauthenticated row.\<close>

definition ex_delivery :: delivery_env where
  "ex_delivery = \<lparr>de_number = unary_number,
     de_sign_legacy = (\<lambda>k p h. (h @ [(''X-ADCP-Signature'', k)], dumps unary_number p)),
     de_httpx_request = (\<lambda>u h b. \<lparr>hr_method = ''POST'', hr_url = u, hr_headers = h, hr_content = b\<rparr>),
     de_net = (\<lambda>n r. if n = 1 then Dial_transport_failure else Dial_response (ex_response 204 No_header)),
     de_resolve = (\<lambda>u f. Inr ()), de_base = 1, de_jitter = (\<lambda>n. 1/2)\<rparr>"

definition ex_signer :: "nat \<Rightarrow> sign_attempt" where
  "ex_signer n m u b = Inr [(''Signature-Nonce'', replicate n (CHR ''i''))]"

definition ex_request :: "nat \<Rightarrow> http_request" where
  "ex_request n = \<lparr>hr_method = ''POST'', hr_url = ''u'', hr_headers =
     [(''Content-Type'', ''application/json''), (''Signature-Nonce'', replicate n (CHR ''i''))], hr_content = ''null''\<rparr>"

definition ex_outcome :: webhook_outcome where
  "ex_outcome = \<lparr>wo_kind = Out_delivered, wo_attempts = 2, wo_http_status = Some 204, wo_detail = None,
     wo_payload_size = Some 4, wo_reason = None, wo_scheme = None\<rparr>"

lemma ex_names: "lower ''Content-Type'' \<noteq> lower ''Signature-Nonce''"
  "lower ''Signature-Nonce'' \<notin> set signer_reserved_headers"
  by code_simp+

lemma ex_headers: "headers_for None None (Some ex_signer) = Inr ([], None, Some ex_signer)"
  by (simp add: headers_for_def check_signable_content_type_def)

lemma ex_prepared: "prepare_signed_request ex_delivery JNull None [] = ([(''Content-Type'', ''application/json'')], ''null'')"
  by (simp add: prepare_signed_request_def setdefault_def canonical_body_def)

lemma ex_auth: "authentication_or_refusal None None = Inr None"
  by (simp add: auth_decision blank_def)

lemma ex_webhook_send:
  "send ''u'' None (de_resolve ex_delivery ''u'') 3
     (webhook_send_env ex_delivery ''u'' [(''Content-Type'', ''application/json'')] ''null'' (Some ex_signer))
   = ([ex_request 1, ex_request 2], [Fin (3/2)],
      Inr \<lparr>or_http_status = 204, or_headers = [(''server'', ''x'')], or_content = ''ok'', or_attempts = 2\<rparr>)"
  by (simp add: webhook_send_env_def build_request_def ex_delivery_def ex_signer_def ex_names ex_eval ex_lower
      numeral_3_eq_3 ex_request_def numeral_2_eq_2)

lemma ex_deliver:
  "deliver_webhook ex_delivery ''u'' JNull None None None 3 (Some ex_signer) = ([ex_request 1, ex_request 2], Inr ex_outcome)"
  using deliver_webhook_decided [OF ex_auth ex_headers ex_prepared ex_webhook_send]
  by (simp add: conclude_send_def delivered_outcome_def blank_outcome_def ex_outcome_def)

theorem refused_registration_never_dialled_witness:
  "\<exists>w. deliver_webhook ex_delivery ''u'' JNull (Some ''bearer'') (Some ''x'') None 3 None = ([], Inr w) \<and> wo_kind w = Out_refused_auth"
proof -
  obtain rs out where d: "deliver_webhook ex_delivery ''u'' JNull (Some ''bearer'') (Some ''x'') None 3 None = (rs, out)" by fastforce
  have "\<not> (blank (Some ''bearer'') \<and> blank (Some ''x''))" "\<forall>b. \<not> deliverable_block (Some ''bearer'') (Some ''x'') b"
    by (simp_all add: blank_def is_space_def deliverable_block_def)
  with refused_registration_never_dialled [OF d] d show ?thesis by blast
qed

theorem one_body_every_attempt_witness: "hr_content (ex_request 2) = ''null''"
proof -
  have "hr_content (ex_request 2) = canonical_body ex_delivery JNull"
    using one_body_every_attempt [OF ex_deliver, of "ex_request 2"] unary_number_printer
    by (simp add: ex_delivery_def canonical_body_def)
  then show ?thesis by (simp add: canonical_body_def)
qed

theorem signature_mode_exclusive_witness:
  "\<exists>signed. hr_headers (ex_request 2) = merge_signed signed [(''Content-Type'', ''application/json'')] \<and> ex_signer 2 ''POST'' ''u'' ''null'' = Inr signed"
proof -
  have "blank None" by (simp add: blank_def)
  then obtain h body signed where
    "ex_request 2 = (de_httpx_request ex_delivery ''u'' h body)\<lparr>hr_headers := merge_signed signed (hr_headers (de_httpx_request ex_delivery ''u'' h body))\<rparr>"
    "ex_signer 2 (hr_method (ex_request 2)) (hr_url (ex_request 2)) (hr_content (ex_request 2)) = Inr signed"
    using signature_mode_exclusive [of None ex_delivery "''u''" JNull None None 3 None ex_signer "[ex_request 1, ex_request 2]" "Inr ex_outcome" 1] ex_deliver
    by (auto simp: numeral_2_eq_2)
  then have "signed = [(''Signature-Nonce'', ''ii'')]" "ex_signer 2 ''POST'' ''u'' ''null'' = Inr signed"
    by (auto simp: ex_signer_def ex_request_def numeral_2_eq_2)
  moreover have "hr_headers (ex_request 2) = merge_signed [(''Signature-Nonce'', ''ii'')] [(''Content-Type'', ''application/json'')]"
    using ex_names by (simp add: ex_request_def numeral_2_eq_2)
  ultimately show ?thesis by blast
qed

theorem webhook_outcome_classified_witness:
  "wo_kind ex_outcome = Out_delivered \<and> wo_attempts ex_outcome = length [ex_request 1, ex_request 2]"
proof -
  have "env_tame ex_delivery (Some ex_signer)"
    by (simp add: env_tame_def ex_delivery_def ex_signer_def tame_dial_def ex_response_def)
  from webhook_outcome_classified [OF this ex_auth ex_headers ex_prepared ex_deliver]
  show ?thesis by (auto simp: ex_outcome_def)
qed

end
