(* ===== verification/Delivery_Log.thy ===== *)
theory Delivery_Log
  imports Webhook_Egress Tenant_Scope Clock
begin

text \<open>
  The webhook delivery tables and their tenant-scoped repository
  (src/src/core/database/repositories/delivery.py), the task identity of
  src/src/core/webhooks/delivery.py that an outcome is written for, and the conclusion of
  src/src/services/webhook_conclusion.py. A log row is merged by its primary key: an existing
  row of that id is overwritten, keeping the created_at the database gave it.
\<close>

section \<open>Rows\<close>

record webhook_delivery_record =
  dr_delivery_id :: string
  dr_tenant_id :: string
  dr_webhook_url :: string
  dr_payload :: json
  dr_event_type :: string
  dr_object_id :: "string option"
  dr_status :: string
  dr_attempts :: int
  dr_last_attempt_at :: "instant option"
  dr_delivered_at :: "instant option"
  dr_last_error :: "string option"
  dr_response_code :: "int option"
  dr_created_at :: instant

record webhook_delivery_log =
  dl_id :: string
  dl_tenant_id :: string
  dl_principal_id :: string
  dl_media_buy_id :: string
  dl_webhook_url :: string
  dl_task_type :: string
  dl_sequence_number :: int
  dl_notification_type :: "string option"
  dl_attempt_count :: int
  dl_status :: string
  dl_http_status_code :: "int option"
  dl_error_message :: "delivery_detail option"
  dl_payload_size_bytes :: "nat option"
  dl_response_time_ms :: "int option"
  dl_created_at :: instant
  dl_completed_at :: "instant option"
  dl_next_retry_at :: "instant option"

text \<open>Who a delivery was for.\<close>

record webhook_task_context =
  tc_task_id :: string
  tc_task_type :: "string option"
  tc_tenant_id :: "string option"
  tc_principal_id :: "string option"
  tc_media_buy_id :: "string option"
  tc_sequence_number :: int
  tc_notification_type :: "string option"

definition delivery_log_task_types :: "string list" where
  "delivery_log_task_types = [''delivery_report'', ''media_buy_delivery'']"

definition records_delivery_log :: "webhook_task_context \<Rightarrow> bool" where
  "records_delivery_log ctx = (tc_task_type ctx \<in> Some ` set delivery_log_task_types \<and>
     truthy_str (tc_media_buy_id ctx) \<and> truthy_str (tc_tenant_id ctx) \<and> truthy_str (tc_principal_id ctx))"

definition poll_sequence_task_type :: string where
  "poll_sequence_task_type = ''delivery_poll''"

definition poll_sequence_placeholder_url :: string where
  "poll_sequence_placeholder_url = ''delivery_poll://internal''"

definition outcome_status :: "outcome_kind \<Rightarrow> string option" where
  "outcome_status k = (case k of
     Out_delivered \<Rightarrow> Some ''success''
   | Out_refused_destination \<Rightarrow> Some ''refused''
   | Out_client_error \<Rightarrow> Some ''failed''
   | Out_exhausted \<Rightarrow> Some ''failed''
   | Out_refused_auth \<Rightarrow> None)"

section \<open>Delivery records\<close>

definition get_record_by_id :: "string \<Rightarrow> string \<Rightarrow> webhook_delivery_record list \<Rightarrow> webhook_delivery_record option" where
  "get_record_by_id tenant delivery_id rows =
     find (\<lambda>r. dr_tenant_id r = tenant \<and> dr_delivery_id r = delivery_id) rows"

definition list_records_by_tenant ::
    "string \<Rightarrow> string option \<Rightarrow> string option \<Rightarrow> nat option \<Rightarrow> webhook_delivery_record list \<Rightarrow> webhook_delivery_record list" where
  "list_records_by_tenant tenant status event_type limit rows =
     (let sel = sort_key (\<lambda>r. - dr_created_at r) (filter (\<lambda>r. dr_tenant_id r = tenant \<and>
        (case status of None \<Rightarrow> True | Some s \<Rightarrow> dr_status r = s) \<and>
        (case event_type of None \<Rightarrow> True | Some e \<Rightarrow> dr_event_type r = e)) rows)
      in case limit of None \<Rightarrow> sel | Some n \<Rightarrow> take n sel)"

text \<open>\<open>now\<close> is the server default of created_at.\<close>

definition create_record ::
    "string \<Rightarrow> instant \<Rightarrow> string \<Rightarrow> string \<Rightarrow> json \<Rightarrow> string \<Rightarrow> string option \<Rightarrow> string \<Rightarrow> int \<Rightarrow> instant option
      \<Rightarrow> webhook_delivery_record list \<Rightarrow> (webhook_delivery_record list \<times> webhook_delivery_record) res" where
  "create_record tenant now delivery_id url payload event_type object_id status attempts created_at rows =
     (let r = \<lparr>dr_delivery_id = delivery_id, dr_tenant_id = tenant, dr_webhook_url = url, dr_payload = payload,
        dr_event_type = event_type, dr_object_id = object_id, dr_status = status, dr_attempts = attempts,
        dr_last_attempt_at = None, dr_delivered_at = None, dr_last_error = None, dr_response_code = None,
        dr_created_at = (case created_at of None \<Rightarrow> now | Some c \<Rightarrow> c)\<rparr>
      in if delivery_id \<in> dr_delivery_id ` set rows then Inl IntegrityError else Inr (rows @ [r], r))"

definition set_if :: "('v \<Rightarrow> 'r \<Rightarrow> 'r) \<Rightarrow> 'v option \<Rightarrow> 'r \<Rightarrow> 'r" where
  "set_if f v r = (case v of None \<Rightarrow> r | Some x \<Rightarrow> f x r)"

definition update_record ::
    "string \<Rightarrow> string \<Rightarrow> string option \<Rightarrow> int option \<Rightarrow> int option \<Rightarrow> string option \<Rightarrow> instant option \<Rightarrow> instant option
      \<Rightarrow> webhook_delivery_record list \<Rightarrow> webhook_delivery_record list \<times> webhook_delivery_record option" where
  "update_record tenant delivery_id status attempts response_code last_error last_attempt_at delivered_at rows =
     (case get_record_by_id tenant delivery_id rows of
        None \<Rightarrow> (rows, None)
      | Some r \<Rightarrow>
          let r' = set_if (\<lambda>v. dr_delivered_at_update (\<lambda>_. Some v)) delivered_at
            (set_if (\<lambda>v. dr_last_attempt_at_update (\<lambda>_. Some v)) last_attempt_at
            (set_if (\<lambda>v. dr_last_error_update (\<lambda>_. Some v)) last_error
            (set_if (\<lambda>v. dr_response_code_update (\<lambda>_. Some v)) response_code
            (set_if (\<lambda>v. dr_attempts_update (\<lambda>_. v)) attempts
            (set_if (\<lambda>v. dr_status_update (\<lambda>_. v)) status r)))))
          in (update_where (\<lambda>x. dr_delivery_id x = dr_delivery_id r) (\<lambda>_. r') rows, Some r'))"

section \<open>The delivery log\<close>

definition get_logs_by_webhook_id ::
    "string \<Rightarrow> string \<Rightarrow> string option \<Rightarrow> string option \<Rightarrow> webhook_delivery_log list \<Rightarrow> webhook_delivery_log list" where
  "get_logs_by_webhook_id tenant media_buy_id task_type status rows =
     sort_key (\<lambda>r. - dl_created_at r) (filter (\<lambda>r. dl_tenant_id r = tenant \<and> dl_media_buy_id r = media_buy_id \<and>
       (case task_type of None \<Rightarrow> True | Some t \<Rightarrow> dl_task_type r = t) \<and>
       (case status of None \<Rightarrow> True | Some s \<Rightarrow> dl_status r = s)) rows)"

definition get_recent_successful_log ::
    "string \<Rightarrow> string \<Rightarrow> string \<Rightarrow> string \<Rightarrow> instant \<Rightarrow> webhook_delivery_log list \<Rightarrow> webhook_delivery_log option" where
  "get_recent_successful_log tenant media_buy_id task_type notification_type since rows =
     find (\<lambda>r. dl_tenant_id r = tenant \<and> dl_media_buy_id r = media_buy_id \<and> dl_task_type r = task_type \<and>
       dl_notification_type r = Some notification_type \<and> dl_status r = ''success'' \<and> since < dl_created_at r) rows"

definition get_max_sequence_number :: "string \<Rightarrow> string \<Rightarrow> string \<Rightarrow> webhook_delivery_log list \<Rightarrow> int" where
  "get_max_sequence_number tenant media_buy_id task_type rows =
     (case max_of (map dl_sequence_number (filter (\<lambda>r. dl_tenant_id r = tenant \<and>
         dl_media_buy_id r = media_buy_id \<and> dl_task_type r = task_type) rows)) of
        None \<Rightarrow> 0 | Some n \<Rightarrow> n)"

text \<open>\<open>_create_log\<close>: merge by id, then flush.\<close>

definition create_log :: "instant \<Rightarrow> webhook_delivery_log \<Rightarrow> webhook_delivery_log list \<Rightarrow> webhook_delivery_log list" where
  "create_log now entry rows =
     (if dl_id entry \<in> dl_id ` set rows
      then update_where (\<lambda>r. dl_id r = dl_id entry) (\<lambda>r. entry\<lparr>dl_created_at := dl_created_at r\<rparr>) rows
      else rows @ [entry\<lparr>dl_created_at := now\<rparr>])"

definition outcome_row ::
    "string \<Rightarrow> webhook_task_context \<Rightarrow> string \<Rightarrow> string \<Rightarrow> string \<Rightarrow> webhook_outcome \<Rightarrow> int option \<Rightarrow> instant \<Rightarrow> webhook_delivery_log" where
  "outcome_row tenant ctx log_id url status w response_time now = \<lparr>dl_id = log_id, dl_tenant_id = tenant,
     dl_principal_id = or_str (tc_principal_id ctx) [], dl_media_buy_id = or_str (tc_media_buy_id ctx) [],
     dl_webhook_url = url, dl_task_type = or_str (tc_task_type ctx) [], dl_sequence_number = tc_sequence_number ctx,
     dl_notification_type = tc_notification_type ctx, dl_attempt_count = int (wo_attempts w), dl_status = status,
     dl_http_status_code = wo_http_status w, dl_error_message = wo_detail w, dl_payload_size_bytes = wo_payload_size w,
     dl_response_time_ms = response_time, dl_created_at = now, dl_completed_at = Some now, dl_next_retry_at = None\<rparr>"

text \<open>The only outcome writer; \<open>tenant\<close> is the repository's scope.\<close>

definition record_outcome ::
    "string \<Rightarrow> webhook_task_context \<Rightarrow> string \<Rightarrow> string \<Rightarrow> webhook_outcome \<Rightarrow> int option \<Rightarrow> instant
      \<Rightarrow> webhook_delivery_log list \<Rightarrow> webhook_delivery_log list" where
  "record_outcome tenant ctx log_id url w response_time now rows =
     (case outcome_status (wo_kind w) of
        None \<Rightarrow> rows
      | Some status \<Rightarrow>
          if \<not> records_delivery_log ctx then rows
          else create_log now (outcome_row tenant ctx log_id url status w response_time now) rows)"

definition poll_row :: "string \<Rightarrow> string \<Rightarrow> string \<Rightarrow> string \<Rightarrow> int \<Rightarrow> string option \<Rightarrow> instant \<Rightarrow> webhook_delivery_log" where
  "poll_row tenant log_id pid media_buy_id n notification_type now = \<lparr>dl_id = log_id, dl_tenant_id = tenant,
     dl_principal_id = pid, dl_media_buy_id = media_buy_id, dl_webhook_url = poll_sequence_placeholder_url,
     dl_task_type = poll_sequence_task_type, dl_sequence_number = n, dl_notification_type = notification_type,
     dl_attempt_count = 1, dl_status = ''success'', dl_http_status_code = None, dl_error_message = None,
     dl_payload_size_bytes = None, dl_response_time_ms = None, dl_created_at = now, dl_completed_at = None,
     dl_next_retry_at = None\<rparr>"

text \<open>\<open>log_id\<close> is the fresh uuid.\<close>

definition record_poll_sequence ::
    "string \<Rightarrow> string \<Rightarrow> string \<Rightarrow> string \<Rightarrow> int \<Rightarrow> string option \<Rightarrow> instant
      \<Rightarrow> webhook_delivery_log list \<Rightarrow> webhook_delivery_log list" where
  "record_poll_sequence tenant log_id pid media_buy_id n notification_type now rows =
     create_log now (poll_row tenant log_id pid media_buy_id n notification_type now) rows"

text \<open>\<open>record_conclusion\<close>: the write and its commit, which may raise and then leaves the table as it was.\<close>

definition record_conclusion ::
    "exn option \<Rightarrow> string \<Rightarrow> webhook_task_context \<Rightarrow> string \<Rightarrow> string \<Rightarrow> webhook_outcome \<Rightarrow> int option \<Rightarrow> instant
      \<Rightarrow> webhook_delivery_log list \<Rightarrow> webhook_delivery_log list res" where
  "record_conclusion commit_error tenant ctx log_id url w response_time now rows = (case commit_error of
     Some e \<Rightarrow> Inl e
   | None \<Rightarrow> Inr (record_outcome tenant ctx log_id url w response_time now rows))"

section \<open>Runs of writes\<close>

text \<open>A write to the log with what the process and the database supply: the fresh id and the time.\<close>

datatype log_write =
    Outcome_write webhook_task_context string webhook_outcome "int option"
  | Poll_write string string int "string option"

record log_event =
  le_tenant :: string
  le_id :: string
  le_now :: instant
  le_write :: log_write

definition apply_event :: "log_event \<Rightarrow> webhook_delivery_log list \<Rightarrow> webhook_delivery_log list" where
  "apply_event e rows = (case le_write e of
     Outcome_write ctx url w rt \<Rightarrow> record_outcome (le_tenant e) ctx (le_id e) url w rt (le_now e) rows
   | Poll_write pid mb n nt \<Rightarrow> record_poll_sequence (le_tenant e) (le_id e) pid mb n nt (le_now e) rows)"

definition log_rows :: "log_event list \<Rightarrow> webhook_delivery_log list" where
  "log_rows es = fold apply_event es []"

text \<open>The row an event writes, if it writes one.\<close>

definition event_row :: "log_event \<Rightarrow> webhook_delivery_log option" where
  "event_row e = (case le_write e of
     Outcome_write ctx url w rt \<Rightarrow> (case outcome_status (wo_kind w) of
         None \<Rightarrow> None
       | Some s \<Rightarrow> if records_delivery_log ctx then Some (outcome_row (le_tenant e) ctx (le_id e) url s w rt (le_now e)) else None)
   | Poll_write pid mb n nt \<Rightarrow> Some (poll_row (le_tenant e) (le_id e) pid mb n nt (le_now e)))"

lemma apply_event_fresh:
  assumes "le_id e \<notin> dl_id ` set rows"
  shows "apply_event e rows = rows @ (case event_row e of None \<Rightarrow> [] | Some r \<Rightarrow> [r])"
  using assms
  by (auto simp: apply_event_def event_row_def record_outcome_def record_poll_sequence_def create_log_def
      outcome_row_def poll_row_def split: log_write.splits option.splits)

lemma event_row_keys:
  "event_row e = Some r \<Longrightarrow> dl_id r = le_id e \<and> dl_tenant_id r = le_tenant e \<and> dl_created_at r = le_now e"
  by (auto simp: event_row_def outcome_row_def poll_row_def split: log_write.splits option.splits if_splits)

lemma map_filter_append: "List.map_filter f (xs @ ys) = List.map_filter f xs @ List.map_filter f ys"
  by (simp add: List.map_filter_def)

lemma map_filter_set: "x \<in> set (List.map_filter f xs) \<longleftrightarrow> (\<exists>y\<in>set xs. f y = Some x)"
  by (auto simp: List.map_filter_def) force

lemma log_rows_snoc: "log_rows (es @ [e]) = apply_event e (log_rows es)"
  by (simp add: log_rows_def)

text \<open>With fresh ids the log is the list of what was written.\<close>

lemma log_rows_written:
  assumes "distinct (map le_id es)"
  shows "log_rows es = List.map_filter event_row es"
  using assms
proof (induction es rule: rev_induct)
  case Nil
  then show ?case by (simp add: log_rows_def List.map_filter_def)
next
  case (snoc e es)
  have "le_id e \<notin> dl_id ` set (log_rows es)"
    using snoc event_row_keys by (auto simp: map_filter_set)
  from apply_event_fresh [OF this] snoc show ?case
    by (simp add: log_rows_snoc map_filter_append) (simp add: List.map_filter_def split: option.splits)
qed

section \<open>Tenant scope\<close>

definition log_step :: "string \<Rightarrow> webhook_delivery_log list \<Rightarrow> webhook_delivery_log list \<Rightarrow> bool" where
  "log_step t rows rows' = (\<exists>e. le_tenant e = t \<and> le_id e \<notin> dl_id ` set rows \<and> rows' = apply_event e rows)"

interpretation log_scope: tenant_scoped "\<lambda>rows. distinct (map dl_id rows)" log_step "\<lambda>t. filter (\<lambda>r. dl_tenant_id r = t)"
proof
  fix s s' :: "webhook_delivery_log list" and t u
  assume d: "distinct (map dl_id s)" and st: "log_step t s s'"
  then obtain e where e: "le_tenant e = t" "le_id e \<notin> dl_id ` set s" "s' = s @ (case event_row e of None \<Rightarrow> [] | Some r \<Rightarrow> [r])"
    using apply_event_fresh by (auto simp: log_step_def)
  show "distinct (map dl_id s')" using d e event_row_keys by (auto split: option.splits)
  show "filter (\<lambda>r. dl_tenant_id r = u) s' = filter (\<lambda>r. dl_tenant_id r = u) s" if "u \<noteq> t"
    using that e event_row_keys by (auto split: option.splits)
qed

section \<open>Properties\<close>

definition is_delivered_report :: "string \<Rightarrow> string \<Rightarrow> string \<Rightarrow> string \<Rightarrow> log_event \<Rightarrow> bool" where
  "is_delivered_report t mb tt nt e = (le_tenant e = t \<and> (case le_write e of
     Outcome_write ctx url w rt \<Rightarrow> wo_kind w = Out_delivered \<and> records_delivery_log ctx \<and>
       tc_media_buy_id ctx = Some mb \<and> tc_task_type ctx = Some tt \<and> tc_notification_type ctx = Some nt
   | _ \<Rightarrow> False))"

lemma records_strings:
  "records_delivery_log ctx \<Longrightarrow> \<exists>mb tt. tc_media_buy_id ctx = Some mb \<and> mb \<noteq> [] \<and> tc_task_type ctx = Some tt \<and> tt \<noteq> [] \<and>
    tt \<in> set delivery_log_task_types"
  by (auto simp: records_delivery_log_def truthy_str_def delivery_log_task_types_def split: option.splits)

lemma outcome_success: "outcome_status k = Some ''success'' \<longleftrightarrow> k = Out_delivered"
  by (cases k) (simp_all add: outcome_status_def)

lemma event_row_recent:
  assumes "tt \<in> set delivery_log_task_types"
  shows "(\<exists>r. event_row e = Some r \<and> dl_tenant_id r = t \<and> dl_media_buy_id r = mb \<and> dl_task_type r = tt \<and>
      dl_notification_type r = Some nt \<and> dl_status r = ''success'' \<and> since < dl_created_at r)
    \<longleftrightarrow> is_delivered_report t mb tt nt e \<and> since < le_now e"
proof (cases "le_write e")
  case (Outcome_write ctx url w rt)
  show ?thesis
  proof (cases "records_delivery_log ctx")
    case True
    from records_strings [OF this] obtain mb' tt' where
      c: "tc_media_buy_id ctx = Some mb'" "mb' \<noteq> []" "tc_task_type ctx = Some tt'" "tt' \<noteq> []" by blast
    show ?thesis
      using Outcome_write True c outcome_success [of "wo_kind w"]
      by (auto simp: event_row_def is_delivered_report_def outcome_row_def split: option.splits)
  qed (use Outcome_write in \<open>auto simp: event_row_def is_delivered_report_def split: option.splits\<close>)
next
  case (Poll_write pid mb' n nt')
  have "poll_sequence_task_type \<notin> set delivery_log_task_types"
    by (simp add: poll_sequence_task_type_def delivery_log_task_types_def)
  then show ?thesis using Poll_write assms by (auto simp: event_row_def is_delivered_report_def poll_row_def)
qed

text \<open>The duplicate check is exact: after any writes by any tenants, under fresh ids, the scheduler's
  query finds a recent successful log for a report exactly when a delivery of that report by that
  tenant concluded as delivered after the given time; refusals, failures, polls of the sequence
  counter and contexts not eligible for the log are never taken for one.\<close>

theorem recent_success_is_a_delivery:
  assumes "distinct (map le_id es)" "task_type \<in> set delivery_log_task_types"
  shows "get_recent_successful_log t mb task_type nt since (log_rows es) \<noteq> None \<longleftrightarrow>
    (\<exists>e\<in>set es. is_delivered_report t mb task_type nt e \<and> since < le_now e)"
proof -
  have "get_recent_successful_log t mb task_type nt since (log_rows es) \<noteq> None \<longleftrightarrow>
    (\<exists>r\<in>set (List.map_filter event_row es). dl_tenant_id r = t \<and> dl_media_buy_id r = mb \<and> dl_task_type r = task_type \<and>
      dl_notification_type r = Some nt \<and> dl_status r = ''success'' \<and> since < dl_created_at r)"
    by (auto simp: get_recent_successful_log_def find_None_iff log_rows_written [OF assms(1)])
  also have "\<dots> \<longleftrightarrow> (\<exists>e\<in>set es. is_delivered_report t mb task_type nt e \<and> since < le_now e)"
    unfolding event_row_recent [OF assms(2), symmetric] Bex_def map_filter_set by blast
  finally show ?thesis .
qed

definition ex_ctx :: webhook_task_context where
  "ex_ctx = \<lparr>tc_task_id = ''mb'', tc_task_type = Some ''delivery_report'', tc_tenant_id = Some ''t'',
     tc_principal_id = Some ''p'', tc_media_buy_id = Some ''mb'', tc_sequence_number = 1, tc_notification_type = Some ''final''\<rparr>"

definition ex_events :: "log_event list" where
  "ex_events = [\<lparr>le_tenant = ''t'', le_id = ''1'', le_now = 5, le_write = Poll_write ''p'' ''mb'' 1 (Some ''final'')\<rparr>,
     \<lparr>le_tenant = ''t'', le_id = ''2'', le_now = 6, le_write = Outcome_write ex_ctx ''u'' ex_outcome None\<rparr>,
     \<lparr>le_tenant = ''t'', le_id = ''3'', le_now = 7, le_write = Poll_write ''p'' ''mb'' 2 None\<rparr>]"

lemma ex_eligible: "records_delivery_log ex_ctx"
  by (simp add: records_delivery_log_def ex_ctx_def delivery_log_task_types_def)

theorem recent_success_is_a_delivery_witness:
  "get_recent_successful_log ''t'' ''mb'' ''delivery_report'' ''final'' 5 (log_rows ex_events) \<noteq> None \<and>
   get_recent_successful_log ''t'' ''mb'' ''delivery_report'' ''final'' 6 (log_rows ex_events) = None"
  using recent_success_is_a_delivery [of ex_events "''delivery_report''" "''t''" "''mb''" "''final''" 5]
    recent_success_is_a_delivery [of ex_events "''delivery_report''" "''t''" "''mb''" "''final''" 6] ex_eligible
  by (simp add: ex_events_def is_delivered_report_def delivery_log_task_types_def ex_ctx_def ex_outcome_def)

text \<open>The polls of a media buy.\<close>

definition is_poll :: "string \<Rightarrow> string \<Rightarrow> log_event \<Rightarrow> bool" where
  "is_poll t mb e = (le_tenant e = t \<and> (case le_write e of Poll_write pid mb' n nt \<Rightarrow> mb' = mb | _ \<Rightarrow> False))"

definition poll_number :: "log_event \<Rightarrow> int" where
  "poll_number e = (case le_write e of Poll_write pid mb n nt \<Rightarrow> n | _ \<Rightarrow> 0)"

lemma poll_rows:
  assumes "distinct (map le_id es)"
  shows "map dl_sequence_number (filter (\<lambda>r. dl_tenant_id r = t \<and> dl_media_buy_id r = mb \<and> dl_task_type r = poll_sequence_task_type) (log_rows es))
    = map poll_number (filter (is_poll t mb) es)"
proof -
  have one: "map dl_sequence_number (filter (\<lambda>r. dl_tenant_id r = t \<and> dl_media_buy_id r = mb \<and> dl_task_type r = poll_sequence_task_type)
      (case event_row e of None \<Rightarrow> [] | Some r \<Rightarrow> [r])) = map poll_number (filter (is_poll t mb) [e])" for e
  proof (cases "le_write e")
    case (Outcome_write ctx url w rt)
    have "records_delivery_log ctx \<Longrightarrow> or_str (tc_task_type ctx) [] \<noteq> poll_sequence_task_type"
      using records_strings [of ctx] by (auto simp: poll_sequence_task_type_def delivery_log_task_types_def)
    then show ?thesis using Outcome_write by (auto simp: event_row_def is_poll_def outcome_row_def split: option.splits)
  qed (simp add: event_row_def is_poll_def poll_number_def poll_row_def)
  show ?thesis unfolding log_rows_written [OF assms]
  proof (induction es)
    case (Cons e es)
    then show ?case using one [of e] by (cases "event_row e") (auto simp: List.map_filter_def split: if_splits)
  qed (simp add: List.map_filter_def)
qed

lemma max_of_snoc: "max_of (xs @ [x]) = Some (case max_of xs of None \<Rightarrow> x | Some m \<Rightarrow> max m x)"
  by (induction xs) (auto simp: max.assoc split: option.splits)

text \<open>The delivery-poll counter counts: when every poll of a media buy records the maximum it read
  plus one, the maximum after any run of writes, of other media buys, other tenants and delivery
  outcomes too, is the number of its polls, so the polls were numbered 1, 2, 3 without gap or
  repetition.\<close>

theorem poll_sequence_counts:
  assumes "distinct (map le_id es)"
    and "\<forall>i<length es. is_poll t mb (es ! i) \<longrightarrow>
      poll_number (es ! i) = get_max_sequence_number t mb poll_sequence_task_type (log_rows (take i es)) + 1"
  shows "get_max_sequence_number t mb poll_sequence_task_type (log_rows es) = int (length (filter (is_poll t mb) es)) \<and>
    map poll_number (filter (is_poll t mb) es) = map int [1..<Suc (length (filter (is_poll t mb) es))]"
  using assms
proof (induction es rule: rev_induct)
  case Nil
  then show ?case by (simp add: get_max_sequence_number_def log_rows_def)
next
  case (snoc e es)
  have d: "distinct (map le_id es)" using snoc.prems(1) by simp
  have prem: "\<forall>i<length es. is_poll t mb (es ! i) \<longrightarrow>
      poll_number (es ! i) = get_max_sequence_number t mb poll_sequence_task_type (log_rows (take i es)) + 1"
  proof (intro allI impI)
    fix i assume "i < length es" "is_poll t mb (es ! i)"
    then show "poll_number (es ! i) = get_max_sequence_number t mb poll_sequence_task_type (log_rows (take i es)) + 1"
      using snoc.prems(2) [rule_format, of i] by (simp add: nth_append)
  qed
  note IH = snoc.IH [OF d prem]
  let ?n = "length (filter (is_poll t mb) es)"
  have mx: "get_max_sequence_number t mb poll_sequence_task_type (log_rows xs)
      = (case max_of (map poll_number (filter (is_poll t mb) xs)) of None \<Rightarrow> 0 | Some n \<Rightarrow> n)"
    if "distinct (map le_id xs)" for xs
    by (simp add: get_max_sequence_number_def poll_rows [OF that])
  show ?case
  proof (cases "is_poll t mb e")
    case True
    then have "poll_number e = int ?n + 1" using snoc.prems(2) [rule_format, of "length es"] IH by simp
    then show ?thesis
      using IH True mx [OF d] mx [OF snoc.prems(1)] by (auto simp: max_of_snoc split: option.splits)
  next
    case False
    then have "get_max_sequence_number t mb poll_sequence_task_type (log_rows (es @ [e]))
        = get_max_sequence_number t mb poll_sequence_task_type (log_rows es)"
      by (simp add: mx [OF d] mx [OF snoc.prems(1)])
    then show ?thesis using IH False by (simp del: upt_Suc)
  qed
qed

lemma ex_poll_numbers:
  "\<forall>i<length ex_events. is_poll ''t'' ''mb'' (ex_events ! i) \<longrightarrow>
    poll_number (ex_events ! i) = get_max_sequence_number ''t'' ''mb'' poll_sequence_task_type (log_rows (take i ex_events)) + 1"
  using ex_eligible
  by (auto simp: ex_events_def less_Suc_eq is_poll_def poll_number_def get_max_sequence_number_def log_rows_def
      apply_event_def record_poll_sequence_def record_outcome_def create_log_def poll_row_def outcome_row_def
      ex_ctx_def ex_outcome_def outcome_status_def poll_sequence_task_type_def)

theorem poll_sequence_counts_witness:
  "get_max_sequence_number ''t'' ''mb'' poll_sequence_task_type (log_rows ex_events) = 2"
proof -
  have "distinct (map le_id ex_events)" by (simp add: ex_events_def)
  from poll_sequence_counts [OF this ex_poll_numbers] show ?thesis by (simp add: ex_events_def is_poll_def)
qed

end
