(* ===== verification/Webhook_Delivery.thy ===== *)
theory Webhook_Delivery
  imports Circuit_Breaker Push_Config Delivery_Log
begin

text \<open>
  The two senders over the webhook seam. The delivery-report service
  (src/src/services/webhook_delivery_service.py) fans a report out to a principal's active
  registrations, each behind its endpoint's breaker and queue, and concludes each with a log row
  and a breaker signal. The tracked sender (src/src/core/webhook_delivery.py) keeps a delivery
  record and blocks an endpoint that answers 401 or 403. Parameters: the transport of the seam,
  the tenant's signer, the SDK's envelope builder, the settings, times and fresh ids.
\<close>

section \<open>The delivery-report service\<close>

record queued_webhook =
  qw_url :: string
  qw_authentication_type :: "string option"
  qw_authentication_token :: "string option"
  qw_payload :: json
  qw_tenant_id :: "string option"
  qw_timestamp :: instant

record service_env =
  se_delivery :: delivery_env
  se_signer :: "string option \<Rightarrow> (nat \<Rightarrow> sign_attempt) option res"
  se_envelope :: "webhook_task_context \<Rightarrow> json \<Rightarrow> push_config \<Rightarrow> json res"
  se_breaker_policy :: "int \<times> int \<times> int"

text \<open>One delivery's moments, its fresh log id and what its log commit does.\<close>

record delivery_slot =
  ds_start :: instant
  ds_finish :: instant
  ds_log_id :: string
  ds_commit_error :: "exn option"

record webhook_service =
  ws_sequence_numbers :: "string \<Rightarrow> int option"
  ws_circuit_breakers :: "string \<Rightarrow> circuit_breaker option"
  ws_queues :: "string \<Rightarrow> queued_webhook webhook_queue option"

definition new_service :: webhook_service where
  "new_service = \<lparr>ws_sequence_numbers = (\<lambda>_. None), ws_circuit_breakers = (\<lambda>_. None), ws_queues = (\<lambda>_. None)\<rparr>"

definition configured_breaker :: "service_env \<Rightarrow> circuit_breaker" where
  "configured_breaker env = (case se_breaker_policy env of (n, s, t) \<Rightarrow> new_breaker n s t)"

text \<open>\<open>f"{tenant_id}:{url}"\<close>.\<close>

definition endpoint_key :: "string \<Rightarrow> string \<Rightarrow> string" where
  "endpoint_key tenant url = tenant @ '':'' @ url"

definition service_headers :: headers where
  "service_headers = [(''Content-Type'', ''application/json''),
     (''User-Agent'', ''AdCP-Sales-Agent/2.3 (Enhanced Webhooks)'')]"

text \<open>
  \<open>_deliver_with_backoff\<close>: the dequeued entry is delivered; a signer that cannot be built
  raises, and any other exception of the seam is an unexpected outcome.
\<close>

definition deliver_with_backoff ::
    "service_env \<Rightarrow> queued_webhook webhook_queue
      \<Rightarrow> queued_webhook webhook_queue \<times> http_request list \<times> webhook_outcome option res" where
  "deliver_with_backoff env q = (case dequeue q of
     (q', None) \<Rightarrow> (q', [], Inr None)
   | (q', Some d) \<Rightarrow> (case se_signer env (qw_tenant_id d) of
       Inl e \<Rightarrow> (q', [], Inl e)
     | Inr signer \<Rightarrow> (case deliver_webhook (se_delivery env) (qw_url d) (qw_payload d) (qw_authentication_type d)
           (qw_authentication_token d) (Some service_headers) 3 signer of
         (requests, Inl e) \<Rightarrow> (q', requests, Inr (Some (unexpected e)))
       | (requests, Inr w) \<Rightarrow> (q', requests, Inr (Some w)))))"

type_synonym service_state = "webhook_service \<times> webhook_delivery_log list"

definition with_endpoint :: "service_env \<Rightarrow> string \<Rightarrow> webhook_service \<Rightarrow> webhook_service" where
  "with_endpoint env key svc = svc\<lparr>
     ws_circuit_breakers := (case ws_circuit_breakers svc key of
         None \<Rightarrow> (ws_circuit_breakers svc)(key \<mapsto> configured_breaker env) | Some cb \<Rightarrow> ws_circuit_breakers svc),
     ws_queues := (case ws_queues svc key of
         None \<Rightarrow> (ws_queues svc)(key \<mapsto> new_queue 1000) | Some q \<Rightarrow> ws_queues svc)\<rparr>"

definition put_breaker :: "string \<Rightarrow> circuit_breaker \<Rightarrow> webhook_service \<Rightarrow> webhook_service" where
  "put_breaker key cb svc = svc\<lparr>ws_circuit_breakers := (ws_circuit_breakers svc)(key \<mapsto> cb)\<rparr>"

definition put_queue :: "string \<Rightarrow> queued_webhook webhook_queue \<Rightarrow> webhook_service \<Rightarrow> webhook_service" where
  "put_queue key q svc = svc\<lparr>ws_queues := (ws_queues svc)(key \<mapsto> q)\<rparr>"

definition queued :: "string \<Rightarrow> push_config \<Rightarrow> json \<Rightarrow> instant \<Rightarrow> queued_webhook" where
  "queued tenant c payload now = \<lparr>qw_url = pc_url c, qw_authentication_type = pc_authentication_type c,
     qw_authentication_token = pc_authentication_token c, qw_payload = payload, qw_tenant_id = Some tenant,
     qw_timestamp = now\<rparr>"

text \<open>The conclusion: the row, unless its commit fails, and the signal to the breaker.\<close>

definition conclude_delivery ::
    "delivery_slot \<Rightarrow> string \<Rightarrow> webhook_task_context \<Rightarrow> push_config \<Rightarrow> circuit_breaker \<Rightarrow> webhook_outcome \<Rightarrow> service_state
      \<Rightarrow> service_state \<times> bool" where
  "conclude_delivery slot tenant ctx c cb w st = (case st of (svc, logs) \<Rightarrow>
     let logs' = (case record_conclusion (ds_commit_error slot) tenant ctx (ds_log_id slot) (pc_url c) w
           (Some ((ds_finish slot - ds_start slot) div 1000)) (ds_finish slot) logs of
         Inl e \<Rightarrow> logs | Inr rows \<Rightarrow> rows);
       ok = (wo_kind w = Out_delivered);
       cb' = (if ok then breaker_success cb else breaker_failure (ds_finish slot) cb)
     in ((put_breaker (endpoint_key tenant (pc_url c)) cb' svc, logs'), ok))"

text \<open>\<open>_deliver_to_config\<close>; a raise leaves the state reached so far.\<close>

definition deliver_to_config ::
    "service_env \<Rightarrow> delivery_slot \<Rightarrow> string \<Rightarrow> webhook_task_context \<Rightarrow> json \<Rightarrow> push_config \<Rightarrow> service_state
      \<Rightarrow> service_state \<times> http_request list \<times> bool res" where
  "deliver_to_config env slot tenant ctx result c st = (
     if pc_auth_blocked_at c \<noteq> None then (st, [], Inr False)
     else (case st of (svc0, logs) \<Rightarrow>
       let key = endpoint_key tenant (pc_url c); svc = with_endpoint env key svc0 in
       (case can_attempt (ds_start slot) (the (ws_circuit_breakers svc key)) of
          (cb, False) \<Rightarrow> ((put_breaker key cb svc, logs), [], Inr False)
        | (cb, True) \<Rightarrow> (case se_envelope env ctx result c of
            Inl e \<Rightarrow> ((put_breaker key cb svc, logs), [], Inl e)
          | Inr payload \<Rightarrow> (case enqueue (queued tenant c payload (ds_start slot)) (the (ws_queues svc key)) of
              (q, False) \<Rightarrow> ((put_queue key q (put_breaker key cb svc), logs), [], Inr False)
            | (q, True) \<Rightarrow> (case deliver_with_backoff env q of
                (q', requests, Inl e) \<Rightarrow> ((put_queue key q' (put_breaker key cb svc), logs), requests, Inl e)
              | (q', requests, Inr None) \<Rightarrow> ((put_queue key q' (put_breaker key cb svc), logs), requests, Inr False)
              | (q', requests, Inr (Some w)) \<Rightarrow>
                  (case conclude_delivery slot tenant ctx c cb w (put_queue key q' (put_breaker key cb svc), logs) of
                     (st', ok) \<Rightarrow> (st', requests, Inr ok))))))))"

text \<open>The loop over the configurations: the number that took the report, or the raise that ended it.\<close>

fun deliver_to_configs ::
    "service_env \<Rightarrow> delivery_slot list \<Rightarrow> string \<Rightarrow> webhook_task_context \<Rightarrow> json \<Rightarrow> push_config list \<Rightarrow> service_state
      \<Rightarrow> service_state \<times> http_request list \<times> nat res" where
  "deliver_to_configs env slots tenant ctx result [] st = (st, [], Inr 0)"
| "deliver_to_configs env slots tenant ctx result (c # cs) st =
     (case deliver_to_config env (hd slots) tenant ctx result c st of
        (st1, rs, Inl e) \<Rightarrow> (st1, rs, Inl e)
      | (st1, rs, Inr ok) \<Rightarrow> (case deliver_to_configs env (tl slots) tenant ctx result cs st1 of
          (st2, rs2, Inl e) \<Rightarrow> (st2, rs @ rs2, Inl e)
        | (st2, rs2, Inr n) \<Rightarrow> (st2, rs @ rs2, Inr ((if ok then 1 else 0) + n))))"

text \<open>\<open>_send_webhook_enhanced\<close>: any exception is logged and answered with False.\<close>

definition send_webhook_enhanced ::
    "service_env \<Rightarrow> delivery_slot list \<Rightarrow> push_config list \<Rightarrow> webhook_task_context \<Rightarrow> json \<Rightarrow> service_state
      \<Rightarrow> service_state \<times> http_request list \<times> bool" where
  "send_webhook_enhanced env slots configs ctx result st =
     (case (tc_tenant_id ctx, tc_principal_id ctx) of
        (Some t, Some p) \<Rightarrow> if t = [] \<or> p = [] then (st, [], False)
          else (case list_active_by_principal t p configs of
             [] \<Rightarrow> (st, [], False)
           | cs \<Rightarrow> (case deliver_to_configs env slots t ctx result cs st of
               (st', rs, Inl e) \<Rightarrow> (st', rs, False)
             | (st', rs, Inr n) \<Rightarrow> (st', rs, 0 < n)))
      | _ \<Rightarrow> (st, [], False))"

definition notification_type_of :: "bool \<Rightarrow> bool \<Rightarrow> string" where
  "notification_type_of is_final is_adjusted =
     (if is_final then ''final'' else if is_adjusted then ''adjusted'' else ''scheduled'')"

definition next_sequence :: "string \<Rightarrow> webhook_service \<Rightarrow> webhook_service \<times> int" where
  "next_sequence media_buy_id svc =
     (let n = (case ws_sequence_numbers svc media_buy_id of None \<Rightarrow> 0 | Some n \<Rightarrow> n) + 1
      in (svc\<lparr>ws_sequence_numbers := (ws_sequence_numbers svc)(media_buy_id \<mapsto> n)\<rparr>, n))"

text \<open>\<open>report\<close> is the delivery report for a sequence number and a notification type.\<close>

definition send_delivery_webhook ::
    "service_env \<Rightarrow> delivery_slot list \<Rightarrow> push_config list \<Rightarrow> string \<Rightarrow> string \<Rightarrow> string \<Rightarrow> bool \<Rightarrow> bool
      \<Rightarrow> (int \<Rightarrow> string \<Rightarrow> json) \<Rightarrow> service_state \<Rightarrow> service_state \<times> http_request list \<times> bool" where
  "send_delivery_webhook env slots configs media_buy_id tenant pid is_final is_adjusted report st =
     (case next_sequence media_buy_id (fst st) of (svc, n) \<Rightarrow>
        let nt = notification_type_of is_final is_adjusted;
            ctx = \<lparr>tc_task_id = media_buy_id, tc_task_type = Some ''delivery_report'', tc_tenant_id = Some tenant,
              tc_principal_id = Some pid, tc_media_buy_id = Some media_buy_id, tc_sequence_number = n,
              tc_notification_type = Some nt\<rparr>
        in send_webhook_enhanced env slots configs ctx (report n nt) (svc, snd st))"

definition reset_sequence :: "string \<Rightarrow> webhook_service \<Rightarrow> webhook_service" where
  "reset_sequence media_buy_id svc = svc\<lparr>ws_sequence_numbers := (ws_sequence_numbers svc)(media_buy_id := None)\<rparr>"

text \<open>The two queries scan the breakers' keys, given in insertion order.\<close>

definition has_open_circuit_breaker :: "string \<Rightarrow> (string \<times> circuit_breaker) list \<Rightarrow> bool" where
  "has_open_circuit_breaker tenant cbs = list_ex (\<lambda>(key, cb). prefix (tenant @ '':'') key \<and> cb_state cb = OPEN) cbs"

definition get_circuit_breaker_state :: "string \<Rightarrow> (string \<times> circuit_breaker) list \<Rightarrow> circuit_state \<times> int" where
  "get_circuit_breaker_state url cbs = (case find (\<lambda>(key, cb). sublist url key) cbs of
     Some (key, cb) \<Rightarrow> (cb_state cb, cb_failure_count cb)
   | None \<Rightarrow> (CLOSED, 0))"

section \<open>The tracked sender\<close>

record tracked_delivery =
  td_webhook_url :: string
  td_payload :: json
  td_headers :: headers
  td_max_retries :: nat
  td_signing_secret :: "string option"
  td_authentication_scheme :: "string option"
  td_event_type :: "string option"
  td_tenant_id :: "string option"
  td_object_id :: "string option"

datatype tracked_error =
    Media_buy_paused
  | Unsupported_authentication "delivery_detail option"
  | Invalid_webhook_url "delivery_detail option"
  | Client_error "int option"
  | Delivery_failed_after nat bool

record tracked_result =
  tr_status :: string
  tr_attempts :: nat
  tr_delivery_id :: "string option"
  tr_response_code :: "int option"
  tr_error :: "tracked_error option"

type_synonym tracking_state = "webhook_delivery_record list \<times> push_config list"

definition tracked :: "tracked_delivery \<Rightarrow> bool" where
  "tracked d = (truthy_str (td_tenant_id d) \<and> truthy_str (td_event_type d))"

text \<open>\<open>_create_delivery_record\<close>: a failure (here of the database, or a clash of ids) is swallowed.\<close>

definition create_delivery_record ::
    "exn option \<Rightarrow> instant \<Rightarrow> string \<Rightarrow> tracked_delivery \<Rightarrow> webhook_delivery_record list \<Rightarrow> webhook_delivery_record list" where
  "create_delivery_record db_error now delivery_id d rows = (case db_error of
     Some e \<Rightarrow> rows
   | None \<Rightarrow> (case create_record (or_str (td_tenant_id d) []) now delivery_id (td_webhook_url d) (td_payload d)
         (or_str (td_event_type d) []) (td_object_id d) ''pending'' 0 (Some now) rows of
       Inl e \<Rightarrow> rows | Inr (rows', r) \<Rightarrow> rows'))"

definition show_error :: "tracked_error \<Rightarrow> string" where
  "show_error e = (case e of
     Media_buy_paused \<Rightarrow> ''Media buy is paused''
   | Unsupported_authentication d \<Rightarrow> ''unsupported authentication''
   | Invalid_webhook_url d \<Rightarrow> ''Invalid webhook URL''
   | Client_error s \<Rightarrow> ''Client error''
   | Delivery_failed_after n answered \<Rightarrow> ''Delivery failed'')"

definition update_delivery_record ::
    "exn option \<Rightarrow> instant \<Rightarrow> string \<Rightarrow> tracked_delivery \<Rightarrow> string \<Rightarrow> nat \<Rightarrow> int option \<Rightarrow> tracked_error option \<Rightarrow> instant option
      \<Rightarrow> webhook_delivery_record list \<Rightarrow> webhook_delivery_record list" where
  "update_delivery_record db_error now delivery_id d status attempts response_code last_error delivered_at rows =
     (case db_error of
        Some e \<Rightarrow> rows
      | None \<Rightarrow> fst (update_record (or_str (td_tenant_id d) []) delivery_id (Some status) (Some (int attempts))
          response_code (map_option show_error last_error) (Some now) delivered_at rows))"

definition record_failure ::
    "exn option \<Rightarrow> instant \<Rightarrow> string \<Rightarrow> tracked_delivery \<Rightarrow> nat \<Rightarrow> int option \<Rightarrow> tracked_error \<Rightarrow> webhook_delivery_record list
      \<Rightarrow> webhook_delivery_record list \<times> bool \<times> tracked_result" where
  "record_failure db_error now delivery_id d attempts response_code err rows =
     ((if tracked d then update_delivery_record db_error now delivery_id d ''failed'' attempts response_code (Some err) None rows else rows),
      False, \<lparr>tr_status = ''failed'', tr_attempts = attempts, tr_delivery_id = Some delivery_id,
        tr_response_code = response_code, tr_error = Some err\<rparr>)"

definition outcome_error :: "webhook_outcome \<Rightarrow> tracked_error" where
  "outcome_error w = (case wo_kind w of
     Out_refused_auth \<Rightarrow> Unsupported_authentication (wo_detail w)
   | Out_refused_destination \<Rightarrow> Invalid_webhook_url (wo_detail w)
   | Out_client_error \<Rightarrow> Client_error (wo_http_status w)
   | _ \<Rightarrow> Delivery_failed_after (wo_attempts w) (wo_http_status w \<noteq> None))"

text \<open>What the sender does with an outcome: the record, the block on 401 and 403, and its answer.\<close>

definition book_outcome ::
    "exn option \<Rightarrow> instant \<Rightarrow> string \<Rightarrow> tracked_delivery \<Rightarrow> webhook_outcome \<Rightarrow> tracking_state \<Rightarrow> tracking_state \<times> bool \<times> tracked_result" where
  "book_outcome db_error now delivery_id d w st = (case st of (rows, configs) \<Rightarrow>
     (case wo_kind w of
        Out_delivered \<Rightarrow>
          (((if tracked d then update_delivery_record db_error now delivery_id d ''delivered'' (wo_attempts w) (wo_http_status w) None (Some now) rows
             else rows), configs),
           True, \<lparr>tr_status = ''delivered'', tr_attempts = wo_attempts w, tr_delivery_id = Some delivery_id,
             tr_response_code = wo_http_status w, tr_error = None\<rparr>)
      | k \<Rightarrow>
          let configs' = (if k = Out_client_error \<and> wo_http_status w \<in> {Some 401, Some 403} \<and> truthy_str (td_tenant_id d)
              then set_auth_blocked (or_str (td_tenant_id d) []) (td_webhook_url d) now configs else configs);
            attempts = (if k = Out_refused_auth \<or> k = Out_refused_destination then 0 else wo_attempts w);
            code = (if k = Out_refused_auth \<or> k = Out_refused_destination then None else wo_http_status w)
          in (case record_failure db_error now delivery_id d attempts code (outcome_error w) rows of
                (rows', answer) \<Rightarrow> ((rows', configs'), answer))))"

definition deliver_webhook_with_retry ::
    "delivery_env \<Rightarrow> exn option \<Rightarrow> instant \<Rightarrow> instant \<Rightarrow> string \<Rightarrow> tracked_delivery \<Rightarrow> tracking_state
      \<Rightarrow> tracking_state \<times> http_request list \<times> (bool \<times> tracked_result) res" where
  "deliver_webhook_with_retry env db_error start finish delivery_id d st =
     (if jget (td_payload d) ''status'' = Some (JStr ''paused'')
      then (st, [], Inr (False, \<lparr>tr_status = ''rejected'', tr_attempts = 0, tr_delivery_id = None,
        tr_response_code = None, tr_error = Some Media_buy_paused\<rparr>))
      else (case st of (rows, configs) \<Rightarrow>
        let rows1 = (if tracked d then create_delivery_record db_error start delivery_id d rows else rows) in
        (case deliver_webhook env (td_webhook_url d) (td_payload d) (td_authentication_scheme d) (td_signing_secret d)
            (Some (td_headers d)) (td_max_retries d) None of
           (requests, Inl e) \<Rightarrow> ((rows1, configs), requests, Inl e)
         | (requests, Inr w) \<Rightarrow> (case book_outcome db_error finish delivery_id d w (rows1, configs) of
             (st', answer) \<Rightarrow> (st', requests, Inr answer)))))"

section \<open>Lemmas\<close>

lemma with_endpoint_other:
  "key \<noteq> k \<Longrightarrow> ws_circuit_breakers (with_endpoint env k svc) key = ws_circuit_breakers svc key"
  "key \<noteq> k \<Longrightarrow> ws_queues (with_endpoint env k svc) key = ws_queues svc key"
  "ws_sequence_numbers (with_endpoint env k svc) = ws_sequence_numbers svc"
  by (auto simp: with_endpoint_def split: option.splits)

definition same_elsewhere :: "string set \<Rightarrow> webhook_service \<Rightarrow> webhook_service \<Rightarrow> bool" where
  "same_elsewhere keys svc svc' = ((\<forall>key. key \<notin> keys \<longrightarrow>
      ws_circuit_breakers svc' key = ws_circuit_breakers svc key \<and> ws_queues svc' key = ws_queues svc key) \<and>
    ws_sequence_numbers svc' = ws_sequence_numbers svc)"

lemma same_refl: "same_elsewhere keys svc svc"
  by (simp add: same_elsewhere_def)

lemma same_trans: "same_elsewhere k1 a b \<Longrightarrow> same_elsewhere k2 b c \<Longrightarrow> same_elsewhere (k1 \<union> k2) a c"
  by (simp add: same_elsewhere_def)

lemma same_with_endpoint: "same_elsewhere {k} svc (with_endpoint env k svc)"
  by (simp add: same_elsewhere_def with_endpoint_other)

lemma same_put_breaker: "same_elsewhere {k} svc svc' \<Longrightarrow> same_elsewhere {k} svc (put_breaker k cb svc')"
  by (simp add: same_elsewhere_def put_breaker_def)

lemma same_put_queue: "same_elsewhere {k} svc svc' \<Longrightarrow> same_elsewhere {k} svc (put_queue k q svc')"
  by (simp add: same_elsewhere_def put_queue_def)

lemmas same_intros = same_refl same_with_endpoint same_put_breaker same_put_queue

lemma deliver_to_config_same:
  assumes "deliver_to_config env slot tenant ctx result c (svc, logs) = ((svc', logs'), rs, out)"
  shows "same_elsewhere {endpoint_key tenant (pc_url c)} svc svc'"
  using assms
  by (auto simp: deliver_to_config_def conclude_delivery_def Let_def intro!: same_intros
      split: if_splits prod.splits bool.splits sum.splits option.splits)

lemma deliver_to_configs_same:
  assumes "deliver_to_configs env slots tenant ctx result cs (svc, logs) = ((svc', logs'), rs, out)"
  shows "same_elsewhere ((\<lambda>c. endpoint_key tenant (pc_url c)) ` set cs) svc svc'"
  using assms
proof (induction cs arbitrary: svc logs slots svc' logs' rs out)
  case Nil
  then show ?case by (simp add: same_refl)
next
  case (Cons c cs)
  obtain svc1 logs1 rs1 out1 where one: "deliver_to_config env (hd slots) tenant ctx result c (svc, logs) = ((svc1, logs1), rs1, out1)"
    by (metis prod.exhaust)
  note s1 = deliver_to_config_same [OF one]
  show ?case
  proof (cases out1)
    case (Inl e)
    then have "svc' = svc1" using Cons.prems one by simp
    then show ?thesis using s1 by (auto simp: same_elsewhere_def)
  next
    case (Inr ok)
    obtain svc2 logs2 rs2 out2 where rec: "deliver_to_configs env (tl slots) tenant ctx result cs (svc1, logs1) = ((svc2, logs2), rs2, out2)"
      by (metis prod.exhaust)
    then have "svc' = svc2" using Cons.prems one Inr by (auto split: sum.splits)
    with same_trans [OF s1 Cons.IH [OF rec]] show ?thesis by simp
  qed
qed

text \<open>Between deliveries of one sender the queues are empty, so an entry is delivered by whoever queued it.\<close>

definition service_ok :: "webhook_service \<Rightarrow> bool" where
  "service_ok svc = (\<forall>key q. ws_queues svc key = Some q \<longrightarrow> wq_queue q = [] \<and> 0 < wq_max_size q)"

lemma new_service_ok: "service_ok new_service"
  by (simp add: service_ok_def new_service_def)

lemma with_endpoint_queue:
  assumes "service_ok svc"
  obtains q where "ws_queues (with_endpoint env key svc) key = Some q" "wq_queue q = []" "0 < wq_max_size q"
  using assms by (cases "ws_queues svc key") (auto simp: with_endpoint_def service_ok_def new_queue_def)

lemma with_endpoint_ok: "service_ok svc \<Longrightarrow> service_ok (with_endpoint env key svc)"
  by (auto simp: with_endpoint_def service_ok_def new_queue_def split: option.splits)

text \<open>What one delivery to a configuration does, by the branch it takes.\<close>

definition guard_of :: "service_env \<Rightarrow> delivery_slot \<Rightarrow> string \<Rightarrow> push_config \<Rightarrow> webhook_service \<Rightarrow> circuit_breaker \<times> bool" where
  "guard_of env slot tenant c svc = (let key = endpoint_key tenant (pc_url c) in
     can_attempt (ds_start slot) (the (ws_circuit_breakers (with_endpoint env key svc) key)))"

definition outcome_of :: "webhook_outcome res \<Rightarrow> webhook_outcome" where
  "outcome_of out = (case out of Inl e \<Rightarrow> unexpected e | Inr w \<Rightarrow> w)"

definition own_delivery ::
    "service_env \<Rightarrow> push_config \<Rightarrow> json \<Rightarrow> (nat \<Rightarrow> sign_attempt) option \<Rightarrow> http_request list \<times> webhook_outcome res" where
  "own_delivery env c payload signer = deliver_webhook (se_delivery env) (pc_url c) payload
     (pc_authentication_type c) (pc_authentication_token c) (Some service_headers) 3 signer"

lemma deliver_own_entry:
  assumes "wq_queue q = []" "0 < wq_max_size q"
  shows "\<exists>q1. enqueue (queued tenant c payload now) q = (q1, True) \<and>
    deliver_with_backoff env q1 = (case se_signer env (Some tenant) of
       Inl e \<Rightarrow> (q, [], Inl e)
     | Inr signer \<Rightarrow> (case own_delivery env c payload signer of (rs, out) \<Rightarrow> (q, rs, Inr (Some (outcome_of out)))))"
proof -
  let ?d = "queued tenant c payload now"
  have "enqueue ?d q = (q\<lparr>wq_queue := [?d]\<rparr>, True)" using assms by (simp add: enqueue_def deque_append_def)
  moreover have "dequeue (q\<lparr>wq_queue := [?d]\<rparr>) = (q, Some ?d)" using assms(1) by (cases q) (simp add: dequeue_def)
  ultimately show ?thesis
    by (auto simp: deliver_with_backoff_def own_delivery_def outcome_of_def queued_def split: sum.splits prod.splits)
qed

lemma deliver_to_config_branches:
  assumes "service_ok svc"
  obtains (blocked) "pc_auth_blocked_at c \<noteq> None" "deliver_to_config env slot tenant ctx result c (svc, logs) = ((svc, logs), [], Inr False)"
  | (refused) cb svc' where "pc_auth_blocked_at c = None" "guard_of env slot tenant c svc = (cb, False)"
      "deliver_to_config env slot tenant ctx result c (svc, logs) = ((svc', logs), [], Inr False)"
      "ws_circuit_breakers svc' (endpoint_key tenant (pc_url c)) = Some cb" "service_ok svc'"
  | (raised) cb svc' e where "pc_auth_blocked_at c = None" "guard_of env slot tenant c svc = (cb, True)"
      "deliver_to_config env slot tenant ctx result c (svc, logs) = ((svc', logs), [], Inl e)"
      "se_envelope env ctx result c = Inl e \<or> se_signer env (Some tenant) = Inl e"
      "ws_circuit_breakers svc' (endpoint_key tenant (pc_url c)) = Some cb" "service_ok svc'"
  | (concluded) cb svc' logs' payload signer rs out where "pc_auth_blocked_at c = None" "guard_of env slot tenant c svc = (cb, True)"
      "se_envelope env ctx result c = Inr payload" "se_signer env (Some tenant) = Inr signer"
      "own_delivery env c payload signer = (rs, out)"
      "deliver_to_config env slot tenant ctx result c (svc, logs) = ((svc', logs'), rs, Inr (wo_kind (outcome_of out) = Out_delivered))"
      "ws_circuit_breakers svc' (endpoint_key tenant (pc_url c)) = Some
         (if wo_kind (outcome_of out) = Out_delivered then breaker_success cb else breaker_failure (ds_finish slot) cb)"
      "logs' = (if ds_commit_error slot \<noteq> None then logs else record_outcome tenant ctx (ds_log_id slot) (pc_url c) (outcome_of out)
         (Some ((ds_finish slot - ds_start slot) div 1000)) (ds_finish slot) logs)"
      "service_ok svc'"
proof (cases "pc_auth_blocked_at c")
  case (Some b)
  then show thesis by (intro blocked) (simp_all add: deliver_to_config_def)
next
  case None
  define key where "key = endpoint_key tenant (pc_url c)"
  define svc1 where "svc1 = with_endpoint env key svc"
  obtain cb admitted where g: "guard_of env slot tenant c svc = (cb, admitted)" by fastforce
  then have ca: "can_attempt (ds_start slot) (the (ws_circuit_breakers svc1 key)) = (cb, admitted)"
    by (simp add: guard_of_def svc1_def key_def Let_def)
  obtain q where q: "ws_queues svc1 key = Some q" "wq_queue q = []" "0 < wq_max_size q"
    using with_endpoint_queue [OF assms] unfolding svc1_def by blast
  have ok1: "service_ok svc1" using with_endpoint_ok [OF assms] by (simp add: svc1_def)
  have okb: "service_ok (put_breaker key x svc1)" "service_ok (put_queue key q (put_breaker key x svc1))"
      "service_ok (put_breaker key y (put_queue key q (put_breaker key x svc1)))" for x y
    using ok1 q by (auto simp: service_ok_def put_breaker_def put_queue_def)
  have at: "ws_circuit_breakers (put_breaker key x s) key = Some x" "ws_circuit_breakers (put_queue key q s) key = ws_circuit_breakers s key" for x s
    by (simp_all add: put_breaker_def put_queue_def)
  note def = deliver_to_config_def [of env slot tenant ctx result c "(svc, logs)"] key_def [symmetric]
  show thesis
  proof (cases admitted)
    case False
    then show thesis using None g ca okb(1) at
      by (intro refused [of cb "put_breaker key cb svc1"]) (simp_all add: def svc1_def [symmetric] Let_def)
  next
    case True
    show thesis
    proof (cases "se_envelope env ctx result c")
      case (Inl e)
      then show thesis using None g ca True okb(1) at
        by (intro raised [of cb "put_breaker key cb svc1" e]) (simp_all add: def svc1_def [symmetric] Let_def)
    next
      case (Inr payload)
      obtain q1 where q1: "enqueue (queued tenant c payload (ds_start slot)) q = (q1, True)"
        "deliver_with_backoff env q1 = (case se_signer env (Some tenant) of
           Inl e \<Rightarrow> (q, [], Inl e)
         | Inr signer \<Rightarrow> (case own_delivery env c payload signer of (rs, out) \<Rightarrow> (q, rs, Inr (Some (outcome_of out)))))"
        using deliver_own_entry [OF q(2,3)] by blast
      show thesis
      proof (cases "se_signer env (Some tenant)")
        case (Inl e)
        then show thesis using None g ca True Inr q q1 okb(2) at
          by (intro raised [of cb "put_queue key q (put_breaker key cb svc1)" e]) (simp_all add: def svc1_def [symmetric] Let_def)
      next
        case signer: (Inr signer)
        obtain rs out where od: "own_delivery env c payload signer = (rs, out)" by fastforce
        let ?w = "outcome_of out"
        let ?cb = "if wo_kind ?w = Out_delivered then breaker_success cb else breaker_failure (ds_finish slot) cb"
        have g': "guard_of env slot tenant c svc = (cb, True)" using g True by simp
        show thesis using None ca True Inr q q1 signer od okb(3) at
          by (intro concluded [OF None g' Inr signer od, of "put_breaker key ?cb (put_queue key q (put_breaker key cb svc1))"])
            (auto simp: def svc1_def [symmetric] conclude_delivery_def record_conclusion_def Let_def split: option.splits)
      qed
    qed
  qed
qed

section \<open>Properties\<close>


text \<open>Endpoints are isolated: sending a report to a principal leaves the breaker and the queue of every
  endpoint that is not one of that principal's active registrations, and all sequence numbers, as
  they were, whatever is delivered, refused or raised.\<close>

theorem endpoints_isolated:
  assumes "send_webhook_enhanced env slots configs ctx result (svc, logs) = ((svc', logs'), rs, ok)"
    "\<And>t p c. tc_tenant_id ctx = Some t \<Longrightarrow> tc_principal_id ctx = Some p \<Longrightarrow>
       c \<in> set (list_active_by_principal t p configs) \<Longrightarrow> key \<noteq> endpoint_key t (pc_url c)"
  shows "ws_circuit_breakers svc' key = ws_circuit_breakers svc key \<and> ws_queues svc' key = ws_queues svc key \<and>
    ws_sequence_numbers svc' = ws_sequence_numbers svc"
proof (cases "svc' = svc")
  case False
  then obtain t p out where tp: "tc_tenant_id ctx = Some t" "tc_principal_id ctx = Some p"
    "deliver_to_configs env slots t ctx result (list_active_by_principal t p configs) (svc, logs) = ((svc', logs'), rs, out)"
    using assms(1)
    by (auto simp: send_webhook_enhanced_def split: option.splits if_splits list.splits prod.splits sum.splits)
  from deliver_to_configs_same [OF tp(3)] show ?thesis using assms(2) [OF tp(1,2)] by (auto simp: same_elsewhere_def)
qed simp

lemma update_pending:
  assumes "delivery_id \<notin> dr_delivery_id ` set rows" "dr_delivery_id r = delivery_id" "dr_tenant_id r = t"
  shows "get_record_by_id t delivery_id (rows @ [r]) = Some r"
    "update_where (\<lambda>x. dr_delivery_id x = delivery_id) f (rows @ [r]) = rows @ [f r]"
proof -
  have "find (\<lambda>r. dr_tenant_id r = t \<and> dr_delivery_id r = delivery_id) rows = None"
    using assms(1) by (auto simp: find_None_iff)
  then show "get_record_by_id t delivery_id (rows @ [r]) = Some r"
    using assms by (simp add: get_record_by_id_def find_append)
  have "map (\<lambda>r. if dr_delivery_id r = delivery_id then f r else r) rows = rows"
    using assms(1) by (intro map_idI) auto
  then show "update_where (\<lambda>x. dr_delivery_id x = delivery_id) f (rows @ [r]) = rows @ [f r]"
    using assms by (simp add: update_where_def)
qed

lemma update_delivery_row:
  assumes "delivery_id \<notin> dr_delivery_id ` set rows" "dr_delivery_id r = delivery_id" "dr_tenant_id r = or_str (td_tenant_id d) []"
  obtains r' where "update_delivery_record None now delivery_id d status n code err at_time (rows @ [r]) = rows @ [r']"
    "dr_delivery_id r' = delivery_id" "dr_status r' = status" "dr_attempts r' = int n"
  using update_pending [OF assms] that assms(2)
  by (auto simp: update_delivery_record_def update_record_def set_if_def Let_def split: option.splits)

definition blocks :: "tracked_delivery \<Rightarrow> webhook_outcome \<Rightarrow> bool" where
  "blocks d w = (wo_kind w = Out_client_error \<and> wo_http_status w \<in> {Some 401, Some 403})"

text \<open>The tracked sender books what happened: with a fresh delivery id and a working database the
  delivery has one record, delivered exactly when the webhook was, with the outcome's attempts, the
  answer says the same, and a registration of that tenant and url is blocked exactly when it was
  blocked already or the endpoint answered 401 or 403; other records and registrations stay.\<close>

theorem tracked_delivery_booked:
  assumes "tracked d" "delivery_id \<notin> dr_delivery_id ` set rows" "jget (td_payload d) ''status'' \<noteq> Some (JStr ''paused'')"
    and "deliver_webhook env (td_webhook_url d) (td_payload d) (td_authentication_scheme d) (td_signing_secret d)
      (Some (td_headers d)) (td_max_retries d) None = (rs, Inr w)"
  shows "\<exists>r configs' res. deliver_webhook_with_retry env None start finish delivery_id d (rows, configs)
      = ((rows @ [r], configs'), rs, Inr (wo_kind w = Out_delivered, res)) \<and>
    dr_delivery_id r = delivery_id \<and> dr_status r = (if wo_kind w = Out_delivered then ''delivered'' else ''failed'') \<and>
    dr_attempts r = (if wo_kind w \<in> {Out_refused_auth, Out_refused_destination} then 0 else int (wo_attempts w)) \<and>
    tr_status res = dr_status r \<and> int (tr_attempts res) = dr_attempts r \<and>
    configs' = map (\<lambda>c. if blocks d w \<and> Some (pc_tenant_id c) = td_tenant_id d \<and> pc_url c = td_webhook_url d \<and> pc_auth_blocked_at c = None
      then c\<lparr>pc_auth_blocked_at := Some finish, pc_updated_at := finish\<rparr> else c) configs"
proof -
  obtain t where t: "td_tenant_id d = Some t" "t \<noteq> []" using assms(1) by (auto simp: tracked_def truthy_str_def split: option.splits)
  obtain r0 where r0: "create_delivery_record None start delivery_id d rows = rows @ [r0]"
    "dr_delivery_id r0 = delivery_id" "dr_tenant_id r0 = t"
    using assms(2) t by (auto simp: create_delivery_record_def create_record_def Let_def)
  have or: "or_str (td_tenant_id d) [] = t" using t by simp
  have run: "deliver_webhook_with_retry env None start finish delivery_id d (rows, configs)
    = (case book_outcome None finish delivery_id d w (rows @ [r0], configs) of (st', answer) \<Rightarrow> (st', rs, Inr answer))"
    using assms(1,3,4) r0(1) by (simp add: deliver_webhook_with_retry_def Let_def)
  have blocked: "set_auth_blocked t (td_webhook_url d) finish configs
    = map (\<lambda>c. if Some (pc_tenant_id c) = td_tenant_id d \<and> pc_url c = td_webhook_url d \<and> pc_auth_blocked_at c = None
      then c\<lparr>pc_auth_blocked_at := Some finish, pc_updated_at := finish\<rparr> else c) configs"
    using t by (simp add: set_auth_blocked_def update_where_def)
  note row = update_delivery_row [OF assms(2) r0(2) r0(3) [folded or]]
  show ?thesis
  proof (cases "wo_kind w = Out_delivered")
    case True
    obtain r' where "update_delivery_record None finish delivery_id d ''delivered'' (wo_attempts w) (wo_http_status w) None (Some finish) (rows @ [r0]) = rows @ [r']"
      "dr_delivery_id r' = delivery_id" "dr_status r' = ''delivered''" "dr_attempts r' = int (wo_attempts w)" by (rule row)
    then show ?thesis unfolding run using True assms(1) by (simp add: book_outcome_def blocks_def)
  next
    case False
    define n where "n = (if wo_kind w \<in> {Out_refused_auth, Out_refused_destination} then 0 else wo_attempts w)"
    define code where "code = (if wo_kind w \<in> {Out_refused_auth, Out_refused_destination} then None else wo_http_status w)"
    obtain r' where r': "update_delivery_record None finish delivery_id d ''failed'' n code (Some (outcome_error w)) None (rows @ [r0]) = rows @ [r']"
      "dr_delivery_id r' = delivery_id" "dr_status r' = ''failed''" "dr_attempts r' = int n" by (rule row)
    have "book_outcome None finish delivery_id d w (rows @ [r0], configs) = ((rows @ [r'],
        if blocks d w then set_auth_blocked t (td_webhook_url d) finish configs else configs), False,
        \<lparr>tr_status = ''failed'', tr_attempts = n, tr_delivery_id = Some delivery_id, tr_response_code = code, tr_error = Some (outcome_error w)\<rparr>)"
      using False r'(1) assms(1) t
      by (cases "wo_kind w") (simp_all add: book_outcome_def record_failure_def n_def code_def blocks_def Let_def)
    then show ?thesis unfolding run using False r' blocked by (auto simp: n_def)
  qed
qed

section \<open>Witnesses\<close>

definition ex_service_env :: service_env where
  "ex_service_env = \<lparr>se_delivery = ex_delivery, se_signer = (\<lambda>t. Inr None), se_envelope = (\<lambda>ctx r c. Inr r),
     se_breaker_policy = (5, 2, 60)\<rparr>"

definition ex_slot :: delivery_slot where
  "ex_slot = \<lparr>ds_start = 0, ds_finish = 1500, ds_log_id = ''l'', ds_commit_error = None\<rparr>"


theorem endpoints_isolated_witness:
  "\<exists>svc' logs' rs ok. send_webhook_enhanced ex_service_env [ex_slot] [ex_blocked] ex_ctx JNull (new_service, []) = ((svc', logs'), rs, ok) \<and>
    ws_circuit_breakers svc' ''elsewhere'' = None"
proof -
  obtain svc' logs' rs ok where r: "send_webhook_enhanced ex_service_env [ex_slot] [ex_blocked] ex_ctx JNull (new_service, []) = ((svc', logs'), rs, ok)"
    by (metis prod.exhaust)
  have "ws_circuit_breakers svc' ''elsewhere'' = ws_circuit_breakers new_service ''elsewhere'' \<and>
      ws_queues svc' ''elsewhere'' = ws_queues new_service ''elsewhere'' \<and> ws_sequence_numbers svc' = ws_sequence_numbers new_service"
    by (rule endpoints_isolated [OF r])
      (auto simp: endpoint_key_def list_active_by_principal_def ex_blocked_def ex_config_def new_config_def ex_columns_def ex_ctx_def)
  then show ?thesis using r by (auto simp: new_service_def)
qed

definition ex_tracked :: tracked_delivery where
  "ex_tracked = \<lparr>td_webhook_url = ''u'', td_payload = JNull, td_headers = [], td_max_retries = 3, td_signing_secret = None,
     td_authentication_scheme = Some ''bearer'', td_event_type = Some ''e'', td_tenant_id = Some ''t'', td_object_id = None\<rparr>"

theorem tracked_delivery_booked_witness:
  "\<exists>r configs' res. deliver_webhook_with_retry ex_delivery None 0 1 ''d'' ex_tracked ([], []) = (([r], configs'), [], Inr (False, res)) \<and>
    dr_status r = ''failed''"
proof -
  have w: "deliver_webhook ex_delivery ''u'' JNull (Some ''bearer'') None (Some []) 3 None = ([], Inr (refusal (Some ''bearer'') Scheme_not_in_spec))"
    by (simp add: deliver_webhook_def auth_decision blank_def is_space_def scheme_of_def)
  have t: "tracked ex_tracked" by (simp add: tracked_def ex_tracked_def)
  from tracked_delivery_booked [OF t, of "''d''" "[]" ex_delivery "[]" "refusal (Some ''bearer'') Scheme_not_in_spec" 0 1 "[]"] w
  show ?thesis by (auto simp: ex_tracked_def jget_def refusal_def)
qed

section \<open>Findings\<close>

text \<open>A registration whose envelope or signer raises ends the report: later endpoints get nothing.\<close>

lemma one_raise_ends_the_report:
  assumes "service_ok svc" "deliver_to_config env (hd slots) t ctx result bad (svc, logs) = (st', rs, Inl e)"
  shows "deliver_to_configs env slots t ctx result (bad # post) (svc, logs) = (st', rs, Inl e) \<and> rs = []"
proof -
  have "rs = []"
    using assms(1)
    by (cases rule: deliver_to_config_branches [where c = bad and env = env and slot = "hd slots" and tenant = t and
        ctx = ctx and result = result and logs = logs]) (use assms(2) in auto)
  then show ?thesis using assms(2) by simp
qed

text \<open>Two threads on one endpoint: the second takes the first's entry, and concludes it as its own.\<close>

lemma threads_swap_entries:
  assumes "queue_calls [Put a, Put b, Take] (new_queue n) = (q, ins, outs)" "2 \<le> n"
  shows "outs = [a]"
  using assms by (simp add: new_queue_def enqueue_def dequeue_def deque_append_def numeral_2_eq_2 Suc_le_eq split: if_splits)

text \<open>The state query answers for another endpoint whose key contains the url.\<close>

lemma breaker_state_of_another_endpoint:
  "get_circuit_breaker_state ''https://a'' [(endpoint_key ''t'' ''https://a.b'', ex_open)] = (OPEN, 5)"
  by (simp add: get_circuit_breaker_state_def endpoint_key_def ex_open_def new_breaker_def)
    (simp add: sublist_code)

end
