(* ===== verification/Workflow.thy ===== *)
theory Workflow
  imports Clock Tenant_Scope "HOL-Library.AList" "HOL-Library.Multiset"
begin

text \<open>
  Workflow steps: the tables contexts, workflow_steps and object_workflow_mapping of
  src/src/core/database/models.py, the row construction and the repository of
  src/src/core/database/repositories/workflow.py, and the atomic list append of
  src/src/core/database/jsonb_append.py. A dict is the association list of its items in
  insertion order. The argument \<open>now\<close> is the clock reading of a call, \<open>hex\<close> the twelve digits
  its uuid4 contributes. Ties of \<open>created_at\<close> keep storage order.
\<close>

section \<open>Timestamps\<close>

text \<open>\<open>datetime.isoformat\<close> of a UTC instant: the microseconds are left out when they are zero.\<close>

fun fixed_digits :: "nat \<Rightarrow> int \<Rightarrow> string" where
  "fixed_digits 0 n = []"
| "fixed_digits (Suc w) n = fixed_digits w (n div 10) @ [''0123456789'' ! nat (n mod 10)]"

definition civil :: "day \<Rightarrow> int \<times> int \<times> int" where
  "civil d = (let z = d + 719468; era = z div 146097; doe = z mod 146097;
     yoe = (doe - doe div 1460 + doe div 36524 - doe div 146096) div 365;
     doy = doe - (365 * yoe + yoe div 4 - yoe div 100);
     mp = (5 * doy + 2) div 153;
     dd = doy - (153 * mp + 2) div 5 + 1;
     mm = if mp < 10 then mp + 3 else mp - 9
     in (yoe + era * 400 + (if mm \<le> 2 then 1 else 0), mm, dd))"

definition isoformat :: "instant \<Rightarrow> string" where
  "isoformat t = (let (y, m, d) = civil (utc_date t); us = t mod day_us; s = us div second_us; f = us mod second_us
     in fixed_digits 4 y @ ''-'' @ fixed_digits 2 m @ ''-'' @ fixed_digits 2 d @ ''T'' @
        fixed_digits 2 (s div 3600) @ '':'' @ fixed_digits 2 (s div 60 mod 60) @ '':'' @
        fixed_digits 2 (s mod 60) @ (if f = 0 then [] else ''.'' @ fixed_digits 6 f) @ ''+00:00'')"

lemma isoformat_example: "isoformat 1772366705000042 = ''2026-03-01T12:05:05.000042+00:00''"
  by code_simp

section \<open>Rows\<close>

type_synonym doc = "(string \<times> json) list"

record wf_context =
  cx_id :: string
  cx_tenant :: string
  cx_principal :: string
  cx_history :: "json list"
  cx_created_at :: instant
  cx_last_activity_at :: instant

record workflow_step =
  st_id :: string
  st_context :: string
  st_step_type :: string
  st_tool_name :: "string option"
  st_request_data :: "doc option"
  st_response_data :: "doc option"
  st_status :: string
  st_owner :: string
  st_assigned_to :: "string option"
  st_created_at :: instant
  st_completed_at :: "instant option"
  st_error_message :: "string option"
  st_transaction_details :: "doc option"
  st_comments :: "json list"

record object_mapping =
  om_object_type :: string
  om_object_id :: string
  om_step_id :: string
  om_action :: string
  om_created_at :: instant

record principal_row =
  pr_tenant :: string
  pr_id :: string
  pr_name :: string

record wf_db =
  wf_contexts :: "wf_context list"
  wf_steps :: "workflow_step list"
  wf_mappings :: "object_mapping list"
  wf_principals :: "principal_row list"

section \<open>Construction\<close>

text \<open>\<open>d.update(e)\<close>: a key that is there keeps its place, a new one goes to the end.\<close>

definition dict_update :: "doc \<Rightarrow> doc \<Rightarrow> doc" where
  "dict_update d e = fold (\<lambda>(k, v). AList.update k v) e d"

text \<open>\<open>d.get(k)\<close> in a document.\<close>

definition doc_get :: "doc \<Rightarrow> string \<Rightarrow> json" where
  "doc_get d k = (case map_of d k of None \<Rightarrow> JNull | Some j \<Rightarrow> j)"

definition build_context ::
    "string \<Rightarrow> string \<Rightarrow> string \<Rightarrow> json list option \<Rightarrow> instant \<Rightarrow> wf_db \<Rightarrow> wf_db \<times> wf_context" where
  "build_context hex tenant pid conv now db =
     (let cx = \<lparr>cx_id = ''ctx_'' @ hex, cx_tenant = tenant, cx_principal = pid,
        cx_history = (case conv of None \<Rightarrow> [] | Some c \<Rightarrow> c), cx_created_at = now, cx_last_activity_at = now\<rparr>
      in (db\<lparr>wf_contexts := wf_contexts db @ [cx]\<rparr>, cx))"

text \<open>An entry of \<open>object_mappings\<close>; its action defaults to the step type.\<close>

record new_mapping =
  nm_object_type :: string
  nm_object_id :: string
  nm_action :: "string option"

text \<open>
  The keyword arguments of a new step. A Pydantic request is passed as what its
  \<open>model_dump(mode="json")\<close> gives.
\<close>

record step_fields =
  sf_step_type :: string
  sf_owner :: string
  sf_status :: string
  sf_tool_name :: "string option"
  sf_request_data :: "doc option"
  sf_response_data :: "doc option"
  sf_assigned_to :: "string option"
  sf_error_message :: "string option"
  sf_transaction_details :: "doc option"
  sf_object_mappings :: "new_mapping list"
  sf_initial_comment :: "string option"
  sf_request_metadata :: "doc option"

text \<open>The arguments of a call that gives only the required ones.\<close>

definition step_defaults :: "string \<Rightarrow> string \<Rightarrow> step_fields" where
  "step_defaults step_type owner = \<lparr>sf_step_type = step_type, sf_owner = owner, sf_status = ''pending'',
     sf_tool_name = None, sf_request_data = None, sf_response_data = None, sf_assigned_to = None,
     sf_error_message = None, sf_transaction_details = None, sf_object_mappings = [],
     sf_initial_comment = None, sf_request_metadata = None\<rparr>"

definition comment_doc :: "string \<Rightarrow> instant \<Rightarrow> string \<Rightarrow> json" where
  "comment_doc user now body = JObj [(''user'', JStr user), (''timestamp'', JStr (isoformat now)), (''text'', JStr body)]"

definition request_of_fields :: "step_fields \<Rightarrow> doc option" where
  "request_of_fields f = (case (sf_request_data f, sf_request_metadata f) of
     (Some d, Some m) \<Rightarrow> Some (if m = [] then d else dict_update d m)
   | (d, _) \<Rightarrow> d)"

definition or_empty :: "doc option \<Rightarrow> doc" where
  "or_empty d = (case d of None \<Rightarrow> [] | Some x \<Rightarrow> x)"

definition mapping_of :: "string \<Rightarrow> string \<Rightarrow> instant \<Rightarrow> new_mapping \<Rightarrow> object_mapping" where
  "mapping_of sid step_type now m = \<lparr>om_object_type = nm_object_type m, om_object_id = nm_object_id m,
     om_step_id = sid, om_action = (case nm_action m of None \<Rightarrow> step_type | Some a \<Rightarrow> a), om_created_at = now\<rparr>"

definition build_workflow_step ::
    "string \<Rightarrow> string \<Rightarrow> step_fields \<Rightarrow> instant \<Rightarrow> wf_db \<Rightarrow> wf_db \<times> workflow_step" where
  "build_workflow_step hex cid f now db =
     (let step = \<lparr>st_id = ''step_'' @ hex, st_context = cid, st_step_type = sf_step_type f,
        st_tool_name = sf_tool_name f, st_request_data = Some (or_empty (request_of_fields f)),
        st_response_data = Some (or_empty (sf_response_data f)), st_status = sf_status f,
        st_owner = sf_owner f, st_assigned_to = sf_assigned_to f, st_created_at = now,
        st_completed_at = (if sf_status f = ''completed'' then Some now else None),
        st_error_message = sf_error_message f,
        st_transaction_details = Some (or_empty (sf_transaction_details f)),
        st_comments = (if truthy_str (sf_initial_comment f)
          then [comment_doc ''system'' now (the (sf_initial_comment f))] else [])\<rparr>
      in (db\<lparr>wf_steps := wf_steps db @ [step],
             wf_mappings := wf_mappings db @ map (mapping_of (st_id step) (sf_step_type f) now) (sf_object_mappings f)\<rparr>,
          step))"

section \<open>Joins\<close>

definition context_of :: "wf_db \<Rightarrow> workflow_step \<Rightarrow> wf_context option" where
  "context_of db s = find (\<lambda>c. cx_id c = st_context s) (wf_contexts db)"

text \<open>The WHERE clause over the context a step joins: the tenant and, where given, the principal.\<close>

definition in_scope :: "wf_db \<Rightarrow> string \<Rightarrow> string option \<Rightarrow> workflow_step \<Rightarrow> bool" where
  "in_scope db tenant pid s = (case context_of db s of None \<Rightarrow> False
     | Some c \<Rightarrow> cx_tenant c = tenant \<and> (case pid of None \<Rightarrow> True | Some p \<Rightarrow> cx_principal c = p))"

definition step_of_mapping :: "wf_db \<Rightarrow> object_mapping \<Rightarrow> workflow_step option" where
  "step_of_mapping db m = find (\<lambda>s. st_id s = om_step_id m) (wf_steps db)"

definition mapping_in_scope :: "wf_db \<Rightarrow> string \<Rightarrow> object_mapping \<Rightarrow> bool" where
  "mapping_in_scope db tenant m = (case step_of_mapping db m of None \<Rightarrow> False | Some s \<Rightarrow> in_scope db tenant None s)"

section \<open>Reads\<close>

definition get_by_step_id :: "string \<Rightarrow> string \<Rightarrow> string option \<Rightarrow> wf_db \<Rightarrow> workflow_step option" where
  "get_by_step_id tenant sid pid db = find (\<lambda>s. st_id s = sid \<and> in_scope db tenant pid s) (wf_steps db)"

definition get_by_step_id_or_raise :: "string \<Rightarrow> string \<Rightarrow> string option \<Rightarrow> wf_db \<Rightarrow> workflow_step res" where
  "get_by_step_id_or_raise tenant sid pid db = (case get_by_step_id tenant sid pid db of
     None \<Rightarrow> Inl (AdCPTaskNotFoundError sid) | Some s \<Rightarrow> Inr s)"

definition get_step_by_id :: "string \<Rightarrow> string \<Rightarrow> wf_db \<Rightarrow> workflow_step option" where
  "get_step_by_id tenant sid db = get_by_step_id tenant sid None db"

definition newest_first :: "workflow_step list \<Rightarrow> workflow_step list" where
  "newest_first xs = sort_key (\<lambda>s. - st_created_at s) xs"

text \<open>The join with the mappings repeats a step once for each of them that qualifies.\<close>

definition join_mappings :: "wf_db \<Rightarrow> (object_mapping \<Rightarrow> bool) \<Rightarrow> workflow_step list \<Rightarrow> workflow_step list" where
  "join_mappings db P xs =
     concat (map (\<lambda>s. map (\<lambda>_. s) (filter (\<lambda>m. om_step_id m = st_id s \<and> P m) (wf_mappings db))) xs)"

definition matching_steps ::
    "string \<Rightarrow> string option \<Rightarrow> string option \<Rightarrow> string option \<Rightarrow> string option \<Rightarrow> wf_db \<Rightarrow> workflow_step list" where
  "matching_steps tenant status object_type object_id pid db =
     (let xs = filter (\<lambda>s. in_scope db tenant pid s \<and> (truthy_str status \<longrightarrow> Some (st_status s) = status)) (wf_steps db)
      in if truthy_str object_type \<and> truthy_str object_id
         then join_mappings db (\<lambda>m. Some (om_object_type m) = object_type \<and> Some (om_object_id m) = object_id) xs
         else if truthy_str object_type
         then join_mappings db (\<lambda>m. Some (om_object_type m) = object_type) xs
         else xs)"

definition list_by_tenant ::
    "string \<Rightarrow> string option \<Rightarrow> string option \<Rightarrow> string option \<Rightarrow> nat \<Rightarrow> nat \<Rightarrow> string option \<Rightarrow> wf_db \<Rightarrow> workflow_step list" where
  "list_by_tenant tenant status object_type object_id offset limit pid db =
     take limit (drop offset (newest_first (matching_steps tenant status object_type object_id pid db)))"

definition count_by_tenant ::
    "string \<Rightarrow> string option \<Rightarrow> string option \<Rightarrow> string option \<Rightarrow> string option \<Rightarrow> wf_db \<Rightarrow> nat" where
  "count_by_tenant tenant status object_type object_id pid db =
     length (matching_steps tenant status object_type object_id pid db)"

definition get_latest_mapping_for_object :: "string \<Rightarrow> string \<Rightarrow> string \<Rightarrow> wf_db \<Rightarrow> object_mapping option" where
  "get_latest_mapping_for_object tenant object_type object_id db =
     (case sort_key (\<lambda>m. - om_created_at m) (filter (\<lambda>m. om_object_type m = object_type \<and>
        om_object_id m = object_id \<and> mapping_in_scope db tenant m) (wf_mappings db)) of
        [] \<Rightarrow> None | m # _ \<Rightarrow> Some m)"

definition get_mappings_for_step :: "string \<Rightarrow> string \<Rightarrow> wf_db \<Rightarrow> object_mapping list" where
  "get_mappings_for_step tenant sid db =
     filter (\<lambda>m. om_step_id m = sid \<and> mapping_in_scope db tenant m) (wf_mappings db)"

definition get_mappings_for_steps :: "string \<Rightarrow> string list \<Rightarrow> wf_db \<Rightarrow> string \<Rightarrow> object_mapping list option" where
  "get_mappings_for_steps tenant sids db = (let ms = filter (\<lambda>m. om_step_id m \<in> set sids \<and> mapping_in_scope db tenant m)
       (wf_mappings db)
     in (\<lambda>sid. if sid \<in> set sids then Some (filter (\<lambda>m. om_step_id m = sid) ms) else None))"

definition get_all_steps :: "string \<Rightarrow> nat option \<Rightarrow> wf_db \<Rightarrow> workflow_step list" where
  "get_all_steps tenant limit db = (let xs = newest_first (filter (in_scope db tenant None) (wf_steps db))
     in case limit of None \<Rightarrow> xs | Some n \<Rightarrow> if n = 0 then xs else take n xs)"

definition get_principal_name :: "string \<Rightarrow> string \<Rightarrow> wf_db \<Rightarrow> string option" where
  "get_principal_name tenant pid db =
     map_option pr_name (find (\<lambda>p. pr_tenant p = tenant \<and> pr_id p = pid) (wf_principals db))"

section \<open>Writes\<close>

definition create_context ::
    "string \<Rightarrow> string \<Rightarrow> string \<Rightarrow> json list option \<Rightarrow> instant \<Rightarrow> wf_db \<Rightarrow> wf_db \<times> wf_context" where
  "create_context tenant hex pid conv now db = build_context hex tenant pid conv now db"

definition create_step ::
    "string \<Rightarrow> string \<Rightarrow> wf_context \<Rightarrow> step_fields \<Rightarrow> instant \<Rightarrow> wf_db \<Rightarrow> (wf_db \<times> workflow_step) res" where
  "create_step tenant hex cx f now db =
     (if cx_tenant cx \<noteq> tenant then Inl ValueError else Inr (build_workflow_step hex (cx_id cx) f now db))"

definition add_mapping :: "string \<Rightarrow> string \<Rightarrow> string \<Rightarrow> string \<Rightarrow> instant \<Rightarrow> wf_db \<Rightarrow> wf_db" where
  "add_mapping sid object_type object_id action now db = db\<lparr>wf_mappings := wf_mappings db @
     [\<lparr>om_object_type = object_type, om_object_id = object_id, om_step_id = sid, om_action = action, om_created_at = now\<rparr>]\<rparr>"

text \<open>\<open>coalesce(col, '[]') || [elem]\<close>, read and written in one statement.\<close>

definition jsonb_list_append :: "json list \<Rightarrow> json \<Rightarrow> json list" where
  "jsonb_list_append xs x = xs @ [x]"

definition put_steps :: "(workflow_step \<Rightarrow> bool) \<Rightarrow> (workflow_step \<Rightarrow> workflow_step) \<Rightarrow> wf_db \<Rightarrow> wf_db" where
  "put_steps P f db = db\<lparr>wf_steps := update_where P f (wf_steps db)\<rparr>"

definition append_step_comment ::
    "string \<Rightarrow> string \<Rightarrow> string \<Rightarrow> string option \<Rightarrow> instant \<Rightarrow> wf_db \<Rightarrow> wf_db \<times> nat" where
  "append_step_comment sid user body tenant now db =
     (let P = (\<lambda>s. st_id s = sid \<and> (case tenant of None \<Rightarrow> True
          | Some t \<Rightarrow> st_context s \<in> cx_id ` set (filter (\<lambda>c. cx_tenant c = t) (wf_contexts db))))
      in (put_steps P (\<lambda>s. s\<lparr>st_comments := jsonb_list_append (st_comments s) (comment_doc user now body)\<rparr>) db,
          length (filter P (wf_steps db))))"

definition append_comment :: "string \<Rightarrow> string \<Rightarrow> string \<Rightarrow> string \<Rightarrow> instant \<Rightarrow> wf_db \<Rightarrow> wf_db \<times> nat" where
  "append_comment tenant sid user body now db = append_step_comment sid user body (Some tenant) now db"

definition put_step :: "workflow_step \<Rightarrow> wf_db \<Rightarrow> wf_db" where
  "put_step s db = put_steps (\<lambda>x. st_id x = st_id s) (\<lambda>_. s) db"

definition with_status ::
    "string \<Rightarrow> instant option \<Rightarrow> doc option \<Rightarrow> string option \<Rightarrow> workflow_step \<Rightarrow> workflow_step" where
  "with_status status completed_at response_data error_message s = s\<lparr>st_status := status,
     st_completed_at := (case completed_at of None \<Rightarrow> st_completed_at s | Some t \<Rightarrow> Some t),
     st_response_data := (case response_data of None \<Rightarrow> st_response_data s | Some d \<Rightarrow> Some d),
     st_error_message := (case error_message of Some e \<Rightarrow> Some e
       | None \<Rightarrow> if status = ''completed'' then None else st_error_message s)\<rparr>"

definition update_step_status ::
    "string \<Rightarrow> string \<Rightarrow> string \<Rightarrow> instant option \<Rightarrow> doc option \<Rightarrow> string option \<Rightarrow> wf_db
      \<Rightarrow> wf_db \<times> workflow_step option" where
  "update_step_status tenant sid status completed_at response_data error_message db =
     (case get_by_step_id tenant sid None db of None \<Rightarrow> (db, None)
      | Some s \<Rightarrow> let s' = with_status status completed_at response_data error_message s
          in (put_step s' db, Some s'))"

section \<open>What the tables keep\<close>

definition wf_ok :: "wf_db \<Rightarrow> bool" where
  "wf_ok db = (distinct (map cx_id (wf_contexts db)) \<and> distinct (map st_id (wf_steps db)) \<and>
     (\<forall>s\<in>set (wf_steps db). st_context s \<in> cx_id ` set (wf_contexts db)) \<and>
     (\<forall>m\<in>set (wf_mappings db). om_step_id m \<in> st_id ` set (wf_steps db)))"

lemma step_key: "wf_ok db \<Longrightarrow> x \<in> set (wf_steps db) \<Longrightarrow> s \<in> set (wf_steps db) \<Longrightarrow> st_id x = st_id s \<Longrightarrow> x = s"
  unfolding wf_ok_def by (elim conjE) (rule distinct_key_eq [where k = st_id and rows = "wf_steps db"])

lemma in_scope_cong:
  assumes "st_context s = st_context s'" "wf_contexts db = wf_contexts db'"
  shows "in_scope db t pid s = in_scope db' t pid s'"
  using assms by (simp add: in_scope_def context_of_def)

lemma in_scope_step_fields [simp]:
  "in_scope db t pid (s\<lparr>st_comments := c\<rparr>) = in_scope db t pid s"
  "in_scope db t pid (with_status st cmp rd em s) = in_scope db t pid s"
  by (auto intro!: in_scope_cong simp: with_status_def)

lemma in_scope_db [simp]:
  "in_scope (db\<lparr>wf_steps := x\<rparr>) = in_scope db" "in_scope (db\<lparr>wf_mappings := y\<rparr>) = in_scope db"
  by (auto intro!: ext in_scope_cong)

lemma context_of_SomeI:
  assumes "wf_ok db" "c \<in> set (wf_contexts db)" "cx_id c = st_context s"
  shows "context_of db s = Some c"
  unfolding context_of_def using assms by (intro find_key [where k = cx_id]) (auto simp: wf_ok_def)

lemma in_scope_tenants: "in_scope db t pid s \<Longrightarrow> in_scope db u pid' s \<Longrightarrow> t = u"
  by (auto simp: in_scope_def split: option.splits)

lemma in_scope_principals: "in_scope db t (Some p) s \<Longrightarrow> in_scope db u (Some q) s \<Longrightarrow> p = q"
  by (auto simp: in_scope_def split: option.splits)

lemma in_scope_weaken: "in_scope db t pid s \<Longrightarrow> in_scope db t None s"
  by (auto simp: in_scope_def split: option.splits)

lemma in_scope_append:
  assumes "wf_ok db" "s \<in> set (wf_steps db)"
  shows "in_scope (db\<lparr>wf_contexts := wf_contexts db @ cs\<rparr>) t pid s = in_scope db t pid s"
proof -
  obtain c where "context_of db s = Some c"
    using assms by (metis context_of_SomeI imageE wf_ok_def)
  then show ?thesis by (simp add: in_scope_def context_of_def find_append)
qed

lemma in_scope_comment_iff:
  assumes "wf_ok db"
  shows "st_context s \<in> cx_id ` set (filter (\<lambda>c. cx_tenant c = t) (wf_contexts db)) \<longleftrightarrow> in_scope db t None s"
proof
  assume "st_context s \<in> cx_id ` set (filter (\<lambda>c. cx_tenant c = t) (wf_contexts db))"
  then obtain c where "c \<in> set (wf_contexts db)" "cx_id c = st_context s" "cx_tenant c = t" by auto
  then show "in_scope db t None s" using context_of_SomeI [OF assms] by (simp add: in_scope_def)
qed (auto simp: in_scope_def context_of_def image_iff split: option.splits dest!: find_SomeD)

lemma get_by_step_id_Some:
  "get_by_step_id t sid pid db = Some s \<Longrightarrow> s \<in> set (wf_steps db) \<and> st_id s = sid \<and> in_scope db t pid s"
  unfolding get_by_step_id_def by (auto dest: find_SomeD)

lemma get_by_step_id_iff:
  assumes "wf_ok db"
  shows "get_by_step_id t sid pid db = Some s \<longleftrightarrow> s \<in> set (wf_steps db) \<and> st_id s = sid \<and> in_scope db t pid s"
  unfolding get_by_step_id_def using assms
  by (auto dest: find_SomeD intro!: find_key [where k = st_id] simp: wf_ok_def)

lemma step_of_mapping_iff:
  assumes "wf_ok db"
  shows "step_of_mapping db m = Some s \<longleftrightarrow> s \<in> set (wf_steps db) \<and> st_id s = om_step_id m"
  unfolding step_of_mapping_def using assms
  by (auto dest: find_SomeD intro!: find_key [where k = st_id] simp: wf_ok_def)

text \<open>Any change of steps that keeps their ids and contexts keeps the tables and every join.\<close>

lemma put_steps_ok:
  assumes "wf_ok db" "\<And>s. s \<in> set (wf_steps db) \<Longrightarrow> P s \<Longrightarrow> st_id (f s) = st_id s \<and> st_context (f s) = st_context s"
  shows "wf_ok (put_steps P f db)"
proof -
  have "map st_id (update_where P f (wf_steps db)) = map st_id (wf_steps db)"
    by (rule map_update_where) (use assms in auto)
  then have ids: "map st_id (wf_steps (put_steps P f db)) = map st_id (wf_steps db)"
    by (simp add: put_steps_def)
  have cx: "\<forall>s\<in>set (wf_steps (put_steps P f db)). st_context s \<in> cx_id ` set (wf_contexts db)"
    using assms by (auto simp: wf_ok_def put_steps_def elim!: update_whereE)
  from ids have "st_id ` set (wf_steps (put_steps P f db)) = st_id ` set (wf_steps db)"
    by (metis list.set_map)
  with ids cx assms(1) show ?thesis by (simp add: wf_ok_def put_steps_def)
qed

lemma put_step_ok:
  assumes "wf_ok db" "s \<in> set (wf_steps db)" "st_id s' = st_id s" "st_context s' = st_context s"
  shows "wf_ok (put_step s' db)"
  unfolding put_step_def
proof (rule put_steps_ok [OF assms(1)])
  fix x assume x: "x \<in> set (wf_steps db)" "st_id x = st_id s'"
  with assms(2,3) have "x = s" by (intro step_key [OF assms(1)]) simp_all
  with assms show "st_id s' = st_id x \<and> st_context s' = st_context x" by simp
qed

lemma with_status_keys [simp]:
  "st_id (with_status st c r e s) = st_id s" "st_context (with_status st c r e s) = st_context s"
  "st_status (with_status st c r e s) = st" "st_comments (with_status st c r e s) = st_comments s"
  by (simp_all add: with_status_def)

section \<open>Runs of writes\<close>

text \<open>
  What the repository of a tenant can do to the tables. The fresh ids are what the primary keys
  enforce. A mapping is added for a step of the tenant, as every caller does; \<open>add_mapping\<close>
  itself checks nothing (\<open>mapping_crosses_tenants\<close> below).
\<close>

inductive wf_write :: "string \<Rightarrow> wf_db \<Rightarrow> wf_db \<Rightarrow> bool" where
  W_context: "wf_write t db (fst (create_context t hex pid conv now db))"
    if "''ctx_'' @ hex \<notin> cx_id ` set (wf_contexts db)"
| W_step: "wf_write t db db'"
    if "create_step t hex cx f now db = Inr (db', s)" "cx \<in> set (wf_contexts db)"
      "''step_'' @ hex \<notin> st_id ` set (wf_steps db)"
| W_mapping: "wf_write t db (add_mapping sid ot oid act now db)"
    if "get_by_step_id t sid None db = Some s"
| W_comment: "wf_write t db (fst (append_comment t sid user body now db))"
| W_status: "wf_write t db (fst (update_step_status t sid st cmp rd em db))"

text \<open>Everything a tenant can read of the three tables.\<close>

definition wf_view :: "string \<Rightarrow> wf_db \<Rightarrow> wf_context list \<times> workflow_step list \<times> object_mapping list" where
  "wf_view u db = (filter (\<lambda>c. cx_tenant c = u) (wf_contexts db), filter (in_scope db u None) (wf_steps db),
     filter (mapping_in_scope db u) (wf_mappings db))"

lemma mapping_in_scope_iff:
  assumes "wf_ok db"
  shows "mapping_in_scope db t m \<longleftrightarrow> (\<exists>s\<in>set (wf_steps db). st_id s = om_step_id m \<and> in_scope db t None s)"
proof (cases "step_of_mapping db m")
  case None
  then show ?thesis by (auto simp: mapping_in_scope_def step_of_mapping_def dest: find_NoneD)
next
  case (Some s)
  with step_of_mapping_iff [OF assms] have s: "s \<in> set (wf_steps db)" "st_id s = om_step_id m" by auto
  then have "x = s" if "x \<in> set (wf_steps db)" "st_id x = om_step_id m" for x
    using that s by (intro step_key [OF assms]) simp_all
  with s have "(\<exists>x\<in>set (wf_steps db). st_id x = om_step_id m \<and> in_scope db t None x) = in_scope db t None s"
    by blast
  with Some show ?thesis by (simp add: mapping_in_scope_def)
qed

text \<open>A change of steps of one tenant leaves the view of another as it was.\<close>

lemma put_steps_scope:
  assumes "wf_ok db" "\<And>s. s \<in> set (wf_steps db) \<Longrightarrow> P s \<Longrightarrow>
      st_id (f s) = st_id s \<and> st_context (f s) = st_context s"
  shows "in_scope (put_steps P f db) u pid s = in_scope db u pid s"
    "mapping_in_scope (put_steps P f db) u m = mapping_in_scope db u m"
proof -
  show sc: "in_scope (put_steps P f db) u pid s = in_scope db u pid s" for u pid s
    by (rule in_scope_cong) (simp_all add: put_steps_def)
  have "(\<exists>s\<in>set (update_where P f (wf_steps db)). st_id s = om_step_id m \<and> in_scope db u None s) =
     (\<exists>s\<in>set (wf_steps db). st_id s = om_step_id m \<and> in_scope db u None s)"
  proof -
    have  "in_scope db u None (f s) = in_scope db u None s" if "s \<in> set (wf_steps db)" "P s" for s
      by (rule in_scope_cong) (use assms that in auto)
    with assms(2) have "(\<lambda>s. st_id s = om_step_id m \<and> in_scope db u None s) (if P s then f s else s) =
        (st_id s = om_step_id m \<and> in_scope db u None s)" if "s \<in> set (wf_steps db)" for s
      using that by simp
    then show ?thesis unfolding set_update_where bex_simps by (intro bex_cong) auto
  qed
  then show "mapping_in_scope (put_steps P f db) u m = mapping_in_scope db u m"
    using mapping_in_scope_iff [OF assms(1)] mapping_in_scope_iff [OF put_steps_ok [OF assms]]
    by (simp add: sc) (simp add: put_steps_def)
qed

lemma put_steps_view:
  assumes "wf_ok db" "\<And>s. s \<in> set (wf_steps db) \<Longrightarrow> P s \<Longrightarrow>
      st_id (f s) = st_id s \<and> st_context (f s) = st_context s \<and> in_scope db t None s" "u \<noteq> t"
  shows "wf_view u (put_steps P f db) = wf_view u db"
proof -
  have keys: "st_id (f s) = st_id s \<and> st_context (f s) = st_context s" if "s \<in> set (wf_steps db)" "P s" for s
    using assms(2) that by blast
  have "filter (in_scope db u None) (update_where P f (wf_steps db)) = filter (in_scope db u None) (wf_steps db)"
  proof (rule filter_update_where_other)
    fix s assume "s \<in> set (wf_steps db)" "P s"
    with assms(2,3) have "in_scope db t None s" "st_context (f s) = st_context s" by auto
    with assms(3) show "\<not> in_scope db u None s \<and> \<not> in_scope db u None (f s)"
      using in_scope_cong [of "f s" s db db u None] by (auto dest: in_scope_tenants)
  qed
  then show ?thesis
    using put_steps_scope [OF assms(1) keys] by (simp add: wf_view_def put_steps_def cong: filter_cong)
qed

lemma append_comment_put:
  assumes "wf_ok db"
  shows "fst (append_comment t sid user body now db) =
    put_steps (\<lambda>s. st_id s = sid \<and> in_scope db t None s)
      (\<lambda>s. s\<lparr>st_comments := jsonb_list_append (st_comments s) (comment_doc user now body)\<rparr>) db"
  using in_scope_comment_iff [OF assms] by (simp add: append_comment_def append_step_comment_def Let_def)

lemma update_step_status_put:
  assumes "wf_ok db"
  shows "fst (update_step_status t sid st cmp rd em db) =
    put_steps (\<lambda>s. st_id s = sid \<and> in_scope db t None s) (with_status st cmp rd em) db"
proof (cases "get_by_step_id t sid None db")
  case None
  then have "\<forall>s\<in>set (wf_steps db). \<not> (st_id s = sid \<and> in_scope db t None s)"
    by (auto simp: get_by_step_id_def dest: find_NoneD)
  with None show ?thesis
    by (auto simp: update_step_status_def put_steps_def update_where_def intro!: wf_db.equality map_idI [symmetric])
next
  case (Some s)
  with get_by_step_id_iff [OF assms] have s: "s \<in> set (wf_steps db)" "st_id s = sid" "in_scope db t None s" by auto
  have "(if st_id x = sid then with_status st cmp rd em s else x) =
      (if st_id x = sid \<and> in_scope db t None x then with_status st cmp rd em x else x)"
    if "x \<in> set (wf_steps db)" for x
  proof (cases "st_id x = sid")
    case True
    with that s have "x = s" by (intro step_key [OF assms]) simp_all
    with s show ?thesis by simp
  qed simp
  with Some s(2) show ?thesis
    by (simp add: update_step_status_def Let_def put_step_def put_steps_def update_where_def cong: map_cong)
qed

lemma build_context_ok:
  assumes "wf_ok db" "''ctx_'' @ hex \<notin> cx_id ` set (wf_contexts db)"
  shows "wf_ok (fst (create_context t hex pid conv now db))"
  using assms by (auto simp: wf_ok_def create_context_def build_context_def Let_def)

lemma build_step_ok:
  assumes "wf_ok db" "cx \<in> set (wf_contexts db)" "''step_'' @ hex \<notin> st_id ` set (wf_steps db)"
  shows "wf_ok (fst (build_workflow_step hex (cx_id cx) f now db))"
  using assms by (auto simp: wf_ok_def build_workflow_step_def Let_def mapping_of_def)

lemma build_step_scope:
  assumes "wf_ok db" "cx \<in> set (wf_contexts db)"
  shows "in_scope (fst (build_workflow_step hex (cx_id cx) f now db)) u pid s = in_scope db u pid s"
    "in_scope db u None (snd (build_workflow_step hex (cx_id cx) f now db)) \<longleftrightarrow> u = cx_tenant cx"
proof -
  show "in_scope (fst (build_workflow_step hex (cx_id cx) f now db)) u pid s = in_scope db u pid s"
    by (rule in_scope_cong) (simp_all add: build_workflow_step_def Let_def)
  show "in_scope db u None (snd (build_workflow_step hex (cx_id cx) f now db)) \<longleftrightarrow> u = cx_tenant cx"
    using context_of_SomeI [OF assms, of "snd (build_workflow_step hex (cx_id cx) f now db)"]
    by (auto simp: in_scope_def build_workflow_step_def Let_def)
qed

lemma mapping_in_scope_unknown:
  assumes "om_step_id m \<notin> st_id ` set (wf_steps db)"
  shows "\<not> mapping_in_scope db u m"
proof -
  have "step_of_mapping db m = None" using assms by (force simp: step_of_mapping_def find_None_iff)
  then show ?thesis by (simp add: mapping_in_scope_def)
qed

lemma mapping_scope_transfer:
  assumes "wf_ok db" "wf_ok db'"
    "\<And>s. s \<in> set (wf_steps db') \<and> in_scope db' u None s \<longleftrightarrow> s \<in> set (wf_steps db) \<and> in_scope db u None s"
  shows "mapping_in_scope db' u m = mapping_in_scope db u m"
  using assms(3) unfolding mapping_in_scope_iff [OF assms(1)] mapping_in_scope_iff [OF assms(2)] by blast

lemma create_context_view:
  assumes "wf_ok db" "''ctx_'' @ hex \<notin> cx_id ` set (wf_contexts db)" "u \<noteq> t"
  shows "wf_view u (fst (create_context t hex pid conv now db)) = wf_view u db"
proof -
  let ?db = "fst (create_context t hex pid conv now db)"
  obtain cs where db': "?db = db\<lparr>wf_contexts := wf_contexts db @ cs\<rparr>" "\<forall>c\<in>set cs. cx_tenant c = t"
    by (auto simp: create_context_def build_context_def Let_def)
  have sc: "in_scope ?db u None s = in_scope db u None s" if "s \<in> set (wf_steps db)" for s
    using in_scope_append [OF assms(1) that, of cs] db' by simp
  have ms: "mapping_in_scope ?db u m = mapping_in_scope db u m" for m
  proof (rule mapping_scope_transfer [OF assms(1)])
    show "wf_ok ?db" by (rule build_context_ok [OF assms(1,2)])
    have "wf_steps ?db = wf_steps db" by (simp add: db'(1))
    then show "s \<in> set (wf_steps ?db) \<and> in_scope ?db u None s \<longleftrightarrow> s \<in> set (wf_steps db) \<and> in_scope db u None s" for s
      using sc [of s] by auto
  qed
  have "filter (\<lambda>c. cx_tenant c = u) cs = []" using db'(2) assms(3) by (simp add: filter_empty_conv)
  then show ?thesis using sc ms by (simp add: wf_view_def db'(1) cong: filter_cong)
qed

lemma create_step_view:
  assumes "wf_ok db" "create_step t hex cx f now db = Inr (db', s)" "cx \<in> set (wf_contexts db)"
    "''step_'' @ hex \<notin> st_id ` set (wf_steps db)" "u \<noteq> t"
  shows "wf_view u db' = wf_view u db"
proof -
  from assms(2) have t: "cx_tenant cx = t" and b: "build_workflow_step hex (cx_id cx) f now db = (db', s)"
    by (auto simp: create_step_def split: if_splits)
  have ok': "wf_ok db'" using build_step_ok [OF assms(1,3,4), of f now] b by simp
  from b obtain ms where db': "db' = db\<lparr>wf_steps := wf_steps db @ [s], wf_mappings := wf_mappings db @ ms\<rparr>"
    and new: "\<forall>m\<in>set ms. om_step_id m = st_id s" and sid: "st_id s = ''step_'' @ hex"
    by (auto simp: build_workflow_step_def Let_def mapping_of_def)
  have sc: "in_scope db' u pid x = in_scope db u pid x" for u pid x
    using build_step_scope(1) [OF assms(1,3)] b by (metis fst_conv)
  have s: "\<not> in_scope db u None s"
    using build_step_scope(2) [OF assms(1,3), of u hex f now] b t assms(5) by simp
  have ms: "mapping_in_scope db' u m = mapping_in_scope db u m" for m
    by (rule mapping_scope_transfer [OF assms(1) ok']) (use s in \<open>auto simp: sc, auto simp: db'\<close>)
  have "\<not> mapping_in_scope db u m" if "m \<in> set ms" for m
    using that new sid assms(4) by (intro mapping_in_scope_unknown) auto
  then have "filter (mapping_in_scope db u) ms = []" by (simp add: filter_empty_conv)
  moreover have "wf_contexts db' = wf_contexts db" "wf_steps db' = wf_steps db @ [s]"
      "wf_mappings db' = wf_mappings db @ ms"
    by (simp_all add: db')
  ultimately show ?thesis using s by (simp add: wf_view_def ext [OF ms] ext [OF sc])
qed

lemma add_mapping_facts:
  assumes "wf_ok db" "get_by_step_id t sid None db = Some s"
  shows "wf_ok (add_mapping sid ot oid act now db)"
    "u \<noteq> t \<Longrightarrow> wf_view u (add_mapping sid ot oid act now db) = wf_view u db"
proof -
  from get_by_step_id_Some [OF assms(2)] have s: "s \<in> set (wf_steps db)" "st_id s = sid" "in_scope db t None s"
    by auto
  show ok': "wf_ok (add_mapping sid ot oid act now db)"
    using assms(1) s by (auto simp: wf_ok_def add_mapping_def)
  show "wf_view u (add_mapping sid ot oid act now db) = wf_view u db" if "u \<noteq> t"
  proof -
    have ms: "mapping_in_scope (add_mapping sid ot oid act now db) u m = mapping_in_scope db u m" for m
      by (rule mapping_scope_transfer [OF assms(1) ok']) (simp add: add_mapping_def)
    have "\<not> in_scope db u None x" if "x \<in> set (wf_steps db)" "st_id x = sid" for x
      using step_key [OF assms(1) that(1) s(1)] that(2) s \<open>u \<noteq> t\<close> by (auto dest: in_scope_tenants)
    then have "\<not> mapping_in_scope db u m" if "om_step_id m = sid" for m
      using mapping_in_scope_iff [OF assms(1)] that by auto
    moreover have "in_scope (add_mapping sid ot oid act now db) = in_scope db"
      "wf_contexts (add_mapping sid ot oid act now db) = wf_contexts db"
      "wf_steps (add_mapping sid ot oid act now db) = wf_steps db"
      "wf_mappings (add_mapping sid ot oid act now db) = wf_mappings db @
        [\<lparr>om_object_type = ot, om_object_id = oid, om_step_id = sid, om_action = act, om_created_at = now\<rparr>]"
      by (simp_all add: add_mapping_def)
    ultimately show ?thesis by (simp add: wf_view_def ext [OF ms])
  qed
qed

lemma comment_step_facts:
  assumes "wf_ok db"
  shows "wf_ok (fst (append_comment t sid user body now db))"
    "u \<noteq> t \<Longrightarrow> wf_view u (fst (append_comment t sid user body now db)) = wf_view u db"
  unfolding append_comment_put [OF assms]
  by (auto intro!: put_steps_ok put_steps_view [where t = t] simp: assms)

lemma status_step_facts:
  assumes "wf_ok db"
  shows "wf_ok (fst (update_step_status t sid st cmp rd em db))"
    "u \<noteq> t \<Longrightarrow> wf_view u (fst (update_step_status t sid st cmp rd em db)) = wf_view u db"
  unfolding update_step_status_put [OF assms]
  by (auto intro!: put_steps_ok put_steps_view [where t = t] simp: assms)

interpretation workflow_scope: tenant_scoped wf_ok wf_write wf_view
proof
  fix s s' t u assume ok: "wf_ok s" and st: "wf_write t s s'"
  show "wf_ok s'" using st
  proof (cases rule: wf_write.cases)
    case (W_step hex cx f now x)
    then show ?thesis using build_step_ok [OF ok W_step(2,3), of f now] by (simp add: create_step_def split: if_splits)
  qed (use ok in \<open>simp_all add: build_context_ok add_mapping_facts(1) comment_step_facts status_step_facts\<close>)
  show "wf_view u s' = wf_view u s" if "u \<noteq> t"
    using st by (cases rule: wf_write.cases)
      (use ok that in \<open>auto intro: create_context_view create_step_view add_mapping_facts comment_step_facts
        status_step_facts\<close>)
qed

text \<open>Whatever runs of writes other tenants make, what a tenant can read of the workflow tables stays.\<close>

lemma workflow_isolated:
  "steps wf_write ts db db' \<Longrightarrow> wf_ok db \<Longrightarrow> u \<notin> set ts \<Longrightarrow> wf_ok db' \<and> wf_view u db' = wf_view u db"
  by (auto intro: workflow_scope.inv_steps workflow_scope.isolated)

section \<open>Nothing recorded is lost\<close>

text \<open>Every step is still there, in its context, and its comments have at most grown at the end.\<close>

definition kept_steps :: "wf_db \<Rightarrow> wf_db \<Rightarrow> bool" where
  "kept_steps db db' = (prefix (wf_contexts db) (wf_contexts db') \<and> (\<forall>s\<in>set (wf_steps db). \<exists>s'\<in>set (wf_steps db'). st_id s' = st_id s \<and>
     st_context s' = st_context s \<and> st_request_data s' = st_request_data s \<and> prefix (st_comments s) (st_comments s')))"

lemma kept_stepsE:
  assumes "kept_steps db db'" "s \<in> set (wf_steps db)"
  obtains s' where "s' \<in> set (wf_steps db')" "st_id s' = st_id s" "st_context s' = st_context s"
    "st_request_data s' = st_request_data s" "prefix (st_comments s) (st_comments s')"
  using assms unfolding kept_steps_def by blast

lemma kept_steps_refl: "kept_steps db db"
  by (force simp: kept_steps_def)

lemma kept_steps_trans: "kept_steps db db' \<Longrightarrow> kept_steps db' db'' \<Longrightarrow> kept_steps db db''"
  unfolding kept_steps_def by (metis prefix_order.trans)

lemma kept_steps_put:
  assumes "\<And>s. s \<in> set (wf_steps db) \<Longrightarrow> P s \<Longrightarrow> st_id (f s) = st_id s \<and> st_context (f s) = st_context s \<and>
      st_request_data (f s) = st_request_data s \<and> prefix (st_comments s) (st_comments (f s))"
  shows "kept_steps db (put_steps P f db)"
  unfolding kept_steps_def
proof (intro conjI ballI)
  show "prefix (wf_contexts db) (wf_contexts (put_steps P f db))" by (simp add: put_steps_def)
  fix s assume s: "s \<in> set (wf_steps db)"
  then have "(if P s then f s else s) \<in> set (wf_steps (put_steps P f db))"
    by (auto simp: put_steps_def update_where_def)
  with assms [OF s] show "\<exists>s'\<in>set (wf_steps (put_steps P f db)). st_id s' = st_id s \<and>
      st_context s' = st_context s \<and> st_request_data s' = st_request_data s \<and> prefix (st_comments s) (st_comments s')"
    by (intro bexI [where x = "if P s then f s else s"]) auto
qed

lemma kept_steps_grow:
  "prefix (wf_contexts db) (wf_contexts db') \<Longrightarrow> set (wf_steps db) \<subseteq> set (wf_steps db') \<Longrightarrow> kept_steps db db'"
  by (force simp: kept_steps_def)

lemma kept_steps_scope:
  assumes "kept_steps db db'" "in_scope db t pid s" "st_context s' = st_context s"
  shows "in_scope db' t pid s'"
proof -
  obtain cs where "wf_contexts db' = wf_contexts db @ cs" using assms(1) by (auto simp: kept_steps_def prefix_def)
  then show ?thesis using assms(2,3) by (auto simp: in_scope_def context_of_def find_append split: option.splits)
qed

lemma wf_write_keeps: "wf_ok db \<Longrightarrow> wf_write t db db' \<Longrightarrow> kept_steps db db'"
proof (erule wf_write.cases, goal_cases)
  case 1
  then show ?case by (auto intro!: kept_steps_grow simp: create_context_def build_context_def Let_def)
next
  case 2
  then show ?case
    by (auto intro!: kept_steps_grow simp: create_step_def build_workflow_step_def Let_def split: if_splits)
next
  case 3
  then show ?case by (auto intro!: kept_steps_grow simp: add_mapping_def)
next
  case 4
  then show ?case by (auto simp: append_comment_put jsonb_list_append_def intro!: kept_steps_put)
next
  case 5
  then show ?case by (auto simp: update_step_status_put with_status_def intro!: kept_steps_put)
qed

interpretation workflow_history: step_order wf_ok wf_write kept_steps
  by unfold_locales (auto intro: workflow_scope.inv_step kept_steps_refl kept_steps_trans wf_write_keeps)

text \<open>A comment that was appended is never lost: whatever writes other sessions and tenants make
  before and after it, the step keeps it, behind everything that was there.
\<close>

theorem comments_are_kept:
  assumes "wf_ok db" "get_by_step_id t sid None db = Some s" "steps wf_write ts db db1"
    and "append_comment t sid user body now db1 = (db2, n)" "steps wf_write us db2 db3"
  shows "n = 1 \<and> (\<exists>s3 xs ys. get_by_step_id t sid None db3 = Some s3 \<and>
    st_comments s3 = st_comments s @ xs @ [comment_doc user now body] @ ys)"
proof -
  have ok1: "wf_ok db1" and k1: "kept_steps db db1"
    using assms(1,3) by (auto intro: workflow_scope.inv_steps workflow_history.le_steps)
  have w: "wf_write t db1 db2" using W_comment [of t db1 sid user body now] assms(4) by simp
  with ok1 have ok2: "wf_ok db2" by (auto intro: workflow_scope.inv_step)
  with assms(5) have ok3: "wf_ok db3" and k3: "kept_steps db2 db3"
    by (auto intro: workflow_scope.inv_steps workflow_history.le_steps)
  have s: "s \<in> set (wf_steps db)" "st_id s = sid" "in_scope db t None s"
    using get_by_step_id_Some [OF assms(2)] by auto
  obtain s1 where s1: "s1 \<in> set (wf_steps db1)" "st_id s1 = sid" "st_context s1 = st_context s"
      "prefix (st_comments s) (st_comments s1)"
    using kept_stepsE [OF k1 s(1)] s(2) by metis
  let ?s2 = "s1\<lparr>st_comments := st_comments s1 @ [comment_doc user now body]\<rparr>"
  let ?P = "\<lambda>x. st_id x = sid \<and> in_scope db1 t None x"
  have P: "?P s1" using s1 kept_steps_scope [OF k1 s(3)] by auto
  have "filter ?P (wf_steps db1) = [s1]"
    using ok1 s1 P by (intro filter_key [where k = st_id]) (auto simp: wf_ok_def)
  then have n: "n = 1"
    using assms(4) in_scope_comment_iff [OF ok1]
    by (auto simp: append_comment_def append_step_comment_def Let_def)
  have "?s2 \<in> set (wf_steps db2)"
    using append_comment_put [OF ok1, of t sid user body now] assms(4) s1(1) P
    by (force simp: put_steps_def update_where_def jsonb_list_append_def)
  then obtain s3 where s3: "s3 \<in> set (wf_steps db3)" "st_id s3 = sid" "st_context s3 = st_context s1"
      "prefix (st_comments ?s2) (st_comments s3)"
    by (rule kept_stepsE [OF k3, where s = ?s2]) (use s1(2) in auto)
  have "in_scope db2 t None ?s2"
    using in_scope_cong [of ?s2 s1 db2 db1 t None] P append_comment_put [OF ok1, of t sid user body now] assms(4)
    by (auto simp: put_steps_def)
  then have "in_scope db3 t None s3" using kept_steps_scope [OF k3] s3(3) by simp
  then have "get_by_step_id t sid None db3 = Some s3" using get_by_step_id_iff [OF ok3] s3 by simp
  moreover from s1(4) s3(4) have "\<exists>xs ys. st_comments s3 = st_comments s @ xs @ [comment_doc user now body] @ ys"
    by (fastforce simp: prefix_def)
  ultimately show ?thesis using n by blast
qed

section \<open>Pages\<close>

lemma mset_newest_first: "mset (newest_first xs) = mset xs"
  by (simp add: newest_first_def)

lemma sorted_newest_first: "sorted_wrt (\<lambda>a b. st_created_at b \<le> st_created_at a) (newest_first xs)"
proof -
  have "sorted (map (\<lambda>s. - st_created_at s) (newest_first xs))" by (simp add: newest_first_def)
  then show ?thesis by (simp add: sorted_map)
qed

lemma matching_steps_scope:
  "s \<in> set (matching_steps tenant status ot oid pid db) \<Longrightarrow>
    s \<in> set (wf_steps db) \<and> in_scope db tenant pid s \<and> (truthy_str status \<longrightarrow> Some (st_status s) = status)"
  by (auto simp: matching_steps_def Let_def join_mappings_def split: if_splits)

lemma list_by_tenant_scope:
  "s \<in> set (list_by_tenant tenant status ot oid offset limit pid db) \<Longrightarrow>
    s \<in> set (wf_steps db) \<and> in_scope db tenant pid s \<and> (truthy_str status \<longrightarrow> Some (st_status s) = status)"
proof -
  assume "s \<in> set (list_by_tenant tenant status ot oid offset limit pid db)"
  then have "s \<in> set (newest_first (matching_steps tenant status ot oid pid db))"
    unfolding list_by_tenant_def by (meson in_set_dropD in_set_takeD)
  then have "s \<in> set (matching_steps tenant status ot oid pid db)"
    by (metis mset_newest_first set_mset_mset)
  then show ?thesis by (rule matching_steps_scope)
qed

lemma length_list_by_tenant:
  "length (list_by_tenant tenant status ot oid offset limit pid db) =
     min limit (count_by_tenant tenant status ot oid pid db - offset)"
  using mset_newest_first [of "matching_steps tenant status ot oid pid db"]
  by (simp add: list_by_tenant_def count_by_tenant_def) (metis min.commute size_mset)

text \<open>
  A step with two mappings to objects of the type asked for is listed, and counted, twice.
\<close>

lemma mapped_step_listed_twice:
  assumes "s \<in> set (wf_steps db)" "in_scope db t pid s" "distinct (wf_steps db)"
  shows "count_list (matching_steps t None (Some ot) None pid db) s =
    (if ot = [] then 1 else length (filter (\<lambda>m. om_step_id m = st_id s \<and> om_object_type m = ot) (wf_mappings db)))"
proof -
  have same: "count_list (map (\<lambda>_. s) ms) s = length ms" for ms :: "object_mapping list"
    by (induction ms) auto
  have c: "count_list (join_mappings db P xs) s =
      (if s \<in> set xs then length (filter (\<lambda>m. om_step_id m = st_id s \<and> P m) (wf_mappings db)) else 0)"
    if "distinct xs" for P xs
    using that by (induction xs) (auto simp: join_mappings_def count_list_0_iff same)
  have one: "count_list xs s = 1" if "distinct xs" "s \<in> set xs" for xs
    using that by (induction xs) (auto simp: count_list_0_iff)
  show ?thesis using assms c [of "filter (in_scope db t pid) (wf_steps db)"]
      one [of "filter (in_scope db t pid) (wf_steps db)"]
    by (simp add: matching_steps_def Let_def)
qed

text \<open>\<open>add_mapping\<close> takes any step id: it attaches an object to a step of another tenant.\<close>

definition two_tenants :: wf_db where
  "two_tenants = (let (db1, a) = build_context ''a'' ''ta'' ''p'' None 0 \<lparr>wf_contexts = [], wf_steps = [], wf_mappings = [], wf_principals = []\<rparr>;
     (db2, b) = build_context ''b'' ''tb'' ''p'' None 0 db1
     in fst (build_workflow_step ''b'' (cx_id b) (step_defaults ''approval'' ''publisher'') 0 db2))"

lemma mapping_crosses_tenants:
  "get_by_step_id ''ta'' ''step_b'' None two_tenants = None"
  "get_mappings_for_step ''tb'' ''step_b'' two_tenants = []"
  "map om_object_id (get_mappings_for_step ''tb'' ''step_b''
     (add_mapping ''step_b'' ''media_buy'' ''mb_of_ta'' ''create'' 0 two_tenants)) = [''mb_of_ta'']"
  by code_simp+

end
