(* ===== verification/Task_Tools.thy ===== *)
theory Task_Tools
  imports Workflow
begin

text \<open>
  The buyer's task tools of src/src/core/tools/task_management.py over the workflow tables:
  list_tasks, get_task_status and complete_task, with the two status vocabularies and the
  classification of steps. Request and response models of the SDK are their fields; the
  validation of a terminal payload against the SDK's union is a parameter. An audit entry is
  appended to a log beside the tables.
\<close>

section \<open>Vocabularies\<close>

definition spec_status_to_workflow_status :: "(string \<times> string option) list" where
  "spec_status_to_workflow_status = [
     (''submitted'', Some ''pending''), (''working'', Some ''in_progress''),
     (''input-required'', Some ''requires_approval''), (''completed'', Some ''completed''),
     (''failed'', Some ''failed''), (''canceled'', None), (''rejected'', None), (''auth-required'', None)]"

definition workflow_status_to_spec_status :: "(string \<times> string) list" where
  "workflow_status_to_spec_status = [
     (''pending'', ''submitted''), (''in_progress'', ''working''), (''requires_approval'', ''input-required''),
     (''completed'', ''completed''), (''failed'', ''failed'')]"

definition task_type_by_tool :: "(string \<times> string) list" where
  "task_type_by_tool = [(''create_media_buy'', ''create_media_buy''),
     (''update_media_buy'', ''update_media_buy''), (''sync_creatives'', ''sync_creatives'')]"

definition domain_by_task_type :: "(string \<times> string) list" where
  "domain_by_task_type = [(''create_media_buy'', ''media-buy''),
     (''update_media_buy'', ''media-buy''), (''sync_creatives'', ''media-buy'')]"

definition spec_task_type :: "workflow_step \<Rightarrow> string res" where
  "spec_task_type s = (case map_of task_type_by_tool (or_str (st_tool_name s) []) of
     None \<Rightarrow> Inl (AdCPValidationError ''task_type'') | Some t \<Rightarrow> Inr t)"

definition spec_task_status :: "workflow_step \<Rightarrow> string" where
  "spec_task_status s = (case map_of workflow_status_to_spec_status (st_status s) of
     None \<Rightarrow> ''unknown'' | Some t \<Rightarrow> t)"

definition task_domain :: "string \<Rightarrow> string res" where
  "task_domain t = (case map_of domain_by_task_type t of None \<Rightarrow> Inl (OtherException ''KeyError'') | Some d \<Rightarrow> Inr d)"

definition task_timestamps :: "workflow_step \<Rightarrow> instant \<times> instant \<times> instant option" where
  "task_timestamps s = (st_created_at s,
     (case st_completed_at s of None \<Rightarrow> st_created_at s | Some t \<Rightarrow> t), st_completed_at s)"

section \<open>list_tasks\<close>

definition request_summary :: "doc option \<Rightarrow> doc option" where
  "request_summary rd = (case rd of None \<Rightarrow> None
     | Some d \<Rightarrow> if d = [] then None
       else let nested = (if json_truthy (doc_get d ''request'') then doc_get d ''request'' else JObj [])
         in Some [(''operation'', doc_get d ''operation''), (''media_buy_id'', doc_get d ''media_buy_id''),
           (''po_number'', case nested of JObj n \<Rightarrow> doc_get n ''po_number'' | _ \<Rightarrow> JNull)])"

record task_summary =
  ts_task_id :: string
  ts_task_type :: string
  ts_domain :: string
  ts_status :: string
  ts_created_at :: instant
  ts_updated_at :: instant
  ts_completed_at :: "instant option"
  ts_context_id :: string
  ts_tool_name :: "string option"
  ts_owner :: string
  ts_associated_objects :: "(string \<times> string \<times> string) list"
  ts_error_message :: "string option"
  ts_summary :: "doc option"

record list_response =
  lr_status :: string
  lr_tasks :: "task_summary list"
  lr_total_matching :: "nat option"
  lr_returned :: nat
  lr_has_more :: bool
  lr_total_count :: "nat option"

definition list_tasks_response :: "task_summary list \<Rightarrow> nat option \<Rightarrow> nat \<Rightarrow> nat \<Rightarrow> list_response" where
  "list_tasks_response tasks t limit offset = \<lparr>lr_status = ''completed'', lr_tasks = tasks,
     lr_total_matching = t, lr_returned = length tasks,
     lr_has_more = (case t of None \<Rightarrow> False | Some n \<Rightarrow> offset + limit < n), lr_total_count = t\<rparr>"

record list_filters =
  lf_status :: "string option"
  lf_statuses :: "string list option"

record list_request =
  lq_filters :: "list_filters option"
  lq_max_results :: "nat option"

definition task_summary_of :: "object_mapping list \<Rightarrow> workflow_step \<Rightarrow> task_summary res" where
  "task_summary_of mappings s = (case spec_task_type s of Inl e \<Rightarrow> Inl e
     | Inr task_type \<Rightarrow> (case task_domain task_type of Inl e \<Rightarrow> Inl e
       | Inr domain \<Rightarrow> let (created, updated, completed) = task_timestamps s
         in Inr \<lparr>ts_task_id = st_id s, ts_task_type = task_type, ts_domain = domain,
           ts_status = spec_task_status s, ts_created_at = created, ts_updated_at = updated,
           ts_completed_at = completed, ts_context_id = st_context s, ts_tool_name = st_tool_name s,
           ts_owner = st_owner s,
           ts_associated_objects = map (\<lambda>m. (om_object_type m, om_object_id m, om_action m)) mappings,
           ts_error_message = (if st_status s = ''failed'' then st_error_message s else None),
           ts_summary = request_summary (st_request_data s)\<rparr>))"

fun format_tasks :: "(string \<Rightarrow> object_mapping list option) \<Rightarrow> workflow_step list \<Rightarrow> task_summary list res" where
  "format_tasks ms [] = Inr []"
| "format_tasks ms (s # ss) = (case task_summary_of (case ms (st_id s) of None \<Rightarrow> [] | Some x \<Rightarrow> x) s of
     Inl e \<Rightarrow> Inl e
   | Inr t \<Rightarrow> (case format_tasks ms ss of Inl e \<Rightarrow> Inl e | Inr ts \<Rightarrow> Inr (t # ts)))"

text \<open>The status asked for, in the buyer's words: the singular field, else the first of the plural one.\<close>

definition asked_status :: "list_request \<Rightarrow> string option" where
  "asked_status req = (case lq_filters req of None \<Rightarrow> None
     | Some f \<Rightarrow> (case lf_status f of Some s \<Rightarrow> Some s
       | None \<Rightarrow> (case lf_statuses f of Some (s # _) \<Rightarrow> Some s | _ \<Rightarrow> None)))"

text \<open>\<open>dict.get\<close> on the vocabulary: a missing key and a None value are both None.\<close>

definition workflow_status :: "string \<Rightarrow> string option" where
  "workflow_status s = (case map_of spec_status_to_workflow_status s of None \<Rightarrow> None | Some w \<Rightarrow> w)"

definition page_limit :: "list_request \<Rightarrow> nat" where
  "page_limit req = (case lq_max_results req of None \<Rightarrow> 20 | Some n \<Rightarrow> if n = 0 then 20 else n)"

definition list_tasks_impl :: "string \<Rightarrow> string \<Rightarrow> list_request \<Rightarrow> wf_db \<Rightarrow> list_response res" where
  "list_tasks_impl tenant pid req db =
     (let status = Option.bind (asked_status req) workflow_status
      in if asked_status req \<noteq> None \<and> status = None then Inr (list_tasks_response [] (Some 0) 0 0)
         else let limit = page_limit req; offset = 0;
             t = count_by_tenant tenant status None None (Some pid) db;
             tasks = list_by_tenant tenant status None None offset limit (Some pid) db
           in case format_tasks (get_mappings_for_steps tenant (map st_id tasks) db) tasks of
               Inl e \<Rightarrow> Inl e
             | Inr ts \<Rightarrow> Inr (list_tasks_response ts (Some t) limit offset))"

section \<open>get_task_status\<close>

record history_item =
  hi_timestamp :: string
  hi_type :: string
  hi_data :: doc

definition history_item_of :: "string \<Rightarrow> instant option \<Rightarrow> doc option \<Rightarrow> history_item list" where
  "history_item_of kind at_time data = (case (at_time, data) of
     (Some t, Some d) \<Rightarrow> [\<lparr>hi_timestamp = isoformat t, hi_type = kind, hi_data = d\<rparr>] | _ \<Rightarrow> [])"

definition task_history :: "workflow_step \<Rightarrow> history_item list" where
  "task_history s = history_item_of ''request'' (Some (st_created_at s)) (st_request_data s) @
     history_item_of ''response'' (st_completed_at s) (st_response_data s)"

record 'r task_detail =
  td_task_id :: string
  td_task_type :: string
  td_protocol :: string
  td_status :: string
  td_created_at :: instant
  td_updated_at :: instant
  td_completed_at :: "instant option"
  td_context_id :: string
  td_tool_name :: "string option"
  td_owner :: string
  td_request_data :: "doc option"
  td_error_message :: "string option"
  td_associated_objects :: "(string \<times> string \<times> string \<times> string) list"
  td_result :: "'r option"
  td_history :: "history_item list option"

definition associated_object :: "object_mapping \<Rightarrow> string \<times> string \<times> string \<times> string" where
  "associated_object m = (om_object_type m, om_object_id m, om_action m, isoformat (om_created_at m))"

definition task_detail_of :: "string \<Rightarrow> string \<Rightarrow> string \<Rightarrow> wf_db \<Rightarrow> workflow_step \<Rightarrow> 'r task_detail" where
  "task_detail_of tenant task_type domain db s = (case task_timestamps s of (created, updated, completed) \<Rightarrow>
     \<lparr>td_task_id = st_id s, td_task_type = task_type, td_protocol = domain, td_status = spec_task_status s,
      td_created_at = created, td_updated_at = updated, td_completed_at = completed,
      td_context_id = st_context s, td_tool_name = st_tool_name s, td_owner = st_owner s,
      td_request_data = st_request_data s, td_error_message = st_error_message s,
      td_associated_objects = map associated_object (get_mappings_for_step tenant (st_id s) db),
      td_result = None, td_history = None\<rparr>)"

text \<open>\<open>validate\<close> is the SDK's \<open>AdcpAsyncResponseData.model_validate\<close>.\<close>

definition terminal_payload :: "(doc option \<Rightarrow> 'r res) \<Rightarrow> bool \<Rightarrow> workflow_step \<Rightarrow> 'r option res" where
  "terminal_payload validate include_result s =
     (if include_result \<and> st_status s = ''completed''
      then (case validate (st_response_data s) of Inl e \<Rightarrow> Inl e | Inr r \<Rightarrow> Inr (Some r)) else Inr None)"

definition get_task_status_impl ::
    "(doc option \<Rightarrow> 'r res) \<Rightarrow> string \<Rightarrow> string \<Rightarrow> string \<Rightarrow> bool \<Rightarrow> bool \<Rightarrow> wf_db \<Rightarrow> 'r task_detail res" where
  "get_task_status_impl validate tenant pid task_id include_result include_history db =
     (case get_by_step_id_or_raise tenant task_id (Some pid) db of Inl e \<Rightarrow> Inl e
      | Inr s \<Rightarrow> (case spec_task_type s of Inl e \<Rightarrow> Inl e
        | Inr task_type \<Rightarrow> (case task_domain task_type of Inl e \<Rightarrow> Inl e
          | Inr domain \<Rightarrow> (case terminal_payload validate include_result s of Inl e \<Rightarrow> Inl e
            | Inr r \<Rightarrow> Inr ((task_detail_of tenant task_type domain db s)\<lparr>td_result := r,
                td_history := (if include_history then Some (task_history s) else None)\<rparr>)))))"

section \<open>complete_task\<close>

record audit_entry =
  au_tenant :: string
  au_operation :: string
  au_principal_name :: string
  au_principal_id :: string
  au_task_id :: string
  au_new_status :: string
  au_original_status :: string
  au_task_type :: string

text \<open>The pinned request admits the two literals only.\<close>

datatype completion = Completed | Failed_task

definition completion_str :: "completion \<Rightarrow> string" where
  "completion_str c = (case c of Completed \<Rightarrow> ''completed'' | Failed_task \<Rightarrow> ''failed'')"

record complete_request =
  cq_task_id :: string
  cq_status :: completion
  cq_response_data :: "doc option"
  cq_error_message :: "string option"

record complete_response =
  cp_task_id :: string
  cp_status :: string
  cp_message :: string
  cp_completed_at :: string
  cp_completed_by :: string

definition open_statuses :: "string list" where
  "open_statuses = [''pending'', ''in_progress'', ''requires_approval'']"

definition manual_payload :: "string \<Rightarrow> doc" where
  "manual_payload pid = [(''manually_completed'', JBool True), (''completed_by'', JStr pid)]"

definition complete_task_impl ::
    "string \<Rightarrow> string \<Rightarrow> complete_request \<Rightarrow> instant \<Rightarrow> wf_db \<times> audit_entry list
      \<Rightarrow> (wf_db \<times> audit_entry list) \<times> complete_response res" where
  "complete_task_impl tenant pid req now st = (case st of (db, audit) \<Rightarrow>
     (case get_by_step_id_or_raise tenant (cq_task_id req) (Some pid) db of Inl e \<Rightarrow> (st, Inl e)
      | Inr task \<Rightarrow>
        if st_status task \<notin> set open_statuses then (st, Inl (AdCPConflictError (cq_task_id req) (st_status task)))
        else let db' = (if cq_status req = Completed
             then fst (update_step_status tenant (cq_task_id req) ''completed'' (Some now)
               (Some (if or_empty (cq_response_data req) = [] then manual_payload pid else or_empty (cq_response_data req))) None db)
             else fst (update_step_status tenant (cq_task_id req) ''failed'' (Some now) (cq_response_data req)
               (Some (or_str (cq_error_message req) ''Task marked as failed manually'')) db));
           entry = \<lparr>au_tenant = tenant, au_operation = ''complete_task'', au_principal_name = ''Manual Completion'',
             au_principal_id = or_str (Some pid) ''unknown'', au_task_id = cq_task_id req,
             au_new_status = completion_str (cq_status req), au_original_status = ''pending'',
             au_task_type = st_step_type task\<rparr>
         in ((db', audit @ [entry]),
             Inr \<lparr>cp_task_id = cq_task_id req, cp_status = completion_str (cq_status req),
               cp_message = ''Task '' @ cq_task_id req @ '' marked as '' @ completion_str (cq_status req),
               cp_completed_at = isoformat now, cp_completed_by = pid\<rparr>)))"

section \<open>The two vocabularies agree\<close>

lemma status_vocabulary:
  "u \<noteq> ''unknown'' \<Longrightarrow> spec_task_status s = u \<longleftrightarrow> workflow_status u = Some (st_status s)"
  by (auto simp: spec_task_status_def workflow_status_def workflow_status_to_spec_status_def
      spec_status_to_workflow_status_def split: if_splits)

lemma workflow_status_truthy: "workflow_status u = Some w \<Longrightarrow> w \<noteq> []"
  by (auto simp: workflow_status_def spec_status_to_workflow_status_def split: if_splits)

lemma matching_own:
  "matching_steps t status None None pid db =
     filter (\<lambda>s. in_scope db t pid s \<and> (truthy_str status \<longrightarrow> Some (st_status s) = status)) (wf_steps db)"
  by (simp add: matching_steps_def)

lemma task_summary_of_ok:
  "task_summary_of ms s = Inr x \<Longrightarrow> ts_task_id x = st_id s \<and> ts_status x = spec_task_status s \<and> is_ok (spec_task_type s)"
  by (auto simp: task_summary_of_def task_timestamps_def split: sum.splits)

lemma task_domain_total: "spec_task_type s = Inr ty \<Longrightarrow> \<exists>d. task_domain ty = Inr d"
  by (auto simp: spec_task_type_def task_type_by_tool_def task_domain_def domain_by_task_type_def
      split: option.splits if_splits)

lemma spec_task_type_error: "spec_task_type s = Inl e \<Longrightarrow> e = AdCPValidationError ''task_type''"
  by (auto simp: spec_task_type_def split: option.splits)

lemma task_summary_of_iff: "is_ok (task_summary_of ms s) \<longleftrightarrow> is_ok (spec_task_type s)"
  using task_domain_total [of s]
  by (auto simp: task_summary_of_def task_timestamps_def is_ok_iff split: sum.splits)

lemma format_tasks_cases:
  "case format_tasks ms ss of
     Inr ts \<Rightarrow> (\<forall>s\<in>set ss. is_ok (spec_task_type s)) \<and> map ts_task_id ts = map st_id ss \<and>
       map ts_status ts = map spec_task_status ss
   | Inl e \<Rightarrow> e = AdCPValidationError ''task_type'' \<and> (\<exists>s\<in>set ss. \<not> is_ok (spec_task_type s))"
proof (induction ss)
  case (Cons s ss)
  let ?x = "task_summary_of (case ms (st_id s) of None \<Rightarrow> [] | Some x \<Rightarrow> x) s"
  show ?case
  proof (cases ?x)
    case (Inl e)
    then have "e = AdCPValidationError ''task_type''" "\<not> is_ok (spec_task_type s)"
      using task_summary_of_iff [of "case ms (st_id s) of None \<Rightarrow> [] | Some x \<Rightarrow> x" s]
        spec_task_type_error [of s] task_domain_total [of s]
      by (auto simp: task_summary_of_def task_timestamps_def is_ok_iff split: sum.splits)
    with Inl show ?thesis by simp
  next
    case (Inr x)
    from task_summary_of_ok [OF Inr] have "ts_task_id x = st_id s" "ts_status x = spec_task_status s"
      "is_ok (spec_task_type s)" by auto
    with Inr Cons.IH show ?thesis by (auto split: sum.splits)
  qed
qed simp

lemma list_tasks_unfold:
  assumes "asked_status req = None \<or> Option.bind (asked_status req) workflow_status \<noteq> None"
  shows "list_tasks_impl t p req db = (let status = Option.bind (asked_status req) workflow_status;
      tasks = list_by_tenant t status None None 0 (page_limit req) (Some p) db
    in case format_tasks (get_mappings_for_steps t (map st_id tasks) db) tasks of Inl e \<Rightarrow> Inl e
      | Inr ts \<Rightarrow> Inr (list_tasks_response ts (Some (count_by_tenant t status None None (Some p) db)) (page_limit req) 0))"
  using assms by (auto simp: list_tasks_impl_def Let_def)

text \<open>A status filter speaks the vocabulary the answers are written in: list_tasks filtered by a
  status counts exactly the caller's tasks that report this status and lists only such tasks,
  also for the statuses no step ever has. Only "unknown" is outside: tasks report it, no filter
  finds them.
\<close>

theorem status_filter_agrees:
  assumes "asked_status req = Some u" "u \<noteq> ''unknown''" "list_tasks_impl t p req db = Inr r"
  shows "lr_total_matching r = Some (length (filter (\<lambda>s. in_scope db t (Some p) s \<and> spec_task_status s = u) (wf_steps db))) \<and>
    (\<forall>x\<in>set (lr_tasks r). ts_status x = u)"
proof (cases "workflow_status u")
  case None
  with assms have "r = list_tasks_response [] (Some 0) 0 0" by (simp add: list_tasks_impl_def)
  moreover have "spec_task_status s \<noteq> u" for s using status_vocabulary [OF assms(2)] None by simp
  ultimately show ?thesis by (simp add: list_tasks_response_def)
next
  case (Some w)
  let ?page = "list_by_tenant t (Some w) None None 0 (page_limit req) (Some p) db"
  have w: "w \<noteq> []" using workflow_status_truthy [OF Some] .
  obtain ts where ts: "format_tasks (get_mappings_for_steps t (map st_id ?page) db) ?page = Inr ts"
    and r: "r = list_tasks_response ts (Some (count_by_tenant t (Some w) None None (Some p) db)) (page_limit req) 0"
    using assms(1,3) Some list_tasks_unfold [of req t p db] by (auto simp: Let_def split: sum.splits)
  have "map ts_status ts = map spec_task_status ?page"
    using format_tasks_cases [where ms = "get_mappings_for_steps t (map st_id ?page) db" and ss = ?page] ts by simp
  moreover have "spec_task_status s = u" if "s \<in> set ?page" for s
    using list_by_tenant_scope [OF that] w Some status_vocabulary [OF assms(2)] by simp
  moreover have "\<forall>x\<in>set ts. ts_status x \<in> set (map ts_status ts)" by simp
  ultimately have "\<forall>x\<in>set ts. ts_status x = u" by auto
  moreover have "count_by_tenant t (Some w) None None (Some p) db =
      length (filter (\<lambda>s. in_scope db t (Some p) s \<and> spec_task_status s = u) (wf_steps db))"
    using w Some status_vocabulary [OF assms(2)] by (simp add: count_by_tenant_def matching_own eq_commute [of w])
  ultimately show ?thesis using r by (simp add: list_tasks_response_def)
qed

text \<open>list_tasks answers all of its page or nothing of it: it fails, with the task_type refusal,
  exactly when some step of the page services no task of the protocol; otherwise it lists the
  caller's newest steps, as many as fit, and says whether there are more.
\<close>

theorem list_tasks_all_or_nothing:
  fixes t p :: string and db :: wf_db
  assumes "asked_status req = None \<or> Option.bind (asked_status req) workflow_status \<noteq> None"
  defines "status \<equiv> Option.bind (asked_status req) workflow_status"
  defines "page \<equiv> list_by_tenant t status None None 0 (page_limit req) (Some p) db"
    and "n \<equiv> count_by_tenant t status None None (Some p) db"
  shows "case list_tasks_impl t p req db of
      Inl e \<Rightarrow> e = AdCPValidationError ''task_type'' \<and> (\<exists>s\<in>set page. \<not> is_ok (spec_task_type s))
    | Inr r \<Rightarrow> (\<forall>s\<in>set page. is_ok (spec_task_type s)) \<and> map ts_task_id (lr_tasks r) = map st_id page \<and>
        lr_returned r = min (page_limit req) n \<and> (lr_has_more r \<longleftrightarrow> lr_returned r < n)"
proof -
  have "length page = min (page_limit req) n" by (simp add: page_def n_def length_list_by_tenant)
  moreover note format_tasks_cases [where ms = "get_mappings_for_steps t (map st_id page) db" and ss = page]
  moreover have "length ts = length page" if "map ts_task_id ts = map st_id page" for ts
    using that by (metis length_map)
  ultimately show ?thesis
    unfolding list_tasks_unfold [OF assms(1)] Let_def status_def [symmetric] page_def [symmetric] n_def [symmetric]
    by (auto simp: list_tasks_response_def split: sum.splits)
qed

text \<open>One approval step among a buyer's tasks makes the whole listing fail.\<close>

definition approval_buyer :: wf_db where
  "approval_buyer = (let (db1, a) = build_context ''a'' ''t'' ''p'' None 0 \<lparr>wf_contexts = [], wf_steps = [], wf_mappings = [], wf_principals = []\<rparr>;
     (db2, _) = build_workflow_step ''1'' (cx_id a)
       ((step_defaults ''tool_call'' ''principal'')\<lparr>sf_tool_name := Some ''create_media_buy''\<rparr>) 1 db1
     in fst (build_workflow_step ''2'' (cx_id a)
       ((step_defaults ''approval'' ''publisher'')\<lparr>sf_tool_name := Some ''activate_gam_order''\<rparr>) 2 db2))"

lemma one_approval_hides_all:
  "list_tasks_impl ''t'' ''p'' \<lparr>lq_filters = None, lq_max_results = None\<rparr> approval_buyer =
     Inl (AdCPValidationError ''task_type'')"
  "map_sum id lr_total_matching (list_tasks_impl ''t'' ''p'' \<lparr>lq_filters = None, lq_max_results = None\<rparr>
     (approval_buyer\<lparr>wf_steps := take 1 (wf_steps approval_buyer)\<rparr>)) = Inr (Some 1)"
  by code_simp+

section \<open>Only its owner sees or finishes a task\<close>

lemma complete_task_cases:
  assumes "wf_ok db"
  obtains (absent) "complete_task_impl t p req now (db, au) = ((db, au), Inl (AdCPTaskNotFoundError (cq_task_id req)))"
      "get_by_step_id t (cq_task_id req) (Some p) db = None"
    | (closed) s where "complete_task_impl t p req now (db, au) =
        ((db, au), Inl (AdCPConflictError (cq_task_id req) (st_status s)))"
      "get_by_step_id t (cq_task_id req) (Some p) db = Some s" "st_status s \<notin> set open_statuses"
    | (finished) s rd em au' r where "complete_task_impl t p req now (db, au) =
        ((put_steps (\<lambda>x. st_id x = st_id s)
          (\<lambda>x. with_status (completion_str (cq_status req)) (Some now) rd em x) db, au'), Inr r)"
      "get_by_step_id t (cq_task_id req) (Some p) db = Some s" "st_status s \<in> set open_statuses"
      "cq_status req = Completed \<Longrightarrow> em = None" "cq_status req = Failed_task \<Longrightarrow> truthy_str em"
proof (cases "get_by_step_id t (cq_task_id req) (Some p) db")
  case None
  then show ?thesis by (intro absent) (simp_all add: complete_task_impl_def get_by_step_id_or_raise_def)
next
  case (Some s)
  from get_by_step_id_Some [OF Some] have s: "s \<in> set (wf_steps db)" "st_id s = cq_task_id req" "in_scope db t (Some p) s"
    by auto
  show ?thesis
  proof (cases "st_status s \<in> set open_statuses")
    case False
    with Some show ?thesis by (intro closed) (simp_all add: complete_task_impl_def get_by_step_id_or_raise_def)
  next
    case True
    have put: "fst (update_step_status t (cq_task_id req) st (Some now) rd em db) =
        put_steps (\<lambda>x. st_id x = st_id s) (\<lambda>x. with_status st (Some now) rd em x) db" for st rd em
      unfolding update_step_status_put [OF assms]
    proof -
      have "(st_id x = cq_task_id req \<and> in_scope db t None x) = (st_id x = st_id s)" if "x \<in> set (wf_steps db)" for x
        using step_key [OF assms that s(1)] s in_scope_weaken [OF s(3)] by auto
      then show "put_steps (\<lambda>s. st_id s = cq_task_id req \<and> in_scope db t None s) (with_status st (Some now) rd em) db =
          put_steps (\<lambda>x. st_id x = st_id s) (with_status st (Some now) rd em) db"
        by (simp add: put_steps_def update_where_def cong: map_cong)
    qed
    have or: "or_str e ''Task marked as failed manually'' \<noteq> []" for e
      by (auto simp: or_str_def split: option.splits)
    show ?thesis
    proof (cases "cq_status req")
      case Completed
      with Some True show ?thesis
        by (intro finished [where s = s])
          (auto simp: complete_task_impl_def get_by_step_id_or_raise_def Let_def put completion_str_def)
    next
      case Failed_task
      with Some True or show ?thesis
        by (intro finished [where s = s])
          (auto simp: complete_task_impl_def get_by_step_id_or_raise_def Let_def put completion_str_def)
    qed
  qed
qed

lemma complete_task_ok:
  assumes "wf_ok db" "complete_task_impl t p req now (db, au) = ((db', au'), r)"
  shows "wf_ok db'"
  using assms(1)
  by (cases rule: complete_task_cases [where t = t and p = p and req = req and now = now and au = au])
    (use assms in \<open>auto intro: put_steps_ok\<close>)

text \<open>What the caller of another tenant or principal can read of the tables.\<close>

lemma complete_task_view:
  assumes "wf_ok db" "complete_task_impl t p req now (db, au) = ((db', au'), r)" "(u, q) \<noteq> (t, p)"
  shows "filter (in_scope db' u (Some q)) (wf_steps db') = filter (in_scope db u (Some q)) (wf_steps db) \<and>
    mapping_in_scope db' v = mapping_in_scope db v \<and> wf_mappings db' = wf_mappings db"
  using assms(1)
proof (cases rule: complete_task_cases [where t = t and p = p and req = req and now = now and au = au])
  case absent
  then show ?thesis using assms(2) by simp
next
  case (closed s)
  then show ?thesis using assms(2) by simp
next
  case (finished s rd em au'' r')
  let ?f = "with_status (completion_str (cq_status req)) (Some now) rd em"
  have db': "db' = put_steps (\<lambda>x. st_id x = st_id s) (\<lambda>x. ?f x) db" using finished(1) assms(2) by simp
  from get_by_step_id_Some [OF finished(2)] have s: "s \<in> set (wf_steps db)" "in_scope db t (Some p) s" by auto
  have no: "\<not> in_scope db u (Some q) x" if "x \<in> set (wf_steps db)" "st_id x = st_id s" for x
  proof -
    have "x = s" by (rule step_key [OF assms(1) that(1) s(1) that(2)])
    then show ?thesis using s(2) assms(3)
      by (auto dest: in_scope_principals in_scope_tenants)
  qed
  have sc: "in_scope db' = in_scope db"
    unfolding db' by (intro ext put_steps_scope [OF assms(1)]) simp
  have ms: "mapping_in_scope db' v m = mapping_in_scope db v m" for m
    unfolding db' by (rule put_steps_scope [OF assms(1)]) simp
  have "filter (in_scope db u (Some q)) (wf_steps db') = filter (in_scope db u (Some q)) (wf_steps db)"
    unfolding db' put_steps_def by (simp, rule filter_update_where_other) (simp add: no)
  with sc ext [OF ms] show ?thesis by (simp add: db' put_steps_def)
qed

definition own_steps :: "string \<Rightarrow> string \<Rightarrow> wf_db \<Rightarrow> workflow_step list" where
  "own_steps u q db = filter (in_scope db u (Some q)) (wf_steps db)"

lemma matching_own_steps:
  "matching_steps u status None None (Some q) db =
     filter (\<lambda>s. truthy_str status \<longrightarrow> Some (st_status s) = status) (own_steps u q db)"
  by (simp add: matching_own own_steps_def conj_commute)

lemma get_own_step: "get_by_step_id u sid (Some q) db = find (\<lambda>s. st_id s = sid) (own_steps u q db)"
  by (simp add: get_by_step_id_def own_steps_def find_filter conj_commute)

text \<open>The two reads of a buyer see nothing but the buyer's own steps and the mappings of the tenant.\<close>

lemma reads_depend_on:
  assumes "own_steps u q db' = own_steps u q db"
    "filter (mapping_in_scope db' u) (wf_mappings db') = filter (mapping_in_scope db u) (wf_mappings db)"
  shows "list_tasks_impl u q req db' = list_tasks_impl u q req db"
    "get_task_status_impl validate u q sid ir ih db' = get_task_status_impl validate u q sid ir ih db"
proof -
  have flt: "filter (\<lambda>m. P m \<and> mapping_in_scope d u m) (wf_mappings d) =
      filter P (filter (mapping_in_scope d u) (wf_mappings d))" for d P
    by (simp add: conj_commute)
  have a: "get_mappings_for_steps u sids db' = get_mappings_for_steps u sids db" for sids
    unfolding get_mappings_for_steps_def flt assms(2) by (rule refl)
  have b: "get_mappings_for_step u i db' = get_mappings_for_step u i db" for i
    unfolding get_mappings_for_step_def flt assms(2) by (rule refl)
  show "list_tasks_impl u q req db' = list_tasks_impl u q req db"
    unfolding list_tasks_impl_def Let_def list_by_tenant_def count_by_tenant_def matching_own_steps assms(1) a
    by (rule refl)
  show "get_task_status_impl validate u q sid ir ih db' = get_task_status_impl validate u q sid ir ih db"
    unfolding get_task_status_impl_def task_detail_of_def get_by_step_id_or_raise_def get_own_step assms(1) b
    by (rule refl)
qed

text \<open>A run of complete_task calls: the caller, the request, the time.\<close>

record task_call =
  tc_tenant :: string
  tc_principal :: string
  tc_request :: complete_request
  tc_now :: instant

fun run_completions ::
    "task_call list \<Rightarrow> wf_db \<times> audit_entry list \<Rightarrow> (wf_db \<times> audit_entry list) \<times> (task_call \<times> complete_response res) list" where
  "run_completions [] st = (st, [])"
| "run_completions (c # cs) st =
     (case complete_task_impl (tc_tenant c) (tc_principal c) (tc_request c) (tc_now c) st of
        (st', r) \<Rightarrow> (case run_completions cs st' of (st'', rs) \<Rightarrow> (st'', (c, r) # rs)))"

text \<open>C16. Tasks are private to a principal: whatever other principals and tenants complete, the
  answers of list_tasks and get_task_status to this one stay as they were, and a task that is
  someone else's is answered, by every tool, exactly like one that does not exist.
\<close>

theorem tasks_are_private:
  assumes "wf_ok db" "run_completions cs (db, au) = ((db', au'), rs)"
    "\<forall>c\<in>set cs. (tc_tenant c, tc_principal c) \<noteq> (u, q)"
  shows "list_tasks_impl u q req db' = list_tasks_impl u q req db \<and>
    get_task_status_impl validate u q sid ir ih db' = get_task_status_impl validate u q sid ir ih db \<and>
    ((\<forall>s\<in>set (wf_steps db). st_id s = sid \<longrightarrow> \<not> in_scope db u (Some q) s) \<longrightarrow>
      get_task_status_impl validate u q sid ir ih db' = Inl (AdCPTaskNotFoundError sid) \<and>
      (\<forall>rq now au2. cq_task_id rq = sid \<longrightarrow>
        complete_task_impl u q rq now (db', au2) = ((db', au2), Inl (AdCPTaskNotFoundError sid))))"
proof -
  have own: "own_steps u q db' = own_steps u q db \<and>
      filter (mapping_in_scope db' u) (wf_mappings db') = filter (mapping_in_scope db u) (wf_mappings db)"
    using assms
  proof (induction cs arbitrary: db au rs)
    case (Cons c cs)
    obtain db1 au1 r where c: "complete_task_impl (tc_tenant c) (tc_principal c) (tc_request c) (tc_now c) (db, au)
        = ((db1, au1), r)" by (metis prod.exhaust)
    with Cons.prems(2) obtain rs' where rest: "run_completions cs (db1, au1) = ((db', au'), rs')"
      by (auto split: prod.splits)
    have ne: "(u, q) \<noteq> (tc_tenant c, tc_principal c)" using Cons.prems(3) by (metis list.set_intros(1))
    have "own_steps u q db1 = own_steps u q db \<and>
        filter (mapping_in_scope db1 u) (wf_mappings db1) = filter (mapping_in_scope db u) (wf_mappings db)"
      using complete_task_view [OF Cons.prems(1) c ne, of u] by (simp add: own_steps_def)
    with Cons.IH [OF complete_task_ok [OF Cons.prems(1) c] rest] Cons.prems(3) show ?case by simp
  qed simp
  moreover have "get_by_step_id u sid (Some q) db' = None"
    if "\<forall>s\<in>set (wf_steps db). st_id s = sid \<longrightarrow> \<not> in_scope db u (Some q) s"
    using own that by (auto simp: get_own_step find_None_iff own_steps_def)
  ultimately show ?thesis
    using reads_depend_on [of u q db' db]
    by (auto simp: get_task_status_impl_def complete_task_impl_def get_by_step_id_or_raise_def)
qed

section \<open>A task is finished once\<close>

lemma completion_not_open [simp]: "completion_str c \<notin> set open_statuses"
  by (cases c) (simp_all add: completion_str_def open_statuses_def)

definition closed_in :: "wf_db \<Rightarrow> string \<Rightarrow> string \<Rightarrow> bool" where
  "closed_in db sid st = (\<forall>s\<in>set (wf_steps db). st_id s = sid \<longrightarrow> st_status s = st \<and> st_status s \<notin> set open_statuses)"

lemma complete_task_status:
  assumes "wf_ok db" "complete_task_impl t p req now (db, au) = ((db', au'), r)"
  shows "closed_in db sid st \<Longrightarrow> closed_in db' sid st \<and> (cq_task_id req = sid \<longrightarrow> \<not> is_ok r)"
    "is_ok r \<Longrightarrow> closed_in db' (cq_task_id req) (completion_str (cq_status req))"
proof -
  have "(closed_in db sid st \<longrightarrow> closed_in db' sid st \<and> (cq_task_id req = sid \<longrightarrow> \<not> is_ok r)) \<and>
      (is_ok r \<longrightarrow> closed_in db' (cq_task_id req) (completion_str (cq_status req)))"
    using assms(1)
  proof (cases rule: complete_task_cases [where t = t and p = p and req = req and now = now and au = au])
    case (finished s rd em au'' r')
    let ?f = "with_status (completion_str (cq_status req)) (Some now) rd em"
    from get_by_step_id_Some [OF finished(2)] have s: "s \<in> set (wf_steps db)" "st_id s = cq_task_id req" by auto
    have db': "set (wf_steps db') = (\<lambda>x. if st_id x = st_id s then ?f x else x) ` set (wf_steps db)"
      using finished(1) assms(2) by (auto simp: put_steps_def set_update_where)
    have "closed_in db' sid st" "cq_task_id req \<noteq> sid" if c: "closed_in db sid st"
    proof -
      show "cq_task_id req \<noteq> sid" using c s finished(3) by (auto simp: closed_in_def)
      then show "closed_in db' sid st" using c s(2) by (auto simp: closed_in_def db')
    qed
    moreover have "closed_in db' (cq_task_id req) (completion_str (cq_status req))"
      using s(2) by (auto simp: closed_in_def db')
    ultimately show ?thesis by blast
  qed (use assms(2) in auto)
  then show "closed_in db sid st \<Longrightarrow> closed_in db' sid st \<and> (cq_task_id req = sid \<longrightarrow> \<not> is_ok r)"
    "is_ok r \<Longrightarrow> closed_in db' (cq_task_id req) (completion_str (cq_status req))" by auto
qed

lemma run_completions_ok:
  "wf_ok db \<Longrightarrow> run_completions cs (db, au) = ((db', au'), rs) \<Longrightarrow> wf_ok db'"
proof (induction cs arbitrary: db au rs)
  case (Cons c cs)
  obtain db1 au1 r where c: "complete_task_impl (tc_tenant c) (tc_principal c) (tc_request c) (tc_now c) (db, au)
      = ((db1, au1), r)" by (metis prod.exhaust)
  with Cons.prems(2) obtain rs' where "run_completions cs (db1, au1) = ((db', au'), rs')"
    by (auto split: prod.splits)
  with Cons.IH complete_task_ok [OF Cons.prems(1) c] show ?case by blast
qed simp

definition wins :: "string \<Rightarrow> (task_call \<times> complete_response res) list \<Rightarrow> (task_call \<times> complete_response res) list" where
  "wins sid rs = filter (\<lambda>(c, r). cq_task_id (tc_request c) = sid \<and> is_ok r) rs"

lemma closed_task_stays:
  "wf_ok db \<Longrightarrow> run_completions cs (db, au) = ((db', au'), rs) \<Longrightarrow> closed_in db sid st \<Longrightarrow>
    closed_in db' sid st \<and> wins sid rs = []"
proof (induction cs arbitrary: db au rs)
  case (Cons c cs)
  obtain db1 au1 r where c: "complete_task_impl (tc_tenant c) (tc_principal c) (tc_request c) (tc_now c) (db, au)
      = ((db1, au1), r)" by (metis prod.exhaust)
  with Cons.prems(2) obtain rs' where rest: "run_completions cs (db1, au1) = ((db', au'), rs')" and rs: "rs = (c, r) # rs'"
    by (auto split: prod.splits)
  from complete_task_status(1) [OF Cons.prems(1) c Cons.prems(3)]
  have "closed_in db1 sid st" "cq_task_id (tc_request c) = sid \<longrightarrow> \<not> is_ok r" by auto
  with Cons.IH [OF complete_task_ok [OF Cons.prems(1) c] rest] show ?case by (simp add: rs wins_def)
qed (simp add: wins_def)

text \<open>C17. A task is finished at most once: in any run of complete_task calls, by whatever callers,
  at most one call for it succeeds; its verdict is the status the task ends with, and every
  other call for it is refused.
\<close>

theorem task_finished_once:
  assumes "wf_ok db" "run_completions cs (db, au) = ((db', au'), rs)"
  shows "case wins sid rs of [] \<Rightarrow> True
    | w # ws \<Rightarrow> ws = [] \<and> closed_in db' sid (completion_str (cq_status (tc_request (fst w))))"
  using assms
proof (induction cs arbitrary: db au rs)
  case (Cons c cs)
  obtain db1 au1 r where c: "complete_task_impl (tc_tenant c) (tc_principal c) (tc_request c) (tc_now c) (db, au)
      = ((db1, au1), r)" by (metis prod.exhaust)
  with Cons.prems(2) obtain rs' where rest: "run_completions cs (db1, au1) = ((db', au'), rs')" and rs: "rs = (c, r) # rs'"
    by (auto split: prod.splits)
  have ok1: "wf_ok db1" by (rule complete_task_ok [OF Cons.prems(1) c])
  show ?case
  proof (cases "cq_task_id (tc_request c) = sid \<and> is_ok r")
    case True
    with complete_task_status(2) [OF Cons.prems(1) c] have "closed_in db1 sid (completion_str (cq_status (tc_request c)))"
      by simp
    from closed_task_stays [OF ok1 rest this] True show ?thesis by (simp add: rs wins_def)
  next
    case False
    then have "wins sid rs = wins sid rs'" by (auto simp: rs wins_def)
    with Cons.IH [OF ok1 rest] show ?thesis by simp
  qed
qed (simp add: wins_def)

section \<open>Rows and answers are well typed\<close>

definition typed_step :: "workflow_step \<Rightarrow> bool" where
  "typed_step s = (
     (st_status s \<in> set open_statuses \<and> st_completed_at s = None) \<or>
     (st_status s = ''completed'' \<and> st_completed_at s \<noteq> None \<and> st_error_message s = None) \<or>
     (st_status s = ''failed'' \<and> st_completed_at s \<noteq> None \<and> truthy_str (st_error_message s)))"

text \<open>The life of a task: opened by its tool, commented, and finished by complete_task.\<close>

inductive task_step :: "string \<Rightarrow> wf_db \<Rightarrow> wf_db \<Rightarrow> bool" where
  T_context: "task_step t db (fst (create_context t hex pid conv now db))"
    if "''ctx_'' @ hex \<notin> cx_id ` set (wf_contexts db)"
| T_open: "task_step t db db'"
    if "create_step t hex cx f now db = Inr (db', s)" "cx \<in> set (wf_contexts db)"
      "''step_'' @ hex \<notin> st_id ` set (wf_steps db)" "sf_status f \<in> set open_statuses"
| T_comment: "task_step t db (fst (append_comment t sid user body now db))"
| T_complete: "task_step t db db'"
    if "complete_task_impl t pid req now (db, au) = ((db', au'), r)"

definition rows_typed :: "wf_db \<Rightarrow> bool" where
  "rows_typed db = (wf_ok db \<and> (\<forall>s\<in>set (wf_steps db). typed_step s))"

lemma open_not_completed: "st \<in> set open_statuses \<Longrightarrow> st \<noteq> ''completed''"
  by (auto simp: open_statuses_def)

lemma typed_put:
  assumes "\<forall>s\<in>set (wf_steps db). typed_step s" "\<And>s. s \<in> set (wf_steps db) \<Longrightarrow> P s \<Longrightarrow> typed_step (f s)"
  shows "\<forall>s\<in>set (wf_steps (put_steps P f db)). typed_step s"
  using assms by (auto simp: put_steps_def elim!: update_whereE)

lemma task_step_typed: "task_step t db db' \<Longrightarrow> rows_typed db \<Longrightarrow> rows_typed db'"
proof (induction rule: task_step.cases)
  case (T_context hex db t' pid conv now)
  then show ?case using build_context_ok [of db hex t' pid conv now]
    by (auto simp: rows_typed_def create_context_def build_context_def Let_def)
next
  case (T_open t' hex cx f now db0 db1 s)
  then have b: "build_workflow_step hex (cx_id cx) f now db0 = (db1, s)"
    by (auto simp: create_step_def split: if_splits)
  have "wf_ok db1" using build_step_ok [of db0 cx hex f now] T_open b by (simp add: rows_typed_def)
  moreover have "typed_step s" "wf_steps db1 = wf_steps db0 @ [s]"
    using b T_open(7) by (auto simp: build_workflow_step_def Let_def typed_step_def dest: open_not_completed)
  ultimately show ?case using T_open by (auto simp: rows_typed_def)
next
  case (T_comment t' db0 sid user body now)
  then have ok: "wf_ok db0" by (simp add: rows_typed_def)
  have com: "typed_step (s\<lparr>st_comments := c\<rparr>) = typed_step s" for s c by (simp add: typed_step_def)
  have "\<forall>s\<in>set (wf_steps (fst (append_comment t' sid user body now db0))). typed_step s"
    unfolding append_comment_put [OF ok] by (rule typed_put) (use T_comment in \<open>auto simp: rows_typed_def com\<close>)
  then show ?case using T_comment comment_step_facts(1) [OF ok, of t' sid user body now] by (simp add: rows_typed_def)
next
  case (T_complete t' pid req now db0 au db1 au' r)
  then have ok: "wf_ok db0" and ty: "\<forall>s\<in>set (wf_steps db0). typed_step s" by (auto simp: rows_typed_def)
  have "wf_ok db1" using complete_task_ok [OF ok T_complete(4)] .
  moreover from ok have "\<forall>s\<in>set (wf_steps db1). typed_step s"
  proof (cases rule: complete_task_cases [where t = t' and p = pid and req = req and now = now and au = au])
    case (finished s rd em au'' r')
    have "typed_step (with_status (completion_str (cq_status req)) (Some now) rd em x)" for x
      using finished(4,5)
      by (cases "cq_status req") (auto simp: typed_step_def with_status_def completion_str_def open_statuses_def split: option.splits)
    then have "\<forall>s\<in>set (wf_steps (put_steps (\<lambda>x. st_id x = st_id s) (\<lambda>x. with_status (completion_str (cq_status req)) (Some now) rd em x) db0)). typed_step s"
      using ty by (intro typed_put) auto
    then show ?thesis using finished(1) T_complete(4) by simp
  qed (use T_complete(4) ty in auto)
  ultimately show ?case using T_complete by (simp add: rows_typed_def)
qed

lemma task_steps_typed: "steps task_step ts db db' \<Longrightarrow> rows_typed db \<Longrightarrow> rows_typed db'"
  by (induction rule: steps.induct) (auto dest: task_step_typed)

text \<open>C18. Through the life of tasks every row stays well typed, and so is every answer read from
  one: its status is one of the five the protocol knows, a completion time is given exactly for
  a finished task, a result only for a completed one, and a failed task says why.
\<close>

theorem task_answers_typed:
  assumes "rows_typed db" "steps task_step ts db db'"
    and "get_task_status_impl validate u q sid ir ih db' = Inr d"
  shows "td_status d \<in> snd ` set workflow_status_to_spec_status \<and>
    (td_completed_at d \<noteq> None \<longleftrightarrow> td_status d \<in> {''completed'', ''failed''}) \<and>
    (td_result d \<noteq> None \<longrightarrow> td_status d = ''completed'') \<and>
    (td_status d = ''failed'' \<longrightarrow> truthy_str (td_error_message d)) \<and>
    (td_status d = ''completed'' \<longrightarrow> td_error_message d = None \<and> (ir \<longrightarrow> td_result d \<noteq> None))"
proof -
  have ty: "rows_typed db'" by (rule task_steps_typed [OF assms(2,1)])
  from assms(3) obtain s where s: "get_by_step_id u sid (Some q) db' = Some s"
    by (auto simp: get_task_status_impl_def get_by_step_id_or_raise_def split: option.splits)
  then have "typed_step s" using ty by (auto simp: rows_typed_def dest: get_by_step_id_Some)
  moreover have "td_status d = spec_task_status s" "td_completed_at d = st_completed_at s"
    "td_error_message d = st_error_message s" "td_result d \<noteq> None \<longleftrightarrow> ir \<and> st_status s = ''completed''"
    using assms(3) s
    by (auto simp: get_task_status_impl_def get_by_step_id_or_raise_def task_detail_of_def terminal_payload_def
        task_timestamps_def split: sum.splits if_splits)
  ultimately show ?thesis
    by (auto simp: typed_step_def open_statuses_def spec_task_status_def workflow_status_to_spec_status_def)
qed

section \<open>The properties at concrete tables\<close>

definition one_task :: wf_db where
  "one_task = approval_buyer\<lparr>wf_steps := take 1 (wf_steps approval_buyer)\<rparr>"

definition ask_submitted :: list_request where
  "ask_submitted = \<lparr>lq_filters = Some \<lparr>lf_status = Some ''submitted'', lf_statuses = None\<rparr>, lq_max_results = None\<rparr>"

definition finish_it :: "string \<Rightarrow> string \<Rightarrow> completion \<Rightarrow> task_call" where
  "finish_it t p c = \<lparr>tc_tenant = t, tc_principal = p,
     tc_request = \<lparr>cq_task_id = ''step_1'', cq_status = c, cq_response_data = None, cq_error_message = None\<rparr>, tc_now = 5\<rparr>"

lemma one_task_ok: "wf_ok one_task" "rows_typed one_task"
  by (code_simp, simp add: rows_typed_def, code_simp)

lemma status_filter_agrees_witness:
  "\<exists>r. list_tasks_impl ''t'' ''p'' ask_submitted one_task = Inr r \<and> lr_total_matching r =
    Some (length (filter (\<lambda>s. in_scope one_task ''t'' (Some ''p'') s \<and> spec_task_status s = ''submitted'') (wf_steps one_task)))"
proof -
  have "is_ok (list_tasks_impl ''t'' ''p'' ask_submitted one_task)" by code_simp
  then obtain r where r: "list_tasks_impl ''t'' ''p'' ask_submitted one_task = Inr r" by (auto simp: is_ok_iff)
  have "asked_status ask_submitted = Some ''submitted''" by code_simp
  from status_filter_agrees [OF this _ r] r show ?thesis by simp
qed

lemma list_tasks_all_or_nothing_witness:
  "case list_tasks_impl ''t'' ''p'' ask_submitted one_task of Inl e \<Rightarrow> False
    | Inr r \<Rightarrow> lr_returned r = min 20 1 \<and> \<not> lr_has_more r"
proof -
  have a: "asked_status ask_submitted = None \<or> Option.bind (asked_status ask_submitted) workflow_status \<noteq> None"
    and ok: "is_ok (list_tasks_impl ''t'' ''p'' ask_submitted one_task)"
    and n: "count_by_tenant ''t'' (Option.bind (asked_status ask_submitted) workflow_status) None None (Some ''p'') one_task = 1"
    and l: "page_limit ask_submitted = 20"
    by code_simp+
  from list_tasks_all_or_nothing [OF a, of "''t''" "''p''" one_task] ok
  show ?thesis unfolding n l by (auto split: sum.splits)
qed

lemma tasks_are_private_witness:
  "\<exists>db' au' rs. run_completions [finish_it ''t'' ''other'' Completed, finish_it ''u'' ''p'' Failed_task] (one_task, []) = ((db', au'), rs) \<and>
    list_tasks_impl ''t'' ''p'' ask_submitted db' = list_tasks_impl ''t'' ''p'' ask_submitted one_task"
proof -
  let ?cs = "[finish_it ''t'' ''other'' Completed, finish_it ''u'' ''p'' Failed_task]"
  obtain db' au' rs where r: "run_completions ?cs (one_task, []) = ((db', au'), rs)" by (metis prod.exhaust)
  have "\<forall>c\<in>set ?cs. (tc_tenant c, tc_principal c) \<noteq> (''t'', ''p'')" by (simp add: finish_it_def)
  from tasks_are_private [OF one_task_ok(1) r this, of ask_submitted] r show ?thesis by blast
qed

lemma task_finished_once_witness:
  "\<exists>st rs. run_completions [finish_it ''t'' ''p'' Failed_task, finish_it ''t'' ''p'' Completed] (one_task, []) = (st, rs) \<and>
    length (wins ''step_1'' rs) = 1 \<and> closed_in (fst st) ''step_1'' ''failed''"
proof -
  let ?cs = "[finish_it ''t'' ''p'' Failed_task, finish_it ''t'' ''p'' Completed]"
  obtain db' au' rs where r: "run_completions ?cs (one_task, []) = ((db', au'), rs)" by (metis prod.exhaust)
  have "map (\<lambda>w. cq_status (tc_request (fst w))) (wins ''step_1'' (snd (run_completions ?cs (one_task, [])))) = [Failed_task]"
    by code_simp
  then obtain w where "wins ''step_1'' rs = [w]" "cq_status (tc_request (fst w)) = Failed_task" using r by auto
  with task_finished_once [OF one_task_ok(1) r, of "''step_1''"] r show ?thesis by (auto simp: completion_str_def)
qed

lemma task_answers_typed_witness:
  "\<exists>db' d. complete_task_impl ''t'' ''p'' (tc_request (finish_it ''t'' ''p'' Completed)) 5 (one_task, []) = db' \<and>
    get_task_status_impl Inr ''t'' ''p'' ''step_1'' True False (fst (fst db')) = Inr d \<and>
    td_status d = ''completed'' \<and> td_completed_at d \<noteq> None \<and> td_result d \<noteq> None"
proof -
  let ?r = "complete_task_impl ''t'' ''p'' (tc_request (finish_it ''t'' ''p'' Completed)) 5 (one_task, [])"
  obtain db' au' x where r: "?r = ((db', au'), x)" by (metis prod.exhaust)
  have st: "steps task_step [''t''] one_task db'"
    by (rule steps_Cons [where step = task_step, OF T_complete [OF r] steps_Nil])
  have "case get_task_status_impl Inr ''t'' ''p'' ''step_1'' True False (fst (fst ?r)) of
      Inl e \<Rightarrow> False | Inr d \<Rightarrow> td_status d = ''completed''"
    by code_simp
  then obtain d where d: "get_task_status_impl Inr ''t'' ''p'' ''step_1'' True False db' = Inr d" "td_status d = ''completed''"
    using r by (auto split: sum.splits)
  have "td_completed_at d \<noteq> None \<and> td_result d \<noteq> None"
    using task_answers_typed [OF one_task_ok(2) st d(1)] d(2) by simp
  with d r show ?thesis by (intro exI [of _ ?r] exI [of _ d]) simp
qed

lemma comments_are_kept_witness:
  "\<exists>db2 n s3. append_comment ''t'' ''step_1'' ''admin'' ''looks fine'' 5 one_task = (db2, n) \<and> n = 1 \<and>
    get_by_step_id ''t'' ''step_1'' None (fst (append_comment ''t'' ''step_1'' ''bot'' ''done'' 6 db2)) = Some s3 \<and>
    comment_doc ''admin'' 5 ''looks fine'' \<in> set (st_comments s3)"
proof -
  obtain db2 n where a: "append_comment ''t'' ''step_1'' ''admin'' ''looks fine'' 5 one_task = (db2, n)"
    by (metis prod.exhaust)
  have "get_by_step_id ''t'' ''step_1'' None one_task \<noteq> None" by code_simp
  then obtain s where s: "get_by_step_id ''t'' ''step_1'' None one_task = Some s" by blast
  have "steps wf_write [''t''] db2 (fst (append_comment ''t'' ''step_1'' ''bot'' ''done'' 6 db2))"
    by (auto intro: steps.intros W_comment)
  from comments_are_kept [OF one_task_ok(1) s steps_Nil a this] a show ?thesis by auto
qed

end
