(* ===== verification/Registration.thy ===== *)
theory Registration
  imports Workflow Push_Config Webhook_Egress
begin

text \<open>
  A webhook registration as it is stashed in a workflow step and rehydrated
  (src/src/core/webhooks/registration.py). The held library model is the document it was
  constructed from; validating the authentication block follows the pinned type of
  src/src/core/schemas/notification.py. \<open>py\<close> is Python's \<open>str\<close> on JSON values other than strings.
\<close>

section \<open>The authentication block\<close>

text \<open>Absent, not a list, or a list whose entries must be members of the enum.\<close>

definition block_schemes :: "doc \<Rightarrow> validation_error list + string list" where
  "block_schemes d = (case map_of d ''schemes'' of
     None \<Rightarrow> Inl [([''schemes''], ''missing'')]
   | Some (JList xs) \<Rightarrow> (let ss = map (\<lambda>j. case j of JStr s \<Rightarrow> s | _ \<Rightarrow> []) xs
       in case scheme_errors ss of [] \<Rightarrow> Inr ss | es \<Rightarrow> Inl es)
   | Some _ \<Rightarrow> Inl [([''schemes''], ''list_type'')])"

definition block_credentials :: "doc \<Rightarrow> validation_error list + string" where
  "block_credentials d = (case map_of d ''credentials'' of
     None \<Rightarrow> Inl [([''credentials''], ''missing'')]
   | Some (JStr c) \<Rightarrow> (case credential_errors (Some c) of [] \<Rightarrow> Inr c | es \<Rightarrow> Inl es)
   | Some _ \<Rightarrow> Inl [([''credentials''], ''string_type'')])"

definition extra_errors :: "doc \<Rightarrow> validation_error list" where
  "extra_errors d = map (\<lambda>(k, _). ([k], ''extra_forbidden'')) (filter (\<lambda>(k, _). k \<noteq> ''schemes'' \<and> k \<noteq> ''credentials'') d)"

definition errors_of :: "validation_error list + 'a \<Rightarrow> validation_error list" where
  "errors_of r = (case r of Inl es \<Rightarrow> es | Inr _ \<Rightarrow> [])"

text \<open>\<open>PushAuthentication.model_validate\<close> and the block in wire form.\<close>

definition validate_auth_block :: "json \<Rightarrow> validation_error list + push_authentication" where
  "validate_auth_block j = (case j of
     JObj d \<Rightarrow> (case errors_of (block_schemes d) @ errors_of (block_credentials d) @ extra_errors d of
         [] \<Rightarrow> push_authentication_block (projr (block_schemes d)) (Some (projr (block_credentials d)))
       | es \<Rightarrow> Inl es)
   | _ \<Rightarrow> Inl [([], ''model_type'')])"

definition scheme_str :: "auth_scheme \<Rightarrow> string" where
  "scheme_str s = (case s of Bearer \<Rightarrow> ''Bearer'' | HMAC_SHA256 \<Rightarrow> ''HMAC-SHA256'')"

definition dump_auth_block :: "push_authentication \<Rightarrow> json" where
  "dump_auth_block b = JObj [(''schemes'', JList (map (\<lambda>s. JStr (scheme_str s)) (pa_schemes b))),
     (''credentials'', JStr (pa_credentials b))]"

section \<open>The stash\<close>

definition json_str :: "(json \<Rightarrow> string) \<Rightarrow> json \<Rightarrow> string" where
  "json_str py j = (case j of JStr s \<Rightarrow> s | _ \<Rightarrow> py j)"

text \<open>\<open>str(document.get("url") or "")\<close>.\<close>

definition stash_url :: "(json \<Rightarrow> string) \<Rightarrow> doc \<Rightarrow> string" where
  "stash_url py d = (if json_truthy (doc_get d ''url'') then json_str py (doc_get d ''url'') else [])"

fun join_dots :: "string list \<Rightarrow> string" where
  "join_dots [] = []"
| "join_dots [s] = s"
| "join_dots (s # ss) = s @ ''.'' @ join_dots ss"

text \<open>The field a refused block names: the location of the first error.\<close>

definition refused_field :: "string \<Rightarrow> validation_error list \<Rightarrow> string" where
  "refused_field fp es = fp @ ''.authentication'' @
     (let sub = join_dots (case es of [] \<Rightarrow> [] | (loc, _) # _ \<Rightarrow> loc) in if sub = [] then [] else ''.'' @ sub)"

definition from_stash :: "(json \<Rightarrow> string) \<Rightarrow> string \<Rightarrow> json \<Rightarrow> doc res" where
  "from_stash py fp stashed = (case stashed of
     JObj d \<Rightarrow>
       if blank (Some (stash_url py d)) then Inl (AdCPValidationError (fp @ ''.url''))
       else (case doc_get d ''authentication'' of
           JNull \<Rightarrow> Inr d
         | block \<Rightarrow> (case validate_auth_block block of
             Inl es \<Rightarrow> Inl (AdCPValidationError (refused_field fp es))
           | Inr b \<Rightarrow> Inr (AList.update ''authentication'' (dump_auth_block b) d)))
   | _ \<Rightarrow> Inl (AdCPValidationError fp))"

section \<open>What a registration is read for\<close>

text \<open>The held model's fields; a missing one has its default None.\<close>

definition opt_field :: "(json \<Rightarrow> string) \<Rightarrow> json \<Rightarrow> string option" where
  "opt_field py j = (case j of JNull \<Rightarrow> None | _ \<Rightarrow> Some (json_str py j))"

definition reg_auth_field :: "doc \<Rightarrow> string \<Rightarrow> json" where
  "reg_auth_field d k = (case doc_get d ''authentication'' of JObj b \<Rightarrow> doc_get b k | _ \<Rightarrow> JNull)"

definition reg_url :: "(json \<Rightarrow> string) \<Rightarrow> doc \<Rightarrow> string" where
  "reg_url py d = (case opt_field py (doc_get d ''url'') of None \<Rightarrow> [] | Some u \<Rightarrow> u)"

definition reg_authentication_type :: "(json \<Rightarrow> string) \<Rightarrow> doc \<Rightarrow> string option" where
  "reg_authentication_type py d = (case reg_auth_field d ''schemes'' of
     JList (s # _) \<Rightarrow> Some (json_str py s) | _ \<Rightarrow> None)"

definition reg_authentication_token :: "(json \<Rightarrow> string) \<Rightarrow> doc \<Rightarrow> string option" where
  "reg_authentication_token py d = opt_field py (reg_auth_field d ''credentials'')"

definition reg_operation_id :: "(json \<Rightarrow> string) \<Rightarrow> doc \<Rightarrow> string option" where
  "reg_operation_id py d = opt_field py (doc_get d ''operation_id'')"

definition reg_token :: "(json \<Rightarrow> string) \<Rightarrow> doc \<Rightarrow> string option" where
  "reg_token py d = opt_field py (doc_get d ''token'')"

definition to_columns :: "(json \<Rightarrow> string) \<Rightarrow> doc \<Rightarrow> config_columns" where
  "to_columns py d = \<lparr>cc_url = reg_url py d, cc_authentication_type = reg_authentication_type py d,
     cc_authentication_token = reg_authentication_token py d, cc_operation_id = reg_operation_id py d,
     cc_token = reg_token py d\<rparr>"

text \<open>\<open>model_dump(mode="json", exclude_none=True)\<close>: nulls are left out, at every depth of objects.\<close>

fun drop_nulls :: "json \<Rightarrow> json" and drop_nulls_obj :: "doc \<Rightarrow> doc" and drop_nulls_list :: "json list \<Rightarrow> json list" where
  "drop_nulls (JObj kvs) = JObj (drop_nulls_obj kvs)"
| "drop_nulls (JList xs) = JList (drop_nulls_list xs)"
| "drop_nulls j = j"
| "drop_nulls_obj [] = []"
| "drop_nulls_obj ((k, v) # kvs) = (if v = JNull then drop_nulls_obj kvs else (k, drop_nulls v) # drop_nulls_obj kvs)"
| "drop_nulls_list [] = []"
| "drop_nulls_list (x # xs) = drop_nulls x # drop_nulls_list xs"

definition to_stash :: "doc \<Rightarrow> json" where
  "to_stash d = drop_nulls (JObj d)"

section \<open>Ingest, rehydration and delivery agree\<close>

lemma scheme_of_str [simp]: "scheme_of (scheme_str k) = Some k"
  by (cases k) (simp_all add: scheme_str_def scheme_of_def)

lemma scheme_str_of: "scheme_of s = Some k \<Longrightarrow> scheme_str k = s"
  by (auto simp: scheme_of_def scheme_str_def split: if_splits)

lemma scheme_errors_Nil: "scheme_errors ss = [] \<longleftrightarrow> (\<exists>s k. ss = [s] \<and> scheme_of s = Some k)"
proof -
  have "length ss = 1 \<longleftrightarrow> (\<exists>s. ss = [s])" by (simp add: length_Suc_conv)
  then show ?thesis by (cases ss; cases "tl ss") (auto simp: scheme_errors_def)
qed

lemma block_schemes_iff:
  "block_schemes d = Inr ss \<longleftrightarrow>
     (\<exists>s k. ss = [s] \<and> map_of d ''schemes'' = Some (JList [JStr s]) \<and> scheme_of s = Some k)"
proof (cases "map_of d ''schemes''")
  case None
  then show ?thesis by (simp add: block_schemes_def)
next
  case (Some j)
  show ?thesis
  proof (cases j)
    case (JList xs)
    let ?f = "\<lambda>j. case j of JStr s \<Rightarrow> s | _ \<Rightarrow> []"
    have "map ?f xs = [s] \<and> scheme_of s = Some k \<longleftrightarrow> xs = [JStr s] \<and> scheme_of s = Some k" for s k
      by (cases xs) (auto simp: scheme_of_def split: json.splits if_splits)
    then have "scheme_errors (map ?f xs) = [] \<longleftrightarrow> (\<exists>s k. xs = [JStr s] \<and> scheme_of s = Some k)"
      by (simp add: scheme_errors_Nil)
    with Some JList show ?thesis
      by (auto simp: block_schemes_def Let_def split: list.splits)
  qed (use Some in \<open>simp_all add: block_schemes_def\<close>)
qed

lemma block_credentials_iff:
  "block_credentials d = Inr c \<longleftrightarrow> map_of d ''credentials'' = Some (JStr c) \<and> 32 \<le> length c"
  by (auto simp: block_credentials_def credential_errors_def split: option.splits json.splits if_splits)

lemma errors_of_Nil: "(\<And>es. r = Inl es \<Longrightarrow> es \<noteq> []) \<Longrightarrow> errors_of r = [] \<longleftrightarrow> (\<exists>x. r = Inr x)"
  by (cases r) (auto simp: errors_of_def)

lemma block_schemes_errors: "block_schemes d = Inl es \<Longrightarrow> es \<noteq> []"
  by (auto simp: block_schemes_def Let_def split: option.splits json.splits list.splits)

lemma block_credentials_errors: "block_credentials d = Inl es \<Longrightarrow> es \<noteq> []"
  by (auto simp: block_credentials_def split: option.splits json.splits list.splits)

lemma filter_other_keys: "filter (\<lambda>(k, _). k \<noteq> a \<and> k \<noteq> b) d = [] \<longleftrightarrow> fst ` set d \<subseteq> {a, b}"
  by (induction d) auto

text \<open>The blocks the pinned type accepts.\<close>

lemma validate_auth_block_iff:
  "validate_auth_block j = Inr b \<longleftrightarrow> (\<exists>d s k c. j = JObj d \<and> map_of d ''schemes'' = Some (JList [JStr s]) \<and>
     scheme_of s = Some k \<and> map_of d ''credentials'' = Some (JStr c) \<and> 32 \<le> length c \<and>
     fst ` set d \<subseteq> {''schemes'', ''credentials''} \<and> b = \<lparr>pa_schemes = [k], pa_credentials = c\<rparr>)"
proof (cases j)
  case (JObj d)
  have x: "extra_errors d = [] \<longleftrightarrow> fst ` set d \<subseteq> {''schemes'', ''credentials''}"
    by (simp only: extra_errors_def map_is_Nil_conv filter_other_keys)
  let ?ok = "fst ` set d \<subseteq> {''schemes'', ''credentials''}"
  have nil: "errors_of (block_schemes d) @ errors_of (block_credentials d) @ extra_errors d = [] \<longleftrightarrow>
      (\<exists>ss. block_schemes d = Inr ss) \<and> (\<exists>c. block_credentials d = Inr c) \<and> ?ok"
    unfolding append_is_Nil_conv x
    using errors_of_Nil [of "block_schemes d"] errors_of_Nil [of "block_credentials d"]
      block_schemes_errors [of d] block_credentials_errors [of d] by blast
  show ?thesis
  proof (cases "errors_of (block_schemes d) @ errors_of (block_credentials d) @ extra_errors d")
    case Nil
    with nil obtain ss c where ss: "block_schemes d = Inr ss" and c: "block_credentials d = Inr c" and ok: ?ok by blast
    from ss obtain s k where s: "ss = [s]" "map_of d ''schemes'' = Some (JList [JStr s])" "scheme_of s = Some k"
      unfolding block_schemes_iff by blast
    from c have c': "map_of d ''credentials'' = Some (JStr c)" "32 \<le> length c" unfolding block_credentials_iff by auto
    have "validate_auth_block j = Inr \<lparr>pa_schemes = [k], pa_credentials = c\<rparr>"
      using JObj Nil ss c s c' by (simp add: validate_auth_block_def push_block_one)
    then show ?thesis using JObj s c' ok by (simp add: eq_commute [of b])
  next
    case (Cons e es)
    then have "validate_auth_block j = Inl (e # es)" using JObj by (simp add: validate_auth_block_def)
    moreover have no: "\<not> (map_of d ''schemes'' = Some (JList [JStr s]) \<and> scheme_of s = Some k \<and>
        map_of d ''credentials'' = Some (JStr c) \<and> 32 \<le> length c \<and> ?ok)" for s k c
    proof
      assume h: "map_of d ''schemes'' = Some (JList [JStr s]) \<and> scheme_of s = Some k \<and>
        map_of d ''credentials'' = Some (JStr c) \<and> 32 \<le> length c \<and> ?ok"
      then have "block_schemes d = Inr [s]" unfolding block_schemes_iff by blast
      moreover from h have "block_credentials d = Inr c" unfolding block_credentials_iff by blast
      ultimately show False using nil h Cons by simp
    qed
    ultimately have "validate_auth_block j \<noteq> Inr b" by simp
    moreover have "\<not> (\<exists>d' s k c. j = JObj d' \<and> map_of d' ''schemes'' = Some (JList [JStr s]) \<and>
       scheme_of s = Some k \<and> map_of d' ''credentials'' = Some (JStr c) \<and> 32 \<le> length c \<and>
       fst ` set d' \<subseteq> {''schemes'', ''credentials''} \<and> b = \<lparr>pa_schemes = [k], pa_credentials = c\<rparr>)"
    proof (intro notI, elim exE conjE)
      fix d' s k c assume h: "j = JObj d'" "map_of d' ''schemes'' = Some (JList [JStr s])" "scheme_of s = Some k"
        "map_of d' ''credentials'' = Some (JStr c)" "32 \<le> length c" "fst ` set d' \<subseteq> {''schemes'', ''credentials''}"
      with JObj have "d' = d" by simp
      with h no show False by metis
    qed
    ultimately show ?thesis by (simp only: not_False_eq_True)
  qed
qed (simp_all add: validate_auth_block_def)

lemma doc_get_update: "doc_get (AList.update k v d) k' = (if k' = k then v else doc_get d k')"
  by (simp add: doc_get_def update_conv)

lemma dump_auth_fields:
  "doc_get d ''authentication'' = dump_auth_block b \<Longrightarrow> pa_schemes b = [k] \<Longrightarrow>
    reg_authentication_type py d = Some (scheme_str k) \<and> reg_authentication_token py d = Some (pa_credentials b)"
  by (simp add: reg_authentication_type_def reg_authentication_token_def reg_auth_field_def dump_auth_block_def
      doc_get_def opt_field_def json_str_def)

text \<open>Rehydration and delivery agree on what is deliverable: a stashed registration that is
  accepted is never refused for its authentication at the delivery seam, which uses exactly the
  block the registration names or none if it names none; a stash with a block is refused exactly
  when the pinned type refuses the block, and its refusal names the block.
\<close>

theorem stash_accepts_the_deliverable:
  assumes "stash_url py d = u" "\<not> blank (Some u)"
  shows "case from_stash py fp (JObj d) of
      Inr r \<Rightarrow> reg_url py r = reg_url py d \<and> reg_operation_id py r = reg_operation_id py d \<and> reg_token py r = reg_token py d \<and>
        authentication_or_refusal (cc_authentication_type (to_columns py r)) (cc_authentication_token (to_columns py r)) =
          Inr (if doc_get d ''authentication'' = JNull then None
               else Some (projr (validate_auth_block (doc_get d ''authentication''))))
    | Inl e \<Rightarrow> doc_get d ''authentication'' \<noteq> JNull \<and>
        (\<exists>es. validate_auth_block (doc_get d ''authentication'') = Inl es \<and> e = AdCPValidationError (refused_field fp es))"
proof (cases "doc_get d ''authentication''")
  case JNull
  then have "from_stash py fp (JObj d) = Inr d" using assms by (simp add: from_stash_def)
  moreover have "reg_authentication_type py d = None" "reg_authentication_token py d = None"
    using JNull by (simp_all add: reg_authentication_type_def reg_authentication_token_def reg_auth_field_def opt_field_def)
  ultimately show ?thesis using JNull by (simp add: to_columns_def auth_none blank_def)
next
  case (JObj x)
  let ?block = "JObj x"
  have f: "from_stash py fp (JObj d) = (case validate_auth_block ?block of
        Inl es \<Rightarrow> Inl (AdCPValidationError (refused_field fp es))
      | Inr b \<Rightarrow> Inr (AList.update ''authentication'' (dump_auth_block b) d))"
    using assms JObj by (simp add: from_stash_def)
  show ?thesis
  proof (cases "validate_auth_block ?block")
    case (Inl es)
    with f JObj show ?thesis by simp
  next
    case (Inr b)
    let ?r = "AList.update ''authentication'' (dump_auth_block b) d"
    obtain s k c where b: "scheme_of s = Some k" "32 \<le> length c" "b = \<lparr>pa_schemes = [k], pa_credentials = c\<rparr>"
      using Inr by (auto simp: validate_auth_block_iff)
    have "reg_authentication_type py ?r = Some (scheme_str k)" "reg_authentication_token py ?r = Some c"
      using dump_auth_fields [of ?r b k py] b by (auto simp: doc_get_update)
    moreover have "authentication_or_refusal (Some (scheme_str k)) (Some c) = Inr (Some b)"
      using b by (simp add: auth_some deliverable_block_def)
    moreover have "reg_url py ?r = reg_url py d" "reg_operation_id py ?r = reg_operation_id py d" "reg_token py ?r = reg_token py d"
      by (simp_all add: reg_url_def reg_operation_id_def reg_token_def doc_get_update)
    ultimately show ?thesis using f Inr JObj by (simp add: to_columns_def)
  qed
qed (use assms in \<open>simp_all add: from_stash_def validate_auth_block_def\<close>)

section \<open>The stash round trip\<close>

lemma drop_nulls_obj_get: "distinct (map fst d) \<Longrightarrow> doc_get (drop_nulls_obj d) k = drop_nulls (doc_get d k)"
proof (induction d)
  case (Cons p d)
  obtain k' v where p: "p = (k', v)" by (cases p)
  have "map_of d k' = None" using Cons.prems p by (simp add: map_of_eq_None_iff)
  with Cons.IH Cons.prems show ?case by (auto simp: p doc_get_def)
qed (simp add: doc_get_def)

lemma drop_nulls_dump [simp]: "drop_nulls (dump_auth_block \<lparr>pa_schemes = [k], pa_credentials = c\<rparr>) =
    dump_auth_block \<lparr>pa_schemes = [k], pa_credentials = c\<rparr>"
  by (simp add: dump_auth_block_def)

lemma drop_nulls_truthy: "drop_nulls j = JNull \<longleftrightarrow> j = JNull"
  by (cases j) auto

text \<open>A plain field holds no object or list, so leaving nulls out does not change it.\<close>

definition plain :: "json \<Rightarrow> bool" where
  "plain j = (case j of JList _ \<Rightarrow> False | JObj _ \<Rightarrow> False | _ \<Rightarrow> True)"

lemma drop_nulls_plain: "plain j \<Longrightarrow> drop_nulls j = j"
  by (cases j) (auto simp: plain_def)

lemma dump_validates:
  "scheme_of s = Some k \<Longrightarrow> 32 \<le> length c \<Longrightarrow>
    validate_auth_block (dump_auth_block \<lparr>pa_schemes = [k], pa_credentials = c\<rparr>) = Inr \<lparr>pa_schemes = [k], pa_credentials = c\<rparr>"
  using scheme_str_of [of s k] by (simp add: validate_auth_block_iff dump_auth_block_def)

text \<open>C19. A registration survives its stash: what a step carries for an accepted registration
  rehydrates, again and again, to a registration with the same columns - the same url, scheme,
  credential, operation id and token.
\<close>

theorem stash_round_trip:
  assumes "from_stash py fp (JObj d) = Inr r" "distinct (map fst d)"
    and "\<forall>k\<in>{''url'', ''operation_id'', ''token''}. plain (doc_get d k)"
  shows "\<exists>r'. from_stash py fp (to_stash r) = Inr r' \<and> to_columns py r' = to_columns py r"
proof -
  have nb: "\<not> blank (Some (stash_url py d))" using assms(1) by (auto simp: from_stash_def split: if_splits)
  consider (none) "doc_get d ''authentication'' = JNull" "r = d"
    | (block) b where "validate_auth_block (doc_get d ''authentication'') = Inr b"
        "r = AList.update ''authentication'' (dump_auth_block b) d"
    using assms(1) nb by (auto simp: from_stash_def split: json.splits sum.splits)
  then have "(doc_get r ''authentication'' = JNull \<or> (\<exists>s k c. scheme_of s = Some k \<and> 32 \<le> length c \<and>
        doc_get r ''authentication'' = dump_auth_block \<lparr>pa_schemes = [k], pa_credentials = c\<rparr>)) \<and>
      (\<forall>k\<in>{''url'', ''operation_id'', ''token''}. doc_get r k = doc_get d k) \<and> distinct (map fst r)"
  proof cases
    case none
    then show ?thesis using assms(2) by simp
  next
    case (block b)
    then obtain s k c where "scheme_of s = Some k" "32 \<le> length c" "b = \<lparr>pa_schemes = [k], pa_credentials = c\<rparr>"
      unfolding validate_auth_block_iff by blast
    with block(2) assms(2) show ?thesis by (auto simp: doc_get_update distinct_update)
  qed
  then have r: "doc_get r ''authentication'' = JNull \<or> (\<exists>s k c. scheme_of s = Some k \<and> 32 \<le> length c \<and>
        doc_get r ''authentication'' = dump_auth_block \<lparr>pa_schemes = [k], pa_credentials = c\<rparr>)"
    and same: "\<forall>k\<in>{''url'', ''operation_id'', ''token''}. doc_get r k = doc_get d k" and dist: "distinct (map fst r)"
    by blast+
  let ?d = "drop_nulls_obj r"
  have get: "doc_get ?d k = drop_nulls (doc_get r k)" for k using drop_nulls_obj_get [OF dist] .
  have fields: "\<forall>k\<in>{''url'', ''operation_id'', ''token''}. doc_get ?d k = doc_get r k"
    using get assms(3) same by (metis drop_nulls_plain)
  have st: "to_stash r = JObj ?d" by (simp add: to_stash_def)
  have nb': "\<not> blank (Some (stash_url py ?d))" using nb fields same by (simp add: stash_url_def split: if_splits)
  have cols: "to_columns py r' = to_columns py r"
    if "\<forall>k\<in>{''url'', ''operation_id'', ''token''}. doc_get r' k = doc_get r k"
      "doc_get r' ''authentication'' = doc_get r ''authentication''" for r'
    using that by (simp add: to_columns_def reg_url_def reg_operation_id_def reg_token_def
        reg_authentication_type_def reg_authentication_token_def reg_auth_field_def)
  from r show ?thesis
  proof (elim disjE exE conjE)
    assume n: "doc_get r ''authentication'' = JNull"
    then have "from_stash py fp (JObj ?d) = Inr ?d" using nb' get by (simp add: from_stash_def)
    moreover have "to_columns py ?d = to_columns py r" by (rule cols) (use fields get n in simp_all)
    ultimately show ?thesis by (simp add: st)
  next
    fix s k c assume k: "scheme_of s = Some k" "32 \<le> length c"
      and blk: "doc_get r ''authentication'' = dump_auth_block \<lparr>pa_schemes = [k], pa_credentials = c\<rparr>"
    let ?b = "\<lparr>pa_schemes = [k], pa_credentials = c\<rparr>"
    let ?r = "AList.update ''authentication'' (dump_auth_block ?b) ?d"
    have "doc_get ?d ''authentication'' = dump_auth_block ?b" using get blk by simp
    then have "from_stash py fp (JObj ?d) = Inr ?r"
      using nb' dump_validates [OF k] by (simp add: from_stash_def dump_auth_block_def)
    moreover have "to_columns py ?r = to_columns py r"
      by (rule cols) (use fields blk in \<open>simp_all add: doc_get_update\<close>)
    ultimately show ?thesis by (simp add: st)
  qed
qed

section \<open>At a concrete registration\<close>

definition ex_credential :: string where
  "ex_credential = ''0123456789abcdef0123456789abcdef''"

definition ex_stash :: doc where
  "ex_stash = [(''url'', JStr ''https://b.example/w''), (''token'', JNull),
     (''authentication'', JObj [(''schemes'', JList [JStr ''HMAC-SHA256'']), (''credentials'', JStr ex_credential)])]"

lemma stash_accepts_the_deliverable_witness:
  "\<exists>r. from_stash (\<lambda>_. []) ''f'' (JObj ex_stash) = Inr r \<and>
    authentication_or_refusal (cc_authentication_type (to_columns (\<lambda>_. []) r)) (cc_authentication_token (to_columns (\<lambda>_. []) r)) =
      Inr (Some \<lparr>pa_schemes = [HMAC_SHA256], pa_credentials = ex_credential\<rparr>)"
proof -
  have u: "stash_url (\<lambda>_. []) ex_stash = ''https://b.example/w''" and nb: "\<not> blank (Some ''https://b.example/w'')"
    and ok: "is_ok (from_stash (\<lambda>_. []) ''f'' (JObj ex_stash))"
    and v: "validate_auth_block (doc_get ex_stash ''authentication'') = Inr \<lparr>pa_schemes = [HMAC_SHA256], pa_credentials = ex_credential\<rparr>"
    and j: "doc_get ex_stash ''authentication'' \<noteq> JNull"
    by code_simp+
  obtain r where "from_stash (\<lambda>_. []) ''f'' (JObj ex_stash) = Inr r" using ok by (auto simp: is_ok_iff)
  with stash_accepts_the_deliverable [OF u nb, of "''f''"] v j show ?thesis by simp
qed

lemma stash_round_trip_witness:
  "\<exists>r r'. from_stash (\<lambda>_. []) ''f'' (JObj ex_stash) = Inr r \<and> from_stash (\<lambda>_. []) ''f'' (to_stash r) = Inr r' \<and>
    to_columns (\<lambda>_. []) r' = to_columns (\<lambda>_. []) r"
proof -
  have ok: "is_ok (from_stash (\<lambda>_. []) ''f'' (JObj ex_stash))" by code_simp
  have d: "distinct (map fst ex_stash)" by (simp add: ex_stash_def)
  have p: "\<forall>k\<in>{''url'', ''operation_id'', ''token''}. plain (doc_get ex_stash k)"
    by (simp add: ex_stash_def doc_get_def plain_def)
  obtain r where r: "from_stash (\<lambda>_. []) ''f'' (JObj ex_stash) = Inr r" using ok by (auto simp: is_ok_iff)
  from stash_round_trip [OF r d p] r show ?thesis by blast
qed

end
