(* ===== verification/Protocol_Webhook.thy ===== *)
theory Protocol_Webhook
  imports Registration Delivery_Log
begin

text \<open>
  The sender of task-status webhooks (src/src/services/protocol_webhook_service.py), the envelope
  of src/src/core/webhooks/delivery.py and the coercion of its task type
  (src/src/core/webhook_validator.py). The SDK's payload builder, its two enums, the signer of a
  tenant and the commit of the log row are the environment. A target is the five fields the
  sender reads off a registration.
\<close>

record protocol_env =
  pv_delivery :: delivery_env
  pv_signer :: "string option \<Rightarrow> (nat \<Rightarrow> sign_attempt) option res"
  pv_is_task_type :: "string \<Rightarrow> bool"
  pv_payload :: "string \<Rightarrow> string \<Rightarrow> string \<Rightarrow> doc \<Rightarrow> string option \<Rightarrow> string option \<Rightarrow> json"
  pv_commit_error :: "exn option"

text \<open>What one send takes from the process: the fresh log id and the two clock readings.\<close>

record send_slot =
  sl_log_id :: string
  sl_start :: instant
  sl_finish :: instant

datatype audit_note =
    Sending_note string string
  | Delivered_note string string
  | Failed_note string string

definition webhook_task_type_fallback :: string where
  "webhook_task_type_fallback = ''update_media_buy''"

definition validate_webhook_task_type :: "(string \<Rightarrow> bool) \<Rightarrow> string \<Rightarrow> string" where
  "validate_webhook_task_type is_member task_type = (if is_member task_type then task_type else webhook_task_type_fallback)"

definition build_webhook_envelope ::
    "protocol_env \<Rightarrow> webhook_task_context \<Rightarrow> string \<Rightarrow> doc \<Rightarrow> string option \<Rightarrow> string option \<Rightarrow> json" where
  "build_webhook_envelope env ctx status result operation_id token =
     pv_payload env (tc_task_id ctx) status
       (validate_webhook_task_type (pv_is_task_type env) (or_str (tc_task_type ctx) [])) result operation_id token"

text \<open>Log rows and audit notes.\<close>

type_synonym sender_state = "webhook_delivery_log list \<times> audit_note list"

definition sender_headers :: headers where
  "sender_headers = [(''Content-Type'', ''application/json''), (''User-Agent'', ''AdCP-Sales-Agent/1.0'')]"

text \<open>\<open>audited\<close>: whether the branch hands an audit logger on, and the tenant has one.\<close>

definition conclude_protocol ::
    "protocol_env \<Rightarrow> send_slot \<Rightarrow> webhook_task_context \<Rightarrow> string \<Rightarrow> webhook_outcome \<Rightarrow> bool \<Rightarrow> sender_state
      \<Rightarrow> sender_state \<times> bool" where
  "conclude_protocol env slot ctx url w audited st = (case st of (logs, notes) \<Rightarrow>
     let logs' = (if records_delivery_log ctx
         then (case record_conclusion (pv_commit_error env) (the (tc_tenant_id ctx)) ctx (sl_log_id slot) url w
             (Some ((sl_finish slot - sl_start slot) div 1000)) (sl_finish slot) logs of
           Inl e \<Rightarrow> logs | Inr rows \<Rightarrow> rows)
         else logs);
       ok = (wo_kind w = Out_delivered);
       notes' = (if audited then notes @ [(if ok then Delivered_note else Failed_note) (or_str (tc_tenant_id ctx) []) (tc_task_id ctx)]
                 else notes)
     in ((logs', notes'), ok))"

definition send_with_retry_and_logging ::
    "protocol_env \<Rightarrow> send_slot \<Rightarrow> string \<Rightarrow> json \<Rightarrow> webhook_task_context \<Rightarrow> string option \<Rightarrow> string option \<Rightarrow> sender_state
      \<Rightarrow> sender_state \<times> http_request list \<times> bool" where
  "send_with_retry_and_logging env slot url payload ctx scheme credentials st =
     (let audited = truthy_str (tc_tenant_id ctx);
          st1 = (if audited then (fst st, snd st @ [Sending_note (or_str (tc_tenant_id ctx) []) (tc_task_id ctx)]) else st);
          sent = (case pv_signer env (tc_tenant_id ctx) of
              Inl e \<Rightarrow> ([], Inl e)
            | Inr signer \<Rightarrow> deliver_webhook (pv_delivery env) url payload scheme credentials (Some sender_headers) 3 signer)
      in case sent of
          (requests, Inl e) \<Rightarrow> (case conclude_protocol env slot ctx url (unexpected e) audited st1 of
             (st2, ok) \<Rightarrow> (st2, requests, ok))
        | (requests, Inr w) \<Rightarrow> (case conclude_protocol env slot ctx url w
               (if wo_kind w = Out_refused_auth then False else audited) st1 of
             (st2, ok) \<Rightarrow> (st2, requests, ok)))"

definition send_notification ::
    "protocol_env \<Rightarrow> send_slot \<Rightarrow> config_columns \<Rightarrow> json \<Rightarrow> webhook_task_context \<Rightarrow> sender_state
      \<Rightarrow> sender_state \<times> http_request list \<times> bool" where
  "send_notification env slot target payload ctx st =
     (if cc_url target = [] then (st, [], False)
      else send_with_retry_and_logging env slot (cc_url target) payload ctx (cc_authentication_type target)
        (cc_authentication_token target) st)"

definition notify ::
    "protocol_env \<Rightarrow> send_slot \<Rightarrow> config_columns \<Rightarrow> webhook_task_context \<Rightarrow> string \<Rightarrow> doc \<Rightarrow> sender_state
      \<Rightarrow> sender_state \<times> http_request list \<times> bool" where
  "notify env slot target ctx status result st =
     send_notification env slot target
       (build_webhook_envelope env ctx status result (cc_operation_id target) (cc_token target)) ctx st"

section \<open>Every delivery is booked\<close>

lemma unexpected_kind [simp]: "wo_kind (unexpected e) = Out_exhausted"
  by (simp add: unexpected_def)

text \<open>The sender never raises and books each delivery as it went: it answers True exactly for
  a delivered webhook, adds exactly the log row that is due, leaves exactly one final audit note
  unless the registration was refused for its authentication, and then it dials nothing, writes
  no row and is silent.
\<close>

theorem notification_booked:
  assumes "notify env slot target ctx status result (logs, notes) = ((logs', notes'), requests, ok)"
    and "cc_url target \<noteq> []" "pv_signer env (tc_tenant_id ctx) = Inr signer"
    and "deliver_webhook (pv_delivery env) (cc_url target)
      (build_webhook_envelope env ctx status result (cc_operation_id target) (cc_token target))
      (cc_authentication_type target) (cc_authentication_token target) (Some sender_headers) 3 signer = (dialled, out)"
  defines "w \<equiv> (case out of Inl e \<Rightarrow> unexpected e | Inr w \<Rightarrow> w)"
  shows "requests = dialled \<and> ok = (wo_kind w = Out_delivered) \<and>
    logs' = (if records_delivery_log ctx \<and> pv_commit_error env = None
      then record_outcome (the (tc_tenant_id ctx)) ctx (sl_log_id slot) (cc_url target) w
        (Some ((sl_finish slot - sl_start slot) div 1000)) (sl_finish slot) logs
      else logs) \<and>
    length notes' = length notes + (if \<not> truthy_str (tc_tenant_id ctx) then 0 else if wo_kind w = Out_refused_auth then 1 else 2) \<and>
    (wo_kind w = Out_refused_auth \<longrightarrow> requests = [] \<and> logs' = logs)"
proof -
  have quiet: "dialled = []" if "wo_kind w = Out_refused_auth"
  proof -
    from assms(4) show ?thesis
      by (cases rule: deliver_webhook_cases)
        (use that conclude_not_refused_auth in \<open>auto simp: w_def split: sum.splits\<close>)
  qed
  have rec: "(case record_conclusion (pv_commit_error env) t ctx i u x rt now l of Inl e \<Rightarrow> l | Inr rows \<Rightarrow> rows) =
      (if pv_commit_error env = None then record_outcome t ctx i u x rt now l else l)" for t i u x rt now l
    by (simp add: record_conclusion_def split: option.splits)
  have none: "record_outcome t ctx i u w rt now l = l" if "wo_kind w = Out_refused_auth" for t i u rt now l
    using that by (simp add: record_outcome_def outcome_status_def)
  show ?thesis
  proof (cases out)
    case (Inl e)
    then show ?thesis using assms(1-4) quiet none
      by (auto simp: w_def notify_def send_notification_def send_with_retry_and_logging_def conclude_protocol_def
          Let_def rec split: if_splits)
  next
    case (Inr x)
    then show ?thesis using assms(1-4) quiet none
      by (auto simp: w_def notify_def send_notification_def send_with_retry_and_logging_def conclude_protocol_def
          Let_def rec split: if_splits)
  qed
qed

definition ex_protocol :: protocol_env where
  "ex_protocol = \<lparr>pv_delivery = ex_delivery, pv_signer = (\<lambda>_. Inr None), pv_is_task_type = (\<lambda>_. True),
     pv_payload = (\<lambda>_ _ _ _ _ _. JNull), pv_commit_error = None\<rparr>"

definition ex_task_context :: webhook_task_context where
  "ex_task_context = \<lparr>tc_task_id = ''step_1'', tc_task_type = Some ''create_media_buy'', tc_tenant_id = Some ''t'',
     tc_principal_id = Some ''p'', tc_media_buy_id = None, tc_sequence_number = 1, tc_notification_type = None\<rparr>"

definition ex_target :: config_columns where
  "ex_target = \<lparr>cc_url = ''u'', cc_authentication_type = Some ''Basic'', cc_authentication_token = None,
     cc_operation_id = None, cc_token = None\<rparr>"

lemma notification_booked_witness:
  "\<exists>nts. notify ex_protocol \<lparr>sl_log_id = ''l'', sl_start = 0, sl_finish = 1\<rparr> ex_target ex_task_context ''completed'' [] ([], []) =
    (([], nts), [], False) \<and> length nts = 1"
proof -
  let ?slot = "\<lparr>sl_log_id = ''l'', sl_start = 0, sl_finish = 1\<rparr>"
  obtain logs nts requests ok where
    n: "notify ex_protocol ?slot ex_target ex_task_context ''completed'' [] ([], []) = ((logs, nts), requests, ok)"
    by (metis prod.exhaust)
  obtain w where a: "authentication_or_refusal (Some ''Basic'') None = Inl w" and k: "wo_kind w = Out_refused_auth"
  proof -
    have "authentication_or_refusal (Some ''Basic'') None = Inl (refusal (Some ''Basic'') Scheme_not_in_spec)"
      by (simp add: auth_decision scheme_of_def blank_def is_space_def)
    then show thesis by (rule that) (simp add: refusal_def)
  qed
  have u: "cc_url ex_target \<noteq> []" and s: "pv_signer ex_protocol (tc_tenant_id ex_task_context) = Inr None"
    by (simp_all add: ex_target_def ex_protocol_def)
  have d: "deliver_webhook (pv_delivery ex_protocol) (cc_url ex_target)
      (build_webhook_envelope ex_protocol ex_task_context ''completed'' [] (cc_operation_id ex_target) (cc_token ex_target))
      (cc_authentication_type ex_target) (cc_authentication_token ex_target) (Some sender_headers) 3 None = ([], Inr w)"
    using a by (simp add: deliver_webhook_def ex_target_def)
  have t: "truthy_str (tc_tenant_id ex_task_context)" by (simp add: ex_task_context_def)
  note booked = notification_booked [OF n u s d, unfolded sum.case]
  have "requests = []" "logs = []" using booked k by blast+
  moreover have "\<not> ok" "length nts = 1" using booked k t by simp_all
  ultimately show ?thesis using n by (intro exI [of _ nts]) simp
qed

end
