(* ===== verification/Context_Manager.thy ===== *)
theory Context_Manager
  imports Task_Tools Protocol_Webhook
begin

text \<open>
  The context manager (src/src/core/context_manager.py): the writers of workflow steps that
  commit by themselves, the audit of failures, the reads of the approval queue, and the push
  notifications that a status update sends. A notification is put on an outbox as the arguments
  of the sender's \<open>notify\<close>; whether an event loop is running decides only when it is sent. A
  \<open>fault\<close> is a database exception of the call's commit, which rolls it back.
\<close>

record push_notice =
  pn_target :: config_columns
  pn_context :: webhook_task_context
  pn_status :: string
  pn_result :: doc

record manager_env =
  mg_py :: "json \<Rightarrow> string"
  mg_is_status :: "string \<Rightarrow> bool"

type_synonym manager_state = "wf_db \<times> push_notice list"

section \<open>Contexts\<close>

definition commit_rows :: "exn option \<Rightarrow> wf_db \<Rightarrow> wf_db \<times> 'a \<Rightarrow> (wf_db \<times> 'a) res" where
  "commit_rows fault db r = (case fault of Some e \<Rightarrow> Inl e
     | None \<Rightarrow> if distinct (map cx_id (wf_contexts (fst r))) \<and> distinct (map st_id (wf_steps (fst r))) \<and>
           list_all (\<lambda>s. list_ex (\<lambda>c. cx_id c = st_context s) (wf_contexts (fst r))) (wf_steps (fst r))
         then Inr r else Inl IntegrityError)"

definition manager_create_context ::
    "exn option \<Rightarrow> string \<Rightarrow> string \<Rightarrow> string \<Rightarrow> json list option \<Rightarrow> instant \<Rightarrow> wf_db \<Rightarrow> (wf_db \<times> wf_context) res" where
  "manager_create_context fault hex tenant pid conv now db = commit_rows fault db (build_context hex tenant pid conv now db)"

definition get_context :: "string \<Rightarrow> wf_db \<Rightarrow> wf_context option" where
  "get_context cid db = find (\<lambda>c. cx_id c = cid) (wf_contexts db)"

definition get_or_create_context ::
    "exn option \<Rightarrow> string \<Rightarrow> string \<Rightarrow> string \<Rightarrow> string option \<Rightarrow> bool \<Rightarrow> instant \<Rightarrow> wf_db \<Rightarrow> (wf_db \<times> wf_context option) res" where
  "get_or_create_context fault hex tenant pid cid is_async now db =
     (if \<not> is_async then Inr (db, None)
      else if truthy_str cid then Inr (db, get_context (the cid) db)
      else (case manager_create_context fault hex tenant pid None now db of
          Inl e \<Rightarrow> Inl e | Inr (db', c) \<Rightarrow> Inr (db', Some c)))"

definition update_activity :: "string \<Rightarrow> instant \<Rightarrow> wf_db \<Rightarrow> wf_db" where
  "update_activity cid now db =
     db\<lparr>wf_contexts := update_where (\<lambda>c. cx_id c = cid) (\<lambda>c. c\<lparr>cx_last_activity_at := now\<rparr>) (wf_contexts db)\<rparr>"

definition message_doc :: "string \<Rightarrow> string \<Rightarrow> instant \<Rightarrow> json" where
  "message_doc role content now =
     JObj [(''role'', JStr role), (''content'', JStr content), (''timestamp'', JStr (isoformat now))]"

definition add_message :: "string \<Rightarrow> string \<Rightarrow> string \<Rightarrow> instant \<Rightarrow> wf_db \<Rightarrow> wf_db" where
  "add_message cid role content now db = db\<lparr>wf_contexts := update_where (\<lambda>c. cx_id c = cid)
     (\<lambda>c. c\<lparr>cx_history := jsonb_list_append (cx_history c) (message_doc role content now),
            cx_last_activity_at := now\<rparr>) (wf_contexts db)\<rparr>"

definition get_contexts_for_principal :: "string \<Rightarrow> string \<Rightarrow> nat \<Rightarrow> wf_db \<Rightarrow> wf_context list" where
  "get_contexts_for_principal tenant pid limit db = take limit (sort_key (\<lambda>c. - cx_last_activity_at c)
     (filter (\<lambda>c. cx_tenant c = tenant \<and> cx_principal c = pid) (wf_contexts db)))"

section \<open>Steps\<close>

definition create_workflow_step ::
    "exn option \<Rightarrow> string \<Rightarrow> string \<Rightarrow> step_fields \<Rightarrow> instant \<Rightarrow> wf_db \<Rightarrow> (wf_db \<times> workflow_step) res" where
  "create_workflow_step fault hex cid f now db = commit_rows fault db (build_workflow_step hex cid f now db)"

definition mark_human_needed ::
    "exn option \<Rightarrow> string \<Rightarrow> string \<Rightarrow> string \<Rightarrow> string option \<Rightarrow> instant \<Rightarrow> wf_db \<Rightarrow> (wf_db \<times> workflow_step) res" where
  "mark_human_needed fault hex cid reason details now db = create_workflow_step fault hex cid
     ((step_defaults ''approval'' ''publisher'')\<lparr>sf_status := ''requires_approval'',
        sf_request_data := Some [(''reason'', JStr reason),
          (''details'', case details of None \<Rightarrow> JNull | Some d \<Rightarrow> JStr d)],
        sf_initial_comment := Some reason\<rparr>) now db"

text \<open>The lookup of a step, scoped to a tenant when one is given.\<close>

definition manager_step :: "string \<Rightarrow> string option \<Rightarrow> wf_db \<Rightarrow> workflow_step option" where
  "manager_step sid tenant db = find (\<lambda>s. st_id s = sid \<and>
     (if truthy_str tenant then in_scope db (the tenant) None s else True)) (wf_steps db)"

record step_update =
  su_status :: "string option"
  su_response_data :: "doc option"
  su_error_message :: "string option"
  su_transaction_details :: "doc option"
  su_add_comment :: "(string \<times> string) list"
  su_tenant :: "string option"

definition no_update :: step_update where
  "no_update = \<lparr>su_status = None, su_response_data = None, su_error_message = None,
     su_transaction_details = None, su_add_comment = [], su_tenant = None\<rparr>"

definition updated_step :: "step_update \<Rightarrow> instant \<Rightarrow> workflow_step \<Rightarrow> workflow_step" where
  "updated_step u now s = (let s1 = (if truthy_str (su_status u)
       then s\<lparr>st_status := the (su_status u), st_completed_at :=
         (if su_status u \<in> {Some ''completed'', Some ''failed''} \<and> st_completed_at s = None then Some now
          else st_completed_at s)\<rparr> else s)
     in s1\<lparr>st_response_data := (case su_response_data u of None \<Rightarrow> st_response_data s1 | d \<Rightarrow> d),
           st_error_message := (case su_error_message u of None \<Rightarrow> st_error_message s1 | e \<Rightarrow> e),
           st_transaction_details := (case su_transaction_details u of None \<Rightarrow> st_transaction_details s1 | d \<Rightarrow> d)\<rparr>)"

text \<open>\<open>d.get(k, default)\<close> on the comment argument.\<close>

definition get_default :: "(string \<times> string) list \<Rightarrow> string \<Rightarrow> string \<Rightarrow> string" where
  "get_default d k v = (case map_of d k of None \<Rightarrow> v | Some x \<Rightarrow> x)"

section \<open>Push notifications\<close>

definition notice_for ::
    "manager_env \<Rightarrow> wf_context \<Rightarrow> workflow_step \<Rightarrow> string \<Rightarrow> doc \<Rightarrow> object_mapping \<Rightarrow> push_notice" where
  "notice_for env cx s new_status registration m = \<lparr>pn_target = to_columns (mg_py env) registration,
     pn_context = \<lparr>tc_task_id = st_id s, tc_task_type = Some (or_str (st_tool_name s) (or_str (Some (om_action m)) ''unknown'')),
       tc_tenant_id = Some (cx_tenant cx), tc_principal_id = Some (cx_principal cx), tc_media_buy_id = None,
       tc_sequence_number = 1, tc_notification_type = None\<rparr>,
     pn_status = (if mg_is_status env new_status then new_status else ''unknown''),
     pn_result = or_empty (st_response_data s)\<rparr>"

text \<open>
  What one mapping sends. The stash is the step's, so every mapping of a step decides alike; a
  stash that is not a dict raises, which ends the whole notification.
\<close>

definition stashed_config :: "workflow_step \<Rightarrow> json" where
  "stashed_config s = (let c = doc_get (or_empty (st_request_data s)) ''push_notification_config''
     in if json_truthy c then c else JObj [])"

definition mapping_notice ::
    "manager_env \<Rightarrow> wf_context \<Rightarrow> workflow_step \<Rightarrow> string \<Rightarrow> object_mapping \<Rightarrow> push_notice list res" where
  "mapping_notice env cx s new_status m = (case stashed_config s of
     JObj cfg \<Rightarrow>
       if blank (Some (stash_url (mg_py env) cfg)) then Inr []
       else (case from_stash (mg_py env) ''push_notification_config'' (JObj cfg) of
           Inl _ \<Rightarrow> Inr []
         | Inr registration \<Rightarrow> Inr [notice_for env cx s new_status registration m])
   | _ \<Rightarrow> Inl (OtherException ''AttributeError''))"

fun mapping_notices ::
    "manager_env \<Rightarrow> wf_context \<Rightarrow> workflow_step \<Rightarrow> string \<Rightarrow> object_mapping list \<Rightarrow> push_notice list" where
  "mapping_notices env cx s new_status [] = []"
| "mapping_notices env cx s new_status (m # ms) = (case mapping_notice env cx s new_status m of
     Inl _ \<Rightarrow> []
   | Inr ns \<Rightarrow> ns @ mapping_notices env cx s new_status ms)"

definition send_push_notifications :: "manager_env \<Rightarrow> wf_db \<Rightarrow> workflow_step \<Rightarrow> string \<Rightarrow> push_notice list" where
  "send_push_notifications env db s new_status =
     (let ms = filter (\<lambda>m. om_step_id m = st_id s) (wf_mappings db) in
      if ms = [] then []
      else (case context_of db s of None \<Rightarrow> [] | Some cx \<Rightarrow> mapping_notices env cx s new_status ms))"

definition update_workflow_step ::
    "manager_env \<Rightarrow> exn option \<Rightarrow> string \<Rightarrow> step_update \<Rightarrow> instant \<Rightarrow> manager_state \<Rightarrow> manager_state \<times> unit res" where
  "update_workflow_step env fault sid u now st = (case st of (db, outbox) \<Rightarrow>
     (case manager_step sid (su_tenant u) db of None \<Rightarrow> (st, Inr ())
      | Some s \<Rightarrow>
        let db1 = put_step (updated_step u now s) db;
            db2 = (if su_add_comment u = [] then db1
              else fst (append_step_comment sid (get_default (su_add_comment u) ''user'' ''system'')
                (get_default (su_add_comment u) ''text'' (get_default (su_add_comment u) ''comment'' []))
                (su_tenant u) now db1))
        in (case fault of Some e \<Rightarrow> (st, Inl e)
          | None \<Rightarrow> if truthy_str (su_status u)
              then (case manager_step sid (su_tenant u) db2 of
                  None \<Rightarrow> ((db2, outbox), Inr ())
                | Some s' \<Rightarrow> ((db2, outbox @ send_push_notifications env db2 s' (the (su_status u))), Inr ()))
              else ((db2, outbox), Inr ()))))"

section \<open>Audits\<close>

text \<open>\<open>wire\<close> is the error as the boundary answers it: the envelope and the message; building it may raise.\<close>

definition audit_workflow_step_failure ::
    "manager_env \<Rightarrow> (exn \<Rightarrow> (doc \<times> string) res) \<Rightarrow> exn option \<Rightarrow> string \<Rightarrow> exn \<Rightarrow> instant \<Rightarrow> manager_state \<Rightarrow> manager_state" where
  "audit_workflow_step_failure env wire fault sid exc now st = (case wire exc of
     Inl _ \<Rightarrow> st
   | Inr (envelope, message) \<Rightarrow> fst (update_workflow_step env fault sid
       (no_update\<lparr>su_status := Some ''failed'', su_error_message := Some message, su_response_data := Some envelope\<rparr>) now st))"

definition audit_workflow_step_failure_if_present ::
    "manager_env \<Rightarrow> (exn \<Rightarrow> (doc \<times> string) res) \<Rightarrow> exn option \<Rightarrow> workflow_step option \<Rightarrow> exn \<Rightarrow> instant \<Rightarrow> manager_state \<Rightarrow> manager_state" where
  "audit_workflow_step_failure_if_present env wire fault s exc now st = (case s of
     None \<Rightarrow> st | Some x \<Rightarrow> audit_workflow_step_failure env wire fault (st_id x) exc now st)"

text \<open>The guarded block: \<open>body\<close> also tells which step exists when it ends.\<close>

definition audit_workflow_step_failure_ctx ::
    "manager_env \<Rightarrow> (exn \<Rightarrow> (doc \<times> string) res) \<Rightarrow> exn option \<Rightarrow> instant
      \<Rightarrow> (manager_state \<Rightarrow> manager_state \<times> workflow_step option \<times> 'a res) \<Rightarrow> manager_state \<Rightarrow> manager_state \<times> 'a res" where
  "audit_workflow_step_failure_ctx env wire fault now body st = (case body st of
     (st', s, Inr x) \<Rightarrow> (st', Inr x)
   | (st', s, Inl e) \<Rightarrow> (audit_workflow_step_failure_if_present env wire fault s e now st', Inl e))"

definition audit_workflow_step_result ::
    "manager_env \<Rightarrow> exn option \<Rightarrow> string \<Rightarrow> doc \<Rightarrow> string \<Rightarrow> string option \<Rightarrow> (string \<times> string) list \<Rightarrow> doc option \<Rightarrow> instant
      \<Rightarrow> manager_state \<Rightarrow> manager_state \<times> unit res" where
  "audit_workflow_step_result env fault sid response status error_message comment request now st =
     update_workflow_step env fault sid (no_update\<lparr>su_status := Some status,
       su_response_data := Some (case request of None \<Rightarrow> response | Some r \<Rightarrow> AList.update ''request_data'' (JObj r) response),
       su_error_message := error_message, su_add_comment := comment\<rparr>) now st"

section \<open>Links and reads\<close>

definition link_workflow_to_object ::
    "exn option \<Rightarrow> string \<Rightarrow> string \<Rightarrow> string \<Rightarrow> string option \<Rightarrow> string option \<Rightarrow> instant \<Rightarrow> wf_db \<Rightarrow> wf_db res" where
  "link_workflow_to_object fault sid object_type object_id action tenant now db = (case manager_step sid tenant db of
     None \<Rightarrow> Inr db
   | Some s \<Rightarrow> (case fault of Some e \<Rightarrow> Inl e
     | None \<Rightarrow> Inr (add_mapping sid object_type object_id (or_str action (st_step_type s)) now db)))"

definition get_pending_steps :: "string option \<Rightarrow> string option \<Rightarrow> string option \<Rightarrow> wf_db \<Rightarrow> workflow_step list" where
  "get_pending_steps owner assigned_to tenant db = filter (\<lambda>s. st_status s \<in> {''pending'', ''requires_approval''} \<and>
     (truthy_str tenant \<longrightarrow> in_scope db (the tenant) None s) \<and>
     (truthy_str owner \<longrightarrow> Some (st_owner s) = owner) \<and>
     (truthy_str assigned_to \<longrightarrow> st_assigned_to s = assigned_to)) (wf_steps db)"

record life_event =
  le_step_id :: string
  le_action :: string
  le_step_type :: string
  le_status :: string
  le_owner :: string
  le_assigned_to :: "string option"
  le_created_at :: string
  le_completed_at :: "string option"
  le_tool_name :: "string option"
  le_error_message :: "string option"
  le_comments :: "json list"

definition life_event_of :: "object_mapping \<Rightarrow> workflow_step \<Rightarrow> life_event" where
  "life_event_of m s = \<lparr>le_step_id = st_id s, le_action = om_action m, le_step_type = st_step_type s,
     le_status = st_status s, le_owner = st_owner s, le_assigned_to = st_assigned_to s,
     le_created_at = isoformat (st_created_at s), le_completed_at = map_option isoformat (st_completed_at s),
     le_tool_name = st_tool_name s, le_error_message = st_error_message s, le_comments = st_comments s\<rparr>"

definition get_object_lifecycle :: "string \<Rightarrow> string \<Rightarrow> string option \<Rightarrow> wf_db \<Rightarrow> life_event list" where
  "get_object_lifecycle object_type object_id tenant db =
     List.map_filter (\<lambda>m. map_option (life_event_of m) (step_of_mapping db m))
       (sort_key om_created_at (filter (\<lambda>m. om_object_type m = object_type \<and> om_object_id m = object_id \<and>
          (truthy_str tenant \<longrightarrow> mapping_in_scope db (the tenant) m)) (wf_mappings db)))"

definition counted_statuses :: "string list" where
  "counted_statuses = [''pending'', ''in_progress'', ''requires_approval'', ''completed'', ''failed'']"

record context_status =
  cs_status :: string
  cs_counts :: "(string \<times> nat) list"
  cs_total_steps :: nat

definition get_context_status :: "string \<Rightarrow> wf_db \<Rightarrow> context_status option" where
  "get_context_status cid db = (let xs = filter (\<lambda>s. st_context s = cid) (wf_steps db);
       n = (\<lambda>k. length (filter (\<lambda>s. st_status s = k) xs))
     in if xs = [] then None
        else Some \<lparr>cs_status = (if 0 < n ''failed'' then ''has_failures''
             else if 0 < n ''requires_approval'' then ''awaiting_approval''
             else if 0 < n ''pending'' \<or> 0 < n ''in_progress'' then ''pending_steps'' else ''all_completed''),
           cs_counts = map (\<lambda>k. (k, n k)) counted_statuses, cs_total_steps = length xs\<rparr>)"

section \<open>A status update and what it sends\<close>

lemma find_map: "find Q (map g xs) = map_option g (find (\<lambda>x. Q (g x)) xs)"
  by (induction xs) auto

lemma manager_step_Some:
  "manager_step sid tenant db = Some s \<Longrightarrow> s \<in> set (wf_steps db) \<and> st_id s = sid"
  unfolding manager_step_def by (auto dest: find_SomeD)

lemma manager_step_put:
  assumes "\<And>x. x \<in> set (wf_steps db) \<Longrightarrow> P x \<Longrightarrow> st_id (f x) = st_id x \<and> st_context (f x) = st_context x"
  shows "manager_step sid tenant (put_steps P f db) = map_option (\<lambda>x. if P x then f x else x) (manager_step sid tenant db)"
proof -
  let ?g = "\<lambda>x. if P x then f x else x"
  have same: "st_id (?g x) = sid \<and> (if truthy_str tenant then in_scope (put_steps P f db) (the tenant) None (?g x) else True) \<longleftrightarrow>
      st_id x = sid \<and> (if truthy_str tenant then in_scope db (the tenant) None x else True)"
    if "x \<in> set (wf_steps db)" for x
  proof -
    have "st_id (?g x) = st_id x" "st_context (?g x) = st_context x" using assms that by auto
    moreover from this have "in_scope (put_steps P f db) (the tenant) None (?g x) = in_scope db (the tenant) None x"
      by (intro in_scope_cong) (simp_all add: put_steps_def)
    ultimately show ?thesis by simp
  qed
  have "wf_steps (put_steps P f db) = map ?g (wf_steps db)" by (simp add: put_steps_def update_where_def)
  then show ?thesis unfolding manager_step_def find_map [symmetric]
    by (simp only: find_map) (rule arg_cong [where f = "map_option ?g"], rule find_cong [OF refl same])
qed

lemma updated_step_keys [simp]:
  "st_id (updated_step u now s) = st_id s" "st_context (updated_step u now s) = st_context s"
  "st_request_data (updated_step u now s) = st_request_data s" "st_tool_name (updated_step u now s) = st_tool_name s"
  "st_comments (updated_step u now s) = st_comments s"
  by (simp_all add: updated_step_def Let_def)

lemma updated_step_data:
  "su_status u = Some st \<Longrightarrow> st \<noteq> [] \<Longrightarrow> st_status (updated_step u now s) = st"
  "su_response_data u = Some d \<Longrightarrow> st_response_data (updated_step u now s) = Some d"
  "su_error_message u = Some e \<Longrightarrow> st_error_message (updated_step u now s) = Some e"
  "su_status u \<in> {Some ''completed'', Some ''failed''} \<Longrightarrow> st_completed_at (updated_step u now s) \<noteq> None"
  by (auto simp: updated_step_def Let_def truthy_str_def split: option.splits)

text \<open>The step as an update leaves it, comment included, and the tables around it.\<close>

lemma put_step_alt:
  assumes "wf_ok db" "s \<in> set (wf_steps db)" "st_id s' = st_id s" "st_context s' = st_context s"
  shows "\<And>x. x \<in> set (wf_steps db) \<Longrightarrow> st_id x = st_id s' \<Longrightarrow> st_id s' = st_id x \<and> st_context s' = st_context x"
  using step_key [OF assms(1) _ assms(2)] assms(3,4) by metis

lemma append_step_comment_put:
  "\<exists>P. fst (append_step_comment sid user body tenant now db) =
     put_steps P (\<lambda>s. s\<lparr>st_comments := jsonb_list_append (st_comments s) (comment_doc user now body)\<rparr>) db \<and>
     (\<forall>x. P x \<longrightarrow> st_id x = sid)"
  unfolding append_step_comment_def Let_def fst_conv by (intro exI conjI) (rule refl, auto)

lemma update_writes:
  assumes "wf_ok db" "manager_step sid (su_tenant u) db = Some s"
  obtains db2 c where "wf_ok db2" "manager_step sid (su_tenant u) db2 = Some ((updated_step u now s)\<lparr>st_comments := c\<rparr>)"
    "wf_contexts db2 = wf_contexts db" "wf_mappings db2 = wf_mappings db"
    "\<forall>x. st_id x \<noteq> sid \<longrightarrow> x \<in> set (wf_steps db2) \<longleftrightarrow> x \<in> set (wf_steps db)"
    "\<And>env fault out. update_workflow_step env fault sid u now (db, out) = (case fault of
        Some e \<Rightarrow> ((db, out), Inl e)
      | None \<Rightarrow> ((db2, if truthy_str (su_status u)
          then out @ send_push_notifications env db2 ((updated_step u now s)\<lparr>st_comments := c\<rparr>) (the (su_status u)) else out), Inr ()))"
proof -
  let ?s' = "updated_step u now s"
  define db1 where "db1 = put_step ?s' db"
  have s: "s \<in> set (wf_steps db)" "st_id s = sid" using manager_step_Some [OF assms(2)] by auto
  have keys: "st_id ?s' = st_id x \<and> st_context ?s' = st_context x"
    if "x \<in> set (wf_steps db)" "st_id x = st_id ?s'" for x
    using put_step_alt [OF assms(1) s(1), of ?s'] that by simp
  have ok1: "wf_ok db1" unfolding db1_def put_step_def by (rule put_steps_ok [OF assms(1) keys])
  have m1: "manager_step sid (su_tenant u) db1 = Some ?s'"
    unfolding db1_def put_step_def
    using manager_step_put [of db "\<lambda>x. st_id x = st_id ?s'" "\<lambda>_. ?s'" sid "su_tenant u", OF keys] assms(2) s by simp
  have rest1: "wf_contexts db1 = wf_contexts db" "wf_mappings db1 = wf_mappings db"
      "\<forall>x. st_id x \<noteq> sid \<longrightarrow> x \<in> set (wf_steps db1) \<longleftrightarrow> x \<in> set (wf_steps db)"
    using s(2) by (auto simp: db1_def put_step_def put_steps_def set_update_where image_iff)
  show ?thesis
  proof (cases "su_add_comment u")
    case Nil
    have eq: "?s'\<lparr>st_comments := st_comments s\<rparr> = ?s'" by (rule workflow_step.equality) simp_all
    show ?thesis
    proof (rule that [OF ok1 _ rest1])
      show "manager_step sid (su_tenant u) db1 = Some (?s'\<lparr>st_comments := st_comments s\<rparr>)"
        using m1 by (simp add: eq)
    qed (use Nil assms(2) m1 in \<open>auto simp: eq update_workflow_step_def Let_def db1_def split: option.splits\<close>)
  next
    case (Cons p ps)
    let ?user = "get_default (su_add_comment u) ''user'' ''system''"
    let ?body = "get_default (su_add_comment u) ''text'' (get_default (su_add_comment u) ''comment'' [])"
    let ?f = "\<lambda>s. s\<lparr>st_comments := jsonb_list_append (st_comments s) (comment_doc ?user now ?body)\<rparr>"
    define db2 where "db2 = fst (append_step_comment sid ?user ?body (su_tenant u) now db1)"
    obtain P where P: "db2 = put_steps P ?f db1" "\<forall>x. P x \<longrightarrow> st_id x = sid"
      using append_step_comment_put [of sid ?user ?body "su_tenant u" now db1] unfolding db2_def [symmetric] by blast
    have ok2: "wf_ok db2" unfolding P by (rule put_steps_ok [OF ok1]) simp
    obtain c where m2: "manager_step sid (su_tenant u) db2 = Some (?s'\<lparr>st_comments := c\<rparr>)"
    proof (cases "P ?s'")
      case True
      then show ?thesis using that m1 unfolding P by (simp add: manager_step_put)
    next
      case False
      then show ?thesis using that [of "st_comments ?s'"] m1 unfolding P by (simp add: manager_step_put)
    qed
    have rest2: "wf_contexts db2 = wf_contexts db" "wf_mappings db2 = wf_mappings db"
        "\<forall>x. st_id x \<noteq> sid \<longrightarrow> x \<in> set (wf_steps db2) \<longleftrightarrow> x \<in> set (wf_steps db)"
      using rest1 P(2) by (auto simp: P(1) put_steps_def set_update_where image_iff)
    show ?thesis
    proof (rule that [OF ok2 m2 rest2])
      fix env fault out
      show "update_workflow_step env fault sid u now (db, out) = (case fault of Some e \<Rightarrow> ((db, out), Inl e)
        | None \<Rightarrow> ((db2, if truthy_str (su_status u)
          then out @ send_push_notifications env db2 (?s'\<lparr>st_comments := c\<rparr>) (the (su_status u)) else out), Inr ()))"
        using assms(2) m2 Cons by (auto simp: update_workflow_step_def Let_def db1_def db2_def split: option.splits)
    qed
  qed
qed

lemma mapping_notices_eq:
  assumes "stashed_config s = JObj cfg"
  shows "mapping_notices env cx s st ms = (case from_stash (mg_py env) ''push_notification_config'' (JObj cfg) of
      Inl _ \<Rightarrow> [] | Inr r \<Rightarrow> map (notice_for env cx s st r) ms)"
proof (induction ms)
  case (Cons m ms)
  have "mapping_notice env cx s st m = (case from_stash (mg_py env) ''push_notification_config'' (JObj cfg) of
      Inl _ \<Rightarrow> Inr [] | Inr r \<Rightarrow> Inr [notice_for env cx s st r m])"
    using assms by (auto simp: mapping_notice_def from_stash_def)
  with Cons.IH show ?case by (auto split: sum.splits)
qed (simp split: sum.splits)

lemma or_str_truthy: "truthy_str v \<Longrightarrow> or_str v d = or_str v d'"
  by (auto simp: truthy_str_def or_str_def split: option.splits)

lemma stashed_config_cong: "st_request_data s' = st_request_data s \<Longrightarrow> stashed_config s' = stashed_config s"
  by (simp add: stashed_config_def)

text \<open>C20. A status update commits the step and then notifies once per object the step is mapped to,
  always the endpoint its own request stashed and only if that registration is deliverable: no
  mapping or an undeliverable stash costs the webhook and never the update. When the step has a
  tool name the notifications are all the same one.
\<close>

theorem status_update_notifies:
  assumes "wf_ok db" "manager_step sid (su_tenant u) db = Some s" "su_status u = Some st" "st \<noteq> []"
    and "stashed_config s = JObj cfg"
  shows "\<exists>db2 notices. update_workflow_step env None sid u now (db, out) = ((db2, out @ notices), Inr ()) \<and>
    (\<exists>s2. manager_step sid (su_tenant u) db2 = Some s2 \<and> st_status s2 = st \<and>
      length notices = (case from_stash (mg_py env) ''push_notification_config'' (JObj cfg) of
        Inl _ \<Rightarrow> 0 | Inr _ \<Rightarrow> length (filter (\<lambda>m. om_step_id m = sid) (wf_mappings db))) \<and>
      (\<forall>n\<in>set notices. Inr (pn_target n) =
          map_sum id (to_columns (mg_py env)) (from_stash (mg_py env) ''push_notification_config'' (JObj cfg)) \<and>
        tc_task_id (pn_context n) = sid \<and> pn_result n = or_empty (st_response_data s2) \<and>
        pn_status n = (if mg_is_status env st then st else ''unknown'')) \<and>
      (truthy_str (st_tool_name s) \<longrightarrow> (\<forall>n\<in>set notices. \<forall>n'\<in>set notices. n = n')))"
proof -
  obtain db2 c where w: "wf_ok db2" "manager_step sid (su_tenant u) db2 = Some ((updated_step u now s)\<lparr>st_comments := c\<rparr>)"
    "wf_contexts db2 = wf_contexts db" "wf_mappings db2 = wf_mappings db"
    and eq0: "\<And>env fault out. update_workflow_step env fault sid u now (db, out) = (case fault of
        Some e \<Rightarrow> ((db, out), Inl e)
      | None \<Rightarrow> ((db2, if truthy_str (su_status u)
          then out @ send_push_notifications env db2 ((updated_step u now s)\<lparr>st_comments := c\<rparr>) (the (su_status u)) else out), Inr ()))"
    by (rule update_writes [OF assms(1,2), of now]) blast
  have eq: "update_workflow_step env None sid u now (db, out) =
      ((db2, out @ send_push_notifications env db2 ((updated_step u now s)\<lparr>st_comments := c\<rparr>) st), Inr ())"
    using eq0 [of env None out] assms(3,4) by simp
  let ?s = "(updated_step u now s)\<lparr>st_comments := c\<rparr>"
  let ?ms = "filter (\<lambda>m. om_step_id m = sid) (wf_mappings db)"
  have s: "s \<in> set (wf_steps db)" "st_id s = sid" using manager_step_Some [OF assms(2)] by auto
  obtain cx where cx: "context_of db2 ?s = Some cx"
  proof -
    have "?s \<in> set (wf_steps db2)" using manager_step_Some [OF w(2)] by simp
    then obtain cx where "cx \<in> set (wf_contexts db2)" "cx_id cx = st_context ?s" using w(1) by (auto simp: wf_ok_def)
    with that context_of_SomeI [OF w(1)] show thesis by blast
  qed
  have n: "send_push_notifications env db2 ?s st = mapping_notices env cx ?s st ?ms"
    using cx s(2) w(4) by (simp add: send_push_notifications_def Let_def)
  have "stashed_config ?s = JObj cfg" using stashed_config_cong [of ?s s] assms(5) by simp
  note ns = mapping_notices_eq [OF this, of env cx st ?ms]
  have status: "st_status ?s = st" using updated_step_data(1) [OF assms(3,4)] by simp
  show ?thesis
    by (intro exI conjI, rule eq, rule w(2), rule status)
      (use ns n s(2) in \<open>auto simp: notice_for_def or_str_truthy split: sum.splits\<close>)
qed

section \<open>Failures are audited, not replaced\<close>

text \<open>C21. A guarded operation that fails ends with its own exception, whatever happens to the audit.
  The step it had created is then failed, completed and carries the error as the boundary answers
  it, and no other step changes; if the audit itself fails, the tables stay as the operation left
  them.
\<close>

theorem failure_is_audited:
  assumes "body st0 = ((db, out), Some s, Inl e)" "wf_ok db" "manager_step (st_id s) None db = Some s"
  shows "\<exists>db' out'. audit_workflow_step_failure_ctx env wire fault now body st0 = ((db', out'), Inl e) \<and>
    (\<forall>x. st_id x \<noteq> st_id s \<longrightarrow> x \<in> set (wf_steps db') \<longleftrightarrow> x \<in> set (wf_steps db)) \<and>
    (case (wire e, fault) of
      (Inr (envelope, message), None) \<Rightarrow> (\<exists>s'. manager_step (st_id s) None db' = Some s' \<and> st_status s' = ''failed'' \<and>
        st_completed_at s' \<noteq> None \<and> st_error_message s' = Some message \<and> st_response_data s' = Some envelope)
    | _ \<Rightarrow> db' = db \<and> out' = out)"
proof (cases "wire e")
  case (Inl e')
  then show ?thesis using assms(1)
    by (simp add: audit_workflow_step_failure_ctx_def audit_workflow_step_failure_if_present_def
        audit_workflow_step_failure_def)
next
  case (Inr r)
  obtain envelope message where r: "r = (envelope, message)" by (cases r)
  let ?u = "no_update\<lparr>su_status := Some ''failed'', su_error_message := Some message, su_response_data := Some envelope\<rparr>"
  have found: "manager_step (st_id s) (su_tenant ?u) db = Some s" using assms(3) by (simp add: no_update_def)
  obtain db2 c where w: "manager_step (st_id s) (su_tenant ?u) db2 = Some ((updated_step ?u now s)\<lparr>st_comments := c\<rparr>)"
    "\<forall>x. st_id x \<noteq> st_id s \<longrightarrow> x \<in> set (wf_steps db2) \<longleftrightarrow> x \<in> set (wf_steps db)"
    and eq0: "\<And>env fault out. update_workflow_step env fault (st_id s) ?u now (db, out) = (case fault of
        Some e \<Rightarrow> ((db, out), Inl e)
      | None \<Rightarrow> ((db2, if truthy_str (su_status ?u)
          then out @ send_push_notifications env db2 ((updated_step ?u now s)\<lparr>st_comments := c\<rparr>) (the (su_status ?u)) else out), Inr ()))"
    by (rule update_writes [OF assms(2) found, of now]) blast
  have ctx: "audit_workflow_step_failure_ctx env wire fault now body st0 =
      (fst (update_workflow_step env fault (st_id s) ?u now (db, out)), Inl e)"
    using assms(1) Inr r by (simp add: audit_workflow_step_failure_ctx_def
        audit_workflow_step_failure_if_present_def audit_workflow_step_failure_def)
  have data: "st_status (updated_step ?u now s) = ''failed''" "st_completed_at (updated_step ?u now s) \<noteq> None"
    "st_error_message (updated_step ?u now s) = Some message" "st_response_data (updated_step ?u now s) = Some envelope"
    by (intro updated_step_data; simp)+
  show ?thesis
  proof (cases fault)
    case None
    then show ?thesis unfolding ctx eq0 using w data Inr r by (auto simp: no_update_def)
  next
    case (Some x)
    then show ?thesis unfolding ctx eq0 using Inr r by simp
  qed
qed

section \<open>Where the manager is weaker than the tools\<close>

text \<open>An update writes any status over a finished one, and the task can then be completed again.\<close>

definition plain_manager :: manager_env where
  "plain_manager = \<lparr>mg_py = (\<lambda>_. []), mg_is_status = (\<lambda>s. s \<in> {''submitted'', ''working'', ''input-required'',
     ''completed'', ''canceled'', ''failed'', ''rejected'', ''auth-required'', ''unknown''})\<rparr>"

definition completed_task :: wf_db where
  "completed_task = fst (fst (complete_task_impl ''t'' ''p'' (tc_request (finish_it ''t'' ''p'' Completed)) 5 (one_task, [])))"

definition reopened_task :: wf_db where
  "reopened_task = fst (fst (update_workflow_step plain_manager None ''step_1''
     (no_update\<lparr>su_status := Some ''requires_approval''\<rparr>) 6 (completed_task, [])))"

lemma finished_task_reopens:
  "map st_status (wf_steps completed_task) = [''completed'']"
  "map st_status (wf_steps reopened_task) = [''requires_approval'']"
  "map st_completed_at (wf_steps reopened_task) = [Some 5]"
  "is_ok (snd (complete_task_impl ''t'' ''p'' (tc_request (finish_it ''t'' ''p'' Failed_task)) 7 (reopened_task, [])))"
  by code_simp+

text \<open>A webhook and a poll name the same step's status differently: the webhook sends the stored word.\<close>

lemma push_and_poll_disagree:
  assumes "mg_is_status env = mg_is_status plain_manager" "st \<in> set open_statuses" "st_status s = st"
  shows "pn_status (notice_for env cx s st r m) = ''unknown'' \<and> spec_task_status s \<noteq> ''unknown''"
proof -
  from assms(2) consider "st = ''pending''" | "st = ''in_progress''" | "st = ''requires_approval''"
    by (auto simp only: open_statuses_def list.set insert_iff empty_iff)
  then show ?thesis
    by cases (use assms(1,3) in \<open>simp_all add: notice_for_def plain_manager_def spec_task_status_def
      workflow_status_to_spec_status_def\<close>)
qed

text \<open>A context is found by its id alone, and steps can be attached to another tenant's.\<close>

lemma context_crosses_tenants:
  "map_option cx_tenant (get_context ''ctx_b'' two_tenants) = Some ''tb''"
  "map_sum id (\<lambda>r. cx_tenant (the (snd r))) (get_or_create_context None ''h'' ''ta'' ''p'' (Some ''ctx_b'') True 1 two_tenants) = Inr ''tb''"
  "is_ok (create_workflow_step None ''h'' ''ctx_b'' (step_defaults ''approval'' ''publisher'') 1 two_tenants)"
  by code_simp+

text \<open>The notifications of task statuses never write a delivery log row: they name no media buy.\<close>

lemma status_notices_unlogged: "n \<in> set (mapping_notices env cx s st ms) \<Longrightarrow> \<not> records_delivery_log (pn_context n)"
proof (induction ms)
  case (Cons m ms)
  then show ?case
    by (auto simp: mapping_notice_def notice_for_def records_delivery_log_def split: json.splits sum.splits if_splits)
qed simp

section \<open>At concrete tables\<close>

definition mapped_task :: wf_db where
  "mapped_task = (let (db1, a) = build_context ''a'' ''t'' ''p'' None 0 \<lparr>wf_contexts = [], wf_steps = [], wf_mappings = [], wf_principals = []\<rparr>
     in fst (build_workflow_step ''1'' (cx_id a) ((step_defaults ''tool_call'' ''principal'')\<lparr>
       sf_tool_name := Some ''create_media_buy'',
       sf_request_data := Some [(''push_notification_config'', JObj [(''url'', JStr ''https://b.example/w'')])],
       sf_object_mappings := [\<lparr>nm_object_type = ''media_buy'', nm_object_id = ''m'', nm_action = None\<rparr>,
         \<lparr>nm_object_type = ''creative'', nm_object_id = ''c'', nm_action = None\<rparr>]\<rparr>) 1 db1))"

lemma status_update_notifies_witness:
  "\<exists>db2 n n'. update_workflow_step plain_manager None ''step_1'' (no_update\<lparr>su_status := Some ''completed''\<rparr>) 6 (mapped_task, []) =
    ((db2, [n, n']), Inr ()) \<and> n = n' \<and> pn_status n = ''completed''"
proof -
  let ?u = "no_update\<lparr>su_status := Some ''completed''\<rparr>"
  let ?cfg = "[(''url'', JStr ''https://b.example/w'')]"
  have ok: "wf_ok mapped_task" and some: "manager_step ''step_1'' (su_tenant ?u) mapped_task = Some (hd (wf_steps mapped_task))"
    and st: "su_status ?u = Some ''completed''" "''completed'' \<noteq> []"
    and cfg: "stashed_config (hd (wf_steps mapped_task)) = JObj ?cfg"
    and reg: "from_stash (mg_py plain_manager) ''push_notification_config'' (JObj ?cfg) = Inr ?cfg"
    and two: "length (filter (\<lambda>m. om_step_id m = ''step_1'') (wf_mappings mapped_task)) = Suc (Suc 0)"
    and tool: "truthy_str (st_tool_name (hd (wf_steps mapped_task)))" and member: "mg_is_status plain_manager ''completed''"
    by code_simp+
  obtain db2 notices where u: "update_workflow_step plain_manager None ''step_1'' ?u 6 (mapped_task, []) = ((db2, [] @ notices), Inr ())"
    and l: "length notices = Suc (Suc 0)" and all: "\<forall>n\<in>set notices. pn_status n = ''completed''"
    and same: "\<forall>n\<in>set notices. \<forall>n'\<in>set notices. n = n'"
    using status_update_notifies [OF ok some st cfg, of plain_manager 6 "[]"] reg two tool member by auto
  from l obtain n n' where nn: "notices = [n, n']" by (auto simp: length_Suc_conv)
  have "n = n'" by (rule same [THEN bspec, THEN bspec]) (simp_all add: nn)
  moreover have "pn_status n = ''completed''" using all by (simp add: nn)
  moreover have "update_workflow_step plain_manager None ''step_1'' ?u 6 (mapped_task, []) = ((db2, [n, n']), Inr ())"
    using u nn by simp
  ultimately show ?thesis by blast
qed

lemma failure_is_audited_witness:
  "\<exists>db' out' s'. audit_workflow_step_failure_ctx plain_manager (\<lambda>_. Inr ([(''code'', JStr ''X'')], ''boom'')) None 9
      (\<lambda>_. ((mapped_task, []), Some (hd (wf_steps mapped_task)), Inl ValueError)) (mapped_task, []) = ((db', out'), Inl ValueError :: nat res) \<and>
    manager_step ''step_1'' None db' = Some s' \<and> st_status s' = ''failed'' \<and> st_error_message s' = Some ''boom''"
proof -
  let ?s = "hd (wf_steps mapped_task)"
  have ok: "wf_ok mapped_task" and some: "manager_step (st_id ?s) None mapped_task = Some ?s" and i: "st_id ?s = ''step_1''"
    by code_simp+
  from failure_is_audited [of "\<lambda>_. ((mapped_task, []), Some ?s, Inl ValueError)", OF refl ok some,
      of plain_manager "\<lambda>_. Inr ([(''code'', JStr ''X'')], ''boom'')" None 9 "(mapped_task, [])"]
  show ?thesis unfolding i by (simp only: sum.case prod.case option.case) blast
qed

end
