(* ===== verification/Request_Checks.thy ===== *)
theory Request_Checks
  imports Creative_Repo "HOL-Library.List_Lexorder" "HOL-Library.Char_ord"
begin

text \<open>
  The checks a media buy request goes through before anything is written: budget limits
  (src/src/core/tools/financial_validation.py), targeting rules
  (src/src/services/targeting_capabilities.py) and the path of a package's field
  (src/src/core/validation_helpers.py). A check that answers None or the sentence of its refusal
  is whether it passed; decimals are rationals.
\<close>

section \<open>Budgets\<close>

definition validate_budget_positive :: "rat \<Rightarrow> bool" where
  "validate_budget_positive budget = (\<not> budget \<le> 0)"

definition validate_max_campaign_budget :: "rat \<Rightarrow> rat \<Rightarrow> bool" where
  "validate_max_campaign_budget budget maximum = (\<not> budget > maximum)"

definition validate_min_package_budget :: "rat \<Rightarrow> rat \<Rightarrow> bool" where
  "validate_min_package_budget budget minimum = (\<not> budget < minimum)"

definition validate_max_daily_package_spend :: "rat \<Rightarrow> int \<Rightarrow> rat \<Rightarrow> bool" where
  "validate_max_daily_package_spend budget flight_days max_daily =
     (let days = (if flight_days \<le> 0 then 1 else flight_days) in \<not> budget / of_int days > max_daily)"

definition raise_if_validation_failed :: "bool \<Rightarrow> (rat \<Rightarrow> rat \<Rightarrow> exn) \<Rightarrow> rat \<Rightarrow> rat \<Rightarrow> unit res" where
  "raise_if_validation_failed passed exc requested limit = (if passed then Inr () else Inl (exc requested limit))"

text \<open>A package within the limit spends at most the limit on each of its days.\<close>

lemma daily_spend_bound:
  assumes "validate_max_daily_package_spend budget days max_daily" "0 < days"
  shows "budget \<le> max_daily * of_int days"
  using assms by (simp add: validate_max_daily_package_spend_def not_less divide_le_eq)

section \<open>Paths\<close>

fun nat_text :: "nat \<Rightarrow> string" where
  "nat_text n = (if n < 10 then [''0123456789'' ! n] else nat_text (n div 10) @ [''0123456789'' ! (n mod 10)])"

declare nat_text.simps [simp del]

definition package_field_path :: "string \<Rightarrow> nat \<Rightarrow> string" where
  "package_field_path attr i = ''packages['' @ nat_text i @ ''].'' @ attr"

section \<open>Targeting\<close>

text \<open>
  The fields of a targeting overlay that the rules read, and the document it is stored as. A metro
  or postal item is its system, when it has one, and its values.
\<close>

record targeting =
  tg_geo_countries :: "string list option"
  tg_geo_countries_exclude :: "string list option"
  tg_geo_regions :: "string list option"
  tg_geo_regions_exclude :: "string list option"
  tg_geo_metros :: "(string option \<times> string list) list option"
  tg_geo_metros_exclude :: "(string option \<times> string list) list option"
  tg_geo_postal_areas :: "(string option \<times> string list) list option"
  tg_geo_postal_areas_exclude :: "(string option \<times> string list) list option"
  tg_property_list :: "json option"
  tg_document :: json

text \<open>A sorted list of the members of an intersection.\<close>

definition sorted_overlap :: "string list \<Rightarrow> string list \<Rightarrow> string list" where
  "sorted_overlap xs ys = sort (remdups (filter (\<lambda>x. x \<in> set ys) xs))"

text \<open>\<open>by_system.setdefault(system, set()).update(vals)\<close>\<close>

definition extract_system_values :: "(string option \<times> string list) list \<Rightarrow> (string \<times> string list) list" where
  "extract_system_values items = fold (\<lambda>(system, vals) acc. case system of None \<Rightarrow> acc
     | Some s \<Rightarrow> fold (\<lambda>v. add_group s v) vals (if s \<in> fst ` set acc then acc else acc @ [(s, [])])) items []"

record geo_conflict =
  gc_include :: string
  gc_exclude :: string
  gc_system :: "string option"
  gc_values :: "string list"

definition simple_conflicts ::
    "string \<Rightarrow> string \<Rightarrow> string list option \<Rightarrow> string list option \<Rightarrow> geo_conflict list" where
  "simple_conflicts f g inc exc = (case sorted_overlap (given inc) (given exc) of
     [] \<Rightarrow> []
   | vs \<Rightarrow> [\<lparr>gc_include = f, gc_exclude = g, gc_system = None, gc_values = vs\<rparr>])"

definition structured_conflicts ::
    "string \<Rightarrow> string \<Rightarrow> (string option \<times> string list) list option
      \<Rightarrow> (string option \<times> string list) list option \<Rightarrow> geo_conflict list" where
  "structured_conflicts f g inc exc =
     (let i = extract_system_values (given inc); e = extract_system_values (given exc) in
      concat (map (\<lambda>s. case sorted_overlap (the (map_of i s)) (the (map_of e s)) of
          [] \<Rightarrow> []
        | vs \<Rightarrow> [\<lparr>gc_include = f, gc_exclude = g, gc_system = Some s, gc_values = vs\<rparr>])
        (sorted_overlap (map fst i) (map fst e))))"

definition geo_overlap_conflicts :: "targeting \<Rightarrow> geo_conflict list" where
  "geo_overlap_conflicts t =
     simple_conflicts ''geo_countries'' ''geo_countries_exclude'' (tg_geo_countries t) (tg_geo_countries_exclude t) @
     simple_conflicts ''geo_regions'' ''geo_regions_exclude'' (tg_geo_regions t) (tg_geo_regions_exclude t) @
     structured_conflicts ''geo_metros'' ''geo_metros_exclude'' (tg_geo_metros t) (tg_geo_metros_exclude t) @
     structured_conflicts ''geo_postal_areas'' ''geo_postal_areas_exclude''
       (tg_geo_postal_areas t) (tg_geo_postal_areas_exclude t)"

text \<open>The one kind of violation: a non-empty list under the key geo_overlaps.\<close>

definition collect_targeting_violations :: "targeting \<Rightarrow> (string \<times> geo_conflict list) list" where
  "collect_targeting_violations t =
     filter (\<lambda>(k, v). v \<noteq> []) [(''geo_overlaps'', geo_overlap_conflicts t)]"

definition validate_property_targeting_allowed :: "product_row option \<Rightarrow> targeting option \<Rightarrow> bool" where
  "validate_property_targeting_allowed p t = (case (p, t) of
     (Some pr, Some tg) \<Rightarrow> \<not> (tg_property_list tg \<noteq> None \<and> \<not> prod_property_targeting_allowed pr)
   | _ \<Rightarrow> True)"

definition raise_if_property_targeting_violations :: "string list \<Rightarrow> unit res" where
  "raise_if_property_targeting_violations violations =
     (if violations \<noteq> [] then Inl (AdCPValidationError ''packages'') else Inr ())"

text \<open>The advisories of packages whose property list the adapter does not compile: their field paths.\<close>

definition build_property_list_unsupported_advisories :: "targeting option list \<Rightarrow> bool \<Rightarrow> string list" where
  "build_property_list_unsupported_advisories overlays supported = (if supported then [] else
     List.map_filter (\<lambda>(i, t). case t of None \<Rightarrow> None
       | Some tg \<Rightarrow> if tg_property_list tg = None then None
           else Some (package_field_path ''targeting_overlay.property_list'' i))
       (zip [0..<length overlays] overlays))"

definition property_list_unsupported_advisories :: "targeting option list option \<Rightarrow> bool \<Rightarrow> string list option" where
  "property_list_unsupported_advisories overlays supported =
     (case build_property_list_unsupported_advisories (given overlays) supported of [] \<Rightarrow> None | as \<Rightarrow> Some as)"

section \<open>What a conflict is\<close>

lemma set_sorted_overlap [simp]: "set (sorted_overlap xs ys) = set xs \<inter> set ys"
  by (auto simp: sorted_overlap_def)

lemma sorted_overlap_Nil: "sorted_overlap xs ys = [] \<longleftrightarrow> set xs \<inter> set ys = {}"
  by (metis set_sorted_overlap set_empty)

lemma map_of_add_group: "map_of (add_group k v acc) s =
    (if s = k then Some (given (map_of acc k) @ [v]) else map_of acc s)"
  by (induction acc) (auto simp: given_def split: option.splits)

lemma map_of_add_values: "map_of (fold (add_group k) vs acc) s =
    (if s = k \<and> (vs \<noteq> [] \<or> k \<in> fst ` set acc) then Some (given (map_of acc k) @ vs) else map_of acc s)"
proof (induction vs arbitrary: acc)
  case Nil
  then show ?case by (cases "map_of acc k") (auto simp: given_def map_of_eq_None_iff)
next
  case (Cons v vs)
  have "k \<in> fst ` set (add_group k v acc)"
    using map_of_add_group [of k v acc k] by (metis map_of_eq_None_iff option.distinct(1))
  then show ?case using Cons by (simp add: map_of_add_group given_def)
qed

text \<open>The values of a system: those of all its items.\<close>

definition system_values :: "(string option \<times> string list) list \<Rightarrow> string \<Rightarrow> string set" where
  "system_values items s = (\<Union>(sys, vs)\<in>set items. if sys = Some s then set vs else {})"

lemma extract_system_values_spec:
  "set (given (map_of (extract_system_values items) s)) = system_values items s \<and>
   (s \<in> fst ` set (extract_system_values items) \<longleftrightarrow> Some s \<in> fst ` set items)"
proof -
  let ?step = "\<lambda>(system, vals) acc. case system of None \<Rightarrow> acc
     | Some s \<Rightarrow> fold (\<lambda>v. add_group s v) vals (if s \<in> fst ` set acc then acc else acc @ [(s, [])])"
  have dom: "s \<in> fst ` set acc \<longleftrightarrow> map_of acc s \<noteq> None" for acc :: "(string \<times> string list) list"
    by (simp add: map_of_eq_None_iff)
  have one: "set (given (map_of (?step it acc) s)) = set (given (map_of acc s)) \<union> system_values [it] s \<and>
      (s \<in> fst ` set (?step it acc) \<longleftrightarrow> s \<in> fst ` set acc \<or> fst it = Some s)" for it acc
  proof (cases it)
    case (Pair sys vs)
    show ?thesis
    proof (cases sys)
      case (Some k)
      define acc' where "acc' = (if k \<in> fst ` set acc then acc else acc @ [(k, [])])"
      have k: "k \<in> fst ` set acc'" by (auto simp: acc'_def)
      have m: "set (given (map_of acc' s)) = set (given (map_of acc s))"
        "s \<in> fst ` set acc' \<longleftrightarrow> s \<in> fst ` set acc \<or> s = k"
        using map_of_eq_None_iff [of acc k]
        by (cases "map_of acc s"; auto simp: acc'_def given_def map_add_def)+
      have "?step it acc = fold (add_group k) vs acc'" using Pair Some by (simp add: acc'_def)
      then show ?thesis using Pair Some k m unfolding dom
        by (auto simp: map_of_add_values system_values_def given_def dom split: option.splits)
    qed (use Pair in \<open>simp add: system_values_def\<close>)
  qed
  have "set (given (map_of (fold ?step items acc) s)) = set (given (map_of acc s)) \<union> system_values items s \<and>
      (s \<in> fst ` set (fold ?step items acc) \<longleftrightarrow> s \<in> fst ` set acc \<or> Some s \<in> fst ` set items)" for acc
  proof (induction items arbitrary: acc)
    case (Cons it items)
    show ?case using Cons.IH [of "?step it acc"] one [of it acc] by (auto simp: system_values_def)
  qed (simp add: system_values_def)
  from this [of "[]"] show ?thesis by (simp add: extract_system_values_def given_def)
qed

lemma simple_conflicts_Nil: "simple_conflicts f g inc exc = [] \<longleftrightarrow> set (given inc) \<inter> set (given exc) = {}"
  using sorted_overlap_Nil [of "given inc" "given exc"] by (auto simp: simple_conflicts_def split: list.splits)

lemma extract_keys:
  "map_of (extract_system_values items) s = None \<Longrightarrow> system_values items s = {}"
  "s \<in> fst ` set (extract_system_values items) \<Longrightarrow>
    set (the (map_of (extract_system_values items) s)) = system_values items s"
proof -
  note spec = extract_system_values_spec [of items s]
  show "map_of (extract_system_values items) s = None \<Longrightarrow> system_values items s = {}"
    using spec by (simp add: given_def)
  assume "s \<in> fst ` set (extract_system_values items)"
  then obtain vs where "map_of (extract_system_values items) s = Some vs"
    by (cases "map_of (extract_system_values items) s") (auto simp: map_of_eq_None_iff)
  with spec show "set (the (map_of (extract_system_values items) s)) = system_values items s"
    by (simp add: given_def)
qed

lemma structured_conflicts_Nil:
  "structured_conflicts f g inc exc = [] \<longleftrightarrow> (\<forall>s. system_values (given inc) s \<inter> system_values (given exc) s = {})"
proof -
  let ?i = "extract_system_values (given inc)" and ?e = "extract_system_values (given exc)"
  have common: "sorted_overlap (the (map_of ?i s)) (the (map_of ?e s)) = [] \<longleftrightarrow>
      system_values (given inc) s \<inter> system_values (given exc) s = {}"
    if "s \<in> fst ` set ?i \<inter> fst ` set ?e" for s
    using that extract_keys(2) [of s "given inc"] extract_keys(2) [of s "given exc"] by (simp add: sorted_overlap_Nil)
  have other: "system_values (given inc) s \<inter> system_values (given exc) s = {}"
    if "s \<notin> fst ` set ?i \<inter> fst ` set ?e" for s
    using that extract_keys(1) [of "given inc" s] extract_keys(1) [of "given exc" s] by (auto simp: map_of_eq_None_iff)
  have "structured_conflicts f g inc exc = [] \<longleftrightarrow>
      (\<forall>s\<in>fst ` set ?i \<inter> fst ` set ?e. sorted_overlap (the (map_of ?i s)) (the (map_of ?e s)) = [])"
    unfolding structured_conflicts_def Let_def concat_eq_Nil_conv set_map set_sorted_overlap ball_simps
    by (rule ball_cong [OF refl]) (simp split: list.split)
  then show ?thesis using common other by metis
qed

text \<open>A targeting overlay is refused for its geography exactly when some country, some region, or
  some metro or postal area of one system is both included and excluded.
\<close>

theorem geo_overlap_refused_exactly:
  "collect_targeting_violations t = [] \<longleftrightarrow>
     set (given (tg_geo_countries t)) \<inter> set (given (tg_geo_countries_exclude t)) = {} \<and>
     set (given (tg_geo_regions t)) \<inter> set (given (tg_geo_regions_exclude t)) = {} \<and>
     (\<forall>s. system_values (given (tg_geo_metros t)) s \<inter> system_values (given (tg_geo_metros_exclude t)) s = {}) \<and>
     (\<forall>s. system_values (given (tg_geo_postal_areas t)) s \<inter> system_values (given (tg_geo_postal_areas_exclude t)) s = {})"
  by (simp add: collect_targeting_violations_def geo_overlap_conflicts_def simple_conflicts_Nil
      structured_conflicts_Nil)

end
