(* ===== verification/Transaction.thy ===== *)
theory Transaction
  imports Prelude
begin

text \<open>
  Statements that thread a state and may raise: a raise ends the block and leaves the state as it
  was changed so far, which is what the session of a unit of work shows until it is rolled back.
  \<open>keeps\<close> and \<open>ensures\<close> are the two rules the proofs about such blocks use: what every outcome
  keeps, raising included, and what holds of the result when the block returns.
\<close>

type_synonym ('s, 'a) tx = "'s \<Rightarrow> 's \<times> 'a res"

definition tx_return :: "'a \<Rightarrow> ('s, 'a) tx" where
  "tx_return x = (\<lambda>s. (s, Inr x))"

definition tx_raise :: "exn \<Rightarrow> ('s, 'a) tx" where
  "tx_raise e = (\<lambda>s. (s, Inl e))"

definition tx_bind :: "('s, 'a) tx \<Rightarrow> ('a \<Rightarrow> ('s, 'b) tx) \<Rightarrow> ('s, 'b) tx" where
  "tx_bind m f = (\<lambda>s. case m s of (s', Inl e) \<Rightarrow> (s', Inl e) | (s', Inr x) \<Rightarrow> f x s')"

definition tx_then :: "('s, 'a) tx \<Rightarrow> ('s, 'b) tx \<Rightarrow> ('s, 'b) tx" where
  "tx_then m n = tx_bind m (\<lambda>_. n)"

definition tx_read :: "('s \<Rightarrow> 'a) \<Rightarrow> ('s, 'a) tx" where
  "tx_read f = (\<lambda>s. (s, Inr (f s)))"

definition tx_try :: "('s \<Rightarrow> 'a res) \<Rightarrow> ('s, 'a) tx" where
  "tx_try f = (\<lambda>s. (s, f s))"

definition tx_change :: "('s \<Rightarrow> 's) \<Rightarrow> ('s, unit) tx" where
  "tx_change f = (\<lambda>s. (f s, Inr ()))"

definition tx_when :: "bool \<Rightarrow> ('s, unit) tx \<Rightarrow> ('s, unit) tx" where
  "tx_when c m = (if c then m else tx_return ())"

text \<open>\<open>try: m except Exception as e: h(e)\<close>\<close>

definition tx_catch :: "('s, 'a) tx \<Rightarrow> (exn \<Rightarrow> ('s, 'a) tx) \<Rightarrow> ('s, 'a) tx" where
  "tx_catch m h = (\<lambda>s. case m s of (s', Inl e) \<Rightarrow> h e s' | (s', Inr x) \<Rightarrow> (s', Inr x))"

text \<open>A \<open>for\<close> loop; the body of element k also gets k.\<close>

fun tx_each_from :: "nat \<Rightarrow> (nat \<Rightarrow> 'x \<Rightarrow> ('s, unit) tx) \<Rightarrow> 'x list \<Rightarrow> ('s, unit) tx" where
  "tx_each_from k f [] = tx_return ()"
| "tx_each_from k f (x # xs) = tx_then (f k x) (tx_each_from (Suc k) f xs)"

definition tx_each :: "(nat \<Rightarrow> 'x \<Rightarrow> ('s, unit) tx) \<Rightarrow> 'x list \<Rightarrow> ('s, unit) tx" where
  "tx_each f xs = tx_each_from 0 f xs"

named_theorems tx_defs \<open>the statements, unfolded\<close>

declare tx_return_def [tx_defs] tx_raise_def [tx_defs] tx_bind_def [tx_defs] tx_then_def [tx_defs]
  tx_read_def [tx_defs] tx_try_def [tx_defs] tx_change_def [tx_defs] tx_when_def [tx_defs]
  tx_catch_def [tx_defs]

section \<open>What every outcome keeps\<close>

definition keeps :: "('s \<Rightarrow> bool) \<Rightarrow> ('s, 'a) tx \<Rightarrow> bool" where
  "keeps I m = (\<forall>s. I s \<longrightarrow> I (fst (m s)))"

named_theorems keeps_rules \<open>a block keeps what its statements keep\<close>

lemma keepsD: "keeps I m \<Longrightarrow> I s \<Longrightarrow> I (fst (m s))"
  by (simp add: keeps_def)

lemma keepsD': "keeps I m \<Longrightarrow> I s \<Longrightarrow> m s = (s', r) \<Longrightarrow> I s'"
  by (drule (1) keepsD) simp

lemma keeps_return [keeps_rules]: "keeps I (tx_return x)"
  by (simp add: keeps_def tx_return_def)

lemma keeps_raise [keeps_rules]: "keeps I (tx_raise e)"
  by (simp add: keeps_def tx_raise_def)

lemma keeps_bind [keeps_rules]: "keeps I m \<Longrightarrow> (\<And>x. keeps I (f x)) \<Longrightarrow> keeps I (tx_bind m f)"
  unfolding keeps_def tx_bind_def by (force split: prod.splits sum.splits dest: spec)

lemma keeps_bind_result:
  "keeps I m \<Longrightarrow> (\<And>s s' x. I s \<Longrightarrow> m s = (s', Inr x) \<Longrightarrow> keeps I (f x)) \<Longrightarrow> keeps I (tx_bind m f)"
  unfolding keeps_def tx_bind_def by (force split: prod.splits sum.splits dest: spec)

lemma keeps_then [keeps_rules]: "keeps I m \<Longrightarrow> keeps I n \<Longrightarrow> keeps I (tx_then m n)"
  unfolding tx_then_def by (rule keeps_bind)

lemma keeps_read [keeps_rules]: "keeps I (tx_read f)"
  by (simp add: keeps_def tx_read_def)

lemma keeps_try [keeps_rules]: "keeps I (tx_try f)"
  by (simp add: keeps_def tx_try_def)

lemma keeps_change: "(\<And>s. I s \<Longrightarrow> I (f s)) \<Longrightarrow> keeps I (tx_change f)"
  by (simp add: keeps_def tx_change_def)

lemma keeps_when [keeps_rules]: "(c \<Longrightarrow> keeps I m) \<Longrightarrow> keeps I (tx_when c m)"
  by (simp add: tx_when_def keeps_return)

lemma keeps_catch [keeps_rules]: "keeps I m \<Longrightarrow> (\<And>e. keeps I (h e)) \<Longrightarrow> keeps I (tx_catch m h)"
  unfolding keeps_def tx_catch_def by (force split: prod.splits sum.splits dest: spec)

lemma keeps_each_from: "(\<And>k x. x \<in> set xs \<Longrightarrow> keeps I (f k x)) \<Longrightarrow> keeps I (tx_each_from k f xs)"
  by (induction xs arbitrary: k) (auto intro: keeps_rules)

lemma keeps_each [keeps_rules]: "(\<And>k x. x \<in> set xs \<Longrightarrow> keeps I (f k x)) \<Longrightarrow> keeps I (tx_each f xs)"
  unfolding tx_each_def by (rule keeps_each_from)

lemma keeps_if [keeps_rules]: "(c \<Longrightarrow> keeps I m) \<Longrightarrow> (\<not> c \<Longrightarrow> keeps I n) \<Longrightarrow> keeps I (if c then m else n)"
  by simp

lemma keeps_case_option [keeps_rules]:
  "(x = None \<Longrightarrow> keeps I m) \<Longrightarrow> (\<And>y. x = Some y \<Longrightarrow> keeps I (n y)) \<Longrightarrow> keeps I (case x of None \<Rightarrow> m | Some y \<Rightarrow> n y)"
  by (cases x) auto

lemma keeps_case_sum [keeps_rules]: "(\<And>a. x = Inl a \<Longrightarrow> keeps I (f a)) \<Longrightarrow> (\<And>b. x = Inr b \<Longrightarrow> keeps I (g b)) \<Longrightarrow>
    keeps I (case x of Inl a \<Rightarrow> f a | Inr b \<Rightarrow> g b)"
  by (cases x) auto

lemma keeps_case_list [keeps_rules]:
  "keeps I f \<Longrightarrow> (\<And>a as. xs = a # as \<Longrightarrow> keeps I (g a as)) \<Longrightarrow> keeps I (case xs of [] \<Rightarrow> f | a # as \<Rightarrow> g a as)"
  by (cases xs) auto

text \<open>A block that never raises.\<close>

definition answers :: "('s, 'a) tx \<Rightarrow> bool" where
  "answers m = (\<forall>s. is_ok (snd (m s)))"

lemma answers_catch: "(\<And>e. answers (h e)) \<Longrightarrow> answers (tx_catch m h)"
  by (auto simp: answers_def tx_catch_def split: prod.split sum.split)

lemma answers_bind: "answers m \<Longrightarrow> (\<And>x. answers (f x)) \<Longrightarrow> answers (tx_bind m f)"
  unfolding answers_def tx_bind_def by (auto split: prod.split sum.split) (metis is_ok_simps(2) snd_conv)

lemma answers_return: "answers (tx_return x)"
  by (simp add: answers_def tx_return_def)

lemma answersD: "answers m \<Longrightarrow> \<exists>s' x. m s = (s', Inr x)"
  by (cases "m s") (auto simp: answers_def is_ok_iff dest: spec [of _ s])

section \<open>What holds when a block returns\<close>

text \<open>From a state with \<open>P\<close>, if the block returns x in state s then \<open>Q x s\<close>.\<close>

definition ensures :: "('s \<Rightarrow> bool) \<Rightarrow> ('s, 'a) tx \<Rightarrow> ('a \<Rightarrow> 's \<Rightarrow> bool) \<Rightarrow> bool" where
  "ensures P m Q = (\<forall>s. P s \<longrightarrow> (case m s of (s', Inl e) \<Rightarrow> True | (s', Inr x) \<Rightarrow> Q x s'))"

lemma ensuresI: "(\<And>s s' x. P s \<Longrightarrow> m s = (s', Inr x) \<Longrightarrow> Q x s') \<Longrightarrow> ensures P m Q"
  by (auto simp: ensures_def split: prod.splits sum.splits)

lemma ensuresD: "ensures P m Q \<Longrightarrow> P s \<Longrightarrow> m s = (s', Inr x) \<Longrightarrow> Q x s'"
  by (force simp: ensures_def)

lemma ensures_bind: "ensures P m Q \<Longrightarrow> (\<And>x. ensures (Q x) (f x) R) \<Longrightarrow> ensures P (tx_bind m f) R"
  unfolding ensures_def tx_bind_def by (force split: prod.splits sum.splits dest: spec)

lemma ensures_then: "ensures P m (\<lambda>_. Q) \<Longrightarrow> ensures Q n R \<Longrightarrow> ensures P (tx_then m n) R"
  unfolding tx_then_def by (rule ensures_bind)

lemma ensures_keeps: "keeps I m \<Longrightarrow> ensures I m (\<lambda>_. I)"
  by (rule ensuresI) (metis keepsD fst_conv)

lemma ensures_weaken: "ensures P m Q \<Longrightarrow> (\<And>s. P' s \<Longrightarrow> P s) \<Longrightarrow> (\<And>x s. Q x s \<Longrightarrow> Q' x s) \<Longrightarrow> ensures P' m Q'"
  unfolding ensures_def by (force split: prod.splits sum.splits)

text \<open>A returning block returned from each of its statements.\<close>

lemma tx_bind_Inr:
  assumes "tx_bind m f s = (s', Inr y)"
  obtains s1 x where "m s = (s1, Inr x)" "f x s1 = (s', Inr y)"
  using assms by (auto simp: tx_bind_def split: prod.splits sum.splits)

lemma tx_then_Inr:
  assumes "tx_then m n s = (s', Inr y)"
  obtains s1 x where "m s = (s1, Inr x)" "n s1 = (s', Inr y)"
  using assms unfolding tx_then_def by (rule tx_bind_Inr)

lemma tx_then_unit:
  assumes "tx_then (m :: ('s, unit) tx) n s = (s', Inr y)"
  obtains s1 where "m s = (s1, Inr ())" "n s1 = (s', Inr y)"
  using tx_then_Inr [OF assms] by (metis old.unit.exhaust)

lemma tx_when_Inr:
  assumes "tx_when c m s = (s', Inr ())"
  obtains "c" "m s = (s', Inr ())" | "\<not> c" "s' = s"
  using assms by (auto simp: tx_when_def tx_return_def split: if_splits)

lemma tx_catch_cases:
  assumes "tx_catch m h s = (s', r)"
  obtains x where "m s = (s', Inr x)" "r = Inr x" | e s1 where "m s = (s1, Inl e)" "h e s1 = (s', r)"
  using assms by (auto simp: tx_catch_def split: prod.splits sum.splits)

lemma tx_try_Inr: "tx_try f s = (s', Inr x) \<longleftrightarrow> s' = s \<and> f s = Inr x"
  by (auto simp: tx_try_def)

text \<open>What a loop that returned did: the bodies' additions in order, and each body from a kept state.\<close>

lemma each_from_collects:
  assumes "\<And>k x s s'. x \<in> set xs \<Longrightarrow> f k x s = (s', Inr ()) \<Longrightarrow> g s' = g s @ h x"
    "tx_each_from k f xs s = (s', Inr ())"
  shows "g s' = g s @ concat (map h xs)"
  using assms
proof (induction xs arbitrary: k s)
  case (Cons x xs)
  from Cons.prems(2) obtain s1 where "f k x s = (s1, Inr ())" "tx_each_from (Suc k) f xs s1 = (s', Inr ())"
    by (auto elim: tx_then_unit)
  with Cons.IH [of "Suc k" s1] Cons.prems(1) show ?case by simp
qed (simp add: tx_return_def)

lemma each_from_reached:
  assumes "\<And>k x. x \<in> set xs \<Longrightarrow> keeps I (f k x)" "tx_each_from k f xs s = (s', Inr ())" "I s" "x \<in> set xs"
  obtains i s1 s2 where "f i x s1 = (s2, Inr ())" "I s1"
  using assms
proof (induction xs arbitrary: k s thesis)
  case (Cons y xs)
  from Cons.prems(3) obtain s1 where y: "f k y s = (s1, Inr ())" and r: "tx_each_from (Suc k) f xs s1 = (s', Inr ())"
    by (auto elim: tx_then_unit)
  show ?case
  proof (cases "x = y")
    case True
    with y Cons.prems(1,4) show ?thesis by blast
  next
    case False
    have "keeps I (f k y)" by (simp add: Cons.prems(2))
    from keepsD [OF this Cons.prems(4)] y have "I s1" by simp
    show ?thesis
      by (rule Cons.IH [OF Cons.prems(1) _ r \<open>I s1\<close>]) (use Cons.prems False in auto)
  qed
qed simp

end
