(* ===== verification/Media_Buy_Update.thy ===== *)
theory Media_Buy_Update
  imports Request_Checks Flight_Status Transaction Context_Manager
begin

text \<open>
  The tool update_media_buy (src/src/core/tools/media_buy_update.py): the state machine gate, the
  workflow step, the approval branch, the campaign pause, the package loop (pause, budget,
  creatives, assignments, targeting) and the flight dates, in one unit of work guarded by the audit
  of failures. The state is what the session shows, what is committed, the workflow tables and
  notices of the context manager (whose session is its own), and the calls made to the ad server.
  Parameters: the SDK's status helpers and serializers, the adapter, the creative sync (a unit of
  work of its own on the same session), format identities, and the two webhook registration gates.
  All clock readings of one call are one instant; sets are listed in request order.
\<close>

section \<open>Requests, answers and the environment\<close>

datatype budget_value =
    Budget_number rat
  | Budget_object rat "string option"

datatype start_edge =
    Asap
  | Start_at pydatetime

record assignment_update =
  au_creative_id :: string
  au_weight :: "rat option"
  au_placement_ids :: "string list option"

record package_update =
  pu_package_id :: "string option"
  pu_paused :: "bool option"
  pu_budget :: "budget_value option"
  pu_creative_ids :: "string list option"
  pu_creatives :: "json list option"
  pu_creative_assignments :: "assignment_update list option"
  pu_targeting_overlay :: "targeting option"

record update_request =
  ur_media_buy_id :: string
  ur_paused :: "bool option"
  ur_canceled :: "bool option"
  ur_packages :: "package_update list option"
  ur_start_time :: "start_edge option"
  ur_end_time :: "pydatetime option"
  ur_push_config :: "doc option"
  ur_reporting_url :: "string option option"
  ur_document :: doc

datatype package_change =
    Budget_changed rat string
  | Creatives_changed "string list" "string list" "string list"
  | Creatives_uploaded "string list"
  | Assignments_updated "string list"
  | Targeting_changed json
  | Adapter_change

record affected_package =
  af_package_id :: string
  af_change :: package_change

record update_success =
  us_media_buy_id :: string
  us_revision :: int
  us_media_buy_status :: "string option"
  us_implementation_date :: instant
  us_affected_packages :: "affected_package list"
  us_valid_actions :: "string list"
  us_errors :: "string list option"

datatype update_result =
    Update_submitted string "string list option"
  | Update_success update_success

record adapter_call =
  ac_media_buy_id :: string
  ac_action :: string
  ac_package_id :: "string option"
  ac_budget :: "int option"
  ac_today :: instant

record adapter_result =
  ad_media_buy_id :: string
  ad_affected_packages :: "affected_package list"

record sync_item =
  sy_creative_id :: string
  sy_action :: string
  sy_error_codes :: "string list"

datatype update_audit =
    Access_violation string string
  | Pause_logged string string nat
  | Update_logged string nat bool bool bool

text \<open>
  The adapter answers the last of the calls made so far; \<open>ue_sync\<close> gives the tables it committed and
  its items; \<open>ue_uuid\<close> is a fresh assignment id; a fault is a database exception of that commit.
\<close>

record update_env =
  ue_manager :: manager_env
  ue_wire :: "exn \<Rightarrow> (doc \<times> string) res"
  ue_is_terminal :: "string \<Rightarrow> bool"
  ue_valid_actions :: "string \<Rightarrow> string list"
  ue_machine_statuses :: "string list"
  ue_accept_config :: "doc \<Rightarrow> unit res"
  ue_reject_unsafe_url :: "string option \<Rightarrow> unit res"
  ue_adapter_fault :: "exn option"
  ue_adapter :: "adapter_call list \<Rightarrow> adapter_result res"
  ue_manual_required :: bool
  ue_manual_operations :: "string list"
  ue_filters_property_lists :: bool
  ue_format_identity :: "json \<Rightarrow> (string \<times> string) option"
  ue_sync :: "string \<Rightarrow> json list \<Rightarrow> update_db \<Rightarrow> (update_db \<times> sync_item list) res"
  ue_uuid :: "creative_assignment list \<Rightarrow> string"
  ue_success_doc :: "update_success \<Rightarrow> doc"
  ue_submitted_doc :: "string \<Rightarrow> string list option \<Rightarrow> doc"
  ue_context_hex :: string
  ue_step_hex :: string
  ue_now :: instant
  ue_today :: day
  ue_context_fault :: "exn option"
  ue_step_fault :: "exn option"
  ue_result_fault :: "exn option"
  ue_failure_fault :: "exn option"
  ue_commit_fault :: "exn option"

record update_state =
  st_view :: update_db
  st_saved :: update_db
  st_new_mappings :: "object_mapping list"
  st_manager :: manager_state
  st_calls :: "adapter_call list"
  st_audits :: "update_audit list"
  st_step :: "workflow_step option"
  st_affected :: "affected_package list"

type_synonym 'a upd = "(update_state, 'a) tx"

definition on_view :: "(update_db \<Rightarrow> update_db \<times> 'a res) \<Rightarrow> 'a upd" where
  "on_view f s = (case f (st_view s) of (db, r) \<Rightarrow> (s\<lparr>st_view := db\<rparr>, r))"

definition with_view :: "(update_db \<Rightarrow> 'a res) \<Rightarrow> 'a upd" where
  "with_view f = tx_try (\<lambda>s. f (st_view s))"

definition read_view :: "(update_db \<Rightarrow> 'a) \<Rightarrow> 'a upd" where
  "read_view f = tx_read (\<lambda>s. f (st_view s))"

definition change_view :: "(update_db \<Rightarrow> update_db) \<Rightarrow> unit upd" where
  "change_view f = tx_change (\<lambda>s. s\<lparr>st_view := f (st_view s)\<rparr>)"

definition track :: "string \<Rightarrow> package_change \<Rightarrow> unit upd" where
  "track pkg c = tx_change (\<lambda>s. s\<lparr>st_affected := st_affected s @ [\<lparr>af_package_id = pkg, af_change = c\<rparr>]\<rparr>)"

definition audit :: "update_audit \<Rightarrow> unit upd" where
  "audit a = tx_change (\<lambda>s. s\<lparr>st_audits := st_audits s @ [a]\<rparr>)"

definition call_adapter :: "update_env \<Rightarrow> adapter_call \<Rightarrow> adapter_result upd" where
  "call_adapter env c s =
     (s\<lparr>st_calls := st_calls s @ [c]\<rparr>, ue_adapter env (st_calls s @ [c]))"

text \<open>A call of the context manager, on its own session.\<close>

definition on_manager :: "(manager_state \<Rightarrow> manager_state \<times> 'a res) \<Rightarrow> 'a upd" where
  "on_manager f s = (case f (st_manager s) of (m, r) \<Rightarrow> (s\<lparr>st_manager := m\<rparr>, r))"

section \<open>Status, actions and ownership\<close>

text \<open>\<open>_compute_status\<close> of src/src/core/tools/media_buy_list.py.\<close>

definition compute_status :: "media_buy \<Rightarrow> day \<Rightarrow> string res" where
  "compute_status b today = (case resolve_canonical_status b today of
     Inl e \<Rightarrow> Inl e
   | Inr w \<Rightarrow> Inr (if w = ''failed'' then ''rejected'' else w))"

definition adcp_status_and_actions :: "update_env \<Rightarrow> media_buy \<Rightarrow> (string option \<times> string list) res" where
  "adcp_status_and_actions env b = (if mb_status b = [] then Inr (None, [])
     else (case compute_status b (utc_date (ue_now env)) of
        Inl e \<Rightarrow> Inl e
      | Inr w \<Rightarrow> Inr (Some w, ue_valid_actions env w)))"

definition requested_actions :: "update_request \<Rightarrow> string list" where
  "requested_actions req =
     (if ur_paused req = Some True then [''pause''] else []) @
     (if ur_paused req = Some False then [''resume''] else []) @
     (if list_ex (\<lambda>p. pu_budget p \<noteq> None) (given (ur_packages req)) then [''update_budget''] else []) @
     (if ur_start_time req \<noteq> None \<or> ur_end_time req \<noteq> None then [''update_dates''] else []) @
     (if given (ur_packages req) \<noteq> [] then [''update_packages''] else [])"

definition verify_principal :: "string \<Rightarrow> string \<Rightarrow> string \<Rightarrow> unit upd" where
  "verify_principal tenant pid mbid =
     tx_bind (with_view (\<lambda>db. get_by_id_or_raise tenant db mbid)) (\<lambda>b.
       if mb_principal_id b \<noteq> pid
       then tx_then (audit (Access_violation pid mbid)) (tx_raise (AdCPAuthorizationError pid mbid))
       else tx_return ())"

text \<open>The state machine: a terminal status refuses everything, another one what it does not list.\<close>

definition state_gate :: "update_env \<Rightarrow> update_request \<Rightarrow> string \<Rightarrow> unit res" where
  "state_gate env req status =
     (if ue_is_terminal env status
      then Inl (if ur_canceled req = Some True then AdCPNotCancellableError status else AdCPGoneError [status])
      else let requested = requested_actions req; allowed = ue_valid_actions env status in
        if allowed \<noteq> [] \<or> status \<in> set (ue_machine_statuses env)
        then (let disallowed = filter (\<lambda>a. a \<notin> set allowed) requested in
          if requested \<noteq> [] \<and> disallowed \<noteq> [] then Inl (AdCPGoneError (disallowed @ [status])) else Inr ())
        else Inr ())"

definition check_request :: "update_env \<Rightarrow> string \<Rightarrow> string \<Rightarrow> update_request \<Rightarrow> unit upd" where
  "check_request env tenant pid req =
     (if ur_media_buy_id req = [] then tx_raise (AdCPValidationError [])
      else tx_then (verify_principal tenant pid (ur_media_buy_id req))
        (with_view (\<lambda>db. state_gate env req
           (case get_by_id tenant db (ur_media_buy_id req) of None \<Rightarrow> [] | Some b \<Rightarrow> mb_status b))))"

section \<open>The workflow step\<close>

definition open_step :: "update_env \<Rightarrow> string \<Rightarrow> string \<Rightarrow> update_request \<Rightarrow> workflow_step upd" where
  "open_step env tenant pid req =
     tx_bind (on_manager (\<lambda>(db, out).
       case get_or_create_context (ue_context_fault env) (ue_context_hex env) tenant pid None True (ue_now env) db of
         Inl e \<Rightarrow> ((db, out), Inl e) | Inr (db', c) \<Rightarrow> ((db', out), Inr c))) (\<lambda>ctx.
     case ctx of None \<Rightarrow> tx_raise AdCPContextNotFoundError
     | Some cx \<Rightarrow> tx_bind (on_manager (\<lambda>(db, out).
         case create_workflow_step (ue_step_fault env) (ue_step_hex env) (cx_id cx)
           ((step_defaults ''tool_call'' ''principal'')\<lparr>sf_status := ''in_progress'',
              sf_tool_name := Some ''update_media_buy'', sf_request_data := Some (ur_document req)\<rparr>) (ue_now env) db of
           Inl e \<Rightarrow> ((db, out), Inl e) | Inr (db', step) \<Rightarrow> ((db', out), Inr step))) (\<lambda>step.
       tx_then (tx_change (\<lambda>s. s\<lparr>st_step := Some step\<rparr>)) (tx_return step)))"

text \<open>\<open>ObjectWorkflowMapping(...)\<close>, added to the session of the unit of work.\<close>

definition add_update_mapping :: "update_env \<Rightarrow> workflow_step \<Rightarrow> update_request \<Rightarrow> unit upd" where
  "add_update_mapping env step req = tx_change (\<lambda>s. s\<lparr>st_new_mappings := st_new_mappings s @
     [\<lparr>om_object_type = ''media_buy'', om_object_id = ur_media_buy_id req, om_step_id = st_id step,
       om_action = ''update'', om_created_at = ue_now env\<rparr>]\<rparr>)"

definition record_result ::
    "update_env \<Rightarrow> workflow_step \<Rightarrow> doc \<Rightarrow> string \<Rightarrow> (string \<times> string) list \<Rightarrow> doc option \<Rightarrow> unit upd" where
  "record_result env step response status comment request = on_manager (audit_workflow_step_result (ue_manager env)
     (ue_result_fault env) (st_id step) response status None comment request (ue_now env))"

section \<open>Checks before anything is applied\<close>

definition config_product_id :: "json \<Rightarrow> string option" where
  "config_product_id cfg = (case jget cfg ''product_id'' of Some (JStr s) \<Rightarrow> (if s = [] then None else Some s) | _ \<Rightarrow> None)"

definition package_updates :: "update_request \<Rightarrow> package_update list" where
  "package_updates req = given (ur_packages req)"

text \<open>The packages whose product does not allow their property list.\<close>

definition property_violations :: "string \<Rightarrow> string \<Rightarrow> package_update list \<Rightarrow> update_db \<Rightarrow> string list" where
  "property_violations tenant mbid pus db = List.map_filter (\<lambda>p.
     (case pu_targeting_overlay p of None \<Rightarrow> None
      | Some t \<Rightarrow> if tg_property_list t = None \<or> \<not> truthy_str (pu_package_id p) then None
          else (case get_package tenant db mbid (the (pu_package_id p)) of None \<Rightarrow> None
            | Some mp \<Rightarrow> (case config_product_id (mp_package_config mp) of None \<Rightarrow> None
              | Some prid \<Rightarrow> if validate_property_targeting_allowed (get_product_by_id tenant db prid) (Some t)
                  then None else Some prid)))) pus"

definition check_targeting :: "string \<Rightarrow> update_request \<Rightarrow> unit upd" where
  "check_targeting tenant req = tx_when (package_updates req \<noteq> [])
     (if list_ex (\<lambda>p. case pu_targeting_overlay p of None \<Rightarrow> False
           | Some t \<Rightarrow> collect_targeting_violations t \<noteq> []) (package_updates req)
      then tx_raise (AdCPInvalidRequestError ''targeting_overlay'')
      else with_view (\<lambda>db. raise_if_property_targeting_violations
        (property_violations tenant (ur_media_buy_id req) (package_updates req) db)))"

definition advisories :: "update_env \<Rightarrow> update_request \<Rightarrow> string list option" where
  "advisories env req = property_list_unsupported_advisories
     (map_option (map pu_targeting_overlay) (ur_packages req)) (ue_filters_property_lists env)"

definition budget_truthy :: "budget_value option \<Rightarrow> bool" where
  "budget_truthy b = (case b of None \<Rightarrow> False | Some (Budget_number x) \<Rightarrow> x \<noteq> 0 | Some (Budget_object _ _) \<Rightarrow> True)"

definition budget_amount :: "budget_value \<Rightarrow> rat" where
  "budget_amount b = (case b of Budget_number x \<Rightarrow> x | Budget_object amount _ \<Rightarrow> amount)"

definition buy_currency :: "media_buy option \<Rightarrow> string" where
  "buy_currency b = (case b of None \<Rightarrow> ''USD'' | Some x \<Rightarrow> or_str (mb_currency x) ''USD'')"

text \<open>\<open>(end - start).days\<close>, at least one; a naive and an aware datetime cannot be subtracted.\<close>

definition datetime_diff :: "pydatetime \<Rightarrow> pydatetime \<Rightarrow> int res" where
  "datetime_diff e s = (case (e, s) of
     (Naive x, Naive y) \<Rightarrow> Inr (x - y)
   | (Aware x ox, Aware y oy) \<Rightarrow> Inr (to_utc (Aware x ox) - to_utc (Aware y oy))
   | _ \<Rightarrow> Inl TypeError)"

definition flight_days :: "instant \<Rightarrow> start_edge option \<Rightarrow> pydatetime option \<Rightarrow> media_buy \<Rightarrow> int res" where
  "flight_days now st et b =
     (let s = (case st of Some Asap \<Rightarrow> Aware now 0 | Some (Start_at t) \<Rightarrow> t
           | None \<Rightarrow> (case mb_start_time b of None \<Rightarrow> Aware now 0 | Some t \<Rightarrow> t));
          e = (case et of Some t \<Rightarrow> Some t | None \<Rightarrow> mb_end_time b)
      in (case e of None \<Rightarrow> Inr 1
        | Some x \<Rightarrow> (case datetime_diff x s of Inl ex \<Rightarrow> Inl ex
          | Inr d \<Rightarrow> Inr (if d div day_us \<le> 0 then 1 else d div day_us))))"

fun daily_spend_errors :: "rat \<Rightarrow> int \<Rightarrow> package_update list \<Rightarrow> unit res" where
  "daily_spend_errors limit days [] = Inr ()"
| "daily_spend_errors limit days (p # ps) = (case pu_budget p of
     None \<Rightarrow> daily_spend_errors limit days ps
   | Some b \<Rightarrow> (case raise_if_validation_failed
         (validate_max_daily_package_spend (budget_amount b) days limit) AdCPBudgetExceededError (budget_amount b) limit of
       Inl e \<Rightarrow> Inl e
     | Inr _ \<Rightarrow> daily_spend_errors limit days ps))"

definition check_spend :: "update_env \<Rightarrow> string \<Rightarrow> update_request \<Rightarrow> update_db \<Rightarrow> unit res" where
  "check_spend env tenant req db =
     (if ur_start_time req = None \<and> ur_end_time req = None \<and> \<not> list_ex (\<lambda>p. budget_truthy (pu_budget p)) (package_updates req)
      then Inr ()
      else (case get_by_id tenant db (ur_media_buy_id req) of None \<Rightarrow> Inr ()
        | Some b \<Rightarrow> (case get_for_currency tenant (buy_currency (Some b)) db of
            None \<Rightarrow> Inl (AdCPCapabilityNotSupportedError (buy_currency (Some b)))
          | Some l \<Rightarrow> (case flight_days (ue_now env) (ur_start_time req) (ur_end_time req) b of
              Inl e \<Rightarrow> Inl e
            | Inr days \<Rightarrow> (case cl_max_daily_package_spend l of None \<Rightarrow> Inr ()
              | Some limit \<Rightarrow> if limit = 0 then Inr () else daily_spend_errors limit days (package_updates req))))))"

section \<open>The pause of the whole buy\<close>

definition adapter_today :: "update_env \<Rightarrow> instant" where
  "adapter_today env = utc_flight_start (ue_today env)"

definition success_of ::
    "update_env \<Rightarrow> string \<Rightarrow> update_request \<Rightarrow> string \<Rightarrow> affected_package list \<Rightarrow> update_db \<Rightarrow> update_success res" where
  "success_of env tenant req mbid affected db = (case get_by_id_or_raise tenant db mbid of
     Inl e \<Rightarrow> Inl e
   | Inr b \<Rightarrow> (case adcp_status_and_actions env b of
       Inl e \<Rightarrow> Inl e
     | Inr (status, actions) \<Rightarrow> Inr \<lparr>us_media_buy_id = mbid, us_revision = mb_revision b,
         us_media_buy_status = status, us_implementation_date = ue_now env, us_affected_packages = affected,
         us_valid_actions = actions, us_errors = advisories env req\<rparr>))"

definition pause_buy :: "update_env \<Rightarrow> string \<Rightarrow> workflow_step \<Rightarrow> update_request \<Rightarrow> bool \<Rightarrow> update_result upd" where
  "pause_buy env tenant step req p =
     (let action = (if p then ''pause_media_buy'' else ''resume_media_buy'') in
      tx_bind (call_adapter env \<lparr>ac_media_buy_id = ur_media_buy_id req, ac_action = action, ac_package_id = None,
        ac_budget = None, ac_today = adapter_today env\<rparr>) (\<lambda>result.
      tx_then (on_view (\<lambda>db. update_fields tenant (ue_now env) db (ad_media_buy_id result) False [Is_paused p]))
     (tx_bind (with_view (success_of env tenant req (ad_media_buy_id result) (ad_affected_packages result))) (\<lambda>resp.
      tx_then (audit (Pause_logged (ur_media_buy_id req) action (length (ad_affected_packages result))))
     (tx_then (record_result env step (ue_success_doc env resp) ''completed'' [] None)
      (tx_return (Update_success resp)))))))"

section \<open>The approval branch\<close>

definition submit_for_approval :: "update_env \<Rightarrow> workflow_step \<Rightarrow> update_request \<Rightarrow> update_result upd" where
  "submit_for_approval env step req =
     tx_then (record_result env step (ue_submitted_doc env (st_id step) (advisories env req)) ''requires_approval''
       [(''user'', ''system''), (''comment'', ''Publisher requires manual approval for all media buy updates'')]
       (Some (ur_document req)))
    (tx_then (add_update_mapping env step req)
      (tx_return (Update_submitted (st_id step) (advisories env req))))"

section \<open>One package\<close>

definition required_package :: "nat \<Rightarrow> package_update \<Rightarrow> string upd" where
  "required_package i p = (if truthy_str (pu_package_id p) then tx_return (the (pu_package_id p))
     else tx_raise (AdCPValidationError (package_field_path ''package_id'' i)))"

definition pause_package :: "update_env \<Rightarrow> string \<Rightarrow> package_update \<Rightarrow> unit upd" where
  "pause_package env mbid p = (case pu_paused p of None \<Rightarrow> tx_return ()
     | Some b \<Rightarrow> tx_bind (call_adapter env \<lparr>ac_media_buy_id = mbid,
         ac_action = (if b then ''pause_package'' else ''resume_package''), ac_package_id = pu_package_id p,
         ac_budget = None, ac_today = adapter_today env\<rparr>) (\<lambda>_. tx_return ()))"

definition budget_currency :: "string \<Rightarrow> string \<Rightarrow> budget_value \<Rightarrow> update_db \<Rightarrow> string" where
  "budget_currency tenant mbid b db = (case b of Budget_number _ \<Rightarrow> buy_currency (get_by_id tenant db mbid)
     | Budget_object _ c \<Rightarrow> or_str c ''USD'')"

definition check_package_budget :: "string \<Rightarrow> string \<Rightarrow> nat \<Rightarrow> string \<Rightarrow> budget_value \<Rightarrow> update_db \<Rightarrow> string res" where
  "check_package_budget tenant mbid i pkg b db =
     (let amount = budget_amount b; currency = budget_currency tenant mbid b db in
      if \<not> validate_budget_positive amount
      then Inl (AdCPBudgetTooLowError None (Some (package_field_path ''budget'' i)))
      else (case (case get_for_currency tenant currency db of None \<Rightarrow> Inr ()
          | Some l \<Rightarrow> (case cl_min_package_budget l of None \<Rightarrow> Inr ()
            | Some m \<Rightarrow> if m = 0 then Inr () else raise_if_validation_failed (validate_min_package_budget amount m)
                (\<lambda>x y. AdCPBudgetTooLowError (Some (x, y)) None) amount m)) of
          Inl e \<Rightarrow> Inl e
        | Inr _ \<Rightarrow> (case get_package_or_raise tenant db mbid pkg of Inl e \<Rightarrow> Inl e | Inr _ \<Rightarrow> Inr currency)))"

definition update_package_budget :: "update_env \<Rightarrow> string \<Rightarrow> string \<Rightarrow> nat \<Rightarrow> package_update \<Rightarrow> unit upd" where
  "update_package_budget env tenant mbid i p = (case pu_budget p of None \<Rightarrow> tx_return ()
     | Some b \<Rightarrow> tx_bind (required_package i p) (\<lambda>pkg.
         tx_bind (with_view (check_package_budget tenant mbid i pkg b)) (\<lambda>currency.
         tx_bind (call_adapter env \<lparr>ac_media_buy_id = mbid, ac_action = ''update_package_budget'',
           ac_package_id = Some pkg, ac_budget = Some (py_int (budget_amount b)), ac_today = adapter_today env\<rparr>) (\<lambda>_.
         track pkg (Budget_changed (budget_amount b) currency)))))"

text \<open>Existence, then status, then format; the first failing kind raises.\<close>

definition validate_creatives_for_assignment ::
    "update_env \<Rightarrow> string \<Rightarrow> string \<Rightarrow> string list \<Rightarrow> product_row option \<Rightarrow> string \<Rightarrow> update_db \<Rightarrow> unit res" where
  "validate_creatives_for_assignment env tenant pid ids p field db = (if ids = [] then Inr ()
     else let found = creative_get_by_ids tenant db (remdups ids) pid;
         missing = filter (\<lambda>i. i \<notin> set (map cr_creative_id found)) (remdups ids);
         bad = filter (\<lambda>c. cr_status c = ''error'' \<or> cr_status c = ''rejected'') found
       in if missing \<noteq> [] then Inl (AdCPCreativeNotFoundError (sort missing) field)
          else if bad \<noteq> [] then Inl (AdCPGoneError (map cr_creative_id bad))
          else (case p of None \<Rightarrow> Inr ()
            | Some pr \<Rightarrow> let supported = List.map_filter (ue_format_identity env) (prod_format_ids pr);
                incompatible = filter (\<lambda>c. case ue_format_identity env
                    (JObj [(''agent_url'', JStr (cr_agent_url c)), (''id'', JStr (cr_format c))]) of
                  None \<Rightarrow> True | Some f \<Rightarrow> f \<notin> set supported) found
              in if supported = [] \<or> incompatible = [] then Inr () else Inl (AdCPValidationError [])))"

definition package_product :: "string \<Rightarrow> string \<Rightarrow> string \<Rightarrow> update_db \<Rightarrow> product_row option" where
  "package_product tenant mbid pkg db = (case get_package tenant db mbid pkg of None \<Rightarrow> None
     | Some mp \<Rightarrow> (case config_product_id (mp_package_config mp) of None \<Rightarrow> None
       | Some prid \<Rightarrow> get_product_by_id tenant db prid))"

text \<open>A buy approved without creatives leaves draft when it gets some.\<close>

definition leave_draft :: "update_env \<Rightarrow> string \<Rightarrow> media_buy \<Rightarrow> unit upd" where
  "leave_draft env tenant b = tx_when (mb_status b = ''draft'' \<and> mb_approved_at b \<noteq> None)
     (tx_bind (on_view (\<lambda>db. update_status tenant (ue_now env) db (mb_media_buy_id b)
        (status_value PENDING_CREATIVES) False None None)) (\<lambda>_. tx_return ()))"

definition assign_new :: "update_env \<Rightarrow> string \<Rightarrow> string \<Rightarrow> string \<Rightarrow> string \<Rightarrow> int \<Rightarrow> string list option
    \<Rightarrow> string \<Rightarrow> update_db \<Rightarrow> update_db" where
  "assign_new env tenant pid mbid pkg weight placements cid db =
     assignment_create tenant (ue_now env) (ue_uuid env (creative_assignments db)) mbid pkg cid pid weight placements db"

definition set_creative_ids ::
    "update_env \<Rightarrow> string \<Rightarrow> string \<Rightarrow> string \<Rightarrow> nat \<Rightarrow> package_update \<Rightarrow> unit upd" where
  "set_creative_ids env tenant pid mbid i p = (case pu_creative_ids p of None \<Rightarrow> tx_return ()
     | Some ids \<Rightarrow> tx_bind (required_package i p) (\<lambda>pkg.
         tx_bind (with_view (\<lambda>db. get_by_id_or_raise tenant db mbid)) (\<lambda>b.
         tx_then (with_view (\<lambda>db. validate_creatives_for_assignment env tenant pid ids
           (package_product tenant mbid pkg db) (package_field_path ''creative_ids'' i) db))
        (tx_bind (read_view (\<lambda>db. get_by_media_buy_and_package tenant db mbid pkg)) (\<lambda>existing.
         let had = map asg_creative_id existing;
             added = filter (\<lambda>c. c \<notin> set had) (remdups ids);
             removed = filter (\<lambda>c. c \<notin> set ids) (remdups had)
         in tx_then (change_view (fold delete_row (filter (\<lambda>a. asg_creative_id a \<in> set removed) existing)))
           (tx_then (change_view (fold (assign_new env tenant pid mbid pkg 100 None) added))
           (tx_then (tx_when (ids \<noteq> []) (leave_draft env tenant b))
           (tx_then (with_view flush_creatives)
             (track pkg (Creatives_changed added removed ids))))))))))"

text \<open>
  Inline creatives go through the sync service, which opens and commits a unit of work on the same
  session: what was pending is committed with it, and its own failure rolls the session back.
\<close>

definition run_sync :: "update_env \<Rightarrow> string \<Rightarrow> json list \<Rightarrow> sync_item list upd" where
  "run_sync env pkg cs s = (case ue_sync env pkg cs (st_view s) of
     Inl e \<Rightarrow> (s\<lparr>st_view := st_saved s\<rparr>, Inl e)
   | Inr (db, items) \<Rightarrow> (s\<lparr>st_view := db, st_saved := db\<rparr>, Inr items))"

definition upload_creatives :: "update_env \<Rightarrow> nat \<Rightarrow> package_update \<Rightarrow> unit upd" where
  "upload_creatives env i p = tx_when (given (pu_creatives p) \<noteq> [])
     (tx_bind (required_package i p) (\<lambda>pkg.
      tx_bind (run_sync env pkg (given (pu_creatives p))) (\<lambda>items.
      let failed = filter (\<lambda>r. sy_action r = ''failed'') items in
      if failed \<noteq> [] then tx_raise (AdCPAdapterError (concat (map sy_error_codes failed)))
      else track pkg (Creatives_uploaded (map sy_creative_id
        (filter (\<lambda>r. sy_action r \<in> {''created'', ''updated''}) items))))))"

definition requested_placements :: "assignment_update list \<Rightarrow> string list" where
  "requested_placements cas = concat (map (\<lambda>ca. given (au_placement_ids ca)) cas)"

definition available_placements :: "update_env \<Rightarrow> json list \<Rightarrow> string list" where
  "available_placements env ps = List.map_filter (\<lambda>p. case jget p ''placement_id'' of None \<Rightarrow> None
     | Some j \<Rightarrow> if json_truthy j then Some (case j of JStr s \<Rightarrow> s | _ \<Rightarrow> mg_py (ue_manager env) j) else None) ps"

definition check_placements ::
    "update_env \<Rightarrow> string \<Rightarrow> string \<Rightarrow> string \<Rightarrow> assignment_update list \<Rightarrow> update_db \<Rightarrow> unit res" where
  "check_placements env tenant mbid pkg cas db = (if requested_placements cas = [] then Inr ()
     else (case get_package_or_raise tenant db mbid pkg of Inl e \<Rightarrow> Inl e
       | Inr mp \<Rightarrow> (case config_product_id (mp_package_config mp) of None \<Rightarrow> Inr ()
         | Some prid \<Rightarrow> (case get_product_by_id tenant db prid of None \<Rightarrow> Inr ()
           | Some pr \<Rightarrow> if given (prod_placements pr) = [] then Inl (AdCPCapabilityNotSupportedError prid)
               else if list_all (\<lambda>x. x \<in> set (available_placements env (given (prod_placements pr)))) (requested_placements cas)
               then Inr () else Inl (AdCPValidationError ''creative_assignments[].placement_ids'')))))"

definition amend_assignment :: "assignment_update \<Rightarrow> creative_assignment \<Rightarrow> creative_assignment" where
  "amend_assignment ca a = a\<lparr>asg_weight := (case au_weight ca of None \<Rightarrow> asg_weight a | Some w \<Rightarrow> py_int w),
     asg_placement_ids := (case au_placement_ids ca of None \<Rightarrow> asg_placement_ids a | Some ps \<Rightarrow> Some ps)\<rparr>"

definition write_assignment :: "creative_assignment \<Rightarrow> update_db \<Rightarrow> update_db" where
  "write_assignment a db = db\<lparr>creative_assignments :=
     update_where (\<lambda>r. asg_assignment_id r = asg_assignment_id a) (\<lambda>r. a) (creative_assignments db)\<rparr>"

text \<open>The query of \<open>get_existing\<close> flushes what the iterations before it added.\<close>

definition put_assignment ::
    "update_env \<Rightarrow> string \<Rightarrow> string \<Rightarrow> string \<Rightarrow> string \<Rightarrow> assignment_update \<Rightarrow> unit upd" where
  "put_assignment env tenant pid mbid pkg ca =
     tx_then (with_view flush_creatives)
    (tx_bind (read_view (\<lambda>db. get_existing tenant db mbid pkg (au_creative_id ca) pid)) (\<lambda>existing.
     case existing of
       Some a \<Rightarrow> change_view (write_assignment (amend_assignment ca a))
     | None \<Rightarrow> change_view (assign_new env tenant pid mbid pkg
         (case au_weight ca of None \<Rightarrow> 100 | Some w \<Rightarrow> py_int w) (au_placement_ids ca) (au_creative_id ca))))"

definition set_creative_assignments ::
    "update_env \<Rightarrow> string \<Rightarrow> string \<Rightarrow> string \<Rightarrow> nat \<Rightarrow> package_update \<Rightarrow> unit upd" where
  "set_creative_assignments env tenant pid mbid i p =
     (let cas = given (pu_creative_assignments p); ids = map au_creative_id cas in tx_when (cas \<noteq> [])
     (tx_bind (required_package i p) (\<lambda>pkg.
      tx_bind (with_view (\<lambda>db. get_by_id_or_raise tenant db mbid)) (\<lambda>b.
      tx_then (with_view (\<lambda>db. validate_creatives_for_assignment env tenant pid ids
        (package_product tenant mbid pkg db) (package_field_path ''creative_assignments'' i) db))
     (tx_then (with_view (check_placements env tenant mbid pkg cas))
     (tx_then (change_view (\<lambda>db. fold delete_row
        (filter (\<lambda>a. asg_creative_id a \<notin> set ids) (get_by_media_buy_and_package tenant db mbid pkg)) db))
     (tx_then (tx_each (\<lambda>_. put_assignment env tenant pid mbid pkg) cas)
     (tx_then (leave_draft env tenant b)
     (tx_then (with_view flush_creatives)
       (track pkg (Assignments_updated ids)))))))))))"

text \<open>
  The overlay is put into the stored configuration itself, not through the repository: the buy's
  revision stays. A configuration that is not a dict does not take an item.
\<close>

definition with_overlay :: "targeting \<Rightarrow> json \<Rightarrow> json res" where
  "with_overlay t cfg = (case cfg of JObj kvs \<Rightarrow> Inr (JObj (dict_set ''targeting_overlay'' (tg_document t) kvs)) | _ \<Rightarrow> Inl TypeError)"

definition store_overlay :: "targeting \<Rightarrow> media_package \<Rightarrow> update_db \<Rightarrow> update_db \<times> unit res" where
  "store_overlay t mp db = (case with_overlay t (mp_package_config mp) of Inl e \<Rightarrow> (db, Inl e)
     | Inr cfg \<Rightarrow> if package_checks mp then (write_package db (mp\<lparr>mp_package_config := cfg\<rparr>), Inr ())
         else (db, Inl IntegrityError))"

definition set_targeting :: "string \<Rightarrow> string \<Rightarrow> nat \<Rightarrow> package_update \<Rightarrow> unit upd" where
  "set_targeting tenant mbid i p = (case pu_targeting_overlay p of None \<Rightarrow> tx_return ()
     | Some t \<Rightarrow> tx_bind (required_package i p) (\<lambda>pkg.
         tx_bind (with_view (\<lambda>db. get_package_or_raise tenant db mbid pkg)) (\<lambda>mp.
         tx_then (on_view (store_overlay t mp))
           (track pkg (Targeting_changed (tg_document t))))))"

definition update_package :: "update_env \<Rightarrow> string \<Rightarrow> string \<Rightarrow> string \<Rightarrow> nat \<Rightarrow> package_update \<Rightarrow> unit upd" where
  "update_package env tenant pid mbid i p =
     tx_then (pause_package env mbid p)
    (tx_then (update_package_budget env tenant mbid i p)
    (tx_then (set_creative_ids env tenant pid mbid i p)
    (tx_then (upload_creatives env i p)
    (tx_then (set_creative_assignments env tenant pid mbid i p)
      (set_targeting tenant mbid i p)))))"

section \<open>The flight dates\<close>

definition start_value :: "instant \<Rightarrow> start_edge option \<Rightarrow> pydatetime option" where
  "start_value now st = (case st of None \<Rightarrow> None | Some Asap \<Rightarrow> Some (Aware now 0) | Some (Start_at t) \<Rightarrow> Some t)"

definition update_values :: "update_env \<Rightarrow> update_request \<Rightarrow> mb_attr list" where
  "update_values env req =
     (case start_value (ue_now env) (ur_start_time req) of None \<Rightarrow> [] | Some t \<Rightarrow> [Start_time (Some t)]) @
     (case ur_end_time req of None \<Rightarrow> [] | Some t \<Rightarrow> [End_time (Some t)])"

definition check_date_range :: "update_env \<Rightarrow> update_request \<Rightarrow> media_buy \<Rightarrow> unit res" where
  "check_date_range env req b =
     (case (case start_value (ue_now env) (ur_start_time req) of None \<Rightarrow> mb_start_time b | t \<Rightarrow> t,
            case ur_end_time req of None \<Rightarrow> mb_end_time b | t \<Rightarrow> t) of
        (Some s, Some e) \<Rightarrow> (case datetime_diff e s of Inl ex \<Rightarrow> Inl ex
          | Inr d \<Rightarrow> if d \<le> 0 then Inl (AdCPValidationError ''end_time'') else Inr ())
      | _ \<Rightarrow> Inr ())"

definition update_dates :: "update_env \<Rightarrow> string \<Rightarrow> update_request \<Rightarrow> unit upd" where
  "update_dates env tenant req = tx_when (update_values env req \<noteq> [])
     (tx_bind (with_view (\<lambda>db. get_by_id_or_raise tenant db (ur_media_buy_id req))) (\<lambda>b.
      tx_then (with_view (\<lambda>_. check_date_range env req b))
      (tx_bind (on_view (\<lambda>db. update_fields tenant (ue_now env) db (ur_media_buy_id req) False (update_values env req)))
        (\<lambda>_. tx_return ()))))"

section \<open>The tool\<close>

definition apply_update :: "update_env \<Rightarrow> string \<Rightarrow> string \<Rightarrow> workflow_step \<Rightarrow> update_request \<Rightarrow> update_result upd" where
  "apply_update env tenant pid step req =
     tx_then (tx_each (update_package env tenant pid (ur_media_buy_id req)) (package_updates req))
    (tx_then (update_dates env tenant req)
    (tx_then (add_update_mapping env step req)
    (tx_bind (tx_read st_affected) (\<lambda>affected.
     tx_bind (with_view (success_of env tenant req (ur_media_buy_id req) affected)) (\<lambda>resp.
     tx_then (audit (Update_logged (ur_media_buy_id req) (length affected)
       (list_ex (\<lambda>p. pu_budget p \<noteq> None) (package_updates req)) (ur_paused req \<noteq> None) (package_updates req \<noteq> [])))
    (tx_then (record_result env step (ue_success_doc env resp) ''completed'' [] None)
      (tx_return (Update_success resp))))))))"

definition update_body :: "update_env \<Rightarrow> string \<Rightarrow> string \<Rightarrow> update_request \<Rightarrow> update_result upd" where
  "update_body env tenant pid req =
     tx_then (check_request env tenant pid req)
    (tx_bind (open_step env tenant pid req) (\<lambda>step.
     tx_then (tx_try (\<lambda>_. case ue_adapter_fault env of Some e \<Rightarrow> Inl e | None \<Rightarrow> Inr ()))
    (tx_then (check_targeting tenant req)
    (if ue_manual_required env \<and> ''update_media_buy'' \<in> set (ue_manual_operations env)
     then submit_for_approval env step req
     else tx_then (with_view (check_spend env tenant req))
       (case ur_paused req of
          Some p \<Rightarrow> pause_buy env tenant step req p
        | None \<Rightarrow> apply_update env tenant pid step req)))))"

text \<open>
  The unit of work: a clean exit flushes and commits what is pending, anything else rolls back. The
  committed mapping is then visible to the context manager.
\<close>

definition commit_unit :: "update_env \<Rightarrow> update_state \<Rightarrow> update_state \<times> unit res" where
  "commit_unit env s = (case (case ue_commit_fault env of Some e \<Rightarrow> Inl e | None \<Rightarrow> flush_creatives (st_view s)) of
     Inl e \<Rightarrow> (s\<lparr>st_view := st_saved s, st_new_mappings := []\<rparr>, Inl e)
   | Inr _ \<Rightarrow> (s\<lparr>st_saved := st_view s, st_new_mappings := [],
       st_manager := (case st_manager s of (db, out) \<Rightarrow> (db\<lparr>wf_mappings := wf_mappings db @ st_new_mappings s\<rparr>, out))\<rparr>, Inr ()))"

definition in_unit :: "update_env \<Rightarrow> 'a upd \<Rightarrow> 'a upd" where
  "in_unit env m s = (case m s of
     (s', Inl e) \<Rightarrow> (s'\<lparr>st_view := st_saved s', st_new_mappings := []\<rparr>, Inl e)
   | (s', Inr x) \<Rightarrow> (case commit_unit env s' of (s'', Inl e) \<Rightarrow> (s'', Inl e) | (s'', Inr _) \<Rightarrow> (s'', Inr x)))"

definition audited :: "update_env \<Rightarrow> 'a upd \<Rightarrow> 'a upd" where
  "audited env m s = (case m s of
     (s', Inr x) \<Rightarrow> (s', Inr x)
   | (s', Inl e) \<Rightarrow> (s'\<lparr>st_manager := audit_workflow_step_failure_if_present (ue_manager env) (ue_wire env)
       (ue_failure_fault env) (st_step s') e (ue_now env) (st_manager s')\<rparr>, Inl e))"

definition registration_gate :: "update_env \<Rightarrow> update_request \<Rightarrow> unit res" where
  "registration_gate env req =
     (case (case ur_push_config req of None \<Rightarrow> Inr () | Some d \<Rightarrow> ue_accept_config env d) of
        Inl e \<Rightarrow> Inl e
      | Inr _ \<Rightarrow> (case ur_reporting_url req of None \<Rightarrow> Inr () | Some u \<Rightarrow> ue_reject_unsafe_url env u))"

definition update_media_buy_impl :: "update_env \<Rightarrow> string \<Rightarrow> string \<Rightarrow> update_request \<Rightarrow> update_result upd" where
  "update_media_buy_impl env tenant pid req =
     tx_then (tx_try (\<lambda>_. registration_gate env req))
       (audited env (in_unit env (update_body env tenant pid req)))"

definition normalize_pacing :: "string option \<Rightarrow> string" where
  "normalize_pacing pacing = (if pacing = Some ''asap'' then ''asap''
     else if pacing = Some ''daily_budget'' then ''daily_budget'' else ''even'')"

text \<open>A call starts with nothing pending, no step and nothing affected.\<close>

definition start_state :: "update_db \<Rightarrow> manager_state \<Rightarrow> adapter_call list \<Rightarrow> update_audit list \<Rightarrow> update_state" where
  "start_state db m calls audits = \<lparr>st_view = db, st_saved = db, st_new_mappings = [], st_manager = m,
     st_calls = calls, st_audits = audits, st_step = None, st_affected = []\<rparr>"

end
