(* ===== verification/Update_Properties.thy ===== *)
theory Update_Properties
  imports Media_Buy_Update
begin

text \<open>
  What update_media_buy keeps and promises. A locale states once which effects the tool can have on
  its state; whatever invariant those effects keep, the whole block keeps, however it ends. It is
  interpreted for the committed tables, for what other tenants see, and for the notices of the
  context manager.
\<close>

section \<open>The effects of the block\<close>

lemma keeps_on_view: "(\<And>s. I s \<Longrightarrow> I (s\<lparr>st_view := fst (f (st_view s))\<rparr>)) \<Longrightarrow> keeps I (on_view f)"
  by (auto simp: keeps_def on_view_def split: prod.splits) (metis fst_conv)

lemma keeps_with_view [keeps_rules]: "keeps I (with_view f)"
  unfolding with_view_def by (rule keeps_try)

lemma keeps_read_view [keeps_rules]: "keeps I (read_view f)"
  unfolding read_view_def by (rule keeps_read)

lemma keeps_change_view: "(\<And>s. I s \<Longrightarrow> I (s\<lparr>st_view := f (st_view s)\<rparr>)) \<Longrightarrow> keeps I (change_view f)"
  unfolding change_view_def by (rule keeps_change)

text \<open>The columns the tool itself assigns.\<close>

definition flight_attr :: "mb_attr \<Rightarrow> bool" where
  "flight_attr a = (case a of Is_paused _ \<Rightarrow> True | Start_time _ \<Rightarrow> True | End_time _ \<Rightarrow> True | _ \<Rightarrow> False)"

lemma flight_attr_values: "list_all flight_attr (update_values env req)"
  by (simp add: update_values_def flight_attr_def split: option.split)

lemma flight_attr_pause: "list_all flight_attr [Is_paused p]"
  by (simp add: flight_attr_def)

locale package_effects =
  fixes I :: "update_state \<Rightarrow> bool" and env :: update_env and tenant :: string and pid :: string and req :: update_request
  assumes e_status: "I s \<Longrightarrow> I (s\<lparr>st_view := fst (update_status tenant (ue_now env) (st_view s) i v False None None)\<rparr>)"
    and e_delete: "I s \<Longrightarrow> I s0 \<Longrightarrow> a \<in> set (creative_assignments (st_view s0)) \<Longrightarrow> asg_tenant_id a = tenant \<Longrightarrow>
      I (s\<lparr>st_view := delete_row a (st_view s)\<rparr>)"
    and e_assign: "I s \<Longrightarrow> I (s\<lparr>st_view := assign_new env tenant pid mbid pkg w ps cid (st_view s)\<rparr>)"
    and e_amend: "I s \<Longrightarrow> I s0 \<Longrightarrow> get_existing tenant (st_view s0) mbid pkg cid pid = Some a \<Longrightarrow>
      I (s\<lparr>st_view := write_assignment (amend_assignment (ca :: assignment_update) a) (st_view s)\<rparr>)"
    and e_overlay: "I s \<Longrightarrow> I s0 \<Longrightarrow> get_package tenant (st_view s0) mbid pkg = Some mp \<Longrightarrow>
      I (s\<lparr>st_view := fst (store_overlay (t :: targeting) mp (st_view s))\<rparr>)"
    and e_sync: "I s \<Longrightarrow> p \<in> set (package_updates req) \<Longrightarrow> given (pu_creatives p) \<noteq> [] \<Longrightarrow>
      I (fst (run_sync env pkg (given (pu_creatives p)) s))"
    and e_track: "I s \<Longrightarrow> I (s\<lparr>st_affected := st_affected s @ [x]\<rparr>)"
begin

lemma k_track [keeps_rules]: "keeps I (track pkg c)"
  unfolding track_def by (rule keeps_change) (rule e_track)

lemma k_required [keeps_rules]: "keeps I (required_package i p)"
  unfolding required_package_def by (intro keeps_rules)

lemma e_deletes: "I s \<Longrightarrow> I s0 \<Longrightarrow> (\<forall>a\<in>set as. asg_tenant_id a = tenant \<and> a \<in> set (creative_assignments (st_view s0))) \<Longrightarrow>
    I (s\<lparr>st_view := fold delete_row as (st_view s)\<rparr>)"
proof (induction as arbitrary: s)
  case (Cons a as)
  from Cons.IH [OF e_delete [OF Cons.prems(1,2), of a] Cons.prems(2)] Cons.prems(3) show ?case by simp
qed simp

lemma e_assigns: "I s \<Longrightarrow> I (s\<lparr>st_view := fold (assign_new env tenant pid mbid pkg w ps) cs (st_view s)\<rparr>)"
proof (induction cs arbitrary: s)
  case (Cons c cs)
  from Cons.IH [OF e_assign [OF Cons.prems]] show ?case by simp
qed simp

lemma k_leave_draft [keeps_rules]: "keeps I (leave_draft env tenant b)"
  unfolding leave_draft_def by (intro keeps_rules keeps_on_view e_status)

lemma own_assignments: "a \<in> set (get_by_media_buy_and_package tenant db mbid pkg) \<Longrightarrow>
    asg_tenant_id a = tenant \<and> a \<in> set (creative_assignments db)"
  by (simp add: get_by_media_buy_and_package_def assignments_where_def)

lemma k_creative_ids: "keeps I (set_creative_ids env tenant pid mbid i p)"
  unfolding set_creative_ids_def Let_def read_view_def
  by (intro keeps_rules keeps_bind_result keeps_change_view e_deletes e_assigns)
    (auto simp: tx_defs dest: own_assignments)

lemma k_put_assignment: "keeps I (put_assignment env tenant pid mbid pkg ca)"
  unfolding put_assignment_def
  by (intro keeps_then keeps_with_view keeps_bind_result keeps_read_view keeps_case_option keeps_change_view e_assign)
    (auto simp: read_view_def tx_read_def intro: e_amend)

lemma k_creative_assignments: "keeps I (set_creative_assignments env tenant pid mbid i p)"
  unfolding set_creative_assignments_def Let_def
  by (intro keeps_rules k_put_assignment keeps_change_view e_deletes) (auto dest: own_assignments)

lemma get_package_or_raise_Inr: "get_package_or_raise t db i k = Inr p \<longleftrightarrow> get_package t db i k = Some p"
  by (simp add: get_package_or_raise_def split: option.split)

lemma k_targeting: "keeps I (set_targeting tenant mbid i p)"
  unfolding set_targeting_def
  by (intro keeps_case_option keeps_return keeps_then keeps_with_view keeps_bind_result k_required k_track keeps_on_view)
    (auto simp: with_view_def tx_try_def get_package_or_raise_Inr intro: e_overlay)

lemma k_upload: "p \<in> set (package_updates req) \<Longrightarrow> keeps I (upload_creatives env i p)"
  unfolding upload_creatives_def Let_def
  by (intro keeps_rules) (simp add: keeps_def e_sync)

end

text \<open>The whole block adds calls to the ad server, the flight dates, the pause and the records.\<close>

locale update_effects = package_effects +
  assumes e_fields: "I s \<Longrightarrow> list_all flight_attr kw \<Longrightarrow> I (s\<lparr>st_view := fst (update_fields tenant (ue_now env) (st_view s) i False kw)\<rparr>)"
    and e_call: "I s \<Longrightarrow> I (s\<lparr>st_calls := st_calls s @ [c]\<rparr>)"
    and e_audit: "I s \<Longrightarrow> I (s\<lparr>st_audits := st_audits s @ [y]\<rparr>)"
    and e_mapping: "I s \<Longrightarrow> I (s\<lparr>st_new_mappings := st_new_mappings s @ [m]\<rparr>)"
    and e_open: "keeps I (open_step env tenant pid req)"
    and e_record: "I s \<Longrightarrow> open_step env tenant pid req s = (s', Inr step) \<Longrightarrow>
      keeps I (record_result env step doc word comment request)"
begin

lemma k_audit [keeps_rules]: "keeps I (audit a)"
  unfolding audit_def by (rule keeps_change) (rule e_audit)

lemma k_call [keeps_rules]: "keeps I (call_adapter env c)"
  using e_call by (simp add: keeps_def call_adapter_def)

lemma k_mapping [keeps_rules]: "keeps I (add_update_mapping env step r)"
  unfolding add_update_mapping_def by (rule keeps_change) (rule e_mapping)

lemma k_package: "p \<in> set (package_updates req) \<Longrightarrow> keeps I (update_package env tenant pid mbid i p)"
  unfolding update_package_def pause_package_def update_package_budget_def
  by (intro keeps_rules k_creative_ids k_creative_assignments k_targeting k_upload)

lemma k_dates: "keeps I (update_dates env tenant req)"
  unfolding update_dates_def by (intro keeps_rules keeps_on_view e_fields flight_attr_values)

lemma k_pause:
  assumes "\<And>d st c r. keeps I (record_result env step d st c r)"
  shows "keeps I (pause_buy env tenant step req b)"
  unfolding pause_buy_def Let_def by (intro keeps_rules keeps_on_view e_fields assms flight_attr_pause)

lemma k_apply:
  assumes "\<And>d st c r. keeps I (record_result env step d st c r)"
  shows "keeps I (apply_update env tenant pid step req)"
  unfolding apply_update_def by (intro keeps_rules k_package k_dates assms)

lemma k_submit:
  assumes "\<And>d st c r. keeps I (record_result env step d st c r)"
  shows "keeps I (submit_for_approval env step req)"
  unfolding submit_for_approval_def by (intro keeps_rules assms)

lemma k_check: "keeps I (check_request env tenant pid req)"
  unfolding check_request_def verify_principal_def by (intro keeps_rules)

lemma body_keeps: "keeps I (update_body env tenant pid req)"
  unfolding update_body_def check_targeting_def
  by (intro keeps_rules keeps_bind_result [OF e_open] k_check k_submit k_pause k_apply e_record) assumption+

end

section \<open>A refused update\<close>

definition no_uploads :: "update_request \<Rightarrow> bool" where
  "no_uploads req = list_all (\<lambda>p. given (pu_creatives p) = []) (package_updates req)"

definition saved_is :: "update_db \<Rightarrow> update_state \<Rightarrow> bool" where
  "saved_is db s = (st_saved s = db)"

lemma on_manager_keeps: "(\<And>s m. I s \<Longrightarrow> I (s\<lparr>st_manager := m\<rparr>)) \<Longrightarrow> keeps I (on_manager f)"
  by (auto simp: keeps_def on_manager_def split: prod.splits)

lemma open_step_keeps:
  assumes "\<And>s m. I s \<Longrightarrow> I (s\<lparr>st_manager := m\<rparr>)" "\<And>s x. I s \<Longrightarrow> I (s\<lparr>st_step := x\<rparr>)"
  shows "keeps I (open_step env tenant pid req)"
  unfolding open_step_def by (intro keeps_rules on_manager_keeps keeps_change assms)

interpretation saved: update_effects "\<lambda>s. saved_is db s \<and> no_uploads req" env tenant pid req
  by unfold_locales
    (auto simp: saved_is_def no_uploads_def list_all_iff record_result_def
      intro!: open_step_keeps on_manager_keeps)

lemma impl_cases:
  assumes "update_media_buy_impl env tenant pid req s = (s', r)"
  obtains (gate) e where "registration_gate env req = Inl e" "s' = s" "r = Inl e"
  | (raised) s1 e where "update_body env tenant pid req s = (s1, Inl e)" "r = Inl e"
      "s' = (s1\<lparr>st_view := st_saved s1, st_new_mappings := []\<rparr>)
        \<lparr>st_manager := audit_workflow_step_failure_if_present (ue_manager env) (ue_wire env)
          (ue_failure_fault env) (st_step s1) e (ue_now env) (st_manager s1)\<rparr>"
  | (uncommitted) s1 x e where "update_body env tenant pid req s = (s1, Inr x)" "r = Inl e"
      "commit_unit env s1 = (s1\<lparr>st_view := st_saved s1, st_new_mappings := []\<rparr>, Inl e)"
      "s' = (s1\<lparr>st_view := st_saved s1, st_new_mappings := []\<rparr>)
        \<lparr>st_manager := audit_workflow_step_failure_if_present (ue_manager env) (ue_wire env)
          (ue_failure_fault env) (st_step s1) e (ue_now env) (st_manager s1)\<rparr>"
  | (committed) s1 x where "update_body env tenant pid req s = (s1, Inr x)" "r = Inr x"
      "commit_unit env s1 = (s', Inr ())" "flush_creatives (st_view s1) = Inr ()"
proof (cases "registration_gate env req")
  case (Inl e)
  with assms show ?thesis by (intro gate) (auto simp: update_media_buy_impl_def tx_defs)
next
  case (Inr u)
  then have a: "audited env (in_unit env (update_body env tenant pid req)) s = (s', r)"
    using assms by (simp add: update_media_buy_impl_def tx_defs)
  obtain s1 q where b: "update_body env tenant pid req s = (s1, q)" by (cases "update_body env tenant pid req s")
  show ?thesis
  proof (cases q)
    case (Inl e)
    with a b show ?thesis by (intro raised) (auto simp: audited_def in_unit_def)
  next
    case (Inr x)
    show ?thesis
    proof (cases "case ue_commit_fault env of Some e \<Rightarrow> Inl e | None \<Rightarrow> flush_creatives (st_view s1)")
      case (Inl e)
      then have c: "commit_unit env s1 = (s1\<lparr>st_view := st_saved s1, st_new_mappings := []\<rparr>, Inl e)"
        by (simp add: commit_unit_def)
      with a b Inr show ?thesis by (intro uncommitted [OF _ _ c]) (auto simp: audited_def in_unit_def)
    next
      case q: (Inr u)
      then have "snd (commit_unit env s1) = Inr ()" by (simp add: commit_unit_def)
      moreover have "flush_creatives (st_view s1) = Inr ()" using q by (auto split: option.splits)
      ultimately show ?thesis using a b Inr
        by (intro committed) (auto simp: audited_def in_unit_def split: prod.splits)
    qed
  qed
qed


section \<open>Notices\<close>

text \<open>
  The workflow tables keep well formed, the mappings and the steps that were there stay, and nothing
  is added to the outbox.
\<close>

definition quiet :: "wf_db \<Rightarrow> push_notice list \<Rightarrow> update_state \<Rightarrow> bool" where
  "quiet db out s = (wf_ok (fst (st_manager s)) \<and> snd (st_manager s) = out \<and>
     wf_mappings (fst (st_manager s)) = wf_mappings db \<and>
     st_id ` set (wf_steps db) \<subseteq> st_id ` set (wf_steps (fst (st_manager s))) \<and>
     (\<forall>x. st_step s = Some x \<longrightarrow> st_id x \<notin> om_step_id ` set (wf_mappings db)))"

lemma commit_rows_Inr: "commit_rows fault db r = Inr r' \<longleftrightarrow> fault = None \<and> r' = r \<and>
    distinct (map cx_id (wf_contexts (fst r))) \<and> distinct (map st_id (wf_steps (fst r))) \<and>
    (\<forall>s\<in>set (wf_steps (fst r)). st_context s \<in> cx_id ` set (wf_contexts (fst r)))"
  by (auto simp: commit_rows_def list_all_iff list_ex_iff image_iff split: option.splits) metis+

lemma new_context_ok:
  "wf_ok db \<Longrightarrow> get_or_create_context fault hex t p None True now db = Inr (db', c) \<Longrightarrow>
    wf_ok db' \<and> wf_mappings db' = wf_mappings db \<and> wf_steps db' = wf_steps db"
  by (auto simp: get_or_create_context_def manager_create_context_def commit_rows_Inr build_context_def
      Let_def wf_ok_def split: sum.splits)

lemma new_step_ok:
  assumes "wf_ok db" "create_workflow_step fault hex cid f now db = Inr (db', step)" "sf_object_mappings f = []"
  shows "wf_ok db' \<and> wf_mappings db' = wf_mappings db \<and> wf_steps db' = wf_steps db @ [step] \<and>
    st_id step = ''step_'' @ hex \<and> st_id step \<notin> st_id ` set (wf_steps db)"
proof -
  have eq: "build_workflow_step hex cid f now db = (db', step)"
    and key: "distinct (map st_id (wf_steps db'))" "\<forall>s\<in>set (wf_steps db'). st_context s \<in> cx_id ` set (wf_contexts db')"
    using assms(2) [unfolded create_workflow_step_def commit_rows_Inr]
    by (metis fst_conv)+
  from eq assms(3) have rows: "wf_steps db' = wf_steps db @ [step]" "wf_mappings db' = wf_mappings db"
      "wf_contexts db' = wf_contexts db" "st_id step = ''step_'' @ hex"
    by (auto simp: build_workflow_step_def Let_def)
  with key assms(1) show ?thesis by (auto simp: wf_ok_def)
qed

lemma step_defaults_mappings [simp]: "sf_object_mappings (step_defaults a b) = []"
  by (simp add: step_defaults_def)

lemma open_step_Inr:
  assumes "open_step env tenant pid req s = (s', Inr step)" "wf_ok (fst (st_manager s))"
  obtains db1 where "s' = s\<lparr>st_manager := (db1, snd (st_manager s)), st_step := Some step\<rparr>" "wf_ok db1"
    "wf_mappings db1 = wf_mappings (fst (st_manager s))" "wf_steps db1 = wf_steps (fst (st_manager s)) @ [step]"
    "st_id step = ''step_'' @ ue_step_hex env" "st_id step \<notin> st_id ` set (wf_steps (fst (st_manager s)))"
proof -
  obtain db out where m: "st_manager s = (db, out)" by (cases "st_manager s")
  from assms(1) obtain db0 cx db1 where
    c: "get_or_create_context (ue_context_fault env) (ue_context_hex env) tenant pid None True (ue_now env) db = Inr (db0, Some cx)" and
    w: "create_workflow_step (ue_step_fault env) (ue_step_hex env) (cx_id cx)
        ((step_defaults ''tool_call'' ''principal'')\<lparr>sf_status := ''in_progress'',
          sf_tool_name := Some ''update_media_buy'', sf_request_data := Some (ur_document req)\<rparr>) (ue_now env) db0 = Inr (db1, step)"
    and s': "s' = s\<lparr>st_manager := (db1, out), st_step := Some step\<rparr>"
    unfolding open_step_def on_manager_def using m by (auto simp: tx_defs split: sum.splits option.splits prod.splits)
  have ok0: "wf_ok db0 \<and> wf_mappings db0 = wf_mappings db \<and> wf_steps db0 = wf_steps db"
    using new_context_ok [OF _ c] assms(2) m by simp
  have "wf_ok db0" using ok0 by blast
  moreover have "sf_object_mappings ((step_defaults ''tool_call'' ''principal'')\<lparr>sf_status := ''in_progress'',
      sf_tool_name := Some ''update_media_buy'', sf_request_data := Some (ur_document req)\<rparr>) = []"
    by simp
  ultimately have f: "wf_ok db1" "wf_mappings db1 = wf_mappings db0" "wf_steps db1 = wf_steps db0 @ [step]"
    "st_id step = ''step_'' @ ue_step_hex env" "st_id step \<notin> st_id ` set (wf_steps db0)"
    using new_step_ok [OF _ w] by blast+
  from ok0 have g: "wf_mappings db0 = wf_mappings db" "wf_steps db0 = wf_steps db" by blast+
  show ?thesis
    by (rule that [of db1]) (simp only: s' f(1) f(2,3) g m fst_conv snd_conv | rule f(4) f(5) [unfolded g])+
qed

lemma unmapped_update_is_quiet:
  assumes "wf_ok db" "sid \<notin> om_step_id ` set (wf_mappings db)"
  shows "\<exists>db'. fst (update_workflow_step env fault sid u now (db, out)) = (db', out) \<and> wf_ok db' \<and>
    wf_mappings db' = wf_mappings db \<and> st_id ` set (wf_steps db) \<subseteq> st_id ` set (wf_steps db')"
proof (cases "manager_step sid (su_tenant u) db")
  case None
  then show ?thesis using assms(1) by (simp add: update_workflow_step_def)
next
  case (Some s)
  obtain db2 c where w: "wf_ok db2" "manager_step sid (su_tenant u) db2 = Some ((updated_step u now s)\<lparr>st_comments := c\<rparr>)"
    "wf_contexts db2 = wf_contexts db" "wf_mappings db2 = wf_mappings db"
    "\<forall>x. st_id x \<noteq> sid \<longrightarrow> x \<in> set (wf_steps db2) \<longleftrightarrow> x \<in> set (wf_steps db)"
    and eq: "\<And>env fault out. update_workflow_step env fault sid u now (db, out) = (case fault of
        Some e \<Rightarrow> ((db, out), Inl e)
      | None \<Rightarrow> ((db2, if truthy_str (su_status u)
          then out @ send_push_notifications env db2 ((updated_step u now s)\<lparr>st_comments := c\<rparr>) (the (su_status u)) else out), Inr ()))"
    by (rule update_writes [OF assms(1) Some, of now]) blast
  have "st_id s = sid" using manager_step_Some [OF Some] by simp
  then have none: "filter (\<lambda>m. om_step_id m = st_id ((updated_step u now s)\<lparr>st_comments := c\<rparr>)) (wf_mappings db2) = []"
    using assms(2) w(4) by (auto simp: filter_empty_conv image_iff)
  have ids: "st_id ` set (wf_steps db) \<subseteq> st_id ` set (wf_steps db2)"
  proof
    fix i assume "i \<in> st_id ` set (wf_steps db)"
    then obtain x where x: "x \<in> set (wf_steps db)" "st_id x = i" by auto
    show "i \<in> st_id ` set (wf_steps db2)"
    proof (cases "i = sid")
      case True
      then show ?thesis using manager_step_Some [OF w(2)] by (auto intro: rev_image_eqI)
    next
      case False
      with x w(5) show ?thesis by auto
    qed
  qed
  have "send_push_notifications env db2 ((updated_step u now s)\<lparr>st_comments := c\<rparr>) st = []" for env st
    unfolding send_push_notifications_def Let_def using none by simp
  then show ?thesis using w(1,4) ids assms(1) by (cases fault) (auto simp: eq)
qed

lemma quiet_update:
  assumes "quiet db out s" "sid \<notin> om_step_id ` set (wf_mappings db)"
  shows "quiet db out (s\<lparr>st_manager := fst (update_workflow_step env fault sid u now (st_manager s))\<rparr>)"
proof -
  obtain db1 where m: "st_manager s = (db1, out)" using assms(1) by (cases "st_manager s") (simp add: quiet_def)
  have "wf_ok db1" "sid \<notin> om_step_id ` set (wf_mappings db1)" using assms m by (auto simp: quiet_def)
  from unmapped_update_is_quiet [OF this] obtain db' where
    "fst (update_workflow_step env fault sid u now (db1, out)) = (db', out)" "wf_ok db'" "wf_mappings db' = wf_mappings db1"
    "st_id ` set (wf_steps db1) \<subseteq> st_id ` set (wf_steps db')" by blast
  then show ?thesis using assms m by (simp add: quiet_def) (meson order_trans)
qed

lemma quiet_failure:
  assumes "quiet db out s"
  shows "quiet db out (s\<lparr>st_manager := audit_workflow_step_failure_if_present env wire fault (st_step s) e now (st_manager s)\<rparr>)"
proof (cases "st_step s")
  case None
  then show ?thesis using assms by (simp add: audit_workflow_step_failure_if_present_def)
next
  case (Some x)
  with assms have "st_id x \<notin> om_step_id ` set (wf_mappings db)" by (simp add: quiet_def)
  from quiet_update [OF assms this] show ?thesis using Some assms
    by (auto simp: audit_workflow_step_failure_if_present_def audit_workflow_step_failure_def split: sum.splits)
qed

lemma quiet_step_is_new:
  assumes "quiet db out s" "wf_ok db" "st_id step \<notin> st_id ` set (wf_steps (fst (st_manager s)))"
  shows "st_id step \<notin> om_step_id ` set (wf_mappings db)"
  using assms unfolding quiet_def wf_ok_def by (auto simp: image_iff) (metis image_eqI subset_iff)

lemma quiet_open_step:
  assumes "wf_ok db"
  shows "keeps (quiet db out) (open_step env tenant pid req)"
  unfolding keeps_def
proof (intro allI impI)
  fix s assume q: "quiet db out s"
  obtain db1 where m: "st_manager s = (db1, out)" using q by (cases "st_manager s") (simp add: quiet_def)
  show "quiet db out (fst (open_step env tenant pid req s))"
  proof (cases "snd (open_step env tenant pid req s)")
    case (Inr step)
    then have o: "open_step env tenant pid req s = (fst (open_step env tenant pid req s), Inr step)"
      by (metis prod.collapse)
    moreover have "wf_ok (fst (st_manager s))" using q by (simp add: quiet_def)
    ultimately obtain db2 where r: "fst (open_step env tenant pid req s) = s\<lparr>st_manager := (db2, snd (st_manager s)), st_step := Some step\<rparr>"
      "wf_ok db2" "wf_mappings db2 = wf_mappings (fst (st_manager s))" "wf_steps db2 = wf_steps (fst (st_manager s)) @ [step]"
      "st_id step \<notin> st_id ` set (wf_steps (fst (st_manager s)))"
      by (rule open_step_Inr)
    show ?thesis unfolding r(1) using q r(2-4) quiet_step_is_new [OF q assms r(5)] by (auto simp: quiet_def)
  next
    case (Inl e)
    then show ?thesis using q m
      by (auto simp: open_step_def on_manager_def tx_defs quiet_def dest!: new_context_ok [rotated]
          split: sum.splits option.splits prod.splits)
  qed
qed

interpretation notices: update_effects "\<lambda>s. quiet db out s \<and> wf_ok db" env tenant pid req
proof unfold_locales
  fix s s' step doc word comment request
  assume q: "quiet db out s \<and> wf_ok db" and o: "open_step env tenant pid req s = (s', Inr step)"
  have "wf_ok (fst (st_manager s))" using q by (simp add: quiet_def)
  from open_step_Inr [OF o this] have "st_id step \<notin> st_id ` set (wf_steps (fst (st_manager s)))" by blast
  from quiet_step_is_new [OF conjunct1 [OF q] conjunct2 [OF q] this]
  show "keeps (\<lambda>s. quiet db out s \<and> wf_ok db) (record_result env step doc word comment request)"
    using quiet_update by (auto simp: keeps_def record_result_def on_manager_def audit_workflow_step_result_def split: prod.splits) (metis fst_conv)
next
  show "keeps (\<lambda>s. quiet db out s \<and> wf_ok db) (open_step env tenant pid req)"
    using quiet_open_step [of db out env tenant pid req] by (auto simp: keeps_def)
qed (auto simp: quiet_def run_sync_def split: sum.splits prod.splits)

text \<open>An update sends no webhook: whatever becomes of it - completed, waiting for approval, refused
  or failed - the step's own status changes find no mapped media buy and notify nobody. The mapping
  joins the tables with the commit of the unit, after the last status change of the call.
\<close>

theorem update_sends_no_webhook:
  assumes "wf_ok (fst m)" "update_media_buy_impl env tenant pid req (start_state db m calls audits) = (s', r)"
  shows "snd (st_manager s') = snd m"
proof -
  let ?s = "start_state db m calls audits"
  have "quiet (fst m) (snd m) ?s \<and> wf_ok (fst m)" using assms(1) by (simp add: quiet_def start_state_def)
  from keepsD [OF notices.body_keeps this, of env tenant pid req]
  have q: "quiet (fst m) (snd m) (fst (update_body env tenant pid req ?s))" by simp
  have f: "snd (st_manager (x\<lparr>st_manager := audit_workflow_step_failure_if_present (ue_manager env) (ue_wire env)
      (ue_failure_fault env) (st_step x) e (ue_now env) (st_manager x)\<rparr>)) = snd m"
    if "quiet (fst m) (snd m) x" for x e using quiet_failure [OF that] by (simp add: quiet_def)
  from assms(2) show ?thesis
  proof (cases rule: impl_cases)
    case (raised s1 e)
    have "quiet (fst m) (snd m) (s1\<lparr>st_view := st_saved s1, st_new_mappings := []\<rparr>)" using q raised(1) by (simp add: quiet_def)
    from f [OF this] show ?thesis using raised(3) by simp
  next
    case (uncommitted s1 x e)
    have "quiet (fst m) (snd m) (s1\<lparr>st_view := st_saved s1, st_new_mappings := []\<rparr>)" using q uncommitted(1) by (simp add: quiet_def)
    from f [OF this] show ?thesis using uncommitted(4) by simp
  next
    case (committed s1 x)
    then show ?thesis using q by (auto simp: commit_unit_def quiet_def split: option.splits sum.splits prod.splits)
  qed (simp add: start_state_def)
qed

section \<open>The gates in front of the block\<close>

text \<open>C24. A request that may not be made has no effect at all: a buy of another principal, a buy in a
  terminal state, or an action the state does not allow is refused with its own error, before a
  workflow step exists or the ad server is called. Only the attempt on another principal's buy is
  recorded, in the audit log.
\<close>

theorem inadmissible_update_has_no_effect:
  assumes "registration_gate env req = Inr ()" "ur_media_buy_id req \<noteq> []"
    and "get_by_id tenant db (ur_media_buy_id req) = Some b"
    and "mb_principal_id b \<noteq> pid \<or> ue_is_terminal env (mb_status b) \<or>
      (\<exists>a\<in>set (requested_actions req). a \<notin> set (ue_valid_actions env (mb_status b)) \<and>
        (ue_valid_actions env (mb_status b) \<noteq> [] \<or> mb_status b \<in> set (ue_machine_statuses env)))"
  shows "update_media_buy_impl env tenant pid req (start_state db m calls audits) =
    (if mb_principal_id b \<noteq> pid
     then (start_state db m calls (audits @ [Access_violation pid (ur_media_buy_id req)]),
       Inl (AdCPAuthorizationError pid (ur_media_buy_id req)))
     else (start_state db m calls audits, Inl
       (if \<not> ue_is_terminal env (mb_status b)
        then AdCPGoneError (filter (\<lambda>a. a \<notin> set (ue_valid_actions env (mb_status b))) (requested_actions req) @ [mb_status b])
        else if ur_canceled req = Some True then AdCPNotCancellableError (mb_status b) else AdCPGoneError [mb_status b])))"
proof (cases "mb_principal_id b = pid")
  case False
  then have "check_request env tenant pid req (start_state db m calls audits) =
    (start_state db m calls (audits @ [Access_violation pid (ur_media_buy_id req)]),
      Inl (AdCPAuthorizationError pid (ur_media_buy_id req)))"
    using assms(2,3)
    by (simp add: check_request_def verify_principal_def with_view_def audit_def tx_defs get_by_id_or_raise_def start_state_def)
  then show ?thesis using assms(1) False
    by (simp add: update_media_buy_impl_def update_body_def audited_def in_unit_def tx_defs
        audit_workflow_step_failure_if_present_def) (simp add: start_state_def)
next
  case True
  have "state_gate env req (mb_status b) = Inl
     (if \<not> ue_is_terminal env (mb_status b)
      then AdCPGoneError (filter (\<lambda>a. a \<notin> set (ue_valid_actions env (mb_status b))) (requested_actions req) @ [mb_status b])
      else if ur_canceled req = Some True then AdCPNotCancellableError (mb_status b) else AdCPGoneError [mb_status b])"
    using assms(4) True by (auto simp: state_gate_def Let_def filter_empty_conv)
  then have "check_request env tenant pid req (start_state db m calls audits) = (start_state db m calls audits, Inl
     (if \<not> ue_is_terminal env (mb_status b)
      then AdCPGoneError (filter (\<lambda>a. a \<notin> set (ue_valid_actions env (mb_status b))) (requested_actions req) @ [mb_status b])
      else if ur_canceled req = Some True then AdCPNotCancellableError (mb_status b) else AdCPGoneError [mb_status b]))"
    using assms(2,3) True
    by (simp add: check_request_def verify_principal_def with_view_def tx_defs get_by_id_or_raise_def start_state_def)
  then show ?thesis using assms(1) True
    by (simp add: update_media_buy_impl_def update_body_def audited_def in_unit_def tx_defs
        audit_workflow_step_failure_if_present_def) (simp add: start_state_def)
qed

section \<open>The calls to the ad server\<close>

interpretation calls_kept: package_effects "\<lambda>s. st_calls s = cs" env tenant pid req
  by unfold_locales (simp_all add: run_sync_def split: sum.splits prod.splits)

text \<open>What one package asks of the ad server: its pause or resumption, then its budget.\<close>

definition package_calls :: "update_env \<Rightarrow> string \<Rightarrow> package_update \<Rightarrow> adapter_call list" where
  "package_calls env mbid p =
     (case pu_paused p of None \<Rightarrow> [] | Some b \<Rightarrow> [\<lparr>ac_media_buy_id = mbid,
        ac_action = (if b then ''pause_package'' else ''resume_package''), ac_package_id = pu_package_id p,
        ac_budget = None, ac_today = adapter_today env\<rparr>]) @
     (case pu_budget p of None \<Rightarrow> [] | Some b \<Rightarrow> [\<lparr>ac_media_buy_id = mbid, ac_action = ''update_package_budget'',
        ac_package_id = pu_package_id p, ac_budget = Some (py_int (budget_amount b)), ac_today = adapter_today env\<rparr>])"

lemma required_package_Inr: "required_package i p s = (s', Inr k) \<Longrightarrow> s' = s \<and> pu_package_id p = Some k"
  by (cases "pu_package_id p") (auto simp: required_package_def tx_defs truthy_str_def split: if_splits)

lemma pause_package_calls:
  "pause_package env mbid p s = (s', Inr ()) \<Longrightarrow> st_view s' = st_view s \<and> st_calls s' = st_calls s @
     (case pu_paused p of None \<Rightarrow> [] | Some b \<Rightarrow> [\<lparr>ac_media_buy_id = mbid,
        ac_action = (if b then ''pause_package'' else ''resume_package''), ac_package_id = pu_package_id p,
        ac_budget = None, ac_today = adapter_today env\<rparr>])"
  by (auto simp: pause_package_def call_adapter_def tx_defs split: option.splits sum.splits)

lemma package_budget_calls:
  "update_package_budget env tenant mbid i p s = (s', Inr ()) \<Longrightarrow> st_calls s' = st_calls s @
     (case pu_budget p of None \<Rightarrow> [] | Some b \<Rightarrow> [\<lparr>ac_media_buy_id = mbid, ac_action = ''update_package_budget'',
        ac_package_id = pu_package_id p, ac_budget = Some (py_int (budget_amount b)), ac_today = adapter_today env\<rparr>])"
  by (auto simp: update_package_budget_def call_adapter_def track_def with_view_def tx_defs
      split: option.splits sum.splits prod.splits dest!: required_package_Inr)

lemma package_makes_its_calls:
  assumes "update_package env tenant pid mbid i p s = (s', Inr ())" "p \<in> set (package_updates req)"
  shows "st_calls s' = st_calls s @ package_calls env mbid p"
proof -
  from assms(1) obtain s1 s2 s3 s4 s5 where
    p1: "pause_package env mbid p s = (s1, Inr ())" and p2: "update_package_budget env tenant mbid i p s1 = (s2, Inr ())"
    and p3: "set_creative_ids env tenant pid mbid i p s2 = (s3, Inr ())"
    and p4: "upload_creatives env i p s3 = (s4, Inr ())"
    and p5: "set_creative_assignments env tenant pid mbid i p s4 = (s5, Inr ())"
    and p6: "set_targeting tenant mbid i p s5 = (s', Inr ())"
    unfolding update_package_def by (elim tx_then_unit) (rule that)
  have "st_calls s3 = st_calls s2" by (rule calls_kept.k_creative_ids [THEN keepsD', OF refl p3])
  moreover have "st_calls s4 = st_calls s3" by (rule calls_kept.k_upload [OF assms(2), THEN keepsD', OF refl p4])
  moreover have "st_calls s5 = st_calls s4" by (rule calls_kept.k_creative_assignments [THEN keepsD', OF refl p5])
  moreover have "st_calls s' = st_calls s5" by (rule calls_kept.k_targeting [THEN keepsD', OF refl p6])
  ultimately show ?thesis
    using pause_package_calls [OF p1] package_budget_calls [OF p2] by (simp add: package_calls_def)
qed

lemma check_request_Inr: "check_request env tenant pid req s = (s', Inr ()) \<Longrightarrow> s' = s \<and>
    ur_media_buy_id req \<noteq> [] \<and> (\<exists>b. get_by_id tenant (st_view s) (ur_media_buy_id req) = Some b \<and> mb_principal_id b = pid \<and>
      state_gate env req (mb_status b) = Inr ())"
  by (auto simp: check_request_def verify_principal_def with_view_def audit_def tx_defs get_by_id_or_raise_def
      split: if_splits option.splits sum.splits)

lemma open_step_view: "open_step env tenant pid req s = (s', r) \<Longrightarrow> st_view s' = st_view s \<and> st_calls s' = st_calls s"
  by (rule keepsD' [where I = "\<lambda>x. st_view x = st_view s \<and> st_calls x = st_calls s", OF open_step_keeps]) auto

definition update_mapping :: "update_env \<Rightarrow> workflow_step \<Rightarrow> update_request \<Rightarrow> object_mapping" where
  "update_mapping env step req = \<lparr>om_object_type = ''media_buy'', om_object_id = ur_media_buy_id req,
     om_step_id = st_id step, om_action = ''update'', om_created_at = ue_now env\<rparr>"

lemma apply_update_Inr:
  assumes "apply_update env tenant pid step req s = (s', Inr (Update_success r))"
  obtains s1 s2 where
    "tx_each (update_package env tenant pid (ur_media_buy_id req)) (package_updates req) s = (s1, Inr ())"
    "update_dates env tenant req s1 = (s2, Inr ())" "st_view s' = st_view s2" "st_calls s' = st_calls s2"
    "st_new_mappings s' = st_new_mappings s2 @ [update_mapping env step req]"
proof -
  from tx_then_unit [OF assms [unfolded apply_update_def]] obtain s1 where
    e: "tx_each (update_package env tenant pid (ur_media_buy_id req)) (package_updates req) s = (s1, Inr ())" and
    r1: "tx_then (update_dates env tenant req)
    (tx_then (add_update_mapping env step req)
    (tx_bind (tx_read st_affected) (\<lambda>affected.
     tx_bind (with_view (success_of env tenant req (ur_media_buy_id req) affected)) (\<lambda>resp.
     tx_then (audit (Update_logged (ur_media_buy_id req) (length affected)
       (list_ex (\<lambda>p. pu_budget p \<noteq> None) (package_updates req)) (ur_paused req \<noteq> None) (package_updates req \<noteq> [])))
    (tx_then (record_result env step (ue_success_doc env resp) ''completed'' [] None)
      (tx_return (Update_success resp))))))) s1 = (s', Inr (Update_success r))" .
  from tx_then_unit [OF r1] obtain s2 where d: "update_dates env tenant req s1 = (s2, Inr ())" and
    rest: "tx_then (add_update_mapping env step req)
    (tx_bind (tx_read st_affected) (\<lambda>affected.
     tx_bind (with_view (success_of env tenant req (ur_media_buy_id req) affected)) (\<lambda>resp.
     tx_then (audit (Update_logged (ur_media_buy_id req) (length affected)
       (list_ex (\<lambda>p. pu_budget p \<noteq> None) (package_updates req)) (ur_paused req \<noteq> None) (package_updates req \<noteq> [])))
    (tx_then (record_result env step (ue_success_doc env resp) ''completed'' [] None)
      (tx_return (Update_success resp)))))) s2 = (s', Inr (Update_success r))" .
  have "st_view s' = st_view s2 \<and> st_calls s' = st_calls s2 \<and> st_new_mappings s' = st_new_mappings s2 @ [update_mapping env step req]"
    using rest by (auto simp: add_update_mapping_def with_view_def audit_def record_result_def on_manager_def
        update_mapping_def tx_defs split: prod.splits sum.splits)
  with that [OF e d] show ?thesis by blast
qed

text \<open>The course of an update that was applied: gates, budget check, packages, dates, records.\<close>

lemma applied_update:
  assumes "update_body env tenant pid req s = (s1, Inr (Update_success r))" "ur_paused req = None"
  obtains step s2 s3 s4 where "check_request env tenant pid req s = (s, Inr ())"
    "open_step env tenant pid req s = (s2, Inr step)" "st_view s2 = st_view s" "st_calls s2 = st_calls s"
    "check_spend env tenant req (st_view s2) = Inr ()"
    "tx_each (update_package env tenant pid (ur_media_buy_id req)) (package_updates req) s2 = (s3, Inr ())"
    "update_dates env tenant req s3 = (s4, Inr ())" "st_view s1 = st_view s4" "st_calls s1 = st_calls s4"
    "st_new_mappings s1 = st_new_mappings s4 @ [update_mapping env step req]"
proof -
  from assms(1) obtain s0 where c: "check_request env tenant pid req s = (s0, Inr ())" and
    r1: "tx_bind (open_step env tenant pid req) (\<lambda>step.
     tx_then (tx_try (\<lambda>_. case ue_adapter_fault env of Some e \<Rightarrow> Inl e | None \<Rightarrow> Inr ()))
    (tx_then (check_targeting tenant req)
    (if ue_manual_required env \<and> ''update_media_buy'' \<in> set (ue_manual_operations env)
     then submit_for_approval env step req
     else tx_then (with_view (check_spend env tenant req))
       (case ur_paused req of
          Some p \<Rightarrow> pause_buy env tenant step req p
        | None \<Rightarrow> apply_update env tenant pid step req)))) s0 = (s1, Inr (Update_success r))"
    unfolding update_body_def by (rule tx_then_unit)
  from check_request_Inr [OF c] have s0: "s0 = s" by blast
  from r1 obtain s2 step where o: "open_step env tenant pid req s0 = (s2, Inr step)" and
    r2: "tx_then (tx_try (\<lambda>_. case ue_adapter_fault env of Some e \<Rightarrow> Inl e | None \<Rightarrow> Inr ()))
    (tx_then (check_targeting tenant req)
    (if ue_manual_required env \<and> ''update_media_buy'' \<in> set (ue_manual_operations env)
     then submit_for_approval env step req
     else tx_then (with_view (check_spend env tenant req))
       (case ur_paused req of
          Some p \<Rightarrow> pause_buy env tenant step req p
        | None \<Rightarrow> apply_update env tenant pid step req))) s2 = (s1, Inr (Update_success r))"
    by (rule tx_bind_Inr)
  have "keeps (\<lambda>x. x = s2) (check_targeting tenant req)" unfolding check_targeting_def by (intro keeps_rules)
  note quiet_targeting = keepsD' [OF this refl]
  from r2 have r3: "(if ue_manual_required env \<and> ''update_media_buy'' \<in> set (ue_manual_operations env)
     then submit_for_approval env step req
     else tx_then (with_view (check_spend env tenant req)) (apply_update env tenant pid step req)) s2 = (s1, Inr (Update_success r))"
    using assms(2) by (elim tx_then_unit) (auto simp: tx_try_Inr dest!: quiet_targeting)
  have "tx_then (with_view (check_spend env tenant req)) (apply_update env tenant pid step req) s2 = (s1, Inr (Update_success r))"
    using r3 by (auto simp: submit_for_approval_def tx_defs split: if_splits prod.splits sum.splits)
  then have spend: "check_spend env tenant req (st_view s2) = Inr ()" and
    a: "apply_update env tenant pid step req s2 = (s1, Inr (Update_success r))"
    by (auto elim!: tx_then_unit simp: with_view_def tx_try_Inr)
  from apply_update_Inr [OF a] obtain s3 s4 where
    "tx_each (update_package env tenant pid (ur_media_buy_id req)) (package_updates req) s2 = (s3, Inr ())"
    "update_dates env tenant req s3 = (s4, Inr ())" "st_view s1 = st_view s4" "st_calls s1 = st_calls s4"
    "st_new_mappings s1 = st_new_mappings s4 @ [update_mapping env step req]" .
  with that c o spend s0 open_step_view [OF o] show ?thesis by blast
qed

lemma update_dates_calls: "update_dates env tenant req s = (s', r) \<Longrightarrow> st_calls s' = st_calls s"
  unfolding update_dates_def
  by (rule keepsD' [where I = "\<lambda>x. st_calls x = st_calls s", rotated 2], assumption) (intro keeps_rules keeps_on_view, auto)

lemma committed_update:
  assumes "update_media_buy_impl env tenant pid req s = (s', Inr x)"
  obtains s1 where "update_body env tenant pid req s = (s1, Inr x)" "st_calls s' = st_calls s1" "st_view s' = st_view s1"
    "st_saved s' = st_view s1" "wf_mappings (fst (st_manager s')) = wf_mappings (fst (st_manager s1)) @ st_new_mappings s1"
  using assms
proof (cases rule: impl_cases)
  case (committed s1 y)
  with that show ?thesis by (auto simp: commit_unit_def split: option.splits sum.splits prod.splits)
qed auto


section \<open>Budgets\<close>

definition priced :: "string \<Rightarrow> update_db \<Rightarrow> update_state \<Rightarrow> bool" where
  "priced tenant db s = (currency_limits (st_view s) = currency_limits db \<and>
     (\<forall>i. map_option mb_currency (get_by_id tenant (st_view s) i) = map_option mb_currency (get_by_id tenant db i)))"

lemma find_written:
  "find P xs = Some b \<Longrightarrow> P b' \<Longrightarrow> (\<And>x. P x \<Longrightarrow> Q x) \<Longrightarrow> find P (update_where Q (\<lambda>r. b') xs) = Some b'"
  by (induction xs) (auto simp: update_where_Cons split: if_splits)

lemma get_by_id_written:
  assumes "get_by_id t db i = Some b" "mb_media_buy_id b' = i" "mb_tenant_id b' = t"
  shows "get_by_id t (write_media_buy db b') j = (if j = i then Some b' else get_by_id t db j)"
proof (cases "j = i")
  case True
  then show ?thesis using assms by (auto simp: get_by_id_def write_media_buy_def intro!: find_written)
next
  case False
  then show ?thesis using assms(2) by (auto simp: get_by_id_def write_media_buy_def intro!: find_update_where_miss)
qed

lemma update_status_currency:
  "map_option mb_currency (get_by_id t (fst (update_status t now db i v False None None)) j) =
     map_option mb_currency (get_by_id t db j)"
proof (cases "parse_status (Some v) (Some i)")
  case (Inr w)
  show ?thesis
  proof (cases "get_by_id t db i")
    case (Some b)
    define b' where "b' = (bump_revision (b\<lparr>mb_status := status_value w\<rparr>))\<lparr>mb_updated_at := now\<rparr>"
    have "mb_media_buy_id b' = i" "mb_tenant_id b' = t" "mb_currency b' = mb_currency b"
      using get_by_idD [OF Some] by (simp_all add: b'_def bump_revision_def)
    from get_by_id_written [OF Some this(1,2), of j] this(3) show ?thesis using Some Inr
      by (auto simp: update_status_def flush_media_buy_def Let_def b'_def stamp_confirmation_if_needed_def)
  qed (simp add: update_status_def Inr)
qed (simp add: update_status_def)

lemma update_status_limits: "currency_limits (fst (update_status t now db i v c a ap)) = currency_limits db"
  by (auto simp: update_status_def flush_media_buy_def write_media_buy_def Let_def split: sum.splits option.splits)

lemma assignments_priced [simp]: "get_by_id t (db\<lparr>creative_assignments := as\<rparr>) i = get_by_id t db i"
  by (simp add: get_by_id_def)

interpretation priced: package_effects "\<lambda>s. priced tenant db s \<and> no_uploads req" env tenant pid req
  by unfold_locales
    (auto simp: priced_def no_uploads_def list_all_iff update_status_currency update_status_limits delete_row_def
      assign_new_def assignment_create_def write_assignment_def store_overlay_def write_package_def split: sum.splits)

lemma budget_currency_priced:
  assumes "priced tenant db s" "get_by_id tenant db mbid = Some buy"
  shows "budget_currency tenant mbid b (st_view s) = budget_currency tenant mbid b db"
proof -
  have "map_option mb_currency (get_by_id tenant (st_view s) mbid) = Some (mb_currency buy)"
    using assms by (simp add: priced_def)
  then obtain x where "get_by_id tenant (st_view s) mbid = Some x" "mb_currency x = mb_currency buy" by auto
  then show ?thesis using assms(2) by (simp add: budget_currency_def buy_currency_def split: budget_value.split)
qed

lemma checked_budget:
  assumes "check_package_budget tenant mbid i pkg b db = Inr c"
  shows "0 < budget_amount b"
    and "get_for_currency tenant (budget_currency tenant mbid b db) db = Some l \<Longrightarrow> cl_min_package_budget l = Some x \<Longrightarrow>
      x \<le> budget_amount b"
  using assms
  by (auto simp: check_package_budget_def validate_budget_positive_def raise_if_validation_failed_def
      validate_min_package_budget_def Let_def split: if_splits sum.splits)

lemma budget_was_checked:
  assumes "update_package_budget env tenant mbid i p s = (s', Inr ())" "pu_budget p = Some b"
  obtains pkg c where "check_package_budget tenant mbid i pkg b (st_view s) = Inr c"
  using assms by (auto simp: update_package_budget_def with_view_def tx_defs
      split: sum.splits prod.splits dest!: required_package_Inr)

lemma checked_daily_spend:
  assumes "daily_spend_errors limit days ps = Inr ()" "p \<in> set ps" "pu_budget p = Some b" "0 < days"
  shows "budget_amount b \<le> limit * of_int days"
  using assms
proof (induction ps)
  case (Cons q ps)
  show ?case
  proof (cases "p = q")
    case True
    with Cons.prems have "validate_max_daily_package_spend (budget_amount b) days limit"
      by (auto simp: raise_if_validation_failed_def split: if_splits)
    from daily_spend_bound [OF this Cons.prems(4)] show ?thesis .
  next
    case False
    with Cons show ?thesis by (auto split: option.splits sum.splits)
  qed
qed simp

lemma flight_days_positive: "flight_days now st et b = Inr d \<Longrightarrow> 0 < d"
  by (auto simp: flight_days_def Let_def split: option.splits sum.splits if_splits)

lemma checked_spend:
  assumes "check_spend env tenant req db = Inr ()" "p \<in> set (package_updates req)" "pu_budget p = Some b"
    "0 < budget_amount b" "get_by_id tenant db (ur_media_buy_id req) = Some buy"
  shows "\<exists>l d. get_for_currency tenant (buy_currency (Some buy)) db = Some l \<and>
    flight_days (ue_now env) (ur_start_time req) (ur_end_time req) buy = Inr d \<and>
    (\<forall>x. cl_max_daily_package_spend l = Some x \<longrightarrow> x \<noteq> 0 \<longrightarrow> budget_amount b \<le> x * of_int d)"
proof -
  have "budget_truthy (pu_budget p)" using assms(3,4) by (cases b) (auto simp: budget_truthy_def budget_amount_def)
  then have "list_ex (\<lambda>p. budget_truthy (pu_budget p)) (package_updates req)" using assms(2) by (auto simp: list_ex_iff)
  then show ?thesis using assms(1,5)
    by (auto simp: check_spend_def split: option.splits sum.splits if_splits
        intro: checked_daily_spend [OF _ assms(2,3) flight_days_positive])
qed


section \<open>The creatives of a package\<close>

lemma fold_delete_rows: "creative_assignments (fold delete_row ds db) =
    filter (\<lambda>r. asg_assignment_id r \<notin> asg_assignment_id ` set ds) (creative_assignments db)"
  by (induction ds arbitrary: db) (auto simp: delete_row_def intro!: filter_cong)

lemma assign_new_rows: "\<exists>a. creative_assignments (assign_new env t pid mbid pkg w ps c db) = creative_assignments db @ [a] \<and>
    asg_creative_id a = c \<and> asg_tenant_id a = t \<and> asg_media_buy_id a = mbid \<and> asg_package_id a = pkg"
  by (simp add: assign_new_def assignment_create_def assignment_row_def)

lemma fold_assign_rows: "\<exists>new. creative_assignments (fold (assign_new env t pid mbid pkg w ps) cs db) = creative_assignments db @ new \<and>
    map asg_creative_id new = cs \<and> (\<forall>a\<in>set new. asg_tenant_id a = t \<and> asg_media_buy_id a = mbid \<and> asg_package_id a = pkg)"
proof (induction cs arbitrary: db)
  case (Cons c cs)
  obtain a where a: "creative_assignments (assign_new env t pid mbid pkg w ps c db) = creative_assignments db @ [a]"
    "asg_creative_id a = c \<and> asg_tenant_id a = t \<and> asg_media_buy_id a = mbid \<and> asg_package_id a = pkg"
    using assign_new_rows by blast
  from Cons.IH [of "assign_new env t pid mbid pkg w ps c db"] obtain new where
    "creative_assignments (fold (assign_new env t pid mbid pkg w ps) (c # cs) db) = creative_assignments db @ a # new"
    "map asg_creative_id new = cs" "\<forall>a\<in>set new. asg_tenant_id a = t \<and> asg_media_buy_id a = mbid \<and> asg_package_id a = pkg"
    by (auto simp: a(1))
  then show ?case using a(2) by (intro exI [of _ "a # new"]) simp
qed simp

lemma leave_draft_assignments: "leave_draft env tenant b s = (s', r) \<Longrightarrow>
    creative_assignments (st_view s') = creative_assignments (st_view s)"
  by (auto simp: leave_draft_def on_view_def tx_defs update_status_def flush_media_buy_def write_media_buy_def Let_def
      split: if_splits sum.splits option.splits prod.splits)

text \<open>The rows of a package after the old ones outside \<open>ids\<close> went and the missing ones came.\<close>

lemma replaced_assignments:
  assumes "distinct (map asg_assignment_id (creative_assignments db))"
    "had = get_by_media_buy_and_package t db mbid pkg"
  shows "set (map asg_creative_id (get_by_media_buy_and_package t
    (fold (assign_new env t pid mbid pkg w ps) (filter (\<lambda>c. c \<notin> set (map asg_creative_id had)) (remdups ids))
      (fold delete_row (filter (\<lambda>a. asg_creative_id a \<in> set (filter (\<lambda>c. c \<notin> set ids) (remdups (map asg_creative_id had)))) had) db)) mbid pkg))
    = set ids" (is "set (map _ (get_by_media_buy_and_package t (fold _ ?new (fold _ ?gone db)) mbid pkg)) = _")
proof -
  obtain new where n: "creative_assignments (fold (assign_new env t pid mbid pkg w ps) ?new (fold delete_row ?gone db)) =
      filter (\<lambda>r. asg_assignment_id r \<notin> asg_assignment_id ` set ?gone) (creative_assignments db) @ new"
    "map asg_creative_id new = ?new" "\<forall>a\<in>set new. asg_tenant_id a = t \<and> asg_media_buy_id a = mbid \<and> asg_package_id a = pkg"
    using fold_assign_rows [of env t pid mbid pkg w ps ?new "fold delete_row ?gone db"] unfolding fold_delete_rows by blast
  have key: "r = a" if "r \<in> set (creative_assignments db)" "a \<in> set (creative_assignments db)" "asg_assignment_id r = asg_assignment_id a" for r a
    using assms(1) that by (auto dest: distinct_key_eq)
  have had: "x \<in> set had \<longleftrightarrow> x \<in> set (creative_assignments db) \<and> asg_tenant_id x = t \<and> asg_media_buy_id x = mbid \<and> asg_package_id x = pkg" for x
    by (auto simp: assms(2) get_by_media_buy_and_package_def assignments_where_def)
  have gone: "a \<in> set ?gone \<longleftrightarrow> a \<in> set had \<and> asg_creative_id a \<notin> set ids" for a by auto
  have kept: "asg_assignment_id r \<notin> asg_assignment_id ` set ?gone \<longleftrightarrow> asg_creative_id r \<in> set ids" if "r \<in> set had" for r
    using key [of r] had that unfolding image_iff Bex_def gone by metis
  have "set (get_by_media_buy_and_package t (fold (assign_new env t pid mbid pkg w ps) ?new (fold delete_row ?gone db)) mbid pkg) =
      {r \<in> set had. asg_creative_id r \<in> set ids} \<union> set new"
    using n(1,3) kept had unfolding get_by_media_buy_and_package_def assignments_where_def
    by (simp add: set_eq_iff) blast
  moreover have "asg_creative_id ` set new = set ids - asg_creative_id ` set had"
    using arg_cong [OF n(2), of set] by (auto simp: image_iff)
  ultimately show ?thesis by (auto simp: image_iff)
qed

text \<open>C25. Setting a package's creatives makes the stored assignments of that package exactly the
  requested ones - none left over from before, none missing - whatever was assigned and in which order
  the request lists them, and the tables stay valid.
\<close>

theorem creatives_become_the_requested_ones:
  assumes "set_creative_ids env tenant pid mbid i p s = (s', Inr ())"
    and "pu_creative_ids p = Some ids" "pu_package_id p = Some pkg" "creative_tables_ok (st_view s)"
  shows "set (map asg_creative_id (get_by_media_buy_and_package tenant (st_view s') mbid pkg)) = set ids \<and>
    creative_tables_ok (st_view s')"
proof -
  let ?had = "get_by_media_buy_and_package tenant (st_view s) mbid pkg"
  let ?new = "filter (\<lambda>c. c \<notin> set (map asg_creative_id ?had)) (remdups ids)"
  let ?gone = "filter (\<lambda>a. asg_creative_id a \<in> set (filter (\<lambda>c. c \<notin> set ids) (remdups (map asg_creative_id ?had)))) ?had"
  let ?db = "fold (assign_new env tenant pid mbid pkg 100 None) ?new (fold delete_row ?gone (st_view s))"
  from assms(1-3) obtain b s1 s2 where
    l: "tx_when (ids \<noteq> []) (leave_draft env tenant b) (s\<lparr>st_view := ?db\<rparr>) = (s1, Inr ())"
    and f: "tx_then (with_view flush_creatives) (track pkg (Creatives_changed ?new
      (filter (\<lambda>c. c \<notin> set ids) (remdups (map asg_creative_id ?had))) ids)) s1 = (s', Inr ())"
    by (auto simp: set_creative_ids_def with_view_def read_view_def change_view_def tx_defs Let_def
        split: sum.splits prod.splits dest!: required_package_Inr)
  from l have "creative_assignments (st_view s1) = creative_assignments ?db"
    by (auto elim!: tx_when_Inr dest: leave_draft_assignments)
  moreover have "st_view s' = st_view s1" "creative_tables_ok (st_view s1)"
    using f by (auto simp: with_view_def track_def flush_creatives_def tx_defs split: if_splits)
  ultimately show ?thesis
    using replaced_assignments [OF _ refl, where db = "st_view s" and env = env and t = tenant and pid = pid and
        mbid = mbid and pkg = pkg and w = 100 and ps = None and ids = ids] assms(4)
    by (simp add: get_by_media_buy_and_package_def assignments_where_def creative_tables_ok_def)
qed

section \<open>Other tenants\<close>

text \<open>
  What keeps tenant u apart from a call of another tenant: its view of both groups of tables is that of
  \<open>db\<close>, its assignments share no id with the caller's, and new assignment ids are new.
\<close>

definition apart :: "update_env \<Rightarrow> string \<Rightarrow> string \<Rightarrow> update_db \<Rightarrow> update_db \<Rightarrow> bool" where
  "apart env tenant u db v = (mb_db_ok v \<and> tenant_view u v = tenant_view u db \<and> creative_view u v = creative_view u db \<and>
     (\<forall>a\<in>set (creative_assignments v). \<forall>b\<in>set (creative_assignments v).
        asg_tenant_id a = tenant \<longrightarrow> asg_tenant_id b = u \<longrightarrow> asg_assignment_id a \<noteq> asg_assignment_id b) \<and>
     (\<forall>as. ue_uuid env as \<notin> asg_assignment_id ` set as) \<and> u \<noteq> tenant)"

text \<open>A write on the buys' tables is kept apart when the repository's contract covers it.\<close>

lemma apart_buys:
  assumes "apart env tenant u db v" "db_change tenant v w" "creative_assignments w = creative_assignments v"
    "creative_rows w = creative_rows v" "creative_reviews w = creative_reviews v"
  shows "apart env tenant u db w"
proof -
  have ok: "mb_db_ok v" "u \<noteq> tenant" using assms(1) by (simp_all add: apart_def)
  show ?thesis
    using assms(1,3) mb_change_ok [OF assms(2) ok(1)] mb_change_view [OF assms(2) ok] creative_view_cong [OF assms(3-5)]
    unfolding apart_def by simp
qed

text \<open>So is a change of the caller's own assignments.\<close>

lemma apart_assignments:
  assumes "apart env tenant u db v" "media_buys w = media_buys v" "media_packages w = media_packages v"
    "creative_rows w = creative_rows v" "creative_reviews w = creative_reviews v"
    "filter (\<lambda>a. asg_tenant_id a = u) (creative_assignments w) = filter (\<lambda>a. asg_tenant_id a = u) (creative_assignments v)"
    "\<forall>a\<in>set (creative_assignments w). asg_tenant_id a = tenant \<longrightarrow>
      (\<forall>b\<in>set (creative_assignments v). asg_tenant_id b = u \<longrightarrow> asg_assignment_id a \<noteq> asg_assignment_id b)"
  shows "apart env tenant u db w"
proof -
  have "b \<in> set (creative_assignments v)" if "b \<in> set (creative_assignments w)" "asg_tenant_id b = u" for b
    using arg_cong [OF assms(6), of set] that by auto
  then show ?thesis using assms tenant_view_cong [OF assms(2,3)] unfolding apart_def creative_view_def by simp
qed

lemma apart_own:
  assumes "apart env tenant u db v" "apart env tenant u db w" "a \<in> set (creative_assignments w)" "asg_tenant_id a = tenant"
    "b \<in> set (creative_assignments v)" "asg_tenant_id b = u"
  shows "asg_assignment_id b \<noteq> asg_assignment_id a"
proof -
  have "filter (\<lambda>a. asg_tenant_id a = u) (creative_assignments v) = filter (\<lambda>a. asg_tenant_id a = u) (creative_assignments w)"
    using assms(1,2) by (simp add: apart_def creative_view_def)
  from arg_cong [OF this, of set] have "b \<in> set (creative_assignments w)" using assms(5,6) by auto
  then show ?thesis using assms(2-4,6) unfolding apart_def by metis
qed

lemma apart_delete:
  assumes "apart env tenant u db v" "apart env tenant u db w" "a \<in> set (creative_assignments w)" "asg_tenant_id a = tenant"
  shows "apart env tenant u db (delete_row a v)"
proof (rule apart_assignments [OF assms(1)])
  show "filter (\<lambda>a. asg_tenant_id a = u) (creative_assignments (delete_row a v)) = filter (\<lambda>a. asg_tenant_id a = u) (creative_assignments v)"
    using apart_own [OF assms] by (auto simp: delete_row_def intro!: filter_cong)
qed (use assms(1) in \<open>auto simp: delete_row_def apart_def\<close>)

lemma apart_assign:
  assumes "apart env tenant u db v"
  shows "apart env tenant u db (assign_new env tenant pid mbid pkg w ps cid v)"
  by (rule apart_assignments [OF assms])
    (use assms in \<open>auto simp: assign_new_def assignment_create_def assignment_row_def apart_def\<close>)

lemma apart_amend:
  assumes "apart env tenant u db v" "apart env tenant u db w" "get_existing tenant w mbid pkg cid pid = Some a"
  shows "apart env tenant u db (write_assignment (amend_assignment ca a) v)"
proof (rule apart_assignments [OF assms(1)])
  have a: "a \<in> set (creative_assignments w)" "asg_tenant_id a = tenant"
    using assms(3) by (auto simp: get_existing_def dest: find_SomeD)
  have u: "u \<noteq> tenant" using assms(1) by (simp add: apart_def)
  note own = apart_own [OF assms(1,2) a]
  show "filter (\<lambda>a. asg_tenant_id a = u) (creative_assignments (write_assignment (amend_assignment ca a) v)) =
      filter (\<lambda>a. asg_tenant_id a = u) (creative_assignments v)"
    using own a(2) u by (auto simp: write_assignment_def amend_assignment_def intro!: filter_update_where_other)
  show "\<forall>x\<in>set (creative_assignments (write_assignment (amend_assignment ca a) v)). asg_tenant_id x = tenant \<longrightarrow>
      (\<forall>b\<in>set (creative_assignments v). asg_tenant_id b = u \<longrightarrow> asg_assignment_id x \<noteq> asg_assignment_id b)"
    using assms(1) by (auto simp: write_assignment_def amend_assignment_def apart_def elim!: update_whereE dest: own split: if_splits)
qed (simp_all add: write_assignment_def)

lemma apart_status:
  assumes "apart env tenant u db v"
  shows "apart env tenant u db (fst (update_status tenant now v i w False None None))"
proof (cases "update_status tenant now v i w False None None")
  case (Pair v' r)
  show ?thesis
  proof (cases r)
    case (Inr x)
    have "db_change tenant v v'" by (rule update_status_change [OF Pair [unfolded Inr]])
    from apart_buys [OF assms this] Pair Inr show ?thesis
      by (auto simp: update_status_def flush_media_buy_def write_media_buy_def Let_def split: sum.splits option.splits if_splits)
  next
    case (Inl e)
    with Pair have "v' = v"
      by (auto simp: update_status_def flush_media_buy_def Let_def split: sum.splits option.splits if_splits)
    with Pair assms show ?thesis by simp
  qed
qed

lemma assign_flight_attrs: "list_all flight_attr kw \<Longrightarrow> snd (assign_fields kw b) \<and> \<not> list_ex immutable_attr kw \<and> parse_status_kw i kw = Inr kw"
  by (induction kw arbitrary: b) (auto simp: flight_attr_def split: mb_attr.splits)

lemma apart_fields:
  assumes "apart env tenant u db v" "list_all flight_attr kw"
  shows "apart env tenant u db (fst (update_fields tenant now v i False kw))"
proof (cases "update_fields tenant now v i False kw")
  case (Pair v' r)
  have kw: "\<not> list_ex immutable_attr kw" "parse_status_kw i kw = Inr kw" "assign_fields kw b = (c, z) \<Longrightarrow> z" for b c z
    using assign_flight_attrs [OF assms(2)] by (metis snd_conv)+
  show ?thesis
  proof (cases r)
    case (Inr x)
    have "db_change tenant v v'" by (rule update_fields_change [OF Pair [unfolded Inr]])
    from apart_buys [OF assms(1) this] Pair Inr show ?thesis
      by (auto simp: update_fields_def flush_media_buy_def write_media_buy_def Let_def
          split: sum.splits option.splits if_splits prod.splits)
  next
    case (Inl e)
    with Pair kw(1,2) have "v' = v"
      by (auto dest!: kw(3) simp: update_fields_def flush_media_buy_def Let_def split: sum.splits option.splits if_splits prod.splits)
    with Pair assms show ?thesis by simp
  qed
qed

lemma apart_overlay:
  assumes "apart env tenant u db v" "apart env tenant u db w" "get_package tenant w mbid pkg = Some mp"
  shows "apart env tenant u db (fst (store_overlay t mp v))"
proof -
  have "mp_media_buy_id mp \<notin> mb_media_buy_id ` set (list_all_buys u v)"
    by (rule own_package [OF _ _ get_package_in [OF assms(3)]]) (use assms(1,2) in \<open>simp_all add: apart_def\<close>)
  then have n: "mp_media_buy_id (mp\<lparr>mp_package_config := cfg\<rparr>) \<notin> mb_media_buy_id ` set (list_all_buys u v)" for cfg
    by simp
  have "apart env tenant u db (write_package v (mp\<lparr>mp_package_config := cfg\<rparr>))" if "package_checks mp" for cfg
    using write_package_keeps [OF _ _ n, of cfg] that assms(1)
    by (auto simp: apart_def package_checks_def write_package_def creative_view_def)
  then show ?thesis using assms(1) by (auto simp: store_overlay_def split: sum.splits)
qed

interpretation apart: update_effects "\<lambda>s. apart env tenant u db (st_view s) \<and> no_uploads req" env tenant pid req
  by unfold_locales
    (auto simp: no_uploads_def list_all_iff record_result_def apart_status apart_fields apart_assign
      intro: apart_delete apart_amend apart_overlay intro!: open_step_keeps on_manager_keeps)

text \<open>An update stays within its tenant: whatever it asks for and however it ends, every other tenant
  still sees the same buys, packages, creatives, reviews and assignments.
\<close>

theorem update_stays_within_the_tenant:
  assumes "update_media_buy_impl env tenant pid req (start_state db m calls audits) = (s', r)"
    and "mb_db_ok db" "creative_tables_ok db" "no_uploads req" "u \<noteq> tenant"
    and "\<forall>as. ue_uuid env as \<notin> asg_assignment_id ` set as"
  shows "tenant_view u (st_saved s') = tenant_view u db \<and> creative_view u (st_saved s') = creative_view u db"
proof -
  let ?s = "start_state db m calls audits"
  have "asg_tenant_id a \<noteq> tenant \<or> asg_tenant_id b \<noteq> u \<or> asg_assignment_id a \<noteq> asg_assignment_id b"
    if "a \<in> set (creative_assignments db)" "b \<in> set (creative_assignments db)" for a b
    using that assms(3,5) by (auto simp: creative_tables_ok_def dest: distinct_key_eq)
  then have start: "apart env tenant u db (st_view ?s) \<and> no_uploads req"
    using assms by (auto simp: apart_def start_state_def)
  have a: "apart env tenant u db (st_view (fst (update_body env tenant pid req ?s)))"
    using keepsD [OF apart.body_keeps start, of pid] by simp
  have k: "st_saved (fst (update_body env tenant pid req ?s)) = db"
    using keepsD [OF saved.body_keeps [where db = db and req = req and env = env and tenant = tenant and pid = pid], of ?s]
      assms(4) by (simp add: saved_is_def start_state_def)
  have "st_saved s' = db \<or> st_saved s' = st_view (fst (update_body env tenant pid req ?s))"
    using assms(1) by (cases rule: impl_cases)
      (use k in \<open>auto simp: start_state_def commit_unit_def split: option.splits sum.splits prod.splits\<close>)
  then show ?thesis using a by (auto simp: apart_def)
qed

section \<open>At concrete tables\<close>

definition plain_update :: "string \<Rightarrow> update_request" where
  "plain_update i = \<lparr>ur_media_buy_id = i, ur_paused = None, ur_canceled = None, ur_packages = None, ur_start_time = None,
     ur_end_time = None, ur_push_config = None, ur_reporting_url = None, ur_document = []\<rparr>"

definition plain_package :: "string \<Rightarrow> package_update" where
  "plain_package k = \<lparr>pu_package_id = Some k, pu_paused = None, pu_budget = None, pu_creative_ids = None,
     pu_creatives = None, pu_creative_assignments = None, pu_targeting_overlay = None\<rparr>"

definition fresh_assignment :: "creative_assignment list \<Rightarrow> string" where
  "fresh_assignment as = CHR ''x'' # concat (map asg_assignment_id as)"

lemma fresh_assignment_is_new: "fresh_assignment as \<notin> asg_assignment_id ` set as"
proof
  assume "fresh_assignment as \<in> asg_assignment_id ` set as"
  then obtain a where a: "a \<in> set as" "fresh_assignment as = asg_assignment_id a" by auto
  have "length (asg_assignment_id a) \<le> length (concat (map asg_assignment_id as))"
    using a(1) by (induction as) auto
  with arg_cong [OF a(2), of length] show False by (simp add: fresh_assignment_def)
qed

definition ex_update_env :: update_env where
  "ex_update_env = \<lparr>ue_manager = plain_manager, ue_wire = (\<lambda>_. Inr ([], ''refused'')),
     ue_is_terminal = (\<lambda>w. w = ''completed'' \<or> w = ''canceled''),
     ue_valid_actions = (\<lambda>w. if w = ''active'' then [''pause'', ''update_budget'', ''update_dates'', ''update_packages''] else []),
     ue_machine_statuses = [''active'', ''paused''],
     ue_accept_config = (\<lambda>_. Inr ()), ue_reject_unsafe_url = (\<lambda>_. Inr ()), ue_adapter_fault = None,
     ue_adapter = (\<lambda>_. Inr \<lparr>ad_media_buy_id = ''b1'', ad_affected_packages = []\<rparr>),
     ue_manual_required = False, ue_manual_operations = [], ue_filters_property_lists = True,
     ue_format_identity = (\<lambda>_. None), ue_sync = (\<lambda>_ _ db. Inr (db, [])), ue_uuid = fresh_assignment,
     ue_success_doc = (\<lambda>_. []), ue_submitted_doc = (\<lambda>_ _. []), ue_context_hex = ''c'', ue_step_hex = ''s'',
     ue_now = 1300000000000, ue_today = 15, ue_context_fault = None, ue_step_fault = None, ue_result_fault = None,
     ue_failure_fault = None, ue_commit_fault = None\<rparr>"

definition ex_update_db :: update_db where
  "ex_update_db = \<lparr>media_buys = [(ex_buy ''b1'' ''t1'' ''active'' (Some 3))\<lparr>mb_currency := Some ''USD''\<rparr>,
       ex_buy ''b2'' ''t1'' ''completed'' (Some 3), ex_buy ''b3'' ''t2'' ''active'' None],
     media_packages = [ex_pkg ''b1'' ''k1'', ex_pkg ''b1'' ''k2''],
     creative_assignments = [assignment_row ''a1'' ''t1'' 0 ''b1'' ''k1'' ''c1'' ''p1'',
       assignment_row ''a2'' ''t1'' 0 ''b1'' ''k2'' ''c1'' ''p1''],
     creative_rows = [(creative_blank ''c1'' ''t1'' ''p1'')\<lparr>cr_status := ''approved''\<rparr>,
       (creative_blank ''c2'' ''t1'' ''p1'')\<lparr>cr_status := ''approved''\<rparr>],
     creative_reviews = [], product_rows = [],
     currency_limits = [\<lparr>cl_tenant_id = ''t1'', cl_currency_code = ''USD'', cl_min_package_budget = Some 10,
       cl_max_daily_package_spend = Some 50\<rparr>], tenant_rows = []\<rparr>"

definition no_workflows :: manager_state where
  "no_workflows = (\<lparr>wf_contexts = [], wf_steps = [], wf_mappings = [], wf_principals = []\<rparr>, [])"

definition ex_run_update :: "update_request \<Rightarrow> update_state \<times> update_result res" where
  "ex_run_update req = update_media_buy_impl ex_update_env ''t1'' ''p1'' req (start_state ex_update_db no_workflows [] [])"

definition ex_state :: "update_request \<Rightarrow> update_state" where
  "ex_state req = fst (ex_run_update req)"

lemma ex_update_db_ok: "mb_db_ok ex_update_db \<and> creative_tables_ok ex_update_db"
  by code_simp

lemma no_workflows_ok: "wf_ok (fst no_workflows)"
  by (simp add: wf_ok_def no_workflows_def)

text \<open>A budget for one package and new creatives for the other: the applied update.\<close>

definition ex_budget :: update_request where
  "ex_budget = (plain_update ''b1'')\<lparr>ur_packages := Some [
     (plain_package ''k1'')\<lparr>pu_budget := Some (Budget_number 40), pu_paused := Some True\<rparr>,
     (plain_package ''k2'')\<lparr>pu_creative_ids := Some [''c2'']\<rparr>]\<rparr>"

lemma ex_budget_run: "(case ex_run_update ex_budget of (s, Inr (Update_success r)) \<Rightarrow>
     map ac_action (st_calls s) = [''pause_package'', ''update_package_budget''] \<and>
     map asg_creative_id (creative_assignments (st_saved s)) = [''c1'', ''c2''] \<and> us_revision r = 1
   | _ \<Rightarrow> False)"
  by code_simp

definition calls_of :: "update_state \<Rightarrow> (string \<times> int option) list" where
  "calls_of s = map (\<lambda>c. (ac_action c, ac_budget c)) (st_calls s)"

text \<open>
  A pause of the whole buy answers for the whole request: the package budgets sent with it are checked,
  then dropped without a word, and the step is linked to no buy.
\<close>

lemma pause_drops_the_rest:
  "(case ex_run_update (ex_budget\<lparr>ur_paused := Some True\<rparr>) of (s, Inr (Update_success r)) \<Rightarrow>
     calls_of s = [(''pause_media_buy'', None)] \<and> creative_assignments (st_saved s) = creative_assignments ex_update_db \<and>
     wf_mappings (fst (st_manager s)) = [] \<and> us_affected_packages r = [] | _ \<Rightarrow> False)"
  by code_simp

text \<open>Cancellation is not a change: an active buy stays as it is and the answer is a success.\<close>

lemma cancellation_changes_nothing:
  "(case ex_run_update ((plain_update ''b1'')\<lparr>ur_canceled := Some True\<rparr>) of (s, Inr (Update_success r)) \<Rightarrow>
     calls_of s = [] \<and> st_saved s = ex_update_db \<and> us_media_buy_status r = Some ''active'' | _ \<Rightarrow> False)"
  by code_simp

text \<open>A package's new budget and its pause go to the ad server alone; the package row keeps the old ones.\<close>

lemma package_budget_is_not_stored:
  "media_packages (st_saved (ex_state ex_budget)) = media_packages ex_update_db \<and>
   media_buys (st_saved (ex_state ex_budget)) = media_buys ex_update_db"
  by code_simp

text \<open>
  A budget that names a currency the tenant has not configured escapes the smallest package budget,
  and what is left of it is cut to whole units: the ad server is told zero.
\<close>

definition ex_small :: update_request where
  "ex_small = (plain_update ''b1'')\<lparr>ur_packages := Some [
     (plain_package ''k1'')\<lparr>pu_budget := Some (Budget_object (1 / 2) (Some ''EUR''))\<rparr>]\<rparr>"

lemma small_budget_is_sent_as_zero:
  "(case ex_run_update ex_small of (s, Inr (Update_success r)) \<Rightarrow> calls_of s = [(''update_package_budget'', Some 0)] | _ \<Rightarrow> False)"
  by code_simp

text \<open>A pause of a package is no action of its own: a paused or pausable buy makes no difference to it.\<close>

lemma package_pause_is_not_an_action:
  "requested_actions ((plain_update i)\<lparr>ur_packages := Some [(plain_package k)\<lparr>pu_paused := Some True\<rparr>]\<rparr>) = [''update_packages'']"
  by (simp add: requested_actions_def plain_update_def plain_package_def given_def)

text \<open>New flight times leave the flight dates of the row behind.\<close>

definition ex_flight :: update_request where
  "ex_flight = (plain_update ''b1'')\<lparr>ur_start_time := Some (Start_at (Aware 2592000000000 0)),
     ur_end_time := Some (Aware 3456000000000 0)\<rparr>"

lemma flight_dates_stay_behind:
  "(case ex_run_update ex_flight of (s, Inr (Update_success r)) \<Rightarrow>
     map (\<lambda>b. (mb_start_time b, mb_start_date b, mb_end_date b)) (take 1 (media_buys (st_saved s))) =
       [(Some (Aware 2592000000000 0), 10, 20)] | _ \<Rightarrow> False)"
  by code_simp

text \<open>
  The ad server is not rolled back: the second package does not exist, the update is refused and
  nothing is stored, yet the first package's budget was sent.
\<close>

definition ex_half :: update_request where
  "ex_half = (plain_update ''b1'')\<lparr>ur_packages := Some [
     (plain_package ''k1'')\<lparr>pu_budget := Some (Budget_number 40), pu_creative_ids := Some [''c2'']\<rparr>,
     (plain_package ''k9'')\<lparr>pu_budget := Some (Budget_number 40)\<rparr>]\<rparr>"

lemma refused_update_reached_the_ad_server:
  "(case ex_run_update ex_half of (s, Inl (AdCPPackageNotFoundError _ _)) \<Rightarrow>
     calls_of s = [(''update_package_budget'', Some 40)] \<and> st_saved s = ex_update_db | _ \<Rightarrow> False)"
  by code_simp

text \<open>
  With inline creatives the refused update does leave a trace: their sync commits the session, and with
  it what the packages before them had changed.
\<close>

definition ex_inline :: update_request where
  "ex_inline = (plain_update ''b1'')\<lparr>ur_packages := Some [
     (plain_package ''k1'')\<lparr>pu_creative_ids := Some [''c2'']\<rparr>,
     (plain_package ''k2'')\<lparr>pu_creatives := Some [JObj []]\<rparr>,
     (plain_package ''k9'')\<lparr>pu_budget := Some (Budget_number 40)\<rparr>]\<rparr>"

lemma inline_creatives_commit_early:
  "(case ex_run_update ex_inline of (s, Inl (AdCPPackageNotFoundError _ _)) \<Rightarrow>
     map asg_creative_id (creative_assignments (st_saved s)) = [''c1'', ''c2''] | _ \<Rightarrow> False)"
  by code_simp

lemma overlay_keeps_the_buys: "media_buys (fst (store_overlay t mp db)) = media_buys db"
  by (simp add: store_overlay_def write_package_def split: sum.split)

lemma no_uploads_plain: "no_uploads ex_budget \<and> no_uploads ex_half"
  by code_simp

lemma ex_budget_fst_snd: "ex_run_update ex_budget = (ex_state ex_budget, snd (ex_run_update ex_budget))"
  by (simp add: ex_state_def)

definition ex_success :: update_success where
  "ex_success = (case snd (ex_run_update ex_budget) of Inr (Update_success r) \<Rightarrow> r
     | _ \<Rightarrow> \<lparr>us_media_buy_id = [], us_revision = 0, us_media_buy_status = None, us_implementation_date = 0,
         us_affected_packages = [], us_valid_actions = [], us_errors = None\<rparr>)"

lemma ex_budget_succeeds: "update_media_buy_impl ex_update_env ''t1'' ''p1'' ex_budget
    (start_state ex_update_db no_workflows [] []) = (ex_state ex_budget, Inr (Update_success ex_success))"
proof -
  have "snd (ex_run_update ex_budget) = Inr (Update_success ex_success)"
    using ex_budget_run unfolding ex_success_def by (auto split: prod.splits sum.splits update_result.splits)
  then show ?thesis using ex_budget_fst_snd by (simp add: ex_run_update_def)
qed


lemma update_sends_no_webhook_witness: "snd (st_manager (ex_state ex_budget)) = []"
  using update_sends_no_webhook [OF no_workflows_ok ex_budget_succeeds] by (simp add: no_workflows_def)

lemma inadmissible_update_has_no_effect_witness:
  "update_media_buy_impl ex_update_env ''t1'' ''p1'' (plain_update ''b2'') (start_state ex_update_db no_workflows [] []) =
    (start_state ex_update_db no_workflows [] [], Inl (AdCPGoneError [''completed'']))"
proof -
  have f: "get_by_id ''t1'' ex_update_db (ur_media_buy_id (plain_update ''b2'')) = Some (ex_buy ''b2'' ''t1'' ''completed'' (Some 3))"
    "registration_gate ex_update_env (plain_update ''b2'') = Inr ()"
    by (simp_all add: get_by_id_def plain_update_def ex_update_db_def ex_buy_def registration_gate_def)
  have s: "mb_status (ex_buy ''b2'' ''t1'' ''completed'' (Some 3)) = ''completed''" "ue_is_terminal ex_update_env ''completed''"
    "mb_principal_id (ex_buy ''b2'' ''t1'' ''completed'' (Some 3)) = ''p1''"
    by (simp_all add: ex_buy_def ex_update_env_def)
  have "ur_media_buy_id (plain_update ''b2'') \<noteq> []" by (simp add: plain_update_def)
  from inadmissible_update_has_no_effect [OF f(2) this f(1), of "''p1''"] s show ?thesis
    by (simp add: plain_update_def)
qed



definition ex_set_creatives :: "update_state \<times> unit res" where
  "ex_set_creatives = set_creative_ids ex_update_env ''t1'' ''p1'' ''b1'' 0
     ((plain_package ''k2'')\<lparr>pu_creative_ids := Some [''c2'', ''c2'']\<rparr>) (start_state ex_update_db no_workflows [] [])"

lemma creatives_become_the_requested_ones_witness:
  "set (map asg_creative_id (get_by_media_buy_and_package ''t1'' (st_view (fst ex_set_creatives)) ''b1'' ''k2'')) = {''c2''}"
proof -
  have "snd ex_set_creatives = Inr ()" by code_simp
  then have e: "set_creative_ids ex_update_env ''t1'' ''p1'' ''b1'' 0 ((plain_package ''k2'')\<lparr>pu_creative_ids := Some [''c2'', ''c2'']\<rparr>)
      (start_state ex_update_db no_workflows [] []) = (fst ex_set_creatives, Inr ())"
    unfolding ex_set_creatives_def by (metis prod.collapse)
  have "creative_tables_ok (st_view (start_state ex_update_db no_workflows [] []))"
    using ex_update_db_ok by (simp add: start_state_def)
  from creatives_become_the_requested_ones [OF e _ _ this] show ?thesis by (simp add: plain_package_def)
qed

lemma update_stays_within_the_tenant_witness: "tenant_view ''t2'' (st_saved (ex_state ex_budget)) = tenant_view ''t2'' ex_update_db"
proof -
  have "\<forall>as. ue_uuid ex_update_env as \<notin> asg_assignment_id ` set as"
    using fresh_assignment_is_new by (simp add: ex_update_env_def)
  with update_stays_within_the_tenant [OF ex_budget_succeeds, of "''t2''"] ex_update_db_ok no_uploads_plain
  show ?thesis by blast
qed

end
