(* ===== verification/Creative_Assets.thy ===== *)
theory Creative_Assets
  imports Creative_Repo "HOL-Library.List_Lexorder" "HOL-Library.Char_ord"
begin

text \<open>
  What is uploaded for a creative: its media, click and tracker urls and its size
  (src/src/core/helpers/creative_helpers.py), the macros of a click url
  (src/src/adapters/gam/utils/macros.py), and in src/src/core/tools/media_buy_create.py the asset built
  for the ad server, the enrichment written back, and the check of creatives before the ad server is
  called. The format fetches of src/src/core/format_resolver.py ask the registry, a parameter, as are
  the SDK's reading of a format and the order in which Python walks the sets of known asset ids.
\<close>

section \<open>Formats and their fetch\<close>

record asset_spec =
  as_asset_type :: string
  as_asset_id :: string
  as_url_type :: "json option"

record format_spec =
  fs_has_assets :: bool
  fs_individual :: "asset_spec list"
  fs_generative :: bool

text \<open>
  \<open>ce_registry\<close> answers the n-th fetch of a format from an agent; the three lists are the sets of
  known asset ids in the order they are walked.
\<close>

record creative_env =
  ce_registry :: "nat \<Rightarrow> string \<Rightarrow> string \<Rightarrow> format_spec option res"
  ce_media_ids :: "string list"
  ce_click_ids :: "string list"
  ce_tracker_ids :: "string list"

definition media_asset_fallback_ids :: "string list" where
  "media_asset_fallback_ids = [''banner_image'', ''billboard_image'', ''icon'', ''main_image'', ''product_image'',
     ''screen_image'', ''thumbnail'', ''video_file'', ''audio_file'', ''main'', ''image'', ''video'', ''audio'']"

definition clickthrough_asset_ids :: "string list" where
  "clickthrough_asset_ids = [''click_url'', ''clickthrough'', ''click'', ''landing_page'', ''landing_url'', ''destination_url'']"

definition impression_tracker_asset_ids :: "string list" where
  "impression_tracker_asset_ids = [''impression_tracker'', ''tracker_pixel'', ''pixel'', ''impression_pixel'']"

definition media_asset_types :: "string list" where
  "media_asset_types = [''image'', ''video'', ''audio'']"

text \<open>The orders are orders of those sets.\<close>

definition orders_ok :: "creative_env \<Rightarrow> bool" where
  "orders_ok env = (set (ce_media_ids env) = set media_asset_fallback_ids \<and> distinct (ce_media_ids env) \<and>
     set (ce_click_ids env) = set clickthrough_asset_ids \<and> distinct (ce_click_ids env) \<and>
     set (ce_tracker_ids env) = set impression_tracker_asset_ids \<and> distinct (ce_tracker_ids env))"

definition is_dialled_agent_url :: "string \<Rightarrow> bool" where
  "is_dialled_agent_url url = (prefix ''http://'' url \<or> prefix ''https://'' url)"

definition fetch_format_spec :: "creative_env \<Rightarrow> nat \<Rightarrow> string \<Rightarrow> string \<Rightarrow> format_spec option res" where
  "fetch_format_spec env n agent_url format_id = (case ce_registry env n agent_url format_id of
     Inl e \<Rightarrow> if is_adcp_error e then Inl e else Inr None
   | Inr f \<Rightarrow> Inr f)"

text \<open>\<open>get_format\<close> with an agent url and no product.\<close>

definition get_format :: "creative_env \<Rightarrow> nat \<Rightarrow> string \<Rightarrow> string \<Rightarrow> format_spec res" where
  "get_format env n format_id agent_url = (case fetch_format_spec env n agent_url format_id of
     Inl e \<Rightarrow> Inl e
   | Inr (Some f) \<Rightarrow> Inr f
   | Inr None \<Rightarrow> Inl (AdCPFormatNotFoundError format_id))"

section \<open>Numbers in text\<close>

text \<open>\<open>int(s)\<close> of an ASCII text: blanks around it, a sign, digits with single underscores between them.\<close>

definition digit_of :: "char \<Rightarrow> nat option" where
  "digit_of c = (let n = (of_char c :: nat) in if 48 \<le> n \<and> n \<le> 57 then Some (n - 48) else None)"

fun digits_value :: "nat \<Rightarrow> bool \<Rightarrow> string \<Rightarrow> nat option" where
  "digits_value acc after_digit [] = (if after_digit then Some acc else None)"
| "digits_value acc after_digit (c # cs) = (case digit_of c of
     Some d \<Rightarrow> digits_value (10 * acc + d) True cs
   | None \<Rightarrow> if c = CHR ''_'' \<and> after_digit then digits_value acc False cs else None)"

definition strip :: "string \<Rightarrow> string" where
  "strip s = rev (dropWhile is_space (rev (dropWhile is_space s)))"

definition int_of_text :: "string \<Rightarrow> int option" where
  "int_of_text s = (case strip s of
     CHR ''-'' # cs \<Rightarrow> map_option (\<lambda>n. - int n) (digits_value 0 False cs)
   | CHR ''+'' # cs \<Rightarrow> map_option int (digits_value 0 False cs)
   | cs \<Rightarrow> map_option int (digits_value 0 False cs))"

text \<open>\<open>int(raw)\<close>, with its ValueError or TypeError as None.\<close>

definition int_of_json :: "json \<Rightarrow> int option" where
  "int_of_json j = (case j of JNum x \<Rightarrow> Some (py_int x) | JBool b \<Rightarrow> Some (if b then 1 else 0)
     | JStr s \<Rightarrow> int_of_text s | _ \<Rightarrow> None)"

section \<open>Media\<close>

record media =
  md_url :: "json option"
  md_width :: "int option"
  md_height :: "int option"

definition no_media :: media where
  "no_media = \<lparr>md_url = None, md_width = None, md_height = None\<rparr>"

definition have_size :: "int option \<Rightarrow> bool" where
  "have_size n = (n \<noteq> None \<and> n \<noteq> Some 0)"

definition media_complete :: "media \<Rightarrow> bool" where
  "media_complete m = (md_url m \<noteq> None \<and> have_size (md_width m) \<and> have_size (md_height m))"

definition take_url :: "(string \<times> json) list \<Rightarrow> media \<Rightarrow> media" where
  "take_url obj m = (if md_url m \<noteq> None then m else (case map_of obj ''url'' of
     Some u \<Rightarrow> if json_truthy u then m\<lparr>md_url := Some u\<rparr> else m
   | None \<Rightarrow> m))"

text \<open>A dimension is read when none is known yet; a text that is no number leaves it.\<close>

definition take_size :: "string \<Rightarrow> (string \<times> json) list \<Rightarrow> int option \<Rightarrow> int option" where
  "take_size k obj n = (if have_size n then n else (case map_of obj k of
     None \<Rightarrow> n
   | Some raw \<Rightarrow> if raw = JNull then n else (case int_of_json raw of None \<Rightarrow> n | Some i \<Rightarrow> Some i)))"

definition take_sizes :: "(string \<times> json) list \<Rightarrow> media \<Rightarrow> media" where
  "take_sizes obj m = m\<lparr>md_width := take_size ''width'' obj (md_width m),
     md_height := take_size ''height'' obj (md_height m)\<rparr>"

text \<open>\<open>if k in assets: assets[k]\<close>: membership is of keys, elements or substrings; only a dict is then indexed by a text.\<close>

definition asset_at :: "json \<Rightarrow> string \<Rightarrow> json option res" where
  "asset_at assets k = (case assets of
     JObj kvs \<Rightarrow> Inr (map_of kvs k)
   | JList xs \<Rightarrow> if JStr k \<in> set xs then Inl TypeError else Inr None
   | JStr s \<Rightarrow> if sublist k s then Inl TypeError else Inr None
   | _ \<Rightarrow> Inl TypeError)"

definition asset_dict :: "json \<Rightarrow> string \<Rightarrow> (string \<times> json) list option res" where
  "asset_dict assets k = (case asset_at assets k of
     Inl e \<Rightarrow> Inl e
   | Inr (Some (JObj kvs)) \<Rightarrow> Inr (Some kvs)
   | Inr _ \<Rightarrow> Inr None)"

fun media_of_specs :: "json \<Rightarrow> asset_spec list \<Rightarrow> media \<Rightarrow> media res" where
  "media_of_specs assets [] m = Inr m"
| "media_of_specs assets (s # ss) m = (let ty = lower (as_asset_type s) in
     if ty \<notin> set media_asset_types then media_of_specs assets ss m
     else (case asset_dict assets (as_asset_id s) of
        Inl e \<Rightarrow> Inl e
      | Inr None \<Rightarrow> media_of_specs assets ss m
      | Inr (Some obj) \<Rightarrow>
          let m1 = take_url obj m;
              m2 = (if ty = ''image'' \<or> ty = ''video'' then take_sizes obj m1 else m1)
          in if media_complete m2 then Inr m2 else media_of_specs assets ss m2))"

fun media_of_ids :: "json \<Rightarrow> string list \<Rightarrow> media \<Rightarrow> media res" where
  "media_of_ids assets [] m = Inr m"
| "media_of_ids assets (i # is) m = (case asset_dict assets i of
     Inl e \<Rightarrow> Inl e
   | Inr None \<Rightarrow> media_of_ids assets is m
   | Inr (Some obj) \<Rightarrow> let m2 = take_sizes obj (take_url obj m)
       in if media_complete m2 then Inr m2 else media_of_ids assets is m2)"

definition truthy_assets :: "(string \<times> json) list \<Rightarrow> json option" where
  "truthy_assets data = (case map_of data ''assets'' of Some a \<Rightarrow> if json_truthy a then Some a else None | None \<Rightarrow> None)"

definition specs_of :: "format_spec option \<Rightarrow> asset_spec list" where
  "specs_of spec = (case spec of Some f \<Rightarrow> if fs_has_assets f then fs_individual f else [] | None \<Rightarrow> [])"

definition extract_media_url_and_dimensions ::
    "creative_env \<Rightarrow> (string \<times> json) list \<Rightarrow> format_spec option \<Rightarrow> media res" where
  "extract_media_url_and_dimensions env data spec =
     (case (case truthy_assets data of
          None \<Rightarrow> Inr no_media
        | Some assets \<Rightarrow> (case media_of_specs assets (specs_of spec) no_media of
            Inl e \<Rightarrow> Inl e
          | Inr m \<Rightarrow> if media_complete m then Inr m else media_of_ids assets (ce_media_ids env) m)) of
        Inl e \<Rightarrow> Inl e
      | Inr m \<Rightarrow> Inr (take_sizes data (take_url data m)))"

section \<open>Macros\<close>

text \<open>The macros in the order of the table; None has no counterpart and passes through.\<close>

definition adcp_to_gam_macro_map :: "(string \<times> string option) list" where
  "adcp_to_gam_macro_map = [
     (''{MEDIA_BUY_ID}'', Some ''%ebuy!''), (''{PACKAGE_ID}'', Some ''%eaid!''),
     (''{CREATIVE_ID}'', Some ''%ecid!''), (''{CACHEBUSTER}'', Some ''%%CACHEBUSTER%%''),
     (''{TIMESTAMP}'', None), (''{CLICK_URL}'', Some ''%%CLICK_URL_ESC%%''),
     (''{CLICK_URL_UNESC}'', Some ''%%CLICK_URL_UNESC%%''), (''{GDPR}'', Some ''${GDPR}''),
     (''{GDPR_CONSENT}'', Some ''${GDPR_CONSENT_XXX}''), (''{US_PRIVACY}'', Some ''${US_PRIVACY}''),
     (''{GPP_STRING}'', Some ''${GPP_STRING}''), (''{GPP_SID}'', Some ''${GPP_SID}''),
     (''{LIMIT_AD_TRACKING}'', Some ''%%ADVERTISING_IDENTIFIER_IS_LAT%%''), (''{DEVICE_TYPE}'', None),
     (''{OS}'', None), (''{OS_VERSION}'', None), (''{DEVICE_MAKE}'', None), (''{DEVICE_MODEL}'', None),
     (''{USER_AGENT}'', None), (''{APP_BUNDLE}'', None), (''{APP_NAME}'', None), (''{COUNTRY}'', None),
     (''{REGION}'', None), (''{CITY}'', None), (''{ZIP}'', None), (''{DMA}'', None), (''{LAT}'', None),
     (''{LONG}'', None), (''{DEVICE_ID}'', Some ''%%ADVERTISING_IDENTIFIER_PLAIN%%''),
     (''{DEVICE_ID_TYPE}'', Some ''%%ADVERTISING_IDENTIFIER_TYPE%%''), (''{DOMAIN}'', Some ''%%SITE%%''),
     (''{PAGE_URL}'', None), (''{REFERRER}'', Some ''%%REFERRER_URL_ESC%%''), (''{KEYWORDS}'', None),
     (''{PLACEMENT_ID}'', Some ''%epid!''), (''{FOLD_POSITION}'', None),
     (''{AD_WIDTH}'', Some ''%%WIDTH%%''), (''{AD_HEIGHT}'', Some ''%%HEIGHT%%''),
     (''{VIDEO_ID}'', Some ''%%VIDEO_ID%%''), (''{VIDEO_TITLE}'', Some ''%%VIDEO_TITLE%%''),
     (''{VIDEO_DURATION}'', Some ''%%VIDEO_DURATION%%''), (''{VIDEO_CATEGORY}'', None),
     (''{CONTENT_GENRE}'', None), (''{CONTENT_RATING}'', None), (''{PLAYER_WIDTH}'', None),
     (''{PLAYER_HEIGHT}'', None), (''{POD_POSITION}'', Some ''%%TAG_PARAM:ppos%%''), (''{POD_SIZE}'', None),
     (''{AD_BREAK_ID}'', None), (''{AXEM}'', Some ''%%PATTERN:axem%%'')]"

text \<open>\<open>s.replace(old, new)\<close>, from the left and without overlaps.\<close>

function replace_all :: "string \<Rightarrow> string \<Rightarrow> string \<Rightarrow> string" where
  "replace_all old new s = (if s = [] \<or> old = [] then s
     else if prefix old s then new @ replace_all old new (drop (length old) s)
     else hd s # replace_all old new (tl s))"
  by auto
termination
  by (relation "measure (\<lambda>(old, new, s). length s)") auto

declare replace_all.simps [simp del]

fun substitute_from :: "(string \<times> string option) list \<Rightarrow> string \<Rightarrow> string" where
  "substitute_from [] url = url"
| "substitute_from ((m, g) # ms) url = substitute_from ms
     (case g of Some to \<Rightarrow> if sublist m url then replace_all m to url else url | None \<Rightarrow> url)"

definition substitute_macros :: "string \<Rightarrow> string" where
  "substitute_macros url = substitute_from adcp_to_gam_macro_map url"

text \<open>Of a click url that is not a text: \<open>in\<close> is then membership, and only a text can be replaced in.\<close>

definition substitute_macros_in :: "json \<Rightarrow> json res" where
  "substitute_macros_in j = (case j of
     JStr s \<Rightarrow> Inr (JStr (substitute_macros s))
   | JObj kvs \<Rightarrow> if \<exists>(m, g)\<in>set adcp_to_gam_macro_map. g \<noteq> None \<and> m \<in> fst ` set kvs
       then Inl (OtherException ''AttributeError'') else Inr j
   | JList xs \<Rightarrow> if \<exists>(m, g)\<in>set adcp_to_gam_macro_map. g \<noteq> None \<and> JStr m \<in> set xs
       then Inl (OtherException ''AttributeError'') else Inr j
   | _ \<Rightarrow> Inl TypeError)"

section \<open>Click and tracker urls\<close>

text \<open>\<open>isinstance(asset_obj, dict) and asset_obj.get("url")\<close>\<close>

definition asset_url :: "json \<Rightarrow> string \<Rightarrow> json option res" where
  "asset_url assets k = (case asset_dict assets k of
     Inl e \<Rightarrow> Inl e
   | Inr None \<Rightarrow> Inr None
   | Inr (Some obj) \<Rightarrow> Inr (case map_of obj ''url'' of Some u \<Rightarrow> if json_truthy u then Some u else None | None \<Rightarrow> None))"

fun first_url :: "json \<Rightarrow> string list \<Rightarrow> json option res" where
  "first_url assets [] = Inr None"
| "first_url assets (i # is) = (case asset_url assets i of
     Inl e \<Rightarrow> Inl e
   | Inr (Some u) \<Rightarrow> Inr (Some u)
   | Inr None \<Rightarrow> first_url assets is)"

definition url_specs :: "string \<Rightarrow> format_spec option \<Rightarrow> string list" where
  "url_specs url_type spec = map as_asset_id (filter (\<lambda>s. lower (as_asset_type s) = ''url'' \<and>
     as_url_type s = Some (JStr url_type)) (specs_of spec))"

definition extract_click_url :: "creative_env \<Rightarrow> (string \<times> json) list \<Rightarrow> format_spec option \<Rightarrow> json option res" where
  "extract_click_url env data spec = (case truthy_assets data of None \<Rightarrow> Inr None
     | Some assets \<Rightarrow> (case (case first_url assets (url_specs ''clickthrough'' spec) of
            Inl e \<Rightarrow> Inl e
          | Inr (Some u) \<Rightarrow> Inr (Some u)
          | Inr None \<Rightarrow> first_url assets (ce_click_ids env)) of
          Inl e \<Rightarrow> Inl e
        | Inr None \<Rightarrow> Inr None
        | Inr (Some u) \<Rightarrow> map_sum id Some (substitute_macros_in u)))"

text \<open>Any asset that says it is a tracker pixel; \<open>.items()\<close> needs a dict.\<close>

definition pixel_url :: "json \<Rightarrow> json option" where
  "pixel_url j = (case j of JObj obj \<Rightarrow> (case (map_of obj ''url_type'', map_of obj ''url'') of
       (Some t, Some u) \<Rightarrow> if t = JStr ''tracker_pixel'' \<and> json_truthy u then Some u else None
     | _ \<Rightarrow> None) | _ \<Rightarrow> None)"

fun first_pixel :: "json list \<Rightarrow> json option" where
  "first_pixel [] = None"
| "first_pixel (j # js) = (case pixel_url j of Some u \<Rightarrow> Some u | None \<Rightarrow> first_pixel js)"

definition declared_pixel :: "json \<Rightarrow> json option res" where
  "declared_pixel assets = (case assets of JObj kvs \<Rightarrow> Inr (first_pixel (map snd kvs))
     | _ \<Rightarrow> Inl (OtherException ''AttributeError''))"

definition extract_impression_tracker_url ::
    "creative_env \<Rightarrow> (string \<times> json) list \<Rightarrow> format_spec option \<Rightarrow> json option res" where
  "extract_impression_tracker_url env data spec = (case truthy_assets data of None \<Rightarrow> Inr None
     | Some assets \<Rightarrow> (case first_url assets (url_specs ''tracker_pixel'' spec) of
          Inl e \<Rightarrow> Inl e
        | Inr (Some u) \<Rightarrow> Inr (Some u)
        | Inr None \<Rightarrow> (case declared_pixel assets of
            Inl e \<Rightarrow> Inl e
          | Inr (Some u) \<Rightarrow> Inr (Some u)
          | Inr None \<Rightarrow> first_url assets (ce_tracker_ids env))))"

section \<open>The asset of a creative\<close>

record adapter_asset =
  aa_creative_id :: string
  aa_package_assignments :: "(string \<times> int) list"
  aa_width :: int
  aa_height :: int
  aa_url :: json
  aa_click_url :: "json option"
  aa_asset_type :: json
  aa_name :: string
  aa_impression_tracker :: "json option"

datatype asset_error = Asset_incomplete string "int option" "int option" bool string

text \<open>\<open>creative.data or {}\<close>; what is not a dict has no \<open>get\<close>.\<close>

definition data_of :: "json \<Rightarrow> (string \<times> json) list res" where
  "data_of d = (case d of JObj kvs \<Rightarrow> Inr kvs
     | _ \<Rightarrow> if json_truthy d then Inl (OtherException ''AttributeError'') else Inr [])"

text \<open>
  The first fetch, then the resolver, which fetches once more: an unknown format or an untyped
  failure of the resolver builds without a format, a typed failure of either passes on.
\<close>

definition dialled :: "creative_row \<Rightarrow> bool" where
  "dialled c = (cr_format c \<noteq> [] \<and> cr_agent_url c \<noteq> [] \<and> is_dialled_agent_url (cr_agent_url c))"

definition asset_format :: "creative_env \<Rightarrow> creative_row \<Rightarrow> format_spec option res" where
  "asset_format env c = (if \<not> dialled c then Inr None
     else (case fetch_format_spec env 0 (cr_agent_url c) (cr_format c) of
        Inl e \<Rightarrow> Inl e
      | Inr (Some f) \<Rightarrow> Inr (Some f)
      | Inr None \<Rightarrow> (case get_format env 1 (cr_format c) (cr_agent_url c) of
          Inr f \<Rightarrow> Inr (Some f)
        | Inl (AdCPFormatNotFoundError i) \<Rightarrow> Inr None
        | Inl e \<Rightarrow> if is_adcp_error e then Inl e else Inr None)))"

definition build_adapter_asset ::
    "creative_env \<Rightarrow> creative_row \<Rightarrow> (string \<times> int) list \<Rightarrow> (asset_error + adapter_asset) res" where
  "build_adapter_asset env c assignments = (case data_of (cr_data c) of Inl e \<Rightarrow> Inl e
     | Inr data \<Rightarrow> (case asset_format env c of Inl e \<Rightarrow> Inl e
     | Inr spec \<Rightarrow> (case extract_media_url_and_dimensions env data spec of Inl e \<Rightarrow> Inl e
     | Inr m \<Rightarrow> (case extract_click_url env data spec of Inl e \<Rightarrow> Inl e
     | Inr click \<Rightarrow> (case extract_impression_tracker_url env data spec of Inl e \<Rightarrow> Inl e
     | Inr tracker \<Rightarrow> Inr (if \<not> media_complete m
         then Inl (Asset_incomplete (cr_creative_id c) (md_width m) (md_height m) (md_url m \<noteq> None) (cr_format c))
         else Inr \<lparr>aa_creative_id = cr_creative_id c, aa_package_assignments = assignments,
           aa_width = the (md_width m), aa_height = the (md_height m), aa_url = the (md_url m), aa_click_url = click,
           aa_asset_type = (case map_of data ''asset_type'' of Some t \<Rightarrow> t | None \<Rightarrow> JStr ''image''),
           aa_name = (if cr_name c = [] then ''Creative '' @ cr_creative_id c else cr_name c),
           aa_impression_tracker = tracker\<rparr>))))))"

section \<open>Enrichment\<close>

record asset_status =
  ats_creative_id :: "string option"
  ats_status :: string
  ats_message :: "string option"
  ats_concept_id :: "string option"
  ats_concept_name :: "string option"
  ats_concept_source :: "string option"

definition has_value :: "string \<Rightarrow> (string \<times> json) list \<Rightarrow> bool" where
  "has_value k data = (case map_of data k of Some j \<Rightarrow> json_truthy j | None \<Rightarrow> False)"

definition merge_creative_enrichment :: "(string \<times> json) list \<Rightarrow> asset_status \<Rightarrow> (string \<times> json) list" where
  "merge_creative_enrichment data st =
     (let data1 = (if truthy_str (ats_creative_id st) \<and> \<not> has_value ''platform_creative_id'' data
        then dict_set ''platform_creative_id'' (JStr (the (ats_creative_id st))) data else data)
      in if truthy_str (ats_concept_id st) \<and> \<not> has_value ''concept_id'' data1
         then dict_set ''concept_source'' (JStr (or_str (ats_concept_source st) ''adapter_enrichment''))
           (dict_set ''concept_name'' (case ats_concept_name st of Some n \<Rightarrow> JStr n | None \<Rightarrow> JNull)
           (dict_set ''concept_id'' (JStr (the (ats_concept_id st))) data1))
         else data1)"

text \<open>\<open>_apply_creative_enrichment\<close>: the merged data when it adds something.\<close>

definition apply_creative_enrichment :: "creative_row \<Rightarrow> asset_status \<Rightarrow> json option res" where
  "apply_creative_enrichment c st = (case data_of (cr_data c) of Inl e \<Rightarrow> Inl e
     | Inr data \<Rightarrow> let merged = merge_creative_enrichment data st in
         Inr (if merged = data then None else Some (JObj merged)))"

section \<open>The check before the ad server is called\<close>

record checked_package =
  cp_product_id :: "string option"
  cp_creative_ids :: "string list option"

datatype creative_problem =
    Unknown_format string string string
  | Missing_url string
  | Missing_dimensions string
  | Format_not_accepted string string string

definition size_problems :: "creative_row \<Rightarrow> media \<Rightarrow> creative_problem list" where
  "size_problems c m = (if md_url m = None then [Missing_url (cr_creative_id c)] else []) @
     (if have_size (md_width m) \<and> have_size (md_height m) then [] else [Missing_dimensions (cr_creative_id c)])"

text \<open>A creative in a terminal state is set aside; of the others, the problems in order.\<close>

definition terminal_creative :: "creative_row \<Rightarrow> bool" where
  "terminal_creative c = (cr_status c = ''error'' \<or> cr_status c = ''rejected'')"

definition check_creative :: "creative_env \<Rightarrow> creative_row \<Rightarrow> creative_problem list res" where
  "check_creative env c = (if terminal_creative c then Inr []
     else (case (if dialled c then fetch_format_spec env 0 (cr_agent_url c) (cr_format c) else Inr None) of
        Inl e \<Rightarrow> Inl e
      | Inr spec \<Rightarrow>
          if dialled c \<and> spec = None then Inr [Unknown_format (cr_creative_id c) (cr_format c) (cr_agent_url c)]
          else if (case spec of Some f \<Rightarrow> fs_generative f | None \<Rightarrow> False) then Inr []
          else (case data_of (cr_data c) of Inl e \<Rightarrow> Inl e
            | Inr data \<Rightarrow> (case extract_media_url_and_dimensions env data spec of Inl e \<Rightarrow> Inl e
              | Inr m \<Rightarrow> Inr (size_problems c m)))))"

fun check_creatives :: "creative_env \<Rightarrow> creative_row list \<Rightarrow> creative_problem list res" where
  "check_creatives env [] = Inr []"
| "check_creatives env (c # cs) = (case check_creative env c of Inl e \<Rightarrow> Inl e
     | Inr ps \<Rightarrow> (case check_creatives env cs of Inl e \<Rightarrow> Inl e | Inr qs \<Rightarrow> Inr (ps @ qs)))"

text \<open>The ids of a product's formats, as text (\<open>text_of\<close> of a value that is not one).\<close>

fun accepted_formats :: "(json \<Rightarrow> string) \<Rightarrow> json list \<Rightarrow> string list res" where
  "accepted_formats text_of [] = Inr []"
| "accepted_formats text_of (f # fs) = (case f of
     JObj kvs \<Rightarrow> (case accepted_formats text_of fs of Inl e \<Rightarrow> Inl e
       | Inr rest \<Rightarrow> Inr (if has_value ''id'' kvs
           then (case the (map_of kvs ''id'') of JStr s \<Rightarrow> s | j \<Rightarrow> text_of j) # rest else rest))
   | _ \<Rightarrow> Inl (OtherException ''AttributeError''))"

definition list_by_ids :: "string \<Rightarrow> 'a creative_db_scheme \<Rightarrow> string list \<Rightarrow> product_row list" where
  "list_by_ids tenant db ids = (if ids = [] then [] else
     filter (\<lambda>p. prod_tenant_id p = tenant \<and> prod_product_id p \<in> set ids) (product_rows db))"

fun format_map :: "(json \<Rightarrow> string) \<Rightarrow> product_row list \<Rightarrow> (string \<times> string list) list res" where
  "format_map text_of [] = Inr []"
| "format_map text_of (p # ps) = (case accepted_formats text_of (prod_format_ids p) of Inl e \<Rightarrow> Inl e
     | Inr fs \<Rightarrow> (case format_map text_of ps of Inl e \<Rightarrow> Inl e | Inr m \<Rightarrow> Inr ((prod_product_id p, fs) # m)))"

definition package_creatives :: "checked_package \<Rightarrow> string list" where
  "package_creatives p = (case cp_creative_ids p of None \<Rightarrow> [] | Some ids \<Rightarrow> ids)"

definition format_problems ::
    "(string \<times> string list) list \<Rightarrow> creative_row list \<Rightarrow> checked_package \<Rightarrow> creative_problem list" where
  "format_problems accepted cs p = (case cp_product_id p of None \<Rightarrow> []
     | Some prid \<Rightarrow> (case map_of accepted prid of None \<Rightarrow> []
       | Some fs \<Rightarrow> if prid = [] \<or> fs = [] then [] else
           List.map_filter (\<lambda>cid. case find (\<lambda>c. cr_creative_id c = cid \<and> cr_format c \<noteq> []) cs of None \<Rightarrow> None
             | Some c \<Rightarrow> if cr_format c \<in> set fs then None else Some (Format_not_accepted cid (cr_format c) prid))
             (package_creatives p)))"

definition checked_products :: "checked_package list \<Rightarrow> string list" where
  "checked_products ps = remdups (List.map_filter (\<lambda>p. if package_creatives p = [] then None
     else (case cp_product_id p of None \<Rightarrow> None | Some i \<Rightarrow> if i = [] then None else Some i)) ps)"

text \<open>\<open>_validate_creatives_before_adapter_call\<close>\<close>

definition validate_creatives_before_adapter_call ::
    "creative_env \<Rightarrow> (json \<Rightarrow> string) \<Rightarrow> string \<Rightarrow> string \<Rightarrow> checked_package list \<Rightarrow> 'a creative_db_scheme \<Rightarrow> unit res" where
  "validate_creatives_before_adapter_call env text_of tenant pid ps db =
     (let ids = remdups (concat (map package_creatives ps)) in if ids = [] then Inr ()
      else let cs = creative_get_by_ids tenant db ids pid;
          missing = filter (\<lambda>i. i \<notin> set (map cr_creative_id cs)) ids;
          bad = filter terminal_creative cs
        in if missing \<noteq> [] then Inl (AdCPCreativeNotFoundError (sort missing) ''packages'')
           else (case check_creatives env cs of Inl e \<Rightarrow> Inl e
             | Inr problems \<Rightarrow> if bad \<noteq> [] then Inl (AdCPGoneError (map cr_creative_id bad))
                 else (case format_map text_of (list_by_ids tenant db (checked_products ps)) of Inl e \<Rightarrow> Inl e
                   | Inr accepted \<Rightarrow> if problems @ concat (map (format_problems accepted cs) ps) \<noteq> []
                       then Inl (AdCPValidationError ''packages'') else Inr ())))"

section \<open>What passes the check can be uploaded\<close>

lemma check_creatives_Nil:
  "check_creatives env cs = Inr [] \<Longrightarrow> c \<in> set cs \<Longrightarrow> check_creative env c = Inr []"
  by (induction cs) (auto split: sum.splits)

lemma size_problems_Nil: "size_problems c m = [] \<longleftrightarrow> media_complete m"
  by (auto simp: size_problems_def media_complete_def)

lemma checked_creative_complete:
  assumes "check_creative env c = Inr []" "\<not> terminal_creative c"
    and ng: "\<And>u f s. ce_registry env 0 u f = Inr (Some s) \<Longrightarrow> \<not> fs_generative s"
  shows "build_adapter_asset env c assignments \<noteq> Inr (Inl e)"
proof -
  have gen: "\<not> fs_generative s" if "fetch_format_spec env 0 u f = Inr (Some s)" for u f s
    using that ng [of u f s] by (auto simp: fetch_format_spec_def split: sum.splits if_splits)
  obtain spec where spec: "asset_format env c = Inr spec"
    and m: "\<And>data m. data_of (cr_data c) = Inr data \<Longrightarrow> extract_media_url_and_dimensions env data spec = Inr m \<Longrightarrow> media_complete m"
  proof (cases "dialled c")
    case True
    with assms(1,2) obtain s where "fetch_format_spec env 0 (cr_agent_url c) (cr_format c) = Inr (Some s)"
      by (auto simp: check_creative_def split: sum.splits option.splits if_splits)
    with True assms(1,2) gen show ?thesis
      by (intro that [of "Some s"]) (auto simp: asset_format_def check_creative_def size_problems_Nil split: sum.splits)
  next
    case False
    with assms(1,2) show ?thesis
      by (intro that [of None]) (auto simp: asset_format_def check_creative_def size_problems_Nil split: sum.splits)
  qed
  then show ?thesis by (auto simp: build_adapter_asset_def split: sum.splits)
qed


text \<open>Packages that name no creatives pass whatever is assigned to them.\<close>

lemma unnamed_creatives_unchecked:
  "(\<And>p. p \<in> set ps \<Longrightarrow> cp_creative_ids p = None) \<Longrightarrow>
    validate_creatives_before_adapter_call env text_of tenant pid ps db = Inr ()"
proof -
  assume "\<And>p. p \<in> set ps \<Longrightarrow> cp_creative_ids p = None"
  then have "concat (map package_creatives ps) = []" by (auto simp: package_creatives_def)
  then show ?thesis by (simp add: validate_creatives_before_adapter_call_def)
qed

section \<open>Enrichment fills what is absent\<close>

lemma map_of_dict_set: "map_of (dict_set k v d) i = (if i = k then Some v else map_of d i)"
  by (induction d) auto

lemma has_value_dict_set: "has_value i (dict_set k v d) = (if i = k then json_truthy v else has_value i d)"
  by (simp add: has_value_def map_of_dict_set)

lemma json_truthy_str [simp]: "json_truthy (JStr s) \<longleftrightarrow> s \<noteq> []"
  by (simp add: json_truthy_def)

lemma truthy_str_the: "truthy_str s \<Longrightarrow> the s \<noteq> []"
  by (cases s) auto

text \<open>
  The platform id and the concept of a creative are kept once they have a value, and writing the same
  status again, or another one that says both, changes nothing. The name and the provenance of a
  concept are not kept on their own: without an id they are replaced.
\<close>

theorem enrichment_settles:
  "has_value ''platform_creative_id'' data \<Longrightarrow>
     map_of (merge_creative_enrichment data st) ''platform_creative_id'' = map_of data ''platform_creative_id''"
  "has_value ''concept_id'' data \<Longrightarrow> k \<noteq> ''platform_creative_id'' \<Longrightarrow>
     map_of (merge_creative_enrichment data st) k = map_of data k"
  "truthy_str (ats_creative_id st) \<Longrightarrow> truthy_str (ats_concept_id st) \<Longrightarrow>
     merge_creative_enrichment (merge_creative_enrichment data st) st' = merge_creative_enrichment data st"
  "merge_creative_enrichment (merge_creative_enrichment data st) st = merge_creative_enrichment data st"
  by (auto simp: merge_creative_enrichment_def Let_def map_of_dict_set has_value_dict_set truthy_str_the)

lemma concept_name_replaced:
  "map_of (merge_creative_enrichment [(''concept_name'', JStr ''Spring'')]
     \<lparr>ats_creative_id = None, ats_status = ''active'', ats_message = None, ats_concept_id = Some ''o1'',
       ats_concept_name = None, ats_concept_source = None\<rparr>) ''concept_name'' = Some JNull"
  by code_simp

section \<open>The order of known asset ids\<close>

text \<open>
  Without a format the sets of known ids are walked, and the first id with a value wins: with two of
  them the upload depends on the order, and its size may be that of the other asset.
\<close>

definition id_order :: "string list \<Rightarrow> creative_env" where
  "id_order ids = \<lparr>ce_registry = (\<lambda>_ _ _. Inr None), ce_media_ids = ids, ce_click_ids = clickthrough_asset_ids,
     ce_tracker_ids = impression_tracker_asset_ids\<rparr>"

definition two_media :: "(string \<times> json) list" where
  "two_media = [(''assets'', JObj [(''thumbnail'', JObj [(''url'', JStr ''t''), (''width'', JNum 90), (''height'', JNum 60)]),
     (''banner_image'', JObj [(''url'', JStr ''b''), (''width'', JNum 728)])])]"

lemma upload_depends_on_set_order:
  "orders_ok (id_order media_asset_fallback_ids)" "orders_ok (id_order (rev media_asset_fallback_ids))"
  "extract_media_url_and_dimensions (id_order media_asset_fallback_ids) two_media None =
     Inr \<lparr>md_url = Some (JStr ''b''), md_width = Some 728, md_height = Some 60\<rparr>"
  "extract_media_url_and_dimensions (id_order (rev media_asset_fallback_ids)) two_media None =
     Inr \<lparr>md_url = Some (JStr ''t''), md_width = Some 90, md_height = Some 60\<rparr>"
  by code_simp+

text \<open>With at most one known id among the assets the order does not matter.\<close>

lemma media_of_ids_absent: "(\<And>i. i \<in> set is \<Longrightarrow> map_of kvs i = None) \<Longrightarrow> media_of_ids (JObj kvs) is m = Inr m"
  by (induction "is") (auto simp: asset_dict_def asset_at_def)

lemma media_of_ids_one:
  assumes "distinct is" "k \<in> set is" "\<And>i. i \<in> set is \<Longrightarrow> i \<noteq> k \<Longrightarrow> map_of kvs i = None"
  shows "media_of_ids (JObj kvs) is m = media_of_ids (JObj kvs) [k] m"
  using assms
proof (induction "is")
  case (Cons i "is")
  show ?case
  proof (cases "i = k")
    case True
    with Cons.prems have "media_of_ids (JObj kvs) is m' = Inr m'" for m' by (intro media_of_ids_absent) auto
    with True show ?thesis by (auto simp: Let_def split: sum.splits option.splits)
  next
    case False
    with Cons show ?thesis by (auto simp: asset_dict_def asset_at_def)
  qed
qed simp

theorem single_media_ignores_order:
  assumes "orders_ok env" "orders_ok env'" "map_of data ''assets'' = Some (JObj kvs)" "k \<in> set media_asset_fallback_ids"
    and "\<And>i. i \<in> set media_asset_fallback_ids \<Longrightarrow> i \<noteq> k \<Longrightarrow> map_of kvs i = None"
  shows "extract_media_url_and_dimensions env data spec = extract_media_url_and_dimensions env' data spec"
proof -
  have "media_of_ids (JObj kvs) (ce_media_ids e) m = media_of_ids (JObj kvs) [k] m" if "orders_ok e" for e m
    using that assms(4,5) by (intro media_of_ids_one) (auto simp: orders_ok_def)
  from trans [OF this [OF assms(1)] this [OF assms(2), symmetric]] assms(3) show ?thesis
    by (simp del: media_of_ids.simps add: extract_media_url_and_dimensions_def truthy_assets_def json_truthy_def
      split: sum.split)
qed

section \<open>At concrete creatives\<close>

definition ex_banner :: creative_row where
  "ex_banner = (creative_blank ''c1'' ''t1'' ''p1'')\<lparr>cr_status := ''approved'', cr_data := JObj [(''url'', JStr ''https://x/b.png''),
     (''width'', JStr '' 728 ''), (''height'', JNum 90), (''assets'', JObj [(''click'', JObj [(''url'', JStr ''https://x?b={CACHEBUSTER}'')])])]\<rparr>"

definition ex_upload_db :: creative_db where
  "ex_upload_db = \<lparr>media_buys = [], media_packages = [], creative_assignments = [], creative_rows = [ex_banner],
     creative_reviews = [], product_rows = []\<rparr>"


lemma banner_asset:
  "build_adapter_asset (id_order media_asset_fallback_ids) ex_banner [(''k1'', 100)] = Inr (Inr
     \<lparr>aa_creative_id = ''c1'', aa_package_assignments = [(''k1'', 100)], aa_width = 728, aa_height = 90,
       aa_url = JStr ''https://x/b.png'', aa_click_url = Some (JStr ''https://x?b=%%CACHEBUSTER%%''),
       aa_asset_type = JStr ''image'', aa_name = ''Creative c1'', aa_impression_tracker = None\<rparr>)"
  by code_simp

end
