(* ===== verification/Product_Catalog.thy ===== *)
theory Product_Catalog
  imports Creative_Assets
begin

text \<open>
  The products of a tenant as the catalog gives them (src/src/core/product_conversion.py and
  get_product_catalog of src/src/core/tools/products.py), and the Google Ad Manager configuration
  of a product (src/src/services/gam_product_config_service.py). Parameters: the SDK's enumerations, the
  validation of its models, the attribute \<open>rate\<close> of its option classes, and \<open>float\<close> of a text.
  Inventory profiles are not modelled: a product has its own formats and configuration.
\<close>

section \<open>Pricing options on the wire\<close>

record catalog_option =
  co_pricing_option_id :: string
  co_pricing_model :: string
  co_currency :: string
  co_min_spend :: "rat option"
  co_fixed_price :: "rat option"
  co_floor_price :: "rat option"
  co_price_guidance :: "json option"
  co_parameters :: "json option"

record catalog_env =
  ct_event_types :: "string list"
  ct_time_units :: "string list"
  ct_float :: "string \<Rightarrow> rat option"
  ct_option_ok :: "catalog_option \<Rightarrow> unit res"
  ct_product_ok :: "product_row \<Rightarrow> unit res"
  ct_rate :: "catalog_option \<Rightarrow> rat option"

definition truthy_num :: "rat option \<Rightarrow> bool" where
  "truthy_num x = (case x of None \<Rightarrow> False | Some r \<Rightarrow> r \<noteq> 0)"

definition truthy_json :: "json option \<Rightarrow> bool" where
  "truthy_json j = (case j of None \<Rightarrow> False | Some x \<Rightarrow> json_truthy x)"

text \<open>\<open>float(x)\<close> of a JSON value, and a value that is absent when it is null.\<close>

definition json_float :: "catalog_env \<Rightarrow> json \<Rightarrow> rat res" where
  "json_float env j = (case j of JNum x \<Rightarrow> Inr x | JBool b \<Rightarrow> Inr (if b then 1 else 0)
     | JStr s \<Rightarrow> (case ct_float env s of None \<Rightarrow> Inl ValueError | Some x \<Rightarrow> Inr x) | _ \<Rightarrow> Inl TypeError)"

definition field_of :: "json option \<Rightarrow> string \<Rightarrow> json option" where
  "field_of j k = (case j of Some x \<Rightarrow> (case jget x k of Some JNull \<Rightarrow> None | v \<Rightarrow> v) | None \<Rightarrow> None)"

definition common_fields :: "pricing_option \<Rightarrow> catalog_option" where
  "common_fields po = \<lparr>co_pricing_option_id = po_pricing_option_id po, co_pricing_model = lower (po_pricing_model po),
     co_currency = po_currency po, co_min_spend = (if truthy_num (po_min_spend_per_package po) then po_min_spend_per_package po else None),
     co_fixed_price = None, co_floor_price = None, co_price_guidance = None, co_parameters = None\<rparr>"

text \<open>The floor of the guidance moves to the top level.\<close>

definition floor_of :: "catalog_env \<Rightarrow> pricing_option \<Rightarrow> rat option res" where
  "floor_of env po = (case field_of (po_price_guidance po) ''floor'' of None \<Rightarrow> Inr None
     | Some j \<Rightarrow> (case json_float env j of Inl e \<Rightarrow> Inl e | Inr x \<Rightarrow> Inr (Some x)))"

text \<open>cpm, vcpm and cpc: fixed with a rate, or an auction with guidance.\<close>

definition fixed_or_auction :: "catalog_env \<Rightarrow> pricing_option \<Rightarrow> catalog_option res" where
  "fixed_or_auction env po = (if po_is_fixed po
     then if truthy_num (po_rate po) then Inr ((common_fields po)\<lparr>co_fixed_price := po_rate po\<rparr>) else Inl ValueError
     else if \<not> truthy_json (po_price_guidance po) then Inl ValueError
     else (case floor_of env po of Inl e \<Rightarrow> Inl e
       | Inr f \<Rightarrow> Inr ((common_fields po)\<lparr>co_floor_price := f, co_price_guidance := po_price_guidance po\<rparr>)))"

text \<open>The others announce the rate as the price; the parameters some of them need.\<close>

definition rated :: "pricing_option \<Rightarrow> json option \<Rightarrow> catalog_option res" where
  "rated po ps = (if truthy_num (po_rate po) then Inr ((common_fields po)\<lparr>co_fixed_price := po_rate po, co_parameters := ps\<rparr>)
     else Inl ValueError)"

definition given_parameters :: "pricing_option \<Rightarrow> json option" where
  "given_parameters po = (if truthy_json (po_parameters po) then po_parameters po else None)"

definition convert_cpv :: "pricing_option \<Rightarrow> catalog_option res" where
  "convert_cpv po = (if \<not> truthy_num (po_rate po) then Inl ValueError
     else Inr (let c = (common_fields po)\<lparr>co_parameters := given_parameters po\<rparr> in
       if po_is_fixed po then c\<lparr>co_fixed_price := po_rate po\<rparr> else c\<lparr>co_floor_price := po_rate po\<rparr>))"

definition dooh_parameters :: "json option \<Rightarrow> json option" where
  "dooh_parameters ps = (case ps of Some (JObj kvs) \<Rightarrow>
       Some (JObj (if ''type'' \<in> fst ` set kvs then kvs else dict_set ''type'' (JStr ''dooh'') kvs)) | _ \<Rightarrow> ps)"

text \<open>An event of its own kind needs a name; of the parameters the option keeps these three.\<close>

definition cpa_parameters :: "catalog_env \<Rightarrow> pricing_option \<Rightarrow> json res" where
  "cpa_parameters env po = (case field_of (po_parameters po) ''event_type'' of
     Some (JStr e) \<Rightarrow> if e \<notin> set (ct_event_types env) then Inl ValueError
       else if e = ''custom'' \<and> \<not> truthy_json (field_of (po_parameters po) ''custom_event_name'') then Inl ValueError
       else Inr (JObj [(''event_type'', JStr e),
         (''custom_event_name'', if e = ''custom'' then the (field_of (po_parameters po) ''custom_event_name'') else JNull),
         (''event_source_id'', case field_of (po_parameters po) ''event_source_id'' of Some j \<Rightarrow> j | None \<Rightarrow> JNull)])
   | _ \<Rightarrow> Inl ValueError)"

definition convert_cpa :: "catalog_env \<Rightarrow> pricing_option \<Rightarrow> catalog_option res" where
  "convert_cpa env po = (if \<not> truthy_num (po_rate po) then Inl ValueError
     else (case cpa_parameters env po of Inl e \<Rightarrow> Inl e | Inr ps \<Rightarrow> rated po (Some ps)))"

definition durations_ok :: "json option \<Rightarrow> bool" where
  "durations_ok ps = (case (field_of ps ''min_duration'', field_of ps ''max_duration'') of
     (Some (JNum a), Some (JNum b)) \<Rightarrow> \<not> b < a | _ \<Rightarrow> True)"

definition convert_time :: "catalog_env \<Rightarrow> pricing_option \<Rightarrow> catalog_option res" where
  "convert_time env po = (case po_parameters po of
     Some (JObj kvs) \<Rightarrow>
       (case map_of kvs ''time_unit'' of
          Some (JStr u) \<Rightarrow> if u \<notin> set (ct_time_units env) \<or> \<not> durations_ok (po_parameters po) then Inl ValueError
            else (let c = (common_fields po)\<lparr>co_parameters := po_parameters po\<rparr> in
              if po_is_fixed po
              then if po_rate po = None then Inl ValueError else Inr (c\<lparr>co_fixed_price := po_rate po\<rparr>)
              else (case floor_of env po of Inl e \<Rightarrow> Inl e | Inr f \<Rightarrow> Inr (c\<lparr>co_floor_price := f,
                co_price_guidance := (if truthy_json (po_price_guidance po) then po_price_guidance po else None)\<rparr>)))
        | _ \<Rightarrow> Inl ValueError)
   | _ \<Rightarrow> Inl ValueError)"

definition convert_pricing_option :: "catalog_env \<Rightarrow> pricing_option \<Rightarrow> catalog_option res" where
  "convert_pricing_option env po = (if po_pricing_option_id po = [] then Inl ValueError
     else (case (let m = lower (po_pricing_model po) in
         if m \<in> {''cpm'', ''vcpm'', ''cpc''} then fixed_or_auction env po
         else if m = ''cpcv'' then (if truthy_json (po_parameters po) then Inl ValueError else rated po None)
         else if m = ''cpv'' then convert_cpv po
         else if m = ''cpp'' then (if truthy_json (po_parameters po) then rated po (po_parameters po) else Inl ValueError)
         else if m = ''flat_rate'' then rated po (dooh_parameters (given_parameters po))
         else if m = ''cpa'' then convert_cpa env po
         else if m = ''time'' then convert_time env po
         else Inl ValueError) of
       Inl e \<Rightarrow> Inl e
     | Inr c \<Rightarrow> (case ct_option_ok env c of Inl e \<Rightarrow> Inl e | Inr _ \<Rightarrow> Inr c)))"

section \<open>Products\<close>

text \<open>The fields of a converted product that creating a buy reads.\<close>

record catalog_product =
  ct_product_id :: string
  ct_name :: string
  ct_delivery_type :: string
  ct_format_ids :: "json list"
  ct_pricing_options :: "catalog_option list"
  ct_implementation_config :: "(string \<times> json) list"

fun convert_options :: "catalog_env \<Rightarrow> pricing_option list \<Rightarrow> catalog_option list res" where
  "convert_options env [] = Inr []"
| "convert_options env (po # pos) = (case convert_pricing_option env po of Inl e \<Rightarrow> Inl e
     | Inr c \<Rightarrow> (case convert_options env pos of Inl e \<Rightarrow> Inl e | Inr cs \<Rightarrow> Inr (c # cs)))"

definition convert_product_model_to_schema :: "catalog_env \<Rightarrow> product_row \<Rightarrow> catalog_product res" where
  "convert_product_model_to_schema env pr =
     (if prod_format_ids pr = [] then Inl ValueError
      else if prod_pricing_options pr = [] then Inl ValueError
      else (case convert_options env (prod_pricing_options pr) of Inl e \<Rightarrow> Inl e
        | Inr cs \<Rightarrow> (case ct_product_ok env pr of Inl e \<Rightarrow> Inl e
          | Inr _ \<Rightarrow> Inr \<lparr>ct_product_id = prod_product_id pr, ct_name = prod_name pr,
              ct_delivery_type = prod_delivery_type pr, ct_format_ids = prod_format_ids pr, ct_pricing_options = cs,
              ct_implementation_config = (case prod_implementation_config pr of None \<Rightarrow> [] | Some c \<Rightarrow> c)\<rparr>)))"

fun convert_products :: "catalog_env \<Rightarrow> product_row list \<Rightarrow> catalog_product list res" where
  "convert_products env [] = Inr []"
| "convert_products env (p # ps) = (case convert_product_model_to_schema env p of Inl e \<Rightarrow> Inl e
     | Inr c \<Rightarrow> (case convert_products env ps of Inl e \<Rightarrow> Inl e | Inr cs \<Rightarrow> Inr (c # cs)))"

definition get_product_catalog :: "catalog_env \<Rightarrow> string \<Rightarrow> 'a creative_db_scheme \<Rightarrow> catalog_product list res" where
  "get_product_catalog env tenant db = convert_products env (filter (\<lambda>p. prod_tenant_id p = tenant) (product_rows db))"

section \<open>The configuration of a product for Google Ad Manager\<close>

text \<open>The sizes a format id names.\<close>

definition format_dimensions :: "(string \<times> rat \<times> rat) list" where
  "format_dimensions = [(''display_300x250'', 300, 250), (''display_728x90'', 728, 90), (''display_160x600'', 160, 600),
     (''display_300x600'', 300, 600), (''display_970x250'', 970, 250), (''display_320x50'', 320, 50),
     (''display_320x100'', 320, 100), (''display_300x50'', 300, 50)]"

definition placeholder :: "rat \<Rightarrow> rat \<Rightarrow> bool \<Rightarrow> json" where
  "placeholder w h native = JObj [(''width'', JNum w), (''height'', JNum h),
     (''expected_creative_count'', JNum 1), (''is_native'', JBool native)]"

definition placeholder_of :: "string \<Rightarrow> json option" where
  "placeholder_of f = (case map_of format_dimensions f of
     Some (w, h) \<Rightarrow> Some (placeholder w h False)
   | None \<Rightarrow> if Sublist.prefix ''native_'' f then Some (placeholder 1 1 True)
       else if Sublist.prefix ''video_'' f then Some (placeholder 640 480 False) else None)"

definition generate_creative_placeholders :: "string list \<Rightarrow> json list" where
  "generate_creative_placeholders formats = (case List.map_filter placeholder_of formats of
     [] \<Rightarrow> [placeholder 300 250 False] | ps \<Rightarrow> ps)"

definition base_config :: "(string \<times> json) list" where
  "base_config = [(''cost_type'', JStr ''CPM''), (''creative_rotation_type'', JStr ''EVEN''),
     (''primary_goal_unit_type'', JStr ''IMPRESSIONS''), (''include_descendants'', JBool True)]"

definition delivery_config :: "string \<Rightarrow> (string \<times> json) list" where
  "delivery_config delivery_type = (if delivery_type = ''guaranteed''
     then [(''line_item_type'', JStr ''STANDARD''), (''priority'', JNum 6), (''primary_goal_type'', JStr ''DAILY''),
       (''delivery_rate_type'', JStr ''EVENLY''), (''non_guaranteed_automation'', JStr ''manual'')]
     else [(''line_item_type'', JStr ''PRICE_PRIORITY''), (''priority'', JNum 10), (''primary_goal_type'', JStr ''NONE''),
       (''delivery_rate_type'', JStr ''AS_FAST_AS_POSSIBLE''), (''creative_rotation_type'', JStr ''OPTIMIZED''),
       (''non_guaranteed_automation'', JStr ''confirmation_required'')])"

definition generate_default_config :: "string \<Rightarrow> string list \<Rightarrow> (string \<times> json) list" where
  "generate_default_config delivery_type formats =
     dict_set ''creative_placeholders'' (JList (if formats = [] then [placeholder 300 250 False]
       else generate_creative_placeholders formats))
       (fold (\<lambda>(k, v). dict_set k v) (delivery_config delivery_type) base_config)"

text \<open>\<open>k in x\<close>, and the elements a \<open>for\<close> runs over.\<close>

definition json_contains :: "string \<Rightarrow> json \<Rightarrow> bool res" where
  "json_contains k j = (case j of JObj kvs \<Rightarrow> Inr (k \<in> fst ` set kvs) | JList xs \<Rightarrow> Inr (JStr k \<in> set xs)
     | JStr s \<Rightarrow> Inr (Sublist.sublist k s) | _ \<Rightarrow> Inl TypeError)"

definition json_elements :: "json \<Rightarrow> json list res" where
  "json_elements j = (case j of JList xs \<Rightarrow> Inr xs | JObj kvs \<Rightarrow> Inr (map (JStr \<circ> fst) kvs)
     | JStr s \<Rightarrow> Inr (map (\<lambda>c. JStr [c]) s) | _ \<Rightarrow> Inl TypeError)"

definition priority_ok :: "json option \<Rightarrow> bool" where
  "priority_ok j = (case j of Some (JNum x) \<Rightarrow> of_int \<lfloor>x\<rfloor> = x \<and> 1 \<le> x \<and> x \<le> 16 | Some (JBool b) \<Rightarrow> b | _ \<Rightarrow> False)"

definition line_item_types :: "string list" where
  "line_item_types = [''STANDARD'', ''SPONSORSHIP'', ''NETWORK'', ''BULK'', ''PRICE_PRIORITY'', ''HOUSE'']"

definition line_item_type_ok :: "(string \<times> json) list \<Rightarrow> bool" where
  "line_item_type_ok cfg = (case map_of cfg ''line_item_type'' of None \<Rightarrow> True
     | Some j \<Rightarrow> j \<in> JStr ` set line_item_types)"

text \<open>Both sizes of each: the second is not looked for when the first is missing.\<close>

fun placeholders_sized :: "json list \<Rightarrow> bool res" where
  "placeholders_sized [] = Inr True"
| "placeholders_sized (p # ps) = (case json_contains ''width'' p of Inl e \<Rightarrow> Inl e
     | Inr w \<Rightarrow> if \<not> w then Inr False else (case json_contains ''height'' p of Inl e \<Rightarrow> Inl e
         | Inr h \<Rightarrow> if \<not> h then Inr False else placeholders_sized ps))"

definition validate_config :: "(string \<times> json) list \<Rightarrow> bool res" where
  "validate_config cfg =
     (if cfg = [] then Inr False
      else if ''priority'' \<notin> fst ` set cfg \<or> ''creative_placeholders'' \<notin> fst ` set cfg then Inr False
      else if \<not> priority_ok (map_of cfg ''priority'') then Inr False
      else if \<not> line_item_type_ok cfg then Inr False
      else (case map_of cfg ''creative_placeholders'' of None \<Rightarrow> Inr False
        | Some j \<Rightarrow> if \<not> json_truthy j then Inr False
            else (case json_elements j of Inl e \<Rightarrow> Inl e | Inr ps \<Rightarrow> placeholders_sized ps)))"

section \<open>A catalog is converted as a whole\<close>

lemma convert_products_fails:
  "p \<in> set ps \<Longrightarrow> convert_product_model_to_schema env p = Inl e \<Longrightarrow> \<exists>e'. convert_products env ps = Inl e'"
  by (induction ps) (auto split: sum.split)

lemma convert_options_length: "convert_options env pos = Inr cs \<Longrightarrow> length cs = length pos"
  by (induction pos arbitrary: cs) (auto split: sum.splits)

lemma convert_products_ids:
  "convert_products env ps = Inr cs \<Longrightarrow> map ct_product_id cs = map prod_product_id ps"
  by (induction ps arbitrary: cs)
    (auto simp: convert_product_model_to_schema_def split: sum.splits if_splits)

text \<open>One product that cannot be announced leaves the tenant without a catalog.\<close>

lemma one_product_spoils_the_catalog:
  assumes "p \<in> set (product_rows db)" "prod_tenant_id p = tenant" "convert_product_model_to_schema env p = Inl e"
  shows "\<exists>e'. get_product_catalog env tenant db = Inl e'"
  using assms by (auto simp: get_product_catalog_def intro!: convert_products_fails)

section \<open>What is generated is valid\<close>

lemma placeholder_sized:
  "json_contains ''width'' (placeholder w h n) = Inr True" "json_contains ''height'' (placeholder w h n) = Inr True"
  by (simp_all add: json_contains_def placeholder_def)

lemma placeholders_sized_all: "(\<And>p. p \<in> set ps \<Longrightarrow> \<exists>w h n. p = placeholder w h n) \<Longrightarrow> placeholders_sized ps = Inr True"
proof (induction ps)
  case (Cons p ps)
  then obtain w h n where "p = placeholder w h n" by force
  with Cons show ?case by (simp add: placeholder_sized)
qed simp

lemma map_filter_placeholders: "p \<in> set (List.map_filter placeholder_of fs) \<Longrightarrow> \<exists>w h n. p = placeholder w h n"
  by (induction fs) (auto simp: List.map_filter_simps placeholder_of_def split: option.splits if_splits)

lemma generated_placeholders:
  "generate_creative_placeholders fs \<noteq> [] \<and> placeholders_sized (generate_creative_placeholders fs) = Inr True"
proof
  show "generate_creative_placeholders fs \<noteq> []" by (simp add: generate_creative_placeholders_def split: list.split)
  have "\<exists>w h n. p = placeholder w h n" if "p \<in> set (generate_creative_placeholders fs)" for p
    using that map_filter_placeholders [of p fs] by (auto simp: generate_creative_placeholders_def split: list.splits)
  then show "placeholders_sized (generate_creative_placeholders fs) = Inr True" by (rule placeholders_sized_all)
qed

lemma valid_with_placeholders:
  assumes "cfg = fold (\<lambda>(k, v). dict_set k v) (delivery_config d) base_config" "ps \<noteq> []" "placeholders_sized ps = Inr True"
  shows "validate_config (dict_set ''creative_placeholders'' (JList ps) cfg) = Inr True"
proof -
  let ?c = "dict_set ''creative_placeholders'' (JList ps) cfg"
  have keys: "''creative_placeholders'' \<notin> fst ` set cfg" "map_of cfg ''priority'' = Some (JNum (if d = ''guaranteed'' then 6 else 10))"
    "line_item_type_ok cfg"
    unfolding assms(1) delivery_config_def by (cases "d = ''guaranteed''"; simp only: if_True if_False; code_simp)+
  have app: "dict_set k v c = c @ [(k, v)]" if "k \<notin> fst ` set c" for k v and c :: "(string \<times> json) list"
    using that by (induction k v c rule: dict_set.induct) auto
  have c: "?c = cfg @ [(''creative_placeholders'', JList ps)]" using keys(1) by (rule app)
  have "map_of ?c ''priority'' = map_of cfg ''priority''" "map_of ?c ''creative_placeholders'' = Some (JList ps)"
    "line_item_type_ok ?c"
    using keys map_of_eq_None_iff [of cfg "''creative_placeholders''"]
    by (simp_all add: c map_add_def line_item_type_ok_def split: option.splits)
  moreover from this keys(2) have "''priority'' \<in> fst ` set ?c" "''creative_placeholders'' \<in> fst ` set ?c"
    by (metis map_of_eq_None_iff option.distinct(1))+
  ultimately show ?thesis using keys(2) assms(2,3)
    by (simp add: validate_config_def c priority_ok_def json_truthy_def json_elements_def)
qed

text \<open>The configuration that is generated for a product without one passes the validation every
  product of an order for Google Ad Manager must pass, whatever its delivery type and formats.
\<close>

theorem generated_config_is_valid: "validate_config (generate_default_config delivery_type formats) = Inr True"
  unfolding generate_default_config_def
  by (intro valid_with_placeholders [OF refl])
    (auto simp: generated_placeholders placeholder_sized)

end
