(* ===== verification/Approval.thy ===== *)
theory Approval
  imports Request_Checks Flight_Status Transaction Creative_Assets
begin

text \<open>
  Placing the order of an approved media buy, in src/src/core/tools/media_buy_create.py:
  execute_approved_media_buy with the gate on creatives, the packages rebuilt from their rows, the
  order on the ad server, the ids, creatives and status written afterwards, the mark of a failure, and
  the upload of one creative to an order that exists already. The units of work of a call follow one
  another; the n-th commit of a run may fail. Parameters: the adapter, the identity of the buy's owner,
  and the validation of the SDK's and pydantic's models. Amounts are rationals, one instant per call.
\<close>

section \<open>Outcomes\<close>

datatype approval_outcome =
    Executed
  | Held_pending_creatives
  | Approval_failed

datatype approval_error =
    Tenant_not_found string
  | Buy_not_found string
  | Creatives_not_approved "string list"
  | No_packages string
  | Package_without_product string
  | Product_not_found string string
  | No_pricing_options string
  | Targeting_corrupt string exn
  | Package_id_missing string
  | Format_invalid string nat exn
  | No_valid_formats string string
  | Package_not_rebuilt string exn
  | Times_missing string
  | Persisted_state_refused exn
  | Adapter_creation_failed exn
  | Creatives_invalid "asset_error list"
  | Upload_failed exn
  | Order_not_approved string
  | Order_approval_raised string exn
  | Buy_vanished string

record approval_result =
  ar_outcome :: approval_outcome
  ar_status :: "media_buy_status option"
  ar_revision :: "int option"
  ar_confirmed_at :: "instant option"
  ar_error :: "approval_error option"

definition ar_ok :: "approval_result \<Rightarrow> bool" where
  "ar_ok r = (ar_outcome r = Executed)"

definition failed_result :: "approval_error \<Rightarrow> approval_result" where
  "failed_result e = \<lparr>ar_outcome = Approval_failed, ar_status = None, ar_revision = None,
     ar_confirmed_at = None, ar_error = Some e\<rparr>"

section \<open>What the adapter is given and answers\<close>

record create_carrier =
  acr_brand :: json
  acr_po_number :: json
  acr_total_budget :: rat
  acr_already_approved :: bool
  acr_push_notification_config :: json

record order_package =
  op_package_id :: string
  op_name :: string
  op_delivery_type :: string
  op_cpm :: rat
  op_impressions :: int
  op_format_ids :: "json list"
  op_targeting :: "json option"
  op_product_id :: string
  op_budget :: "rat option"
  op_creative_ids :: "string list option"

record order_plan =
  pl_request :: create_carrier
  pl_packages :: "order_package list"
  pl_start :: pydatetime
  pl_end :: pydatetime
  pl_pricing :: "(string \<times> json) list"
  pl_principal :: string
  pl_account :: string

text \<open>A package as an adapter answers it: its other attributes are those it was given.\<close>

record response_package =
  rp_package_id :: string
  rp_paused :: bool
  rp_attrs :: "(string \<times> json) list"

record create_result =
  rs_media_buy_id :: string
  rs_packages :: "response_package list"
  rs_line_item_ids :: "(string \<times> string) list"

datatype ad_call =
    Create_order order_plan
  | Add_assets string "adapter_asset list" instant
  | Approve_order string
  | Associate_creatives "string list" "json list"

text \<open>
  The adapter answers the last of the calls made so far. \<open>ae_targeting\<close> and \<open>ae_format_id\<close> validate a
  stored overlay and a stored format (which is its agent url); \<open>ae_carrier\<close> the fields of the request.
\<close>

record approval_env =
  ae_creatives :: creative_env
  ae_text :: "json \<Rightarrow> string"
  ae_float :: "string \<Rightarrow> rat option"
  ae_carrier :: "json \<Rightarrow> json \<Rightarrow> json \<Rightarrow> unit res"
  ae_targeting :: "json \<Rightarrow> unit res"
  ae_format_id :: "json \<Rightarrow> string res"
  ae_identity :: "string \<Rightarrow> string option \<Rightarrow> unit res"
  ae_get_adapter :: "unit res"
  ae_create :: "ad_call list \<Rightarrow> create_result res"
  ae_creatives_manager :: bool
  ae_upload :: "ad_call list \<Rightarrow> asset_status list res"
  ae_orders_manager :: bool
  ae_approve_order :: "ad_call list \<Rightarrow> bool res"
  ae_commit_fault :: "nat \<Rightarrow> bool"
  ae_now :: instant

record approval_state =
  ap_view :: update_db
  ap_saved :: update_db
  ap_calls :: "ad_call list"
  ap_commits :: nat

type_synonym 'a apv = "(approval_state, 'a) tx"

definition operational_error :: exn where
  "operational_error = OtherException ''OperationalError''"

definition is_database_error :: "exn \<Rightarrow> bool" where
  "is_database_error e = (e = IntegrityError \<or> e = operational_error)"

definition commit_view :: "approval_env \<Rightarrow> unit apv" where
  "commit_view env s = (let s1 = s\<lparr>ap_commits := Suc (ap_commits s)\<rparr> in
     if ae_commit_fault env (ap_commits s) then (s1\<lparr>ap_view := ap_saved s\<rparr>, Inl operational_error)
     else (s1\<lparr>ap_saved := ap_view s\<rparr>, Inr ()))"

text \<open>\<open>with MediaBuyUoW(tenant_id) as uow\<close>: a return inside the block commits too.\<close>

definition in_uow :: "approval_env \<Rightarrow> 'a apv \<Rightarrow> 'a apv" where
  "in_uow env body s = (case body (s\<lparr>ap_view := ap_saved s\<rparr>) of
     (s', Inl e) \<Rightarrow> (s'\<lparr>ap_view := ap_saved s'\<rparr>, Inl e)
   | (s', Inr x) \<Rightarrow> (case commit_view env s' of (s'', Inl e) \<Rightarrow> (s'', Inl e) | (s'', Inr _) \<Rightarrow> (s'', Inr x)))"

definition on_db :: "(update_db \<Rightarrow> update_db \<times> 'a res) \<Rightarrow> 'a apv" where
  "on_db f s = (case f (ap_view s) of (db, r) \<Rightarrow> (s\<lparr>ap_view := db\<rparr>, r))"

definition from_db :: "(update_db \<Rightarrow> 'a) \<Rightarrow> 'a apv" where
  "from_db f = tx_read (\<lambda>s. f (ap_view s))"

definition ask_adapter :: "ad_call \<Rightarrow> (ad_call list \<Rightarrow> 'a res) \<Rightarrow> 'a apv" where
  "ask_adapter c answer s = (s\<lparr>ap_calls := ap_calls s @ [c]\<rparr>, answer (ap_calls s @ [c]))"

definition get_adapter :: "approval_env \<Rightarrow> unit apv" where
  "get_adapter env = tx_try (\<lambda>_. ae_get_adapter env)"

section \<open>Rebuilding the order from its rows\<close>

text \<open>A check ends the call with its error, raises, or goes on.\<close>

type_synonym 'a flow = "(approval_error + 'a) res"

definition proceed :: "'a \<Rightarrow> 'a flow" where
  "proceed x = Inr (Inr x)"

definition stop :: "approval_error \<Rightarrow> 'a flow" where
  "stop e = Inr (Inl e)"

definition flow_of :: "'a res \<Rightarrow> 'a flow" where
  "flow_of r = (case r of Inl e \<Rightarrow> Inl e | Inr x \<Rightarrow> proceed x)"

definition and_then :: "'a flow \<Rightarrow> ('a \<Rightarrow> 'b flow) \<Rightarrow> 'b flow" where
  "and_then m f = (case m of Inl e \<Rightarrow> Inl e | Inr (Inl e) \<Rightarrow> stop e | Inr (Inr x) \<Rightarrow> f x)"

definition need :: "'a option \<Rightarrow> approval_error \<Rightarrow> 'a flow" where
  "need x e = (case x of None \<Rightarrow> stop e | Some y \<Rightarrow> proceed y)"

text \<open>\<open>dict(package_config)\<close>, for the objects the column holds.\<close>

definition config_dict :: "json \<Rightarrow> (string \<times> json) list res" where
  "config_dict cfg = (case cfg of JObj kvs \<Rightarrow> Inr kvs | _ \<Rightarrow> Inl TypeError)"

text \<open>A product id that is not a text is refused by the query.\<close>

definition stored_product_id :: "string \<Rightarrow> (string \<times> json) list \<Rightarrow> string flow" where
  "stored_product_id pkg cfg = (if \<not> has_value ''product_id'' cfg then stop (Package_without_product pkg)
     else (case map_of cfg ''product_id'' of Some (JStr s) \<Rightarrow> proceed s
       | _ \<Rightarrow> Inl (OtherException ''ProgrammingError'')))"

definition float_of :: "approval_env \<Rightarrow> json \<Rightarrow> rat res" where
  "float_of env j = (case j of JNum x \<Rightarrow> Inr x | JBool b \<Rightarrow> Inr (if b then 1 else 0)
     | JStr s \<Rightarrow> (case ae_float env s of None \<Rightarrow> Inl ValueError | Some x \<Rightarrow> Inr x) | _ \<Rightarrow> Inl TypeError)"

text \<open>The budget used for impressions, and the one the package carries: an old one is an object.\<close>

definition stored_budget :: "approval_env \<Rightarrow> (string \<times> json) list \<Rightarrow> (rat \<times> rat option) flow" where
  "stored_budget env cfg = (case map_of cfg ''budget'' of
     Some (JObj kvs) \<Rightarrow> and_then (flow_of (float_of env (case map_of kvs ''total'' of Some t \<Rightarrow> t | None \<Rightarrow> JNum 0)))
       (\<lambda>x. proceed (x, Some x))
   | Some (JNum x) \<Rightarrow> proceed (x, Some x)
   | Some (JBool b) \<Rightarrow> proceed ((if b then 1 else 0), Some (if b then 1 else 0))
   | _ \<Rightarrow> proceed (0, None))"

text \<open>The option of the stored pricing model, or else the first one.\<close>

definition stored_pricing_option :: "(string \<times> json) list \<Rightarrow> product_row \<Rightarrow> pricing_option option" where
  "stored_pricing_option cfg pr = (case prod_pricing_options pr of [] \<Rightarrow> None
     | po # pos \<Rightarrow> (case (if has_value ''pricing_model'' cfg
           then find (\<lambda>x. map_of cfg ''pricing_model'' = Some (JStr (po_pricing_model x))) (po # pos) else None) of
         Some x \<Rightarrow> Some x | None \<Rightarrow> Some po))"

definition option_cpm :: "pricing_option \<Rightarrow> rat" where
  "option_cpm po = (case po_rate po of Some r \<Rightarrow> r | None \<Rightarrow> 0)"

definition impressions_for :: "rat \<Rightarrow> rat \<Rightarrow> int" where
  "impressions_for budget cpm = (if 0 < cpm then py_int (budget / cpm * 1000) else 0)"

text \<open>\<open>pricing_info_for\<close> of src/src/core/helpers/pricing_helpers.py.\<close>

definition pricing_info_for :: "pricing_option \<Rightarrow> rat option \<Rightarrow> json" where
  "pricing_info_for po bid = JObj [(''pricing_model'', JStr (po_pricing_model po)),
     (''rate'', case po_rate po of Some r \<Rightarrow> if r = 0 then JNull else JNum r | None \<Rightarrow> JNull),
     (''currency'', JStr (po_currency po)), (''is_fixed'', JBool (po_is_fixed po)),
     (''bid_price'', case bid of Some b \<Rightarrow> JNum b | None \<Rightarrow> JNull)]"

definition stored_pricing_info :: "(string \<times> json) list \<Rightarrow> pricing_option \<Rightarrow> json" where
  "stored_pricing_info cfg po = (if has_value ''pricing_info'' cfg then the (map_of cfg ''pricing_info'')
     else pricing_info_for po None)"

definition validation_error :: exn where
  "validation_error = OtherException ''ValidationError''"

definition stored_targeting :: "approval_env \<Rightarrow> string \<Rightarrow> (string \<times> json) list \<Rightarrow> json option flow" where
  "stored_targeting env pkg cfg =
     (case (if has_value ''targeting_overlay'' cfg then map_of cfg ''targeting_overlay''
            else if has_value ''targeting'' cfg then map_of cfg ''targeting'' else None) of
        None \<Rightarrow> proceed None
      | Some raw \<Rightarrow> (case ae_targeting env raw of
          Inr _ \<Rightarrow> proceed (Some raw)
        | Inl e \<Rightarrow> if e = TypeError \<or> e = validation_error then stop (Targeting_corrupt pkg e) else Inl e))"

fun stored_formats :: "approval_env \<Rightarrow> string \<Rightarrow> nat \<Rightarrow> json list \<Rightarrow> json list flow" where
  "stored_formats env pkg i [] = proceed []"
| "stored_formats env pkg i (f # fs) = (case ae_format_id env f of
     Inl e \<Rightarrow> if e = ValueError \<or> e = validation_error then stop (Format_invalid pkg i e) else Inl e
   | Inr url \<Rightarrow> if \<not> is_dialled_agent_url url then stop (Format_invalid pkg i ValueError)
       else and_then (stored_formats env pkg (Suc i) fs) (\<lambda>rest. proceed (f # rest)))"

definition stored_name :: "(string \<times> json) list \<Rightarrow> product_row \<Rightarrow> string flow" where
  "stored_name cfg pr = (if \<not> has_value ''name'' cfg then proceed (prod_name pr)
     else (case map_of cfg ''name'' of Some (JStr s) \<Rightarrow> proceed s | _ \<Rightarrow> Inl validation_error))"

definition delivery_type_of :: "product_row \<Rightarrow> string" where
  "delivery_type_of pr = (if prod_delivery_type pr = ''guaranteed'' then ''guaranteed'' else ''non_guaranteed'')"

text \<open>One package: whatever is raised in it becomes the error of that package.\<close>

definition rebuild_fields :: "approval_env \<Rightarrow> string \<Rightarrow> update_db \<Rightarrow> media_package \<Rightarrow> (order_package \<times> json) flow" where
  "rebuild_fields env tenant db p = (let pkg = mp_package_id p in
     and_then (flow_of (config_dict (mp_package_config p))) (\<lambda>cfg.
     and_then (stored_product_id pkg cfg) (\<lambda>prid.
     and_then (need (get_product_by_id tenant db prid) (Product_not_found prid pkg)) (\<lambda>pr.
     and_then (stored_budget env cfg) (\<lambda>(amount, budget).
     and_then (need (stored_pricing_option cfg pr) (No_pricing_options prid)) (\<lambda>po.
     and_then (stored_targeting env pkg cfg) (\<lambda>targeting.
     and_then (if pkg = [] then stop (Package_id_missing (mp_media_buy_id p)) else proceed ()) (\<lambda>_.
     and_then (stored_formats env pkg 0 (prod_format_ids pr)) (\<lambda>formats.
     and_then (if formats = [] then stop (No_valid_formats pkg prid) else proceed ()) (\<lambda>_.
     and_then (stored_name cfg pr) (\<lambda>name.
       proceed (\<lparr>op_package_id = pkg, op_name = name, op_delivery_type = delivery_type_of pr,
         op_cpm = option_cpm po, op_impressions = impressions_for amount (option_cpm po), op_format_ids = formats,
         op_targeting = targeting, op_product_id = prid, op_budget = budget, op_creative_ids = None\<rparr>,
         stored_pricing_info cfg po))))))))))))"

definition rebuild_package :: "approval_env \<Rightarrow> string \<Rightarrow> update_db \<Rightarrow> media_package \<Rightarrow> (order_package \<times> json) flow" where
  "rebuild_package env tenant db p = (case rebuild_fields env tenant db p of
     Inl e \<Rightarrow> stop (Package_not_rebuilt (mp_package_id p) e) | r \<Rightarrow> r)"

fun rebuild_packages ::
    "approval_env \<Rightarrow> string \<Rightarrow> update_db \<Rightarrow> media_package list \<Rightarrow> (order_package \<times> json) list flow" where
  "rebuild_packages env tenant db [] = proceed []"
| "rebuild_packages env tenant db (p # ps) = and_then (rebuild_package env tenant db p) (\<lambda>x.
     and_then (rebuild_packages env tenant db ps) (\<lambda>xs. proceed (x # xs)))"

text \<open>\<open>AdapterCreateRequest.from_persisted_request\<close> of src/src/adapters/base.py.\<close>

definition from_persisted_request :: "approval_env \<Rightarrow> json \<Rightarrow> rat \<Rightarrow> create_carrier res" where
  "from_persisted_request env raw amount = (case raw of
     JObj kvs \<Rightarrow> let field = (\<lambda>k. case map_of kvs k of Some j \<Rightarrow> j | None \<Rightarrow> JNull) in
       (case ae_carrier env (field ''brand'') (field ''po_number'') (field ''push_notification_config'') of
          Inl e \<Rightarrow> Inl e
        | Inr _ \<Rightarrow> Inr \<lparr>acr_brand = field ''brand'', acr_po_number = field ''po_number'', acr_total_budget = amount,
            acr_already_approved = True, acr_push_notification_config = field ''push_notification_config''\<rparr>)
   | _ \<Rightarrow> Inl (OtherException ''AttributeError''))"

definition checked_of :: "order_package \<Rightarrow> checked_package" where
  "checked_of p = \<lparr>cp_product_id = Some (op_product_id p), cp_creative_ids = op_creative_ids p\<rparr>"

definition plan_order :: "approval_env \<Rightarrow> string \<Rightarrow> update_db \<Rightarrow> media_buy \<Rightarrow> order_plan flow" where
  "plan_order env tenant db b = (let i = mb_media_buy_id b in
     and_then (case mb_account_id b of None \<Rightarrow> Inl (AdCPPersistedStateError (Some i) None) | Some a \<Rightarrow> proceed a) (\<lambda>account.
     and_then (flow_of (from_persisted_request env (mb_raw_request b)
       (case mb_budget b of Some x \<Rightarrow> x | None \<Rightarrow> 0))) (\<lambda>request.
     let rows = filter (\<lambda>p. mp_media_buy_id p = i) (media_packages db) in
     and_then (if rows = [] then stop (No_packages i) else proceed ()) (\<lambda>_.
     and_then (rebuild_packages env tenant db rows) (\<lambda>ps.
     and_then (need (mb_start_time b) (Times_missing i)) (\<lambda>start.
     and_then (need (mb_end_time b) (Times_missing i)) (\<lambda>finish.
     and_then (flow_of (validate_creatives_before_adapter_call (ae_creatives env) (ae_text env) tenant
       (mb_principal_id b) (map (checked_of \<circ> fst) ps) db)) (\<lambda>_.
     proceed \<lparr>pl_request = request, pl_packages = map fst ps, pl_start = start, pl_end = finish,
       pl_pricing = map (\<lambda>(p, info). (op_package_id p, info)) ps, pl_principal = mb_principal_id b,
       pl_account = account\<rparr>))))))))"

section \<open>The first unit: the gate and the plan\<close>

definition buy_not_found :: "string \<Rightarrow> approval_result" where
  "buy_not_found i = failed_result (Buy_not_found i)"

definition hold_result :: "string list \<Rightarrow> media_buy option \<Rightarrow> approval_result" where
  "hold_result unapproved held = \<lparr>ar_outcome = Held_pending_creatives, ar_status = Some PENDING_CREATIVES,
     ar_revision = map_option mb_revision held, ar_confirmed_at = (case held of None \<Rightarrow> None | Some b \<Rightarrow> mb_confirmed_at b),
     ar_error = Some (Creatives_not_approved unapproved)\<rparr>"

definition hold :: "approval_env \<Rightarrow> string \<Rightarrow> string \<Rightarrow> instant option \<Rightarrow> string option \<Rightarrow> string list \<Rightarrow> approval_result apv" where
  "hold env tenant mbid approved_at approved_by unapproved =
     tx_bind (on_db (\<lambda>db. update_status tenant (ae_now env) db mbid (status_value PENDING_CREATIVES) False
       approved_at approved_by)) (\<lambda>held.
     tx_then (commit_view env) (tx_return (hold_result unapproved held)))"

definition first_unit ::
    "approval_env \<Rightarrow> string \<Rightarrow> string \<Rightarrow> instant option \<Rightarrow> string option \<Rightarrow> (approval_result + order_plan) apv" where
  "first_unit env tenant mbid approved_at approved_by =
     tx_bind (from_db (get_tenant tenant)) (\<lambda>tn. case tn of
       None \<Rightarrow> tx_return (Inl (failed_result (Tenant_not_found tenant)))
     | Some _ \<Rightarrow> tx_bind (from_db (\<lambda>db. get_by_id tenant db mbid)) (\<lambda>mb. case mb of
         None \<Rightarrow> tx_return (Inl (buy_not_found mbid))
       | Some b \<Rightarrow> tx_bind (from_db (\<lambda>db. unapproved_creative_ids tenant db mbid)) (\<lambda>unapproved.
           if unapproved \<noteq> []
           then tx_bind (hold env tenant mbid approved_at approved_by unapproved) (\<lambda>r. tx_return (Inl r))
           else tx_bind (tx_try (\<lambda>s. plan_order env tenant (ap_view s) b)) (\<lambda>r. case r of
               Inl e \<Rightarrow> tx_return (Inl (failed_result e))
             | Inr plan \<Rightarrow> tx_return (Inr plan)))))"

text \<open>What happens before the ad server is asked, with the resolution of the owner's identity.\<close>

definition before_adapter ::
    "approval_env \<Rightarrow> string \<Rightarrow> string \<Rightarrow> instant option \<Rightarrow> string option \<Rightarrow> (approval_result + order_plan) apv" where
  "before_adapter env tenant mbid approved_at approved_by =
     tx_bind (in_uow env (first_unit env tenant mbid approved_at approved_by)) (\<lambda>r. case r of
       Inl res \<Rightarrow> tx_return (Inl res)
     | Inr plan \<Rightarrow> tx_then (tx_try (\<lambda>_. ae_identity env (pl_principal plan) (Some (pl_account plan))))
         (tx_return (Inr plan)))"

section \<open>The mark of a failure\<close>

text \<open>Only an exception of the database is swallowed.\<close>

definition swallow_database_error :: "approval_result \<Rightarrow> exn \<Rightarrow> approval_result apv" where
  "swallow_database_error r x = (if is_database_error x then tx_return r else tx_raise x)"

definition write_failed :: "approval_env \<Rightarrow> string \<Rightarrow> string \<Rightarrow> media_buy option apv" where
  "write_failed env tenant mbid =
     on_db (\<lambda>db. update_status tenant (ae_now env) db mbid (status_value FAILED) False None None)"

text \<open>Inside the caller's unit, and in a unit of its own.\<close>

definition mark_failed_here :: "approval_env \<Rightarrow> string \<Rightarrow> string \<Rightarrow> approval_error \<Rightarrow> approval_result apv" where
  "mark_failed_here env tenant mbid e = tx_catch
     (tx_then (write_failed env tenant mbid) (tx_return (failed_result e))) (swallow_database_error (failed_result e))"

definition mark_failed :: "approval_env \<Rightarrow> string \<Rightarrow> string \<Rightarrow> approval_error \<Rightarrow> approval_result apv" where
  "mark_failed env tenant mbid e = tx_catch
     (tx_then (in_uow env (write_failed env tenant mbid)) (tx_return (failed_result e)))
     (swallow_database_error (failed_result e))"

section \<open>The ids of the order\<close>

text \<open>An id that is already there is not replaced by another.\<close>

definition put_platform_id :: "string \<Rightarrow> string \<Rightarrow> json \<Rightarrow> json res" where
  "put_platform_id k new cfg = (case (case cfg of JNull \<Rightarrow> Some [] | JObj kvs \<Rightarrow> Some kvs | _ \<Rightarrow> None) of
     None \<Rightarrow> Inl (OtherException ''AttributeError'')
   | Some kvs \<Rightarrow> Inr (JObj (if has_value k kvs \<and> map_of kvs k \<noteq> Some (JStr new) then kvs
       else dict_set k (JStr new) kvs)))"

definition put_package_id :: "string \<Rightarrow> string \<Rightarrow> media_package \<Rightarrow> unit apv" where
  "put_package_id k new p = on_db (\<lambda>db. case put_platform_id k new (mp_package_config p) of
     Inl e \<Rightarrow> (db, Inl e)
   | Inr cfg \<Rightarrow> (write_package db (p\<lparr>mp_package_config := cfg\<rparr>), Inr ()))"

definition put_line_item_id :: "string \<Rightarrow> string \<Rightarrow> string \<times> string \<Rightarrow> unit apv" where
  "put_line_item_id tenant mbid it = (case it of (pkg, li) \<Rightarrow>
     tx_bind (from_db (\<lambda>db. get_package tenant db mbid pkg)) (\<lambda>p. case p of
       None \<Rightarrow> tx_return () | Some r \<Rightarrow> put_package_id ''platform_line_item_id'' li r))"

text \<open>\<open>_persist_adapter_package_ids\<close>\<close>

definition persist_adapter_package_ids ::
    "string \<Rightarrow> string \<Rightarrow> string \<Rightarrow> (string \<times> string) list \<Rightarrow> unit apv" where
  "persist_adapter_package_ids tenant mbid order_id line_items =
     tx_bind (from_db (\<lambda>db. get_packages tenant db mbid)) (\<lambda>ps.
     tx_then (tx_each (\<lambda>_. put_package_id ''platform_order_id'' order_id) ps)
       (tx_each (\<lambda>_. put_line_item_id tenant mbid) line_items))"

section \<open>The creatives of the order\<close>

definition assignment_groups :: "creative_assignment list \<Rightarrow> (string \<times> (string \<times> int) list) list" where
  "assignment_groups as = fold (\<lambda>a. add_group (asg_creative_id a) (asg_package_id a, asg_weight a)) as []"

text \<open>The assets of the creatives found and not under review, and the errors of those without one.\<close>

fun collect_assets ::
    "creative_env \<Rightarrow> creative_row list \<Rightarrow> (string \<times> (string \<times> int) list) list
      \<Rightarrow> (asset_error list \<times> adapter_asset list) res" where
  "collect_assets env cs [] = Inr ([], [])"
| "collect_assets env cs ((cid, as) # rest) =
     (case find (\<lambda>c. cr_creative_id c = cid \<and> cr_status c \<noteq> ''pending_review'') cs of
        None \<Rightarrow> collect_assets env cs rest
      | Some c \<Rightarrow> (case build_adapter_asset env c as of Inl e \<Rightarrow> Inl e
          | Inr r \<Rightarrow> (case collect_assets env cs rest of Inl e \<Rightarrow> Inl e
            | Inr (errs, assets) \<Rightarrow> Inr (case r of Inl err \<Rightarrow> (err # errs, assets) | Inr a \<Rightarrow> (errs, a # assets)))))"

definition enrich_creative :: "string \<Rightarrow> string \<Rightarrow> string list \<Rightarrow> asset_status \<Rightarrow> unit apv" where
  "enrich_creative tenant pid ids st = (if ats_status st = ''failed'' \<or> \<not> truthy_str (ats_creative_id st) then tx_return ()
     else tx_bind (from_db (\<lambda>db. find (\<lambda>c. cr_creative_id c = the (ats_creative_id st))
         (creative_get_by_ids tenant db ids pid))) (\<lambda>c. case c of None \<Rightarrow> tx_return ()
       | Some r \<Rightarrow> on_db (\<lambda>db. case apply_creative_enrichment r st of
           Inl e \<Rightarrow> (db, Inl e) | Inr None \<Rightarrow> (db, Inr ()) | Inr (Some d) \<Rightarrow> (update_data r d db, Inr ()))))"

definition upload_assets ::
    "approval_env \<Rightarrow> string \<Rightarrow> string \<Rightarrow> string list \<Rightarrow> string \<Rightarrow> adapter_asset list \<Rightarrow> unit apv" where
  "upload_assets env tenant pid ids order_id assets =
     tx_when (ae_creatives_manager env \<and> order_id \<noteq> [])
       (tx_bind (ask_adapter (Add_assets order_id assets (ae_now env)) (ae_upload env)) (\<lambda>sts.
          tx_each (\<lambda>_. enrich_creative tenant pid ids) sts))"

text \<open>\<open>try: ... except Exception as e: return _mark_approval_failed(..., uow=uow2)\<close>\<close>

definition or_mark_failed ::
    "approval_env \<Rightarrow> string \<Rightarrow> string \<Rightarrow> (exn \<Rightarrow> approval_error) \<Rightarrow> unit apv \<Rightarrow> approval_result option apv" where
  "or_mark_failed env tenant mbid err body = tx_catch (tx_then body (tx_return None))
     (\<lambda>e. tx_bind (mark_failed_here env tenant mbid (err e)) (\<lambda>r. tx_return (Some r)))"

definition upload_unit :: "approval_env \<Rightarrow> string \<Rightarrow> string \<Rightarrow> string \<Rightarrow> string \<Rightarrow> approval_result option apv" where
  "upload_unit env tenant mbid pid order_id =
     tx_bind (from_db (\<lambda>db. assignment_groups (filter (\<lambda>a. asg_media_buy_id a = mbid) (creative_assignments db)))) (\<lambda>groups.
     if groups = [] then tx_return None else
     let ids = map fst groups in
     tx_bind (tx_try (\<lambda>s. collect_assets (ae_creatives env) (creative_get_by_ids tenant (ap_view s) ids pid) groups))
      (\<lambda>(errs, assets).
     if errs \<noteq> [] then tx_bind (mark_failed_here env tenant mbid (Creatives_invalid errs)) (\<lambda>r. tx_return (Some r))
     else if assets = [] then tx_return None
     else tx_then (get_adapter env)
       (or_mark_failed env tenant mbid Upload_failed (upload_assets env tenant pid ids order_id assets))))"

section \<open>The order\<close>

text \<open>Asked again after the creatives: an order the ad server does not approve fails the buy.\<close>

definition approve_order :: "approval_env \<Rightarrow> string \<Rightarrow> string \<Rightarrow> string \<Rightarrow> approval_result option apv" where
  "approve_order env tenant mbid order_id =
     tx_bind (tx_catch
       (tx_then (get_adapter env) (if \<not> ae_orders_manager env then tx_return None else
          tx_bind (ask_adapter (Approve_order order_id) (ae_approve_order env)) (\<lambda>approved.
            tx_return (if approved then None else Some (Order_not_approved order_id)))))
       (\<lambda>e. tx_return (Some (Order_approval_raised order_id e)))) (\<lambda>err. case err of
     None \<Rightarrow> tx_return None
   | Some e \<Rightarrow> tx_bind (mark_failed env tenant mbid e) (\<lambda>r. tx_return (Some r)))"

definition write_commitment ::
    "approval_env \<Rightarrow> string \<Rightarrow> string \<Rightarrow> instant option \<Rightarrow> string option \<Rightarrow> approval_result apv" where
  "write_commitment env tenant mbid approved_at approved_by =
     tx_bind (from_db (\<lambda>db. get_by_id tenant db mbid)) (\<lambda>fresh. case fresh of
       None \<Rightarrow> tx_return (failed_result (Buy_vanished mbid))
     | Some b \<Rightarrow> (case resolve_flight_window_status b (ae_now env) True of
         None \<Rightarrow> tx_raise AssertionError
       | Some resolved \<Rightarrow>
           tx_bind (on_db (\<lambda>db. update_status tenant (ae_now env) db mbid (status_value resolved) True
             approved_at approved_by)) (\<lambda>written. case written of
               None \<Rightarrow> tx_raise AssertionError
             | Some w \<Rightarrow> tx_return \<lparr>ar_outcome = Executed, ar_status = Some resolved, ar_revision = Some (mb_revision w),
                 ar_confirmed_at = mb_confirmed_at w, ar_error = None\<rparr>)))"

definition after_order ::
    "approval_env \<Rightarrow> string \<Rightarrow> string \<Rightarrow> instant option \<Rightarrow> string option \<Rightarrow> order_plan \<Rightarrow> create_result
      \<Rightarrow> approval_result apv" where
  "after_order env tenant mbid approved_at approved_by plan resp =
     tx_then (tx_when (rs_media_buy_id resp \<noteq> []) (in_uow env
       (persist_adapter_package_ids tenant mbid (rs_media_buy_id resp) (rs_line_item_ids resp))))
    (tx_bind (in_uow env (upload_unit env tenant mbid (pl_principal plan) (rs_media_buy_id resp))) (\<lambda>r1. case r1 of
       Some r \<Rightarrow> tx_return r
     | None \<Rightarrow> tx_bind (approve_order env tenant mbid (rs_media_buy_id resp)) (\<lambda>r2. case r2 of
         Some r \<Rightarrow> tx_return r
       | None \<Rightarrow> in_uow env (write_commitment env tenant mbid approved_at approved_by))))"

definition place_order ::
    "approval_env \<Rightarrow> string \<Rightarrow> string \<Rightarrow> instant option \<Rightarrow> string option \<Rightarrow> order_plan \<Rightarrow> approval_result apv" where
  "place_order env tenant mbid approved_at approved_by plan =
     tx_then (get_adapter env) (tx_bind (ask_adapter (Create_order plan) (ae_create env))
       (after_order env tenant mbid approved_at approved_by plan))"

fun is_persisted_state_error :: "exn \<Rightarrow> bool" where
  "is_persisted_state_error (AdCPPersistedStateError i raw) = True"
| "is_persisted_state_error _ = False"

text \<open>
  \<open>execute_approved_media_buy\<close>. Before the ad server is asked a raise is only reported; afterwards it
  also marks the buy, unless it is the error of a row that cannot be acted on.
\<close>

definition execute_approved_media_buy ::
    "approval_env \<Rightarrow> string \<Rightarrow> string \<Rightarrow> string option \<Rightarrow> instant option \<Rightarrow> approval_result apv" where
  "execute_approved_media_buy env mbid tenant approved_by approved_at =
     tx_bind (tx_catch (before_adapter env tenant mbid approved_at approved_by) (\<lambda>e. tx_return (Inl (failed_result
       (if is_persisted_state_error e then Persisted_state_refused e else Adapter_creation_failed e))))) (\<lambda>r. case r of
     Inl res \<Rightarrow> tx_return res
   | Inr plan \<Rightarrow> tx_catch (place_order env tenant mbid approved_at approved_by plan) (\<lambda>e.
       if is_persisted_state_error e then tx_return (failed_result (Persisted_state_refused e))
       else mark_failed env tenant mbid (Adapter_creation_failed e)))"

section \<open>One creative for an order that exists\<close>

datatype push_error =
    Creative_not_found string
  | No_tenant string
  | Creative_not_approved string
  | Not_assigned string string
  | No_creative_upload
  | No_package string
  | No_order_id string
  | Asset_refused asset_error
  | Adapter_reported "string option"
  | No_status string
  | Push_raised exn

definition push_weight :: "creative_assignment \<Rightarrow> int" where
  "push_weight a = (if asg_weight a = 0 then 100 else asg_weight a)"

definition settle_push :: "string \<Rightarrow> string \<Rightarrow> asset_status list \<Rightarrow> push_error option apv" where
  "settle_push tenant cid sts = (case find (\<lambda>st. ats_creative_id st = Some cid) sts of
     None \<Rightarrow> tx_return (Some (No_status cid))
   | Some st \<Rightarrow> if ats_status st = ''failed'' then tx_return (Some (Adapter_reported (ats_message st)))
       else tx_bind (from_db (\<lambda>db. admin_get_by_id tenant db cid)) (\<lambda>c. case c of
         None \<Rightarrow> tx_return None
       | Some r \<Rightarrow> tx_bind (on_db (\<lambda>db. case apply_creative_enrichment r st of
           Inl e \<Rightarrow> (db, Inl e) | Inr None \<Rightarrow> (db, Inr ()) | Inr (Some d) \<Rightarrow> (update_data r d db, Inr ())))
           (\<lambda>_. tx_return None)))"

definition ask_upload :: "approval_env \<Rightarrow> string \<Rightarrow> string \<Rightarrow> string \<Rightarrow> adapter_asset \<Rightarrow> push_error option apv" where
  "ask_upload env tenant cid order_id a =
     tx_bind (tx_catch (tx_bind (ask_adapter (Add_assets order_id [a] (ae_now env)) (ae_upload env))
       (\<lambda>sts. tx_return (Inr sts))) (\<lambda>e. tx_return (Inl (Push_raised e)))) (\<lambda>r. case r of
     Inl err \<Rightarrow> tx_return (Some err) | Inr sts \<Rightarrow> settle_push tenant cid sts)"

definition push_unit :: "approval_env \<Rightarrow> string \<Rightarrow> string \<Rightarrow> string \<Rightarrow> push_error option apv" where
  "push_unit env cid mbid tenant =
     tx_bind (from_db (get_tenant tenant)) (\<lambda>tn. if tn = None then tx_return (Some (No_tenant tenant)) else
     tx_bind (from_db (\<lambda>db. admin_get_by_id tenant db cid)) (\<lambda>creative. case creative of
       None \<Rightarrow> tx_return (Some (Creative_not_found cid))
     | Some c \<Rightarrow> if cr_status c \<notin> {''approved'', ''active''} then tx_return (Some (Creative_not_approved (cr_status c))) else
     tx_bind (tx_try (\<lambda>_. data_of (cr_data c))) (\<lambda>data.
     if has_value ''platform_creative_id'' data then tx_return None else
     tx_bind (from_db (\<lambda>db. filter (\<lambda>a. asg_media_buy_id a = mbid) (get_by_creative tenant db cid))) (\<lambda>matching.
     case matching of [] \<Rightarrow> tx_return (Some (Not_assigned cid mbid)) | a # _ \<Rightarrow>
     tx_then (get_adapter env) (if \<not> ae_creatives_manager env then tx_return (Some No_creative_upload) else
     tx_bind (from_db (\<lambda>db. get_package tenant db mbid (asg_package_id a))) (\<lambda>pkg. case pkg of
       None \<Rightarrow> tx_return (Some (No_package mbid))
     | Some p \<Rightarrow> tx_bind (tx_try (\<lambda>_. data_of (mp_package_config p))) (\<lambda>cfg.
     if \<not> has_value ''platform_order_id'' cfg then tx_return (Some (No_order_id mbid)) else
     tx_bind (tx_try (\<lambda>_. build_adapter_asset (ae_creatives env) c
       (map (\<lambda>a. (asg_package_id a, push_weight a)) matching))) (\<lambda>built. case built of
         Inl err \<Rightarrow> tx_return (Some (Asset_refused err))
       | Inr asset \<Rightarrow> ask_upload env tenant cid
           (case map_of cfg ''platform_order_id'' of Some (JStr i) \<Rightarrow> i | _ \<Rightarrow> []) asset))))))))"

text \<open>\<open>push_creative_to_existing_buy\<close>: None is success; the owner is read in a unit of its own.\<close>

definition push_creative_to_existing_buy :: "approval_env \<Rightarrow> string \<Rightarrow> string \<Rightarrow> string \<Rightarrow> push_error option apv" where
  "push_creative_to_existing_buy env cid mbid tenant = tx_catch
     (tx_bind (in_uow env (from_db (\<lambda>db. admin_get_by_id tenant db cid))) (\<lambda>owner. case owner of
        None \<Rightarrow> tx_return (Some (Creative_not_found cid))
      | Some c \<Rightarrow> tx_then (tx_try (\<lambda>_. ae_identity env (cr_principal_id c) None))
          (in_uow env (push_unit env cid mbid tenant))))
     (\<lambda>e. tx_return (Some (Push_raised e)))"

end
