(* ===== verification/Create_Checks.thy ===== *)
theory Create_Checks
  imports Product_Catalog Approval Media_Buy_Update
begin

text \<open>
  The requests of create_media_buy and the checks they go through before anything is booked:
  the first half of \<open>_create_media_buy_impl\<close> and \<open>_validate_pricing_model_selection\<close> of
  src/src/core/tools/media_buy_create.py, with the totals of a request (get_total_budget and
  get_product_ids of src/src/core/schemas/_base.py). Amounts are rationals, and one instant is the
  clock of a call. An attribute the pinned request does not have reads as None.
\<close>

section \<open>Requests\<close>

record package_request =
  pq_product_id :: string
  pq_budget :: "rat option"
  pq_pricing_option_id :: string
  pq_bid_price :: "rat option"
  pq_targeting :: "targeting option"
  pq_format_ids :: "json list option"
  pq_creatives :: "json list option"
  pq_creative_ids :: "string list option"
  pq_impressions :: "rat option"

record buy_request =
  br_packages :: "package_request list option"
  br_start_time :: "start_edge option"
  br_end_time :: "pydatetime option"
  br_push_config :: "doc option"
  br_reporting_url :: "string option option"
  br_brand :: json
  br_po_number :: "string option"
  br_idempotency_key :: "string option"
  br_document :: doc
  br_dump :: "package_request list \<Rightarrow> bool \<Rightarrow> json"

definition request_packages :: "buy_request \<Rightarrow> package_request list" where
  "request_packages req = given (br_packages req)"

definition has_budget :: "package_request \<Rightarrow> bool" where
  "has_budget p = truthy_num (pq_budget p)"

definition budget_of :: "package_request \<Rightarrow> rat" where
  "budget_of p = (case pq_budget p of None \<Rightarrow> 0 | Some b \<Rightarrow> b)"

definition get_total_budget :: "package_request list \<Rightarrow> rat" where
  "get_total_budget ps = sum_list (map budget_of (filter has_budget ps))"

text \<open>\<open>list(dict.fromkeys(xs))\<close>: the first of each.\<close>

definition first_seen :: "string list \<Rightarrow> string list" where
  "first_seen xs = rev (remdups (rev xs))"

definition get_product_ids :: "package_request list \<Rightarrow> string list" where
  "get_product_ids ps = first_seen (filter (\<lambda>i. i \<noteq> []) (map pq_product_id ps))"

text \<open>One check after another.\<close>

definition checked_then :: "'a res \<Rightarrow> ('a \<Rightarrow> 'b res) \<Rightarrow> 'b res" where
  "checked_then m f = (case m of Inl e \<Rightarrow> Inl e | Inr x \<Rightarrow> f x)"

definition refuse_if :: "bool \<Rightarrow> exn \<Rightarrow> unit res" where
  "refuse_if c e = (if c then Inl e else Inr ())"

fun check_each :: "('a \<Rightarrow> 'b res) \<Rightarrow> 'a list \<Rightarrow> 'b list res" where
  "check_each f [] = Inr []"
| "check_each f (x # xs) = checked_then (f x) (\<lambda>y. checked_then (check_each f xs) (\<lambda>ys. Inr (y # ys)))"

section \<open>The flight\<close>

definition in_utc :: "pydatetime \<Rightarrow> pydatetime" where
  "in_utc t = (case t of Naive w \<Rightarrow> Aware w 0 | Aware w off \<Rightarrow> t)"

definition check_start :: "instant \<Rightarrow> start_edge option \<Rightarrow> pydatetime res" where
  "check_start now st = (case st of
     None \<Rightarrow> Inl (AdCPValidationError ''start_time'')
   | Some Asap \<Rightarrow> Inr (Aware now 0)
   | Some (Start_at t) \<Rightarrow> if to_utc (in_utc t) < now then Inl (AdCPInvalidRequestError ''start_time'') else Inr (in_utc t))"

definition check_end :: "pydatetime \<Rightarrow> pydatetime option \<Rightarrow> pydatetime res" where
  "check_end start et = (case et of
     None \<Rightarrow> Inl (AdCPValidationError ''end_time'')
   | Some t \<Rightarrow> if to_utc (in_utc t) \<le> to_utc start then Inl (AdCPInvalidRequestError ''end_time'') else Inr (in_utc t))"

text \<open>The days of a flight, at least one.\<close>

definition create_flight_days :: "pydatetime \<Rightarrow> pydatetime \<Rightarrow> int" where
  "create_flight_days start finish = (let d = (to_utc finish - to_utc start) div day_us in if d \<le> 0 then 1 else d)"

section \<open>Products\<close>

fun require_product_ids :: "nat \<Rightarrow> package_request list \<Rightarrow> unit res" where
  "require_product_ids i [] = Inr ()"
| "require_product_ids i (p # ps) = (if pq_product_id p = [] then Inl (AdCPValidationError (package_field_path ''product_id'' i))
     else require_product_ids (Suc i) ps)"

definition check_product_ids :: "package_request list \<Rightarrow> unit res" where
  "check_product_ids ps =
     checked_then (refuse_if (get_product_ids ps = []) (AdCPValidationError ''packages'')) (\<lambda>_.
     checked_then (require_product_ids 0 ps) (\<lambda>_.
       refuse_if (\<not> distinct (map pq_product_id ps)) (AdCPValidationError [])))"

definition product_in :: "product_row list \<Rightarrow> string \<Rightarrow> product_row option" where
  "product_in prs i = find (\<lambda>p. prod_product_id p = i) prs"

definition missing_products :: "product_row list \<Rightarrow> package_request list \<Rightarrow> string list" where
  "missing_products prs ps = sort (filter (\<lambda>i. product_in prs i = None) (get_product_ids ps))"

definition forbidden_property_lists :: "product_row list \<Rightarrow> package_request list \<Rightarrow> string list" where
  "forbidden_property_lists prs ps = map pq_product_id (filter (\<lambda>p. case product_in prs (pq_product_id p) of
     None \<Rightarrow> False | Some pr \<Rightarrow> \<not> validate_property_targeting_allowed (Some pr) (pq_targeting p)) ps)"

text \<open>A package converted from the old list of product ids names the product's first option.\<close>

definition resolve_legacy_option :: "product_row list \<Rightarrow> package_request \<Rightarrow> package_request" where
  "resolve_legacy_option prs p = (if pq_pricing_option_id p \<noteq> ''legacy_conversion'' then p
     else (case product_in prs (pq_product_id p) of None \<Rightarrow> p
       | Some pr \<Rightarrow> (case prod_pricing_options pr of [] \<Rightarrow> p
         | po # _ \<Rightarrow> p\<lparr>pq_pricing_option_id := po_pricing_option_id po\<rparr>)))"

section \<open>Currency\<close>

definition request_currency :: "product_row list \<Rightarrow> package_request list \<Rightarrow> string" where
  "request_currency prs ps = (case ps of [] \<Rightarrow> ''USD''
     | p # _ \<Rightarrow> (case product_in prs (pq_product_id p) of None \<Rightarrow> ''USD''
       | Some pr \<Rightarrow> (case prod_pricing_options pr of [] \<Rightarrow> ''USD''
         | po # _ \<Rightarrow> or_str (Some (po_currency po)) ''USD'')))"

text \<open>The ad server's network accepts its own currency and its secondary ones.\<close>

record network_row =
  nw_currency :: "string option"
  nw_secondary_currencies :: "string list"

definition network_refuses :: "network_row option \<Rightarrow> string \<Rightarrow> bool" where
  "network_refuses nw c = (case nw of None \<Rightarrow> False
     | Some r \<Rightarrow> truthy_str (nw_currency r) \<and> c \<notin> set (the (nw_currency r) # nw_secondary_currencies r))"

definition check_currency :: "string \<Rightarrow> network_row option \<Rightarrow> string \<Rightarrow> update_db \<Rightarrow> currency_limit res" where
  "check_currency tenant nw c db = (case get_for_currency tenant c db of
     None \<Rightarrow> Inl (AdCPCapabilityNotSupportedError c)
   | Some l \<Rightarrow> if network_refuses nw c then Inl (AdCPCapabilityNotSupportedError []) else Inr l)"

section \<open>Pricing\<close>

definition is_object :: "json option \<Rightarrow> bool" where
  "is_object j = (case j of Some (JObj kvs) \<Rightarrow> True | _ \<Rightarrow> False)"

text \<open>\<open>Decimal(str(guidance.get("floor", 0)))\<close>, where there is a guidance.\<close>

definition guidance_floor :: "catalog_env \<Rightarrow> pricing_option \<Rightarrow> rat res" where
  "guidance_floor env po = (if \<not> truthy_json (po_price_guidance po) then Inr 0
     else (case po_price_guidance po of
         Some (JObj kvs) \<Rightarrow> (case map_of kvs ''floor'' of
             None \<Rightarrow> Inr 0
           | Some (JNum x) \<Rightarrow> Inr x
           | Some (JStr s) \<Rightarrow> (case ct_float env s of Some x \<Rightarrow> Inr x | None \<Rightarrow> Inl (OtherException ''InvalidOperation''))
           | Some _ \<Rightarrow> Inl (OtherException ''InvalidOperation''))
       | _ \<Rightarrow> Inl (OtherException ''AttributeError'')))"

definition check_bid :: "catalog_env \<Rightarrow> package_request \<Rightarrow> pricing_option \<Rightarrow> unit res" where
  "check_bid env p po = (if po_is_fixed po then Inr ()
     else if \<not> truthy_num (pq_bid_price p)
     then checked_then (refuse_if (truthy_json (po_price_guidance po) \<and> \<not> is_object (po_price_guidance po))
       (OtherException ''AttributeError'')) (\<lambda>_. Inl (AdCPValidationError ''bid_price''))
     else checked_then (guidance_floor env po) (\<lambda>f. refuse_if (the (pq_bid_price p) < f) (AdCPValidationError [])))"

definition bid_of :: "package_request \<Rightarrow> rat option" where
  "bid_of p = (if truthy_num (pq_bid_price p) then pq_bid_price p else None)"

definition below_spend :: "package_request \<Rightarrow> pricing_option \<Rightarrow> bool" where
  "below_spend p po = (truthy_num (po_min_spend_per_package po) \<and> has_budget p \<and>
     budget_of p < the (po_min_spend_per_package po))"

text \<open>The first option's terms, where the package names none.\<close>

definition first_option_terms :: "package_request \<Rightarrow> pricing_option \<Rightarrow> string \<Rightarrow> json" where
  "first_option_terms p po currency = pricing_info_for (po\<lparr>po_currency := or_str (Some (po_currency po)) (or_str (Some currency) ''USD'')\<rparr>)
     (bid_of p)"

definition selected_option :: "package_request \<Rightarrow> product_row \<Rightarrow> pricing_option option" where
  "selected_option p pr = find (\<lambda>po. lower (pq_pricing_option_id p) = lower (po_pricing_option_id po)) (prod_pricing_options pr)"

text \<open>\<open>_validate_pricing_model_selection\<close>: the terms the package buys at.\<close>

definition validate_pricing_model_selection ::
    "catalog_env \<Rightarrow> package_request \<Rightarrow> product_row \<Rightarrow> string \<Rightarrow> json res" where
  "validate_pricing_model_selection env p pr currency = (case prod_pricing_options pr of
     [] \<Rightarrow> Inl AdCPConfigurationError
   | po # pos \<Rightarrow> if pq_pricing_option_id p = [] then Inr (first_option_terms p po currency)
       else (case selected_option p pr of
           None \<Rightarrow> Inl (AdCPValidationError ''pricing_option_id'')
         | Some x \<Rightarrow> checked_then (check_bid env p x) (\<lambda>_.
             checked_then (refuse_if (po_is_fixed x \<and> \<not> truthy_num (po_rate x)) AdCPConfigurationError) (\<lambda>_.
             checked_then (refuse_if (below_spend p x) (AdCPValidationError [])) (\<lambda>_.
               Inr (pricing_info_for x (bid_of p)))))))"

definition package_pricing :: "catalog_env \<Rightarrow> product_row list \<Rightarrow> string \<Rightarrow> package_request list \<Rightarrow> json list res" where
  "package_pricing env prs currency ps = check_each (\<lambda>p. case product_in prs (pq_product_id p) of
     None \<Rightarrow> Inr JNull | Some pr \<Rightarrow> validate_pricing_model_selection env p pr currency) ps"

section \<open>Budgets\<close>

text \<open>No package has a budget: the total is judged instead. A positive total excludes it.\<close>

definition legacy_mode :: "package_request list \<Rightarrow> bool" where
  "legacy_mode ps = (ps \<noteq> [] \<and> list_all (\<lambda>p. \<not> has_budget p) ps)"

definition option_min_spend :: "product_row \<Rightarrow> string \<Rightarrow> rat option" where
  "option_min_spend pr c = (case find (\<lambda>po. po_currency po = c) (prod_pricing_options pr) of
     None \<Rightarrow> None | Some po \<Rightarrow> po_min_spend_per_package po)"

definition product_min_spend :: "rat \<Rightarrow> string \<Rightarrow> product_row \<Rightarrow> rat" where
  "product_min_spend limit c pr = (case option_min_spend pr c of Some m \<Rightarrow> m | None \<Rightarrow> limit)"

definition budget_too_low :: "rat \<Rightarrow> rat \<Rightarrow> exn" where
  "budget_too_low requested limit = AdCPBudgetTooLowError (Some (requested, limit)) None"

definition check_package_min_spend :: "rat \<Rightarrow> string \<Rightarrow> product_row list \<Rightarrow> package_request \<Rightarrow> unit res" where
  "check_package_min_spend limit c prs p = (case product_in prs (pq_product_id p) of
     None \<Rightarrow> Inr ()
   | Some pr \<Rightarrow> let m = product_min_spend limit c pr in
       if \<not> has_budget p \<or> m = 0 then Inr ()
       else raise_if_validation_failed (validate_min_package_budget (budget_of p) m) budget_too_low (budget_of p) m)"

definition check_min_spend :: "currency_limit \<Rightarrow> string \<Rightarrow> product_row list \<Rightarrow> package_request list \<Rightarrow> unit res" where
  "check_min_spend l c prs ps = (case cl_min_package_budget l of None \<Rightarrow> Inr ()
     | Some limit \<Rightarrow> if limit = 0 \<or> prs = [] then Inr ()
         else if ps \<noteq> [] \<and> \<not> legacy_mode ps then checked_then (check_each (check_package_min_spend limit c prs) ps) (\<lambda>_. Inr ())
         else (let m = Max (set (map (product_min_spend limit c) prs)) in
           raise_if_validation_failed (validate_min_package_budget (get_total_budget ps) m) budget_too_low (get_total_budget ps) m))"

definition check_package_daily_spend :: "rat \<Rightarrow> int \<Rightarrow> package_request \<Rightarrow> unit res" where
  "check_package_daily_spend limit days p = (if \<not> has_budget p then Inr ()
     else raise_if_validation_failed (validate_max_daily_package_spend (budget_of p) days limit)
       AdCPBudgetExceededError (budget_of p) limit)"

definition check_daily_spend :: "currency_limit \<Rightarrow> int \<Rightarrow> package_request list \<Rightarrow> unit res" where
  "check_daily_spend l days ps = (case cl_max_daily_package_spend l of None \<Rightarrow> Inr ()
     | Some limit \<Rightarrow> if limit = 0 then Inr ()
         else if ps \<noteq> [] \<and> \<not> legacy_mode ps then checked_then (check_each (check_package_daily_spend limit days) ps) (\<lambda>_. Inr ())
         else raise_if_validation_failed (validate_max_daily_package_spend (get_total_budget ps) days limit)
           AdCPBudgetExceededError (get_total_budget ps) limit)"

section \<open>All of them\<close>

text \<open>What the checks against the tables leave: the packages, their currency and their terms by index.\<close>

record priced_packages =
  pp_packages :: "package_request list"
  pp_currency :: string
  pp_pricing :: "json list"

definition check_tables ::
    "catalog_env \<Rightarrow> network_row option \<Rightarrow> string \<Rightarrow> int \<Rightarrow> package_request list \<Rightarrow> update_db \<Rightarrow> priced_packages res" where
  "check_tables env nw tenant days ps db = (let prs = list_by_ids tenant db (get_product_ids ps) in
     checked_then (refuse_if (missing_products prs ps \<noteq> []) (AdCPProductNotFoundError (missing_products prs ps))) (\<lambda>_.
     checked_then (raise_if_property_targeting_violations (forbidden_property_lists prs ps)) (\<lambda>_.
     let qs = map (resolve_legacy_option prs) ps; c = request_currency prs qs in
     checked_then (check_currency tenant nw c db) (\<lambda>l.
     checked_then (package_pricing env prs c qs) (\<lambda>terms.
     checked_then (check_min_spend l c prs qs) (\<lambda>_.
     checked_then (check_daily_spend l days qs) (\<lambda>_.
       Inr \<lparr>pp_packages = qs, pp_currency = c, pp_pricing = terms\<rparr>)))))))"

record checked_request =
  ck_start :: pydatetime
  ck_end :: pydatetime
  ck_priced :: priced_packages

definition check_flight :: "instant \<Rightarrow> buy_request \<Rightarrow> (pydatetime \<times> pydatetime) res" where
  "check_flight now req =
     checked_then (refuse_if (\<not> validate_budget_positive (get_total_budget (request_packages req)))
       (AdCPBudgetTooLowError None (Some ''packages''))) (\<lambda>_.
     checked_then (check_start now (br_start_time req)) (\<lambda>s.
     checked_then (check_end s (br_end_time req)) (\<lambda>e.
     checked_then (check_product_ids (request_packages req)) (\<lambda>_. Inr (s, e)))))"

definition check_overlays :: "package_request list \<Rightarrow> unit res" where
  "check_overlays ps = refuse_if (list_ex (\<lambda>p. case pq_targeting p of None \<Rightarrow> False
     | Some t \<Rightarrow> collect_targeting_violations t \<noteq> []) ps) (AdCPInvalidRequestError ''targeting_overlay'')"

section \<open>The status of a buy that was ordered\<close>

definition determine_media_buy_status ::
    "bool \<Rightarrow> bool \<Rightarrow> bool \<Rightarrow> pydatetime \<Rightarrow> pydatetime \<Rightarrow> instant \<Rightarrow> media_buy_status" where
  "determine_media_buy_status manual_approval_required has_creatives creatives_approved start finish now =
     (if to_utc finish < now then COMPLETED
      else if \<not> has_creatives \<or> \<not> creatives_approved then PENDING_CREATIVES
      else if manual_approval_required \<or> now < to_utc start then PENDING_START
      else ACTIVE)"

end
