(* ===== verification/Media_Buy_Create.thy ===== *)
theory Media_Buy_Create
  imports Create_Checks Idempotency
begin

text \<open>
  The tool create_media_buy: \<open>_create_media_buy_impl\<close> of src/src/core/tools/media_buy_create.py with the
  helpers it calls (the loss of an idempotency race, the check of creatives, the upload of inline
  creatives in src/src/core/helpers/creative_helpers.py). The state is the tables with the calls to the
  ad server, the workflow tables with their notices, and the webhook registrations; each unit of work
  commits by itself. Parameters: the adapter, the registration gates, the setup checklist, the creative
  sync, format identities, texts of exceptions, serializers and fresh ids. Slack, the activity feed
  and the audit log are left out: what they raise is swallowed, but for the last audit entry.
\<close>

section \<open>State and environment\<close>

datatype booking_commit =
    Context_commit | Step_commit | Config_commit | Approval_commit | Failure_commit | Link_commit | Done_commit

record booking_env =
  cb_books :: approval_env
  cb_catalog :: catalog_env
  cb_manager :: manager_env
  cb_wire :: "exn \<Rightarrow> (doc \<times> string) res"
  cb_str :: "exn \<Rightarrow> string"
  cb_accept_config :: "doc \<Rightarrow> doc res"
  cb_reject_unsafe_url :: "string option \<Rightarrow> unit res"
  cb_missing_tasks :: "string list"
  cb_human_review :: bool
  cb_adapter_manual :: bool
  cb_manual_operations :: "string list"
  cb_filters_property_lists :: bool
  cb_network :: "network_row option"
  cb_google :: bool
  cb_sync :: "string \<Rightarrow> json list \<Rightarrow> update_db \<Rightarrow> update_db \<times> sync_item list res"
  cb_format_identity :: "json \<Rightarrow> (string \<times> string) option"
  cb_format_error :: "creative_row \<Rightarrow> product_row \<Rightarrow> string"
  cb_problems :: "order_plan \<Rightarrow> string list res"
  cb_associate :: "ad_call list \<Rightarrow> unit res"
  cb_valid_actions :: "string \<Rightarrow> string list"
  cb_attempts :: "idem_attempt list"
  cb_request_hash :: "create_req \<Rightarrow> string"
  cb_context_hex :: string
  cb_step_hex :: string
  cb_config_hex :: string
  cb_media_buy_hex :: string
  cb_package_hex :: "nat \<Rightarrow> string"
  cb_uuid :: "creative_assignment list \<Rightarrow> string"
  cb_fault :: "booking_commit \<Rightarrow> exn option"

text \<open>The caller: principal, its name and its account.\<close>

record buyer =
  by_tenant :: string
  by_principal :: string
  by_name :: string
  by_account :: string

record booking_state =
  bk_books :: approval_state
  bk_manager :: manager_state
  bk_push :: "push_config list"

type_synonym 'a bkg = "(booking_state, 'a) tx"

definition cb_now :: "booking_env \<Rightarrow> instant" where
  "cb_now env = ae_now (cb_books env)"

definition on_books :: "'a apv \<Rightarrow> 'a bkg" where
  "on_books m s = (case m (bk_books s) of (b, r) \<Rightarrow> (s\<lparr>bk_books := b\<rparr>, r))"

definition on_context :: "(manager_state \<Rightarrow> manager_state \<times> 'a res) \<Rightarrow> 'a bkg" where
  "on_context f s = (case f (bk_manager s) of (m, r) \<Rightarrow> (s\<lparr>bk_manager := m\<rparr>, r))"

definition of_tables :: "(update_db \<Rightarrow> 'a res) \<Rightarrow> 'a bkg" where
  "of_tables f = on_books (tx_try (\<lambda>b. f (ap_view b)))"

definition change_tables :: "(update_db \<Rightarrow> update_db \<times> 'a res) \<Rightarrow> 'a bkg" where
  "change_tables f = on_books (on_db f)"

text \<open>\<open>with MediaBuyUoW(tenant_id)\<close> around calls that may also reach the context manager.\<close>

definition reset_view :: "unit apv" where
  "reset_view = tx_change (\<lambda>b. b\<lparr>ap_view := ap_saved b\<rparr>)"

definition in_books :: "booking_env \<Rightarrow> 'a bkg \<Rightarrow> 'a bkg" where
  "in_books env body = tx_then (on_books reset_view)
     (tx_bind (tx_catch body (\<lambda>e. tx_then (on_books reset_view) (tx_raise e)))
       (\<lambda>x. tx_then (on_books (commit_view (cb_books env))) (tx_return x)))"

section \<open>Before the checks\<close>

definition registration_of :: "booking_env \<Rightarrow> buy_request \<Rightarrow> doc option res" where
  "registration_of env req =
     checked_then (case br_reporting_url req of None \<Rightarrow> Inr () | Some u \<Rightarrow> cb_reject_unsafe_url env u) (\<lambda>_.
     checked_then (case br_push_config req of None \<Rightarrow> Inr None
       | Some d \<Rightarrow> checked_then (cb_accept_config env d) (\<lambda>r. Inr (Some r))) (\<lambda>registration.
     checked_then (refuse_if (cb_missing_tasks env \<noteq> []) AdCPConfigurationError) (\<lambda>_. Inr registration)))"

definition creation_fields :: "buy_request \<Rightarrow> doc option \<Rightarrow> step_fields" where
  "creation_fields req registration = (step_defaults ''media_buy_creation'' ''system'')\<lparr>sf_status := ''in_progress'',
     sf_tool_name := Some ''create_media_buy'', sf_request_data := Some (br_document req),
     sf_request_metadata := Some (case registration of None \<Rightarrow> [] | Some r \<Rightarrow> [(''push_notification_config'', to_stash r)])\<rparr>"

definition open_creation :: "booking_env \<Rightarrow> buyer \<Rightarrow> buy_request \<Rightarrow> doc option \<Rightarrow> (wf_context \<times> workflow_step) bkg" where
  "open_creation env who req registration =
     tx_bind (on_context (\<lambda>(db, out).
       case manager_create_context (cb_fault env Context_commit) (cb_context_hex env) (by_tenant who) (by_principal who)
         None (cb_now env) db of
         Inl e \<Rightarrow> ((db, out), Inl e) | Inr (db', c) \<Rightarrow> ((db', out), Inr c))) (\<lambda>cx.
     tx_bind (on_context (\<lambda>(db, out).
       case create_workflow_step (cb_fault env Step_commit) (cb_step_hex env) (cx_id cx)
         (creation_fields req registration) (cb_now env) db of
         Inl e \<Rightarrow> ((db, out), Inl e) | Inr (db', step) \<Rightarrow> ((db', out), Inr step))) (\<lambda>step.
     tx_return (cx, step)))"

text \<open>The registration is found again by its url, and written in a unit of its own.\<close>

definition register_config :: "booking_env \<Rightarrow> buyer \<Rightarrow> doc \<Rightarrow> unit bkg" where
  "register_config env who registration s =
     (let cols = to_columns (mg_py (cb_manager env)) registration; rows = bk_push s;
          rid = (case find_by_url (by_tenant who) (by_principal who) (cc_url cols) False rows of
            Some c \<Rightarrow> pc_id c | None \<Rightarrow> ''pnc_'' @ cb_config_hex env)
      in (case upsert_config (by_tenant who) cols rid (by_principal who) Unset Unset Unset (cb_now env) rows rows of
          Inl e \<Rightarrow> (s, Inl e)
        | Inr (rows', _, _) \<Rightarrow> (case cb_fault env Config_commit of Some e \<Rightarrow> (s, Inl e)
            | None \<Rightarrow> (s\<lparr>bk_push := rows'\<rparr>, Inr ()))))"

definition open_booking :: "booking_env \<Rightarrow> buyer \<Rightarrow> buy_request \<Rightarrow> (wf_context \<times> workflow_step) bkg" where
  "open_booking env who req =
     tx_bind (tx_try (\<lambda>_. registration_of env req)) (\<lambda>registration.
     tx_bind (open_creation env who req registration) (\<lambda>opened.
     tx_then (case registration of None \<Rightarrow> tx_return () | Some r \<Rightarrow> register_config env who r)
       (tx_return opened)))"

section \<open>The checks\<close>

definition check_booking :: "booking_env \<Rightarrow> buyer \<Rightarrow> buy_request \<Rightarrow> checked_request bkg" where
  "check_booking env who req =
     tx_bind (tx_try (\<lambda>_. check_flight (cb_now env) req)) (\<lambda>(s, e).
     tx_bind (in_books env (of_tables (check_tables (cb_catalog env) (cb_network env) (by_tenant who)
       (create_flight_days s e) (request_packages req)))) (\<lambda>priced.
     tx_then (tx_try (\<lambda>_. check_overlays (pp_packages priced)))
       (tx_return \<lparr>ck_start = s, ck_end = e, ck_priced = priced\<rparr>)))"

definition audit_failure :: "booking_env \<Rightarrow> workflow_step \<Rightarrow> exn \<Rightarrow> unit bkg" where
  "audit_failure env step e = on_context (\<lambda>m. (audit_workflow_step_failure_if_present (cb_manager env) (cb_wire env)
     (cb_fault env Failure_commit) (Some step) e (cb_now env) m, Inr ()))"

text \<open>\<open>except (AdCPSalesAgentError, ValueError, PermissionError)\<close>; the model's validation error is a ValueError.\<close>

definition is_refusal :: "exn \<Rightarrow> bool" where
  "is_refusal e = (is_adcp_error e \<or> e = ValueError \<or> e = validation_error)"

definition checked_booking :: "booking_env \<Rightarrow> buyer \<Rightarrow> workflow_step \<Rightarrow> buy_request \<Rightarrow> checked_request bkg" where
  "checked_booking env who step req = tx_catch (check_booking env who req)
     (\<lambda>e. tx_then (tx_when (is_refusal e) (audit_failure env step e)) (tx_raise e))"

section \<open>Failing steps\<close>

definition fail_step :: "booking_env \<Rightarrow> workflow_step \<Rightarrow> string \<Rightarrow> unit bkg" where
  "fail_step env step message = on_context (update_workflow_step (cb_manager env) (cb_fault env Failure_commit) (st_id step)
     (no_update\<lparr>su_status := Some ''failed'', su_error_message := Some message\<rparr>) (cb_now env))"

definition fail_and_raise :: "booking_env \<Rightarrow> workflow_step \<Rightarrow> string \<Rightarrow> exn \<Rightarrow> 'a bkg" where
  "fail_and_raise env step message e = tx_then (fail_step env step message) (tx_raise e)"

text \<open>\<open>except AdCPSalesAgentError: update_workflow_step(failed); raise\<close>\<close>

definition failing_step :: "booking_env \<Rightarrow> workflow_step \<Rightarrow> (exn \<Rightarrow> string) \<Rightarrow> 'a bkg \<Rightarrow> 'a bkg" where
  "failing_step env step message body = tx_catch body
     (\<lambda>e. if is_adcp_error e then fail_and_raise env step (message e) e else tx_raise e)"

section \<open>Inline creatives\<close>

text \<open>The sync service works in units of its own.\<close>

definition run_package_sync :: "booking_env \<Rightarrow> string \<Rightarrow> json list \<Rightarrow> sync_item list bkg" where
  "run_package_sync env prid cs = on_books (\<lambda>b. case cb_sync env prid cs (ap_saved b) of
     (db, r) \<Rightarrow> (b\<lparr>ap_view := db, ap_saved := db\<rparr>, r))"

definition upload_package_creatives :: "booking_env \<Rightarrow> package_request \<Rightarrow> package_request bkg" where
  "upload_package_creatives env p =
     tx_bind (run_package_sync env (pq_product_id p) (given (pq_creatives p))) (\<lambda>items.
     let failed = filter (\<lambda>r. sy_action r = ''failed'') items in
     if failed \<noteq> [] then tx_raise (AdCPCreativeRejectedError (concat (map sy_error_codes failed)))
     else tx_return (p\<lparr>pq_creative_ids := Some (given (pq_creative_ids p) @
       map sy_creative_id (filter (\<lambda>r. sy_creative_id r \<noteq> [] \<and> sy_action r \<noteq> ''failed'') items))\<rparr>))"

fun process_and_upload_package_creatives :: "booking_env \<Rightarrow> package_request list \<Rightarrow> package_request list bkg" where
  "process_and_upload_package_creatives env [] = tx_return []"
| "process_and_upload_package_creatives env (p # ps) =
     tx_bind (if given (pq_creatives p) = [] then tx_return p
       else tx_catch (upload_package_creatives env p)
         (\<lambda>e. tx_raise (if is_adcp_error e \<or> e = validation_error then e else AdCPAdapterError []))) (\<lambda>q.
     tx_bind (process_and_upload_package_creatives env ps) (\<lambda>qs. tx_return (q # qs)))"

definition upload_inline_creatives :: "booking_env \<Rightarrow> workflow_step \<Rightarrow> package_request list \<Rightarrow> package_request list bkg" where
  "upload_inline_creatives env step ps = failing_step env step (cb_str env) (process_and_upload_package_creatives env ps)"

definition pre_validate_package_creatives ::
    "booking_env \<Rightarrow> buyer \<Rightarrow> workflow_step \<Rightarrow> checked_package list \<Rightarrow> unit bkg" where
  "pre_validate_package_creatives env who step ps = failing_step env step (\<lambda>_. ''Creative validation failed'')
     (in_books env (of_tables (validate_creatives_before_adapter_call (ae_creatives (cb_books env)) (ae_text (cb_books env))
       (by_tenant who) (by_principal who) ps)))"

section \<open>The loss of a race for a key\<close>

definition degraded_outcome :: "booking_env \<Rightarrow> buyer \<Rightarrow> create_req \<Rightarrow> update_db \<Rightarrow> unit res" where
  "degraded_outcome env who creq db = (let key = or_str (rq_idempotency_key creq) [] in
     case find_by_idempotency_key (by_tenant who) db key (by_principal who) (Some (by_account who)) of
       None \<Rightarrow> Inl AdCPConfigurationError
     | Some b \<Rightarrow>
         if (case find_including_expired (by_tenant who) (by_principal who) (Some (by_account who)) key (cb_attempts env) of
               Some c \<Rightarrow> ia_expires_at c \<le> cb_now env
             | None \<Rightarrow> default_replay_ttl < cb_now env - mb_created_at b)
         then Inl AdCPIdempotencyExpiredError
         else raise_on_payload_conflict (mb_payload_hash b) (Some (cb_request_hash env creq)))"

definition raise_degraded_replay_outcome :: "booking_env \<Rightarrow> buyer \<Rightarrow> create_req \<Rightarrow> 'a bkg" where
  "raise_degraded_replay_outcome env who creq =
     tx_then (in_books env (of_tables (degraded_outcome env who creq))) (tx_raise (AdCPServiceUnavailableError 1))"

text \<open>The insert fails on the primary key or on the index of the keys; only the second is a lost race.\<close>

definition resolve_idempotency_race_or_raise :: "booking_env \<Rightarrow> buyer \<Rightarrow> create_args \<Rightarrow> exn \<Rightarrow> 'a bkg" where
  "resolve_idempotency_race_or_raise env who a e =
     tx_bind (tx_read (\<lambda>s. ca_media_buy_id a \<in> mb_media_buy_id ` set (media_buys (ap_saved (bk_books s))))) (\<lambda>taken.
     if taken then tx_raise e else raise_degraded_replay_outcome env who (ca_req a))"

definition insert_buy :: "booking_env \<Rightarrow> buyer \<Rightarrow> create_args \<Rightarrow> media_buy bkg" where
  "insert_buy env who a = tx_catch
     (in_books env (change_tables (\<lambda>db. create_from_request (cb_request_hash env) (by_tenant who) (cb_now env) db a)))
     (\<lambda>e. if e = IntegrityError then resolve_idempotency_race_or_raise env who a e else tx_raise e)"

definition create_req_of :: "buy_request \<Rightarrow> package_request list \<Rightarrow> create_req" where
  "create_req_of req ps = \<lparr>rq_dump = br_dump req ps, rq_idempotency_key = br_idempotency_key req, rq_po_number = br_po_number req\<rparr>"

section \<open>Awaiting approval\<close>

datatype booking_pending = Awaits_approval string "string list option"

definition submitted_result :: "booking_env \<Rightarrow> workflow_step \<Rightarrow> package_request list \<Rightarrow> booking_pending" where
  "submitted_result env step ps = Awaits_approval (st_id step)
     (property_list_unsupported_advisories (Some (map pq_targeting ps)) (cb_filters_property_lists env))"

definition await_approval ::
    "booking_env \<Rightarrow> wf_context \<Rightarrow> workflow_step \<Rightarrow> (string \<times> string) list \<Rightarrow> string \<Rightarrow> unit bkg" where
  "await_approval env cx step comment message =
     tx_then (on_context (update_workflow_step (cb_manager env) (cb_fault env Approval_commit) (st_id step)
       (no_update\<lparr>su_status := Some ''requires_approval'', su_add_comment := comment\<rparr>) (cb_now env)))
     (on_context (\<lambda>(db, out). ((add_message (cx_id cx) ''assistant'' message (cb_now env) db, out), Inr ())))"

definition link_buy :: "booking_env \<Rightarrow> buyer \<Rightarrow> workflow_step \<Rightarrow> string \<Rightarrow> unit bkg" where
  "link_buy env who step mbid = on_context (\<lambda>(db, out).
     case link_workflow_to_object (cb_fault env Link_commit) (st_id step) ''media_buy'' mbid (Some ''create'')
       (Some (by_tenant who)) (cb_now env) db of
       Inl e \<Rightarrow> ((db, out), Inl e) | Inr db' \<Rightarrow> ((db', out), Inr ()))"

definition checked_package_of :: "package_request \<Rightarrow> checked_package" where
  "checked_package_of p = \<lparr>cp_product_id = Some (pq_product_id p), cp_creative_ids = pq_creative_ids p\<rparr>"

definition package_id_of :: "booking_env \<Rightarrow> package_request \<Rightarrow> nat \<Rightarrow> string" where
  "package_id_of env p i = ''pkg_'' @ pq_product_id p @ ''_'' @ cb_package_hex env i @ ''_'' @ nat_text (Suc i)"

definition json_num :: "rat option \<Rightarrow> json" where
  "json_num x = (case x of None \<Rightarrow> JNull | Some r \<Rightarrow> JNum r)"

definition json_ids :: "string list option \<Rightarrow> json" where
  "json_ids xs = (case xs of None \<Rightarrow> JNull | Some is \<Rightarrow> JList (map JStr is))"

text \<open>A package as the buyer asked for it, with its budget in the currency of its terms.\<close>

definition pending_config :: "string \<Rightarrow> package_request \<Rightarrow> json \<Rightarrow> string \<Rightarrow> (string \<times> json) list" where
  "pending_config k p terms currency =
     [(''package_id'', JStr k), (''paused'', JBool False), (''product_id'', JStr (pq_product_id p)),
      (''budget'', case pq_budget p of None \<Rightarrow> JNull | Some b \<Rightarrow> JObj [(''total'', JNum b),
        (''currency'', case jget terms ''currency'' of Some c \<Rightarrow> c | None \<Rightarrow> JStr currency)]),
      (''targeting_overlay'', case pq_targeting p of None \<Rightarrow> JNull | Some t \<Rightarrow> tg_document t),
      (''creative_ids'', json_ids (pq_creative_ids p)),
      (''format_ids'', case pq_format_ids p of None \<Rightarrow> JNull | Some fs \<Rightarrow> JList fs),
      (''pricing_info'', terms), (''impressions'', json_num (pq_impressions p))]"

definition terms_bid :: "json \<Rightarrow> rat option" where
  "terms_bid terms = (case jget terms ''bid_price'' of Some (JNum b) \<Rightarrow> Some b | _ \<Rightarrow> None)"

definition pending_package :: "string \<Rightarrow> string \<Rightarrow> package_request \<Rightarrow> json \<Rightarrow> string \<Rightarrow> media_package" where
  "pending_package mbid k p terms currency = \<lparr>mp_media_buy_id = mbid, mp_package_id = k, mp_budget = pq_budget p,
     mp_bid_price = terms_bid terms, mp_pacing = None, mp_package_config = JObj (pending_config k p terms currency)\<rparr>"

definition enumerated :: "'a list \<Rightarrow> (nat \<times> 'a) list" where
  "enumerated xs = zip [0..<length xs] xs"

definition add_packages :: "media_package list \<Rightarrow> update_db \<Rightarrow> update_db \<times> unit res" where
  "add_packages ps db = (case insert_packages ps db of Inl e \<Rightarrow> (db, Inl e) | Inr db' \<Rightarrow> (db', Inr ()))"

section \<open>Assignments\<close>

definition creative_ids_of :: "package_request list \<Rightarrow> string list" where
  "creative_ids_of ps = concat (map (\<lambda>p. given (pq_creative_ids p)) ps)"

definition assign_to_package :: "booking_env \<Rightarrow> buyer \<Rightarrow> string \<Rightarrow> string \<Rightarrow> string \<Rightarrow> update_db \<Rightarrow> update_db" where
  "assign_to_package env who mbid k cid db = assignment_create (by_tenant who) (cb_now env)
     (cb_uuid env (creative_assignments db)) mbid k cid (by_principal who) 100 None db"

text \<open>Those of the creatives that are found; the flush of the unit checks them.\<close>

definition assign_found :: "booking_env \<Rightarrow> buyer \<Rightarrow> string \<Rightarrow> string list \<Rightarrow> nat \<times> package_request \<Rightarrow> update_db \<Rightarrow> update_db" where
  "assign_found env who mbid found it db = (case it of (i, p) \<Rightarrow>
     fold (assign_to_package env who mbid (package_id_of env p i)) (filter (\<lambda>c. c \<in> set found) (given (pq_creative_ids p))) db)"

definition assign_pending :: "booking_env \<Rightarrow> buyer \<Rightarrow> string \<Rightarrow> package_request list \<Rightarrow> update_db \<Rightarrow> update_db \<times> unit res" where
  "assign_pending env who mbid ps db =
     (let found = map cr_creative_id (creative_get_by_ids (by_tenant who) db (creative_ids_of ps) (by_principal who));
          db' = fold (assign_found env who mbid found) (enumerated ps) db
      in (db', flush_creatives db'))"

section \<open>The approval branch\<close>

definition pending_args :: "booking_env \<Rightarrow> buyer \<Rightarrow> buy_request \<Rightarrow> checked_request \<Rightarrow> package_request list \<Rightarrow> create_args" where
  "pending_args env who req ck ps = (let mbid = ''mb_'' @ cb_media_buy_hex env in
     \<lparr>ca_seller_committed = False, ca_media_buy_id = mbid, ca_req = create_req_of req ps,
      ca_principal_id = by_principal who, ca_advertiser_name = by_name who, ca_budget = get_total_budget ps,
      ca_currency = or_str (Some (pp_currency (ck_priced ck))) ''USD'', ca_start_time = ck_start ck, ca_end_time = ck_end ck,
      ca_status = status_value PENDING_APPROVAL,
      ca_order_name = Some (mbid @ '' - '' @ take 10 (isoformat (wall_of (ck_start ck)))),
      ca_campaign_objective = None, ca_kpi_goal = None,
      ca_package_id_map = Some (map (\<lambda>(i, p). (i, package_id_of env p i)) (enumerated ps)), ca_by_alias = True,
      ca_created_at = Some (cb_now env), ca_account_id = Some (by_account who)\<rparr>)"

definition pending_packages :: "booking_env \<Rightarrow> checked_request \<Rightarrow> string \<Rightarrow> package_request list \<Rightarrow> media_package list" where
  "pending_packages env ck mbid ps = map (\<lambda>((i, p), terms).
     pending_package mbid (package_id_of env p i) p terms (pp_currency (ck_priced ck)))
     (zip (enumerated ps) (pp_pricing (ck_priced ck)))"

definition book_pending ::
    "booking_env \<Rightarrow> buyer \<Rightarrow> wf_context \<Rightarrow> workflow_step \<Rightarrow> buy_request \<Rightarrow> checked_request \<Rightarrow> package_request list
      \<Rightarrow> booking_pending bkg" where
  "book_pending env who cx step req ck ps = (let mbid = ''mb_'' @ cb_media_buy_hex env in
     tx_then (pre_validate_package_creatives env who step (map checked_package_of ps))
    (tx_then (await_approval env cx step
       [(''user'', ''system''), (''comment'', ''Manual approval required for media buy creation'')]
       (''Manual approval required. Workflow Step ID: '' @ st_id step @ ''. Context ID: '' @ cx_id cx))
    (tx_then (insert_buy env who (pending_args env who req ck ps))
    (tx_then (in_books env (change_tables (add_packages (pending_packages env ck mbid ps))))
    (tx_then (link_buy env who step mbid)
    (tx_then (in_books env (change_tables (assign_pending env who mbid ps)))
      (tx_return (submitted_result env step ps))))))))"

section \<open>The products of the order\<close>

text \<open>
  A product without a configuration for Google Ad Manager gets one, which is saved in the first row
  with the product's id, whatever its tenant.
\<close>

fun save_first_config :: "string \<Rightarrow> (string \<times> json) list \<Rightarrow> product_row list \<Rightarrow> product_row list" where
  "save_first_config i cfg [] = []"
| "save_first_config i cfg (p # ps) = (if prod_product_id p = i then p\<lparr>prod_implementation_config := Some cfg\<rparr> # ps
     else p # save_first_config i cfg ps)"

definition format_names :: "json list \<Rightarrow> string list" where
  "format_names fs = map (\<lambda>f. case jget f ''id'' of Some (JStr s) \<Rightarrow> s | _ \<Rightarrow> []) fs"

definition configure_product :: "booking_env \<Rightarrow> catalog_product \<Rightarrow> catalog_product bkg" where
  "configure_product env p = (if ct_implementation_config p \<noteq> [] then tx_return p
     else let cfg = generate_default_config (or_str (Some (ct_delivery_type p)) ''non_guaranteed'') (format_names (ct_format_ids p)) in
       tx_then (in_books env (change_tables (\<lambda>db.
         (db\<lparr>product_rows := save_first_config (ct_product_id p) cfg (product_rows db)\<rparr>, Inr ()))))
       (tx_return (p\<lparr>ct_implementation_config := cfg\<rparr>)))"

fun configure_products :: "booking_env \<Rightarrow> catalog_product list \<Rightarrow> (catalog_product list \<times> string list) bkg" where
  "configure_products env [] = tx_return ([], [])"
| "configure_products env (p # ps) =
     tx_bind (configure_product env p) (\<lambda>q.
     tx_bind (tx_try (\<lambda>_. validate_config (ct_implementation_config q))) (\<lambda>valid.
     tx_bind (configure_products env ps) (\<lambda>(qs, invalid).
       tx_return (q # qs, if valid then invalid else ct_product_id q # invalid))))"

definition order_products :: "booking_env \<Rightarrow> buyer \<Rightarrow> package_request list \<Rightarrow> catalog_product list bkg" where
  "order_products env who ps =
     tx_bind (in_books env (of_tables (get_product_catalog (cb_catalog env) (by_tenant who)))) (\<lambda>catalog.
     let wanted = filter (\<lambda>p. ct_product_id p \<in> set (get_product_ids ps)) catalog in
     if \<not> cb_google env then tx_return wanted
     else tx_bind (configure_products env wanted) (\<lambda>(configured, invalid).
       if invalid \<noteq> [] then tx_raise (AdCPValidationError []) else tx_return configured))"

definition auto_created :: "catalog_product \<Rightarrow> bool" where
  "auto_created p = (case map_of (ct_implementation_config p) ''auto_create_enabled'' of None \<Rightarrow> True | Some j \<Rightarrow> json_truthy j)"

text \<open>A product that is not created automatically: the step waits, and nothing is stored.\<close>

definition await_configuration ::
    "booking_env \<Rightarrow> wf_context \<Rightarrow> workflow_step \<Rightarrow> package_request list \<Rightarrow> booking_pending bkg" where
  "await_configuration env cx step ps =
     tx_then (await_approval env cx step []
       (''Media buy requires approval due to product configuration. Workflow Step ID: '' @ st_id step @
        ''. Context ID: '' @ cx_id cx))
     (tx_return (submitted_result env step ps))"

section \<open>The packages of the order\<close>

definition plain_format :: "json \<Rightarrow> json option \<Rightarrow> json option \<Rightarrow> json option \<Rightarrow> json" where
  "plain_format f w h d = (let v = (\<lambda>x. case x of Some j \<Rightarrow> j | None \<Rightarrow> JNull) in
     JObj [(''agent_url'', v (jget f ''agent_url'')), (''id'', v (jget f ''id'')), (''width'', v w), (''height'', v h),
       (''duration_ms'', v d)])"

definition format_field :: "json \<Rightarrow> string \<Rightarrow> json option" where
  "format_field f k = field_of (Some f) k"

text \<open>A format without dimensions takes those of the product's format of the same identity; the last one counts.\<close>

definition product_format :: "booking_env \<Rightarrow> json list \<Rightarrow> json \<Rightarrow> json option" where
  "product_format env supported f = (case cb_format_identity env f of None \<Rightarrow> None
     | Some k \<Rightarrow> find (\<lambda>g. cb_format_identity env g = Some k) (rev supported))"

definition merged_format :: "booking_env \<Rightarrow> json list \<Rightarrow> json \<Rightarrow> json" where
  "merged_format env supported f = (let w = format_field f ''width''; h = format_field f ''height''; d = format_field f ''duration_ms'' in
     if w \<noteq> None \<and> h \<noteq> None then plain_format f w h d
     else (case product_format env supported f of
         Some g \<Rightarrow> if format_field g ''width'' \<noteq> None \<or> format_field g ''height'' \<noteq> None
           then plain_format f (format_field g ''width'') (format_field g ''height'')
             (case format_field g ''duration_ms'' of Some x \<Rightarrow> Some x | None \<Rightarrow> d)
           else plain_format f w h d
       | None \<Rightarrow> plain_format f w h d))"

definition order_formats :: "booking_env \<Rightarrow> nat \<Rightarrow> package_request \<Rightarrow> catalog_product \<Rightarrow> json list res" where
  "order_formats env i p pr = (let fs = given (pq_format_ids p);
       known = List.map_filter (cb_format_identity env) (ct_format_ids pr)
     in if fs = [] then Inr (ct_format_ids pr)
        else if list_ex (\<lambda>f. case cb_format_identity env f of None \<Rightarrow> False | Some k \<Rightarrow> k \<notin> set known) fs
        then Inl (AdCPValidationError (package_field_path ''format_ids'' i))
        else Inr (map (merged_format env (ct_format_ids pr)) fs))"

text \<open>The rate of the product's first option, where its class has one, and the impressions of the whole budget.\<close>

definition order_cpm :: "booking_env \<Rightarrow> catalog_product \<Rightarrow> rat" where
  "order_cpm env pr = (case ct_pricing_options pr of [] \<Rightarrow> 10
     | co # _ \<Rightarrow> (case ct_rate (cb_catalog env) co of Some r \<Rightarrow> if r = 0 then 10 else r | None \<Rightarrow> 10))"

definition order_package_of ::
    "booking_env \<Rightarrow> rat \<Rightarrow> catalog_product list \<Rightarrow> nat \<times> package_request \<Rightarrow> order_package res" where
  "order_package_of env amount prs it = (case it of (i, p) \<Rightarrow>
     (case find (\<lambda>pr. ct_product_id pr = pq_product_id p) prs of
        None \<Rightarrow> Inl (AdCPProductNotFoundError [pq_product_id p])
      | Some pr \<Rightarrow> checked_then (order_formats env i p pr) (\<lambda>formats. let cpm = order_cpm env pr in
          Inr \<lparr>op_package_id = package_id_of env p i, op_name = ct_name pr, op_delivery_type = ct_delivery_type pr,
            op_cpm = cpm, op_impressions = py_int (amount / cpm * 1000), op_format_ids = formats,
            op_targeting = map_option tg_document (pq_targeting p), op_product_id = ct_product_id pr,
            op_budget = pq_budget p, op_creative_ids = pq_creative_ids p\<rparr>)))"

text \<open>\<open>AdapterCreateRequest.from_buyer_request\<close> of src/src/adapters/base.py.\<close>

definition from_buyer_request :: "buy_request \<Rightarrow> rat \<Rightarrow> create_carrier" where
  "from_buyer_request req amount = \<lparr>acr_brand = br_brand req,
     acr_po_number = (case br_po_number req of None \<Rightarrow> JNull | Some s \<Rightarrow> JStr s), acr_total_budget = amount,
     acr_already_approved = False,
     acr_push_notification_config = (case br_push_config req of None \<Rightarrow> JNull | Some d \<Rightarrow> JObj d)\<rparr>"

definition plan_of ::
    "buyer \<Rightarrow> buy_request \<Rightarrow> checked_request \<Rightarrow> rat \<Rightarrow> order_package list \<Rightarrow> order_plan" where
  "plan_of who req ck amount ops = \<lparr>pl_request = from_buyer_request req amount, pl_packages = ops,
     pl_start = ck_start ck, pl_end = ck_end ck, pl_pricing = zip (map op_package_id ops) (pp_pricing (ck_priced ck)),
     pl_principal = by_principal who, pl_account = by_account who\<rparr>"

section \<open>The order and its row\<close>

definition plan_booking ::
    "booking_env \<Rightarrow> buyer \<Rightarrow> workflow_step \<Rightarrow> buy_request \<Rightarrow> checked_request \<Rightarrow> package_request list
      \<Rightarrow> catalog_product list \<Rightarrow> order_plan bkg" where
  "plan_booking env who step req ck ps prs =
     tx_bind (tx_try (\<lambda>_. check_each (order_package_of env (get_total_budget ps) prs) (enumerated ps))) (\<lambda>ops.
     let plan = plan_of who req ck (get_total_budget ps) ops in
     tx_then (pre_validate_package_creatives env who step (map checked_of ops))
    (tx_bind (tx_try (\<lambda>_. cb_problems env plan)) (\<lambda>problems.
     if problems \<noteq> [] then fail_and_raise env step ''Adapter validation failed'' (AdCPValidationError [])
     else tx_return plan)))"

definition place_booking :: "booking_env \<Rightarrow> order_plan \<Rightarrow> create_result bkg" where
  "place_booking env plan = tx_then (on_books (get_adapter (cb_books env)))
     (on_books (ask_adapter (Create_order plan) (ae_create (cb_books env))))"

definition names_creatives :: "package_request list \<Rightarrow> bool" where
  "names_creatives ps = list_ex (\<lambda>p. given (pq_creative_ids p) \<noteq> []) ps"

text \<open>Creatives of the request count as not yet approved.\<close>

definition booked_status :: "booking_env \<Rightarrow> checked_request \<Rightarrow> package_request list \<Rightarrow> media_buy_status" where
  "booked_status env ck ps = determine_media_buy_status False (names_creatives ps) (\<not> names_creatives ps)
     (ck_start ck) (ck_end ck) (cb_now env)"

definition booked_args ::
    "booking_env \<Rightarrow> buyer \<Rightarrow> buy_request \<Rightarrow> checked_request \<Rightarrow> package_request list \<Rightarrow> string \<Rightarrow> create_args" where
  "booked_args env who req ck ps mbid = \<lparr>ca_seller_committed = True, ca_media_buy_id = mbid, ca_req = create_req_of req ps,
     ca_principal_id = by_principal who, ca_advertiser_name = by_name who, ca_budget = get_total_budget ps,
     ca_currency = pp_currency (ck_priced ck), ca_start_time = ck_start ck, ca_end_time = ck_end ck,
     ca_status = status_value (booked_status env ck ps), ca_order_name = None, ca_campaign_objective = Some [],
     ca_kpi_goal = Some [], ca_package_id_map = None, ca_by_alias = False, ca_created_at = None,
     ca_account_id = Some (by_account who)\<rparr>"

section \<open>The packages as the adapter answered them\<close>

definition attr_of :: "response_package \<Rightarrow> string \<Rightarrow> json" where
  "attr_of r k = (case map_of (rp_attrs r) k of Some j \<Rightarrow> j | None \<Rightarrow> JNull)"

definition decimal_of :: "booking_env \<Rightarrow> json \<Rightarrow> rat option res" where
  "decimal_of env j = (case j of JNull \<Rightarrow> Inr None | JNum x \<Rightarrow> Inr (Some x)
     | JStr s \<Rightarrow> (case ct_float (cb_catalog env) s of Some x \<Rightarrow> Inr (Some x) | None \<Rightarrow> Inl (OtherException ''InvalidOperation''))
     | _ \<Rightarrow> Inl (OtherException ''InvalidOperation''))"

definition answered_budget :: "booking_env \<Rightarrow> json \<Rightarrow> rat option res" where
  "answered_budget env j = (if \<not> json_truthy j then Inr None else (case j of
     JObj kvs \<Rightarrow> decimal_of env (case map_of kvs ''total'' of Some t \<Rightarrow> t | None \<Rightarrow> JNull)
   | JNum x \<Rightarrow> Inr (Some x) | JBool b \<Rightarrow> Inr (Some 1) | _ \<Rightarrow> Inr None))"

definition answered_pacing :: "json \<Rightarrow> string option" where
  "answered_pacing j = (case jget j ''pacing'' of Some (JStr s) \<Rightarrow> Some s | _ \<Rightarrow> None)"

definition answered_config :: "order_plan \<Rightarrow> package_request list \<Rightarrow> nat \<Rightarrow> response_package \<Rightarrow> (string \<times> json) list" where
  "answered_config plan ps i r =
     [(''package_id'', JStr (rp_package_id r)), (''name'', attr_of r ''name''), (''product_id'', attr_of r ''product_id''),
      (''budget'', attr_of r ''budget''), (''targeting_overlay'', attr_of r ''targeting_overlay''),
      (''creative_ids'', attr_of r ''creative_ids''), (''creative_assignments'', attr_of r ''creative_assignments''),
      (''format_ids_to_provide'', attr_of r ''format_ids_to_provide''), (''paused'', JBool (rp_paused r)),
      (''pricing_info'', case map_of (pl_pricing plan) (rp_package_id r) of Some t \<Rightarrow> t | None \<Rightarrow> JNull),
      (''impressions'', if i < length ps then json_num (pq_impressions (ps ! i)) else JNull)]"

definition answered_package ::
    "booking_env \<Rightarrow> string \<Rightarrow> order_plan \<Rightarrow> package_request list \<Rightarrow> nat \<times> response_package \<Rightarrow> media_package res" where
  "answered_package env mbid plan ps it = (case it of (i, r) \<Rightarrow>
     if rp_package_id r = [] then Inl (AdCPAdapterError [])
     else checked_then (answered_budget env (attr_of r ''budget'')) (\<lambda>b.
       Inr \<lparr>mp_media_buy_id = mbid, mp_package_id = rp_package_id r, mp_budget = b,
         mp_bid_price = (case map_of (pl_pricing plan) (rp_package_id r) of Some t \<Rightarrow> terms_bid t | None \<Rightarrow> None),
         mp_pacing = answered_pacing (attr_of r ''budget''),
         mp_package_config = JObj (answered_config plan ps i r)\<rparr>))"

definition save_packages ::
    "booking_env \<Rightarrow> buyer \<Rightarrow> order_plan \<Rightarrow> package_request list \<Rightarrow> create_result \<Rightarrow> unit bkg" where
  "save_packages env who plan ps resp = (let mbid = rs_media_buy_id resp in in_books env (
     tx_bind (tx_try (\<lambda>_. check_each (answered_package env mbid plan ps) (enumerated (rs_packages resp)))) (\<lambda>rows.
     tx_then (change_tables (add_packages rows))
       (tx_when (mbid \<noteq> []) (on_books (persist_adapter_package_ids (by_tenant who) mbid mbid (rs_line_item_ids resp)))))))"

section \<open>The creatives of the order\<close>

fun comma_joined :: "string list \<Rightarrow> string" where
  "comma_joined [] = []"
| "comma_joined [x] = x"
| "comma_joined (x # xs) = x @ '', '' @ comma_joined xs"

definition found_creatives :: "buyer \<Rightarrow> package_request list \<Rightarrow> update_db \<Rightarrow> creative_row list" where
  "found_creatives who ps db = creative_get_by_ids (by_tenant who) db (creative_ids_of ps) (by_principal who)"

definition missing_creatives :: "buyer \<Rightarrow> package_request list \<Rightarrow> update_db \<Rightarrow> string list" where
  "missing_creatives who ps db = sort (remdups (filter (\<lambda>i. i \<notin> set (map cr_creative_id (found_creatives who ps db)))
     (creative_ids_of ps)))"

definition check_found :: "booking_env \<Rightarrow> buyer \<Rightarrow> workflow_step \<Rightarrow> package_request list \<Rightarrow> unit bkg" where
  "check_found env who step ps =
     tx_bind (of_tables (\<lambda>db. Inr (missing_creatives who ps db))) (\<lambda>missing.
     if missing = [] then tx_return ()
     else fail_and_raise env step (''Creative IDs not found: '' @ comma_joined missing)
       (AdCPCreativeNotFoundError missing ''packages''))"

text \<open>\<open>validate_creative_format_against_product\<close>; the identity of a stored creative's format may not exist.\<close>

definition format_fits :: "booking_env \<Rightarrow> creative_row \<Rightarrow> product_row \<Rightarrow> bool res" where
  "format_fits env c pr = (let supported = List.map_filter (cb_format_identity env) (prod_format_ids pr) in
     if supported = [] then Inr True
     else if cr_agent_url c = [] \<or> cr_format c = [] then Inr False
     else (case cb_format_identity env (JObj [(''agent_url'', JStr (cr_agent_url c)), (''id'', JStr (cr_format c))]) of
         None \<Rightarrow> Inl ValueError | Some k \<Rightarrow> Inr (k \<in> set supported)))"

definition check_format :: "booking_env \<Rightarrow> workflow_step \<Rightarrow> product_row \<Rightarrow> creative_row \<Rightarrow> unit bkg" where
  "check_format env step pr c = tx_bind (tx_try (\<lambda>_. format_fits env c pr)) (\<lambda>fits.
     if fits then tx_return () else fail_and_raise env step (cb_format_error env c pr) (AdCPValidationError []))"

definition check_package_formats ::
    "booking_env \<Rightarrow> buyer \<Rightarrow> workflow_step \<Rightarrow> package_request list \<Rightarrow> package_request \<Rightarrow> unit bkg" where
  "check_package_formats env who step ps p = tx_when (given (pq_creative_ids p) \<noteq> [] \<and> pq_product_id p \<noteq> [])
     (tx_bind (of_tables (\<lambda>db. Inr (get_product_by_id (by_tenant who) db (pq_product_id p), found_creatives who ps db))) (\<lambda>(pr, cs).
      case pr of None \<Rightarrow> tx_return ()
      | Some r \<Rightarrow> tx_each (\<lambda>_. check_format env step r) (List.map_filter
          (\<lambda>i. find (\<lambda>c. cr_creative_id c = i) cs) (given (pq_creative_ids p)))))"

text \<open>A creative that is not on the ad server yet is uploaded, unless it awaits review.\<close>

definition upload_creative :: "booking_env \<Rightarrow> string \<Rightarrow> string \<Rightarrow> creative_row \<Rightarrow> json option bkg" where
  "upload_creative env mbid k c =
     tx_bind (tx_try (\<lambda>_. build_adapter_asset (ae_creatives (cb_books env)) c [(k, 100)])) (\<lambda>built. case built of
       Inl err \<Rightarrow> tx_raise (AdCPValidationError [])
     | Inr asset \<Rightarrow>
         tx_bind (on_books (ask_adapter (Add_assets mbid [asset] (cb_now env)) (ae_upload (cb_books env)))) (\<lambda>sts. case sts of
           [] \<Rightarrow> tx_return None
         | st # _ \<Rightarrow> tx_bind (tx_try (\<lambda>_. apply_creative_enrichment c st)) (\<lambda>merged.
             tx_then (case merged of None \<Rightarrow> tx_return () | Some d \<Rightarrow> change_tables (\<lambda>db. (update_data c d db, Inr ())))
            (tx_bind (tx_try (\<lambda>_. data_of (case merged of None \<Rightarrow> cr_data c | Some d \<Rightarrow> d))) (\<lambda>data.
             tx_return (if has_value ''platform_creative_id'' data then map_of data ''platform_creative_id'' else None))))))"

definition platform_creative :: "booking_env \<Rightarrow> string \<Rightarrow> string \<Rightarrow> creative_row \<Rightarrow> json option bkg" where
  "platform_creative env mbid k c = tx_bind (tx_try (\<lambda>_. data_of (cr_data c))) (\<lambda>data.
     if has_value ''platform_creative_id'' data then tx_return (map_of data ''platform_creative_id'')
     else if cr_status c = ''pending_review'' then tx_return None
     else tx_catch (upload_creative env mbid k c) (\<lambda>e. tx_raise (if is_adcp_error e then e else AdCPAdapterError [])))"

fun attach_each ::
    "booking_env \<Rightarrow> buyer \<Rightarrow> string \<Rightarrow> string \<Rightarrow> package_request list \<Rightarrow> string list \<Rightarrow> json list bkg" where
  "attach_each env who mbid k ps [] = tx_return []"
| "attach_each env who mbid k ps (cid # cids) =
     tx_bind (of_tables (\<lambda>db. Inr (find (\<lambda>c. cr_creative_id c = cid) (found_creatives who ps db)))) (\<lambda>found.
     tx_bind (case found of None \<Rightarrow> tx_return None
       | Some c \<Rightarrow> tx_bind (platform_creative env mbid k c) (\<lambda>i.
           tx_then (change_tables (\<lambda>db. (assign_to_package env who mbid k cid db, Inr ()))) (tx_return i))) (\<lambda>i.
     tx_bind (attach_each env who mbid k ps cids) (\<lambda>is. tx_return (case i of None \<Rightarrow> is | Some j \<Rightarrow> j # is))))"

definition associate :: "booking_env \<Rightarrow> response_package \<Rightarrow> json list \<Rightarrow> unit bkg" where
  "associate env r is = (case attr_of r ''platform_line_item_id'' of
     JStr li \<Rightarrow> tx_when (li \<noteq> [] \<and> is \<noteq> [])
       (tx_catch (on_books (ask_adapter (Associate_creatives [li] is) (cb_associate env))) (\<lambda>_. tx_return ()))
   | _ \<Rightarrow> tx_return ())"

definition answered_at :: "create_result \<Rightarrow> nat \<Rightarrow> response_package option" where
  "answered_at resp i = (if i < length (rs_packages resp) \<and> rp_package_id (rs_packages resp ! i) \<noteq> []
     then Some (rs_packages resp ! i) else None)"

definition attach_package ::
    "booking_env \<Rightarrow> buyer \<Rightarrow> create_result \<Rightarrow> package_request list \<Rightarrow> nat \<Rightarrow> package_request \<Rightarrow> unit bkg" where
  "attach_package env who resp ps i p = tx_when (given (pq_creative_ids p) \<noteq> [])
     (case answered_at resp i of None \<Rightarrow> tx_raise (AdCPAdapterError [])
      | Some r \<Rightarrow> tx_bind (attach_each env who (rs_media_buy_id resp) (rp_package_id r) ps (given (pq_creative_ids p))) (\<lambda>is.
          tx_then (of_tables flush_creatives) (associate env r is)))"

definition attach_creatives ::
    "booking_env \<Rightarrow> buyer \<Rightarrow> workflow_step \<Rightarrow> create_result \<Rightarrow> package_request list \<Rightarrow> unit bkg" where
  "attach_creatives env who step resp ps = in_books env (
     tx_then (check_found env who step ps)
    (tx_then (tx_each (\<lambda>_. check_package_formats env who step ps) ps)
      (tx_each (attach_package env who resp ps) ps)))"

section \<open>The answer\<close>

record booked_package =
  bp_package_id :: string
  bp_paused :: bool
  bp_request :: package_request

record booking_success =
  bs_media_buy_id :: string
  bs_packages :: "booked_package list"
  bs_confirmed_at :: "instant option"
  bs_revision :: int
  bs_status :: media_buy_status
  bs_valid_actions :: "string list"
  bs_errors :: "string list option"

datatype booking_result =
    Booking_submitted booking_pending
  | Booked booking_success

definition echo_package :: "create_result \<Rightarrow> nat \<times> package_request \<Rightarrow> booked_package res" where
  "echo_package resp it = (case it of (i, p) \<Rightarrow> (case answered_at resp i of
     None \<Rightarrow> Inl (AdCPAdapterError [])
   | Some r \<Rightarrow> Inr \<lparr>bp_package_id = rp_package_id r, bp_paused = rp_paused r, bp_request = p\<rparr>))"

definition success_result ::
    "booking_env \<Rightarrow> checked_request \<Rightarrow> package_request list \<Rightarrow> create_result \<Rightarrow> media_buy \<Rightarrow> booked_package list \<Rightarrow> booking_success" where
  "success_result env ck ps resp row bps = \<lparr>bs_media_buy_id = rs_media_buy_id resp, bs_packages = bps,
     bs_confirmed_at = mb_confirmed_at row, bs_revision = mb_revision row, bs_status = booked_status env ck ps,
     bs_valid_actions = cb_valid_actions env (status_value (booked_status env ck ps)),
     bs_errors = property_list_unsupported_advisories (Some (map pq_targeting ps)) (cb_filters_property_lists env)\<rparr>"

definition complete_step :: "booking_env \<Rightarrow> workflow_step \<Rightarrow> unit bkg" where
  "complete_step env step = on_context (update_workflow_step (cb_manager env) (cb_fault env Done_commit) (st_id step)
     (no_update\<lparr>su_status := Some ''completed''\<rparr>) (cb_now env))"

definition after_booking ::
    "booking_env \<Rightarrow> buyer \<Rightarrow> workflow_step \<Rightarrow> buy_request \<Rightarrow> checked_request \<Rightarrow> package_request list \<Rightarrow> order_plan
      \<Rightarrow> create_result \<Rightarrow> booking_success bkg" where
  "after_booking env who step req ck ps plan resp =
     tx_bind (insert_buy env who (booked_args env who req ck ps (rs_media_buy_id resp))) (\<lambda>row.
     tx_then (save_packages env who plan ps resp)
    (tx_then (attach_creatives env who step resp ps)
    (tx_bind (tx_try (\<lambda>_. check_each (echo_package resp) (enumerated ps))) (\<lambda>bps.
     tx_then (link_buy env who step (rs_media_buy_id resp))
    (tx_then (complete_step env step)
      (tx_return (success_result env ck ps resp row bps)))))))"

definition book_order ::
    "booking_env \<Rightarrow> buyer \<Rightarrow> workflow_step \<Rightarrow> buy_request \<Rightarrow> checked_request \<Rightarrow> package_request list
      \<Rightarrow> catalog_product list \<Rightarrow> booking_success bkg" where
  "book_order env who step req ck ps prs =
     tx_bind (plan_booking env who step req ck ps prs) (\<lambda>plan.
     tx_bind (place_booking env plan) (after_booking env who step req ck ps plan))"

section \<open>The tool\<close>

definition approval_required :: "booking_env \<Rightarrow> bool" where
  "approval_required env = ((cb_human_review env \<or> cb_adapter_manual env) \<and>
     ''create_media_buy'' \<in> set (cb_manual_operations env))"

definition book ::
    "booking_env \<Rightarrow> buyer \<Rightarrow> wf_context \<Rightarrow> workflow_step \<Rightarrow> buy_request \<Rightarrow> checked_request \<Rightarrow> booking_result bkg" where
  "book env who cx step req ck =
     tx_bind (upload_inline_creatives env step (pp_packages (ck_priced ck))) (\<lambda>ps.
     tx_then (on_books (get_adapter (cb_books env)))
    (if approval_required env
     then tx_bind (book_pending env who cx step req ck ps) (\<lambda>r. tx_return (Booking_submitted r))
     else tx_bind (order_products env who ps) (\<lambda>prs.
       if list_all auto_created prs
       then tx_bind (book_order env who step req ck ps prs) (\<lambda>r. tx_return (Booked r))
       else tx_bind (await_configuration env cx step ps) (\<lambda>r. tx_return (Booking_submitted r)))))"

text \<open>Whatever is raised is audited; what is not an error of the protocol becomes one of the adapter.\<close>

definition audited_booking :: "booking_env \<Rightarrow> workflow_step \<Rightarrow> 'a bkg \<Rightarrow> 'a bkg" where
  "audited_booking env step body = tx_catch body (\<lambda>e. tx_then (audit_failure env step e)
     (tx_raise (if is_adcp_error e then e else AdCPAdapterError [])))"

definition create_media_buy_impl :: "booking_env \<Rightarrow> buyer \<Rightarrow> buy_request \<Rightarrow> booking_result bkg" where
  "create_media_buy_impl env who req =
     tx_bind (open_booking env who req) (\<lambda>(cx, step).
     tx_bind (checked_booking env who step req) (\<lambda>ck.
       audited_booking env step (book env who cx step req ck)))"

end
