(* ===== verification/Approval_Properties.thy ===== *)
theory Approval_Properties
  imports Approval
begin

text \<open>
  What an approval keeps and promises. Locales state once which effects a call can have: those of
  a unit of work, with the writes and calls that follow an order, with the status of the buy, and with
  the order itself. They are interpreted for the calls made, the tables, other tenants and the rows of
  the buy.
\<close>

section \<open>The contract of the effects\<close>

text \<open>
  An invariant kept by each effect that placing an order has on the tables and the calls is kept by
  the whole; with the status writes, by every approval.
\<close>

definition is_create :: "ad_call \<Rightarrow> bool" where
  "is_create c = (case c of Create_order plan \<Rightarrow> True | _ \<Rightarrow> False)"

lemma is_create_simps [simp]: "is_create (Create_order plan)" "\<not> is_create (Add_assets i as t)" "\<not> is_create (Approve_order i)"
  "\<not> is_create (Associate_creatives ls cs)"
  by (simp_all add: is_create_def)

lemma k_from_db [keeps_rules]: "keeps I (from_db f)"
  unfolding from_db_def by (rule keeps_read)

lemma keeps_from_db: "(\<And>s. I s \<Longrightarrow> keeps I (f (g (ap_view s)))) \<Longrightarrow> keeps I (tx_bind (from_db g) f)"
  by (auto simp: keeps_def tx_bind_def from_db_def tx_read_def)

lemma k_get_adapter [keeps_rules]: "keeps I (get_adapter env)"
  unfolding get_adapter_def by (rule keeps_try)

lemma keeps_on_db: "(\<And>s. I s \<Longrightarrow> I (s\<lparr>ap_view := fst (f (ap_view s))\<rparr>)) \<Longrightarrow> keeps I (on_db f)"
  by (auto simp: keeps_def on_db_def split: prod.splits) (metis fst_conv)

locale unit_effects =
  fixes I :: "approval_state \<Rightarrow> bool" and env :: approval_env
  assumes begins: "I s \<Longrightarrow> I (s\<lparr>ap_view := ap_saved s\<rparr>)"
    and commits: "I s \<Longrightarrow> I (s\<lparr>ap_commits := n, ap_saved := ap_view s\<rparr>)"
    and faults: "I s \<Longrightarrow> I (s\<lparr>ap_commits := n, ap_view := ap_saved s\<rparr>)"
begin

lemma k_commit [keeps_rules]: "keeps I (commit_view env)"
  by (auto simp: keeps_def commit_view_def Let_def intro: commits faults)

lemma k_uow [keeps_rules]:
  assumes "keeps I m"
  shows "keeps I (in_uow env m)"
  unfolding keeps_def
proof (intro allI impI)
  fix s assume "I s"
  obtain s1 r where m: "m (s\<lparr>ap_view := ap_saved s\<rparr>) = (s1, r)" by fastforce
  from keepsD' [OF assms begins [OF \<open>I s\<close>] m] have "I s1" .
  with m begins [OF this] keepsD [OF k_commit this] show "I (fst (in_uow env m s))"
    by (cases r; cases "commit_view env s1"; cases "snd (commit_view env s1)") (auto simp: in_uow_def)
qed

end

locale order_effects =
  fixes I :: "approval_state \<Rightarrow> bool" and tenant :: string
  assumes asks: "I s \<Longrightarrow> \<not> is_create c \<Longrightarrow> I (s\<lparr>ap_calls := ap_calls s @ [c]\<rparr>)"
    and config: "I s \<Longrightarrow> I s0 \<Longrightarrow> p \<in> set (get_packages tenant (ap_view s0) i) \<Longrightarrow>
      I (s\<lparr>ap_view := write_package (ap_view s) (p\<lparr>mp_package_config := cfg\<rparr>)\<rparr>)"
    and data: "I s \<Longrightarrow> cr_tenant_id row = tenant \<Longrightarrow> I (s\<lparr>ap_view := update_data row d (ap_view s)\<rparr>)"
begin

lemma k_ask [keeps_rules]: "\<not> is_create c \<Longrightarrow> keeps I (ask_adapter c f)"
  using asks by (simp add: keeps_def ask_adapter_def)

lemma k_put_package: "I s0 \<Longrightarrow> p \<in> set (get_packages tenant (ap_view s0) i) \<Longrightarrow> keeps I (put_package_id k new p)"
  unfolding put_package_id_def by (rule keeps_on_db) (auto split: sum.split intro: config)

lemma k_line_item: "keeps I (put_line_item_id tenant mbid it)"
  unfolding put_line_item_id_def
  by (cases it) (auto intro!: keeps_from_db keeps_case_option keeps_return k_put_package get_package_in)

lemma k_persist [keeps_rules]: "keeps I (persist_adapter_package_ids tenant mbid new items)"
  unfolding persist_adapter_package_ids_def
  by (rule keeps_from_db) (auto intro!: keeps_then keeps_each k_line_item intro: k_put_package)

lemma k_enrich [keeps_rules]: "keeps I (enrich_creative tenant pid ids st)"
  unfolding enrich_creative_def
  by (intro keeps_if keeps_return keeps_from_db keeps_case_option keeps_on_db)
    (auto simp: get_by_ids_iff split: sum.split option.split dest!: find_SomeD intro: data)

lemma k_upload [keeps_rules]: "keeps I (upload_assets env tenant pid ids oid assets)"
  unfolding upload_assets_def by (intro keeps_rules) simp

lemma k_settle [keeps_rules]: "keeps I (settle_push tenant cid sts)"
  unfolding settle_push_def
  by (intro keeps_case_option keeps_if keeps_return keeps_from_db keeps_bind keeps_on_db)
    (auto simp: admin_get_by_id_def split: sum.split option.split dest!: find_SomeD intro: data)

lemma k_ask_upload [keeps_rules]: "keeps I (ask_upload env tenant cid oid a)"
  unfolding ask_upload_def by (intro keeps_rules) simp

lemma k_push_unit [keeps_rules]: "keeps I (push_unit env cid mbid tenant)"
  unfolding push_unit_def by (intro keeps_rules)

end

locale order_units = unit_effects + order_effects
begin

lemma k_push [keeps_rules]: "keeps I (push_creative_to_existing_buy env cid mbid tenant)"
  unfolding push_creative_to_existing_buy_def by (intro keeps_rules)

end

locale status_effects = order_effects +
  fixes env :: approval_env and mbid :: string
  assumes status: "I s \<Longrightarrow> I (s\<lparr>ap_view := fst (update_status tenant (ae_now env) (ap_view s) mbid v comm a b)\<rparr>)"
begin

lemma k_status [keeps_rules]: "keeps I (on_db (\<lambda>db. update_status tenant (ae_now env) db mbid v comm a b))"
  by (rule keeps_on_db) (rule status)

lemma k_swallow [keeps_rules]: "keeps I (swallow_database_error r x)"
  unfolding swallow_database_error_def by (intro keeps_rules)

lemma k_mark_here [keeps_rules]: "keeps I (mark_failed_here env tenant mbid e)"
  unfolding mark_failed_here_def write_failed_def by (intro keeps_rules)

lemma k_or_mark [keeps_rules]: "keeps I m \<Longrightarrow> keeps I (or_mark_failed env tenant mbid err m)"
  unfolding or_mark_failed_def by (intro keeps_rules)

lemma k_upload_unit [keeps_rules]: "keeps I (upload_unit env tenant mbid pid oid)"
  unfolding upload_unit_def Let_def by (auto intro!: keeps_rules)

lemma k_write [keeps_rules]: "keeps I (write_commitment env tenant mbid a b)"
  unfolding write_commitment_def by (intro keeps_rules)

end

locale approval_units = unit_effects + status_effects
begin

lemma k_mark [keeps_rules]: "keeps I (mark_failed env tenant mbid e)"
  unfolding mark_failed_def write_failed_def by (intro keeps_rules)

lemma k_approve_order [keeps_rules]: "keeps I (approve_order env tenant mbid oid)"
  unfolding approve_order_def by (intro keeps_rules) simp

lemma k_after [keeps_rules]: "keeps I (after_order env tenant mbid a b plan resp)"
  unfolding after_order_def by (intro keeps_rules)

lemma k_first [keeps_rules]: "keeps I (first_unit env tenant mbid a b)"
  unfolding first_unit_def hold_def by (intro keeps_rules)

lemma k_before [keeps_rules]: "keeps I (before_adapter env tenant mbid a b)"
  unfolding before_adapter_def by (intro keeps_rules)

end

locale approval_effects = approval_units +
  assumes creates: "I s \<Longrightarrow> I (s\<lparr>ap_calls := ap_calls s @ [Create_order plan]\<rparr>)"
begin

lemma k_create [keeps_rules]: "keeps I (ask_adapter (Create_order plan) f)"
  using creates by (simp add: keeps_def ask_adapter_def)

lemma k_place [keeps_rules]: "keeps I (place_order env tenant mbid a b plan)"
  unfolding place_order_def by (intro keeps_rules)

lemma k_execute [keeps_rules]: "keeps I (execute_approved_media_buy env mbid tenant a b)"
  unfolding execute_approved_media_buy_def by (intro keeps_rules)

end

section \<open>An approval always answers\<close>

lemma commit_view_raises: "commit_view env s = (s', Inl e) \<Longrightarrow> e = operational_error"
  by (auto simp: commit_view_def Let_def split: if_splits)

lemma parse_failed [simp]: "parse_status (Some (status_value m)) i = Inr m"
  by simp

lemma write_failed_raises: "write_failed env tenant mbid s = (s', Inl e) \<Longrightarrow> e = IntegrityError"
  by (auto simp: write_failed_def on_db_def update_status_def flush_media_buy_def Let_def
      simp del: status_value.simps split: prod.splits option.splits if_splits)

lemma uow_write_failed_raises: "in_uow env (write_failed env tenant mbid) s = (s', Inl e) \<Longrightarrow> is_database_error e"
  by (auto simp: in_uow_def is_database_error_def dest: write_failed_raises commit_view_raises split: prod.splits sum.splits)

lemma mark_failed_result: "mark_failed env tenant mbid e s = (s', r) \<Longrightarrow> r = Inr (failed_result e)"
  by (auto simp: mark_failed_def tx_then_def tx_bind_def tx_return_def swallow_database_error_def
      dest: uow_write_failed_raises elim!: tx_catch_cases split: prod.splits sum.splits if_splits)

lemma mark_here_result: "mark_failed_here env tenant mbid e s = (s', r) \<Longrightarrow> r = Inr (failed_result e)"
  by (auto simp: mark_failed_here_def tx_then_def tx_bind_def tx_return_def swallow_database_error_def is_database_error_def
      dest: write_failed_raises elim!: tx_catch_cases split: prod.splits sum.splits if_splits)

lemma answers_mark: "answers (mark_failed env tenant mbid e)"
  unfolding answers_def by (metis mark_failed_result is_ok_simps(1) prod.collapse)

lemma answers_case_sum: "(\<And>a. x = Inl a \<Longrightarrow> answers (f a)) \<Longrightarrow> (\<And>b. x = Inr b \<Longrightarrow> answers (g b)) \<Longrightarrow>
    answers (case x of Inl a \<Rightarrow> f a | Inr b \<Rightarrow> g b)"
  by (cases x) auto

lemma answers_execute: "answers (execute_approved_media_buy env mbid tenant by whn)"
  unfolding execute_approved_media_buy_def
  by (auto intro!: answers_bind answers_catch answers_return answers_case_sum answers_mark)


section \<open>Calls\<close>

interpretation same_calls: unit_effects "\<lambda>s. ap_calls s = cs" env for cs env
  by unfold_locales auto

interpretation more_calls: approval_effects "\<lambda>s. prefix cs (ap_calls s)" env tenant mbid for cs env tenant mbid
  by unfold_locales auto

text \<open>Everything but the order itself.\<close>

interpretation same_orders: approval_units "\<lambda>s. filter is_create (ap_calls s) = os" env tenant mbid for os env tenant mbid
  by unfold_locales auto

lemma first_unit_calls: "keeps (\<lambda>s. ap_calls s = cs) (first_unit env tenant mbid a b)"
  unfolding first_unit_def hold_def
  by (intro keeps_rules k_from_db same_calls.k_commit keeps_on_db) auto

lemma before_adapter_calls: "before_adapter env tenant mbid a b s = (s', r) \<Longrightarrow> ap_calls s' = ap_calls s"
proof -
  have "keeps (\<lambda>s. ap_calls s = cs) (before_adapter env tenant mbid a b)" for cs
    unfolding before_adapter_def by (intro keeps_rules same_calls.k_uow first_unit_calls)
  then show "before_adapter env tenant mbid a b s = (s', r) \<Longrightarrow> ap_calls s' = ap_calls s"
    by (rule keepsD') simp_all
qed

text \<open>The outcomes of an approval.\<close>

lemma execute_cases:
  assumes "execute_approved_media_buy env mbid tenant b a s = (s', Inr r)"
  obtains (raised) e where "before_adapter env tenant mbid a b s = (s', Inl e)"
      "r = failed_result (if is_persisted_state_error e then Persisted_state_refused e else Adapter_creation_failed e)"
  | (ended) "before_adapter env tenant mbid a b s = (s', Inr (Inl r))"
  | (placed) s1 plan where "before_adapter env tenant mbid a b s = (s1, Inr (Inr plan))"
      "place_order env tenant mbid a b plan s1 = (s', Inr r)"
  | (refused) s1 plan e where "before_adapter env tenant mbid a b s = (s1, Inr (Inr plan))"
      "place_order env tenant mbid a b plan s1 = (s', Inl e)" "is_persisted_state_error e"
      "r = failed_result (Persisted_state_refused e)"
  | (marked) s1 plan s2 e where "before_adapter env tenant mbid a b s = (s1, Inr (Inr plan))"
      "place_order env tenant mbid a b plan s1 = (s2, Inl e)"
      "mark_failed env tenant mbid (Adapter_creation_failed e) s2 = (s', Inr r)" "r = failed_result (Adapter_creation_failed e)"
proof -
  from assms obtain s1 x where x: "tx_catch (before_adapter env tenant mbid a b) (\<lambda>e. tx_return (Inl (failed_result
        (if is_persisted_state_error e then Persisted_state_refused e else Adapter_creation_failed e)))) s = (s1, Inr x)"
    and y: "(case x of Inl res \<Rightarrow> tx_return res
      | Inr plan \<Rightarrow> tx_catch (place_order env tenant mbid a b plan) (\<lambda>e.
         if is_persisted_state_error e then tx_return (failed_result (Persisted_state_refused e))
         else mark_failed env tenant mbid (Adapter_creation_failed e))) s1 = (s', Inr r)"
    unfolding execute_approved_media_buy_def by (elim tx_bind_Inr)
  show thesis
  proof (cases x)
    case (Inl res)
    with x y show ?thesis
      by (elim tx_catch_cases) (auto simp: tx_return_def intro: ended dest: raised)
  next
    case (Inr plan)
    with x have p: "before_adapter env tenant mbid a b s = (s1, Inr (Inr plan))"
      by (elim tx_catch_cases) (auto simp: tx_return_def)
    from y Inr show ?thesis
    proof (simp, elim tx_catch_cases)
      fix z assume "place_order env tenant mbid a b plan s1 = (s', Inr z)" "Inr r = Inr z"
      with p show ?thesis by (auto intro: placed)
    next
      fix e s2 assume "place_order env tenant mbid a b plan s1 = (s2, Inl e)"
        "(if is_persisted_state_error e then tx_return (failed_result (Persisted_state_refused e))
         else mark_failed env tenant mbid (Adapter_creation_failed e)) s2 = (s', Inr r)"
      with p show ?thesis
        by (auto simp: tx_return_def split: if_splits intro: refused marked dest: mark_failed_result)
    qed
  qed
qed

lemma place_order_cases:
  assumes "place_order env tenant mbid a b plan s = (s', r)"
  obtains (no_adapter) e where "ae_get_adapter env = Inl e" "s' = s" "r = Inl e"
  | (refused) e where "ae_get_adapter env = Inr ()" "s' = s\<lparr>ap_calls := ap_calls s @ [Create_order plan]\<rparr>" "r = Inl e"
  | (placed) resp where "ae_get_adapter env = Inr ()"
      "after_order env tenant mbid a b plan resp (s\<lparr>ap_calls := ap_calls s @ [Create_order plan]\<rparr>) = (s', r)"
  using assms
  by (auto simp: place_order_def get_adapter_def ask_adapter_def tx_then_def tx_bind_def tx_try_def
      split: sum.splits intro: that)

lemma place_order_asks:
  assumes "ae_get_adapter env = Inr ()" "place_order env tenant mbid a b plan s = (s', r)"
  shows "prefix (ap_calls s @ [Create_order plan]) (ap_calls s')"
  using assms(2)
proof (cases rule: place_order_cases)
  case (placed resp)
  then show ?thesis by (auto dest: keepsD' [OF more_calls.k_after, rotated])
qed (use assms(1) in auto)

text \<open>An approval places at most one order.\<close>

theorem approval_places_one_order_at_most:
  assumes "execute_approved_media_buy env mbid tenant b a s = (s', Inr r)"
  shows "\<exists>os. length os \<le> 1 \<and> filter is_create (ap_calls s') = filter is_create (ap_calls s) @ os"
proof -
  have place: "\<exists>os. length os \<le> 1 \<and> filter is_create (ap_calls s2) = filter is_create (ap_calls s1) @ os"
    if "place_order env tenant mbid a b plan s1 = (s2, x)" for s1 s2 x plan
    using that
  proof (cases rule: place_order_cases)
    case (placed resp)
    then have "filter is_create (ap_calls s2) = filter is_create (ap_calls s1) @ [Create_order plan]"
      by (auto dest: keepsD' [OF same_orders.k_after, rotated])
    then show ?thesis by (intro exI [of _ "[Create_order plan]"]) simp
  qed (auto intro: exI [of _ "[Create_order plan]"])
  from assms show ?thesis
  proof (cases rule: execute_cases)
    case (placed s1 plan)
    from place [OF placed(2)] before_adapter_calls [OF placed(1)] show ?thesis by simp
  next
    case (refused s1 plan e)
    from place [OF refused(2)] before_adapter_calls [OF refused(1)] show ?thesis by simp
  next
    case (marked s1 plan s2 e)
    have "filter is_create (ap_calls s') = filter is_create (ap_calls s2)"
      by (rule keepsD' [OF same_orders.k_mark _ marked(3)]) simp
    with place [OF marked(2)] before_adapter_calls [OF marked(1)] show ?thesis by simp
  qed (auto dest: before_adapter_calls)
qed

section \<open>Before the ad server is asked\<close>

lemma uow_cases:
  assumes "in_uow env m s = (s', r)"
  obtains (raised) s1 e where "m (s\<lparr>ap_view := ap_saved s\<rparr>) = (s1, Inl e)" "s' = s1\<lparr>ap_view := ap_saved s1\<rparr>" "r = Inl e"
  | (committed) s1 x where "m (s\<lparr>ap_view := ap_saved s\<rparr>) = (s1, Inr x)" "r = Inr x"
      "s' = s1\<lparr>ap_commits := Suc (ap_commits s1), ap_saved := ap_view s1\<rparr>"
  | (lost) s1 x where "m (s\<lparr>ap_view := ap_saved s\<rparr>) = (s1, Inr x)" "ae_commit_fault env (ap_commits s1)"
      "s' = s1\<lparr>ap_commits := Suc (ap_commits s1), ap_view := ap_saved s1\<rparr>" "r = Inl operational_error"
proof (cases "m (s\<lparr>ap_view := ap_saved s\<rparr>)")
  case (Pair s1 x)
  with assms show ?thesis
    by (cases x) (auto simp: in_uow_def commit_view_def Let_def split: if_splits intro: that)
qed

lemma first_unit_cases:
  assumes "first_unit env tenant mbid a b s = (s', r)"
  obtains (raised) e where "r = Inl e" "s' = s"
  | (ended) e where "r = Inr (Inl (failed_result e))" "s' = s"
  | (held) e where "r = e" "unapproved_creative_ids tenant (ap_view s) mbid \<noteq> []"
      "tx_bind (hold env tenant mbid a b (unapproved_creative_ids tenant (ap_view s) mbid)) (\<lambda>r. tx_return (Inl r)) s = (s', r)"
  | (planned) plan buy where "r = Inr (Inr plan)" "s' = s" "unapproved_creative_ids tenant (ap_view s) mbid = []"
      "get_by_id tenant (ap_view s) mbid = Some buy" "plan_order env tenant (ap_view s) buy = Inr (Inr plan)"
  using assms unfolding first_unit_def
  by (auto simp: tx_bind_def from_db_def tx_read_def tx_return_def tx_try_def buy_not_found_def
      split: option.splits if_splits sum.splits prod.splits intro: that)

lemma update_status_cases:
  assumes "update_status tenant now db i (status_value m) c a b = (db', r)"
  obtains "db' = db" "r = Inl IntegrityError" | "db' = db" "r = Inr None" "get_by_id tenant db i = None"
  | buy buy' where "get_by_id tenant db i = Some buy" "db' = write_media_buy db buy'" "r = Inr (Some buy')"
      "mb_status buy' = status_value m" "mb_revision buy' = mb_revision buy + 1"
      "mb_media_buy_id buy' = i" "mb_tenant_id buy' = tenant"
      "mb_confirmed_at buy' = (if c \<and> mb_confirmed_at buy = None then Some now else mb_confirmed_at buy)"
proof (cases "get_by_id tenant db i")
  case None
  with assms show ?thesis by (auto simp: update_status_def simp del: status_value.simps intro: that)
next
  case (Some buy)
  with assms get_by_idD [OF Some] show ?thesis
    by (auto simp: update_status_def flush_media_buy_def Let_def stamp_confirmation_if_needed_def bump_revision_def
        simp del: status_value.simps split: if_splits intro: that)
qed

text \<open>The row a status write leaves is found again under its id.\<close>

lemma status_row_found:
  assumes "get_by_id tenant db i = Some b" "mb_media_buy_id b' = i" "mb_tenant_id b' = tenant"
  shows "get_by_id tenant (write_media_buy db b') i = Some b'"
proof -
  have "find (\<lambda>b. mb_tenant_id b = tenant \<and> mb_media_buy_id b = i)
      (update_where (\<lambda>r. mb_media_buy_id r = i) (\<lambda>r. b') rows) = Some b'"
    if "find (\<lambda>b. mb_tenant_id b = tenant \<and> mb_media_buy_id b = i) rows = Some b" for rows
    using that assms(2,3) by (induction rows) (auto simp: update_where_def split: if_splits)
  then show ?thesis using assms by (simp add: get_by_id_def write_media_buy_def)
qed

text \<open>
  Without a hold the first unit writes nothing: what is not planned changes nothing at all.
\<close>

lemma before_unplanned:
  assumes "before_adapter env tenant mbid a b s = (s', r)" "unapproved_creative_ids tenant (ap_saved s) mbid = []"
  shows "ap_saved s' = ap_saved s" "r = Inr (Inl res) \<Longrightarrow> ar_outcome res = Approval_failed"
    "r = Inr (Inr plan) \<Longrightarrow> \<exists>buy. get_by_id tenant (ap_saved s) mbid = Some buy \<and>
      plan_order env tenant (ap_saved s) buy = Inr (Inr plan)"
proof -
  let ?s = "s\<lparr>ap_view := ap_saved s\<rparr>"
  have one: "ap_saved s1 = ap_saved s \<and> ap_view s1 = ap_saved s \<and>
      (\<forall>res. x = Inr (Inl res) \<longrightarrow> ar_outcome res = Approval_failed) \<and>
      (\<forall>plan. x = Inr (Inr plan) \<longrightarrow> (\<exists>buy. get_by_id tenant (ap_saved s) mbid = Some buy \<and>
        plan_order env tenant (ap_saved s) buy = Inr (Inr plan)))"
    if "first_unit env tenant mbid a b ?s = (s1, x)" for s1 x
    using that assms(2) by (cases rule: first_unit_cases) (auto simp: failed_result_def)
  obtain s2 y where u: "in_uow env (first_unit env tenant mbid a b) s = (s2, y)" by fastforce
  then have two: "ap_saved s2 = ap_saved s \<and> (\<forall>res. y = Inr (Inl res) \<longrightarrow> ar_outcome res = Approval_failed) \<and>
      (\<forall>plan. y = Inr (Inr plan) \<longrightarrow> (\<exists>buy. get_by_id tenant (ap_saved s) mbid = Some buy \<and>
        plan_order env tenant (ap_saved s) buy = Inr (Inr plan)))"
    by (cases rule: uow_cases) (auto dest: one)
  from u assms(1) two show "ap_saved s' = ap_saved s"
    "r = Inr (Inl res) \<Longrightarrow> ar_outcome res = Approval_failed"
    "r = Inr (Inr plan) \<Longrightarrow> \<exists>buy. get_by_id tenant (ap_saved s) mbid = Some buy \<and>
      plan_order env tenant (ap_saved s) buy = Inr (Inr plan)"
    by (auto simp: before_adapter_def tx_bind_def tx_then_def tx_try_def tx_return_def
        split: sum.splits prod.splits)
qed

text \<open>An approval that asked nothing of the ad server, although an adapter could be had and every creative
  was approved, failed and changed nothing: the buy can be approved again.\<close>

theorem unasked_approval_can_be_retried:
  assumes "execute_approved_media_buy env mbid tenant b a s = (s', Inr r)"
    and "unapproved_creative_ids tenant (ap_saved s) mbid = []" "ae_get_adapter env = Inr ()"
    and "ap_calls s' = ap_calls s"
  shows "ar_outcome r = Approval_failed \<and> ap_saved s' = ap_saved s"
proof -
  have no: False if "place_order env tenant mbid a b plan s1 = (s2, x)" "before_adapter env tenant mbid a b s = (s1, y)"
      "prefix (ap_calls s2) (ap_calls s')" for s1 s2 x y plan
    using place_order_asks [OF assms(3) that(1)] before_adapter_calls [OF that(2)] that(3) assms(4)
    by (auto dest!: prefix_order.trans [of _ "ap_calls s2"] dest: prefix_length_le)
  from assms(1) show ?thesis
  proof (cases rule: execute_cases)
    case (raised e)
    with before_unplanned(1) [OF raised(1) assms(2)] show ?thesis by (simp add: failed_result_def)
  next
    case ended
    with before_unplanned(1,2) [OF ended assms(2)] show ?thesis by simp
  next
    case (placed s1 plan)
    with no [OF placed(2,1)] show ?thesis by simp
  next
    case (refused s1 plan e)
    with no [OF refused(2,1)] show ?thesis by simp
  next
    case (marked s1 plan s2 e)
    have "prefix (ap_calls s2) (ap_calls s')" using keepsD' [OF more_calls.k_mark _ marked(3)] by blast
    with no [OF marked(2,1)] show ?thesis by simp
  qed
qed

text \<open>C29. While a creative assigned to the buy is not approved, nothing is asked of the ad server, and the
  buy's row is left as it is or is held back in pending_creatives, without a commitment.\<close>

theorem approval_waits_for_creatives:
  assumes "execute_approved_media_buy env mbid tenant b a s = (s', Inr r)"
    and "unapproved_creative_ids tenant (ap_saved s) mbid \<noteq> []" "get_by_id tenant (ap_saved s) mbid = Some buy"
  shows "ap_calls s' = ap_calls s \<and> ar_outcome r \<noteq> Executed \<and> (\<exists>buy'. get_by_id tenant (ap_saved s') mbid = Some buy' \<and>
    mb_confirmed_at buy' = mb_confirmed_at buy \<and>
    (mb_status buy' = mb_status buy \<or> mb_status buy' = status_value PENDING_CREATIVES))"
proof -
  define P where "P = (\<lambda>db :: update_db. \<exists>buy'. get_by_id tenant db mbid = Some buy' \<and> mb_confirmed_at buy' = mb_confirmed_at buy \<and>
    (mb_status buy' = mb_status buy \<or> mb_status buy' = status_value PENDING_CREATIVES))"
  let ?s = "s\<lparr>ap_view := ap_saved s\<rparr>"
  have P0: "P (ap_saved s)" using assms(3) by (simp add: P_def)
  have one: "P (ap_saved s1) \<and> P (ap_view s1) \<and> (\<forall>res. x = Inr res \<longrightarrow> (\<exists>q. res = Inl q \<and> ar_outcome q \<noteq> Executed))"
    if "first_unit env tenant mbid a b ?s = (s1, x)" for s1 x
    using that
  proof (cases rule: first_unit_cases)
    case (held e)
    obtain db q where u: "update_status tenant (ae_now env) (ap_saved s) mbid (status_value PENDING_CREATIVES) False a b = (db, q)"
      by fastforce
    then have "P db"
    proof (cases rule: update_status_cases)
      case (3 buy0 buy')
      with assms(3) status_row_found [OF assms(3) 3(6,7)] show ?thesis by (simp add: P_def)
    qed (use P0 in simp_all)
    with held(3) u P0 show ?thesis
      by (cases q) (auto simp: hold_def hold_result_def tx_bind_def tx_then_def tx_return_def on_db_def commit_view_def Let_def
          split: if_splits)
  qed (use P0 assms(2) in \<open>auto simp: failed_result_def\<close>)
  have two: "P (ap_saved s1) \<and> (\<forall>res. x = Inr res \<longrightarrow> (\<exists>q. res = Inl q \<and> ar_outcome q \<noteq> Executed))"
    if "before_adapter env tenant mbid a b s = (s1, x)" for s1 x
  proof -
    obtain s2 y where u: "in_uow env (first_unit env tenant mbid a b) s = (s2, y)" by fastforce
    then have "P (ap_saved s2) \<and> (\<forall>res. y = Inr res \<longrightarrow> (\<exists>q. res = Inl q \<and> ar_outcome q \<noteq> Executed))"
      by (cases rule: uow_cases) (auto dest!: one)
    with that u show ?thesis
      by (auto simp: before_adapter_def tx_bind_def tx_return_def split: sum.splits prod.splits)
  qed
  from assms(1) show ?thesis
  proof (cases rule: execute_cases)
    case (raised e)
    with two [OF raised(1)] before_adapter_calls [OF raised(1)] show ?thesis by (simp add: P_def failed_result_def)
  next
    case ended
    with two [OF ended] before_adapter_calls [OF ended] show ?thesis by (simp add: P_def)
  qed (auto dest!: two)
qed

section \<open>What becomes of the buy\<close>

text \<open>Ids, creatives and calls leave the buys' rows alone.\<close>

interpretation same_buys: order_units "\<lambda>s. media_buys (ap_view s) = B \<and> media_buys (ap_saved s) = B" env tenant for B env tenant
  by unfold_locales (auto simp: write_package_def update_data_def)

text \<open>What a unit does before its commit is not saved yet.\<close>

interpretation not_saved: status_effects "\<lambda>s. ap_saved s = db" tenant env mbid for db tenant env mbid
  by unfold_locales auto

definition write_of_failed :: "approval_env \<Rightarrow> string \<Rightarrow> string \<Rightarrow> update_db \<Rightarrow> update_db" where
  "write_of_failed env tenant mbid db =
     fst (update_status tenant (ae_now env) db mbid (status_value FAILED) False None None)"

lemma mark_here_state:
  assumes "mark_failed_here env tenant mbid e s = (s', r)"
  shows "s' = s\<lparr>ap_view := write_of_failed env tenant mbid (ap_view s)\<rparr>" "r = Inr (failed_result e)"
proof -
  obtain db q where u: "update_status tenant (ae_now env) (ap_view s) mbid (status_value FAILED) False None None = (db, q)"
    by fastforce
  then have "q = Inl IntegrityError \<or> (\<exists>y. q = Inr y)" by (cases rule: update_status_cases) auto
  with assms u show "s' = s\<lparr>ap_view := write_of_failed env tenant mbid (ap_view s)\<rparr>"
    unfolding write_of_failed_def mark_failed_here_def write_failed_def
    by (auto simp only: u on_db_def tx_catch_def tx_then_def tx_bind_def tx_return_def swallow_database_error_def
        is_database_error_def prod.case sum.case fst_conv if_True simp_thms Pair_inject)
  show "r = Inr (failed_result e)" by (rule mark_here_result [OF assms])
qed

lemma upload_unit_saved: "upload_unit env tenant mbid pid oid s = (s', x) \<Longrightarrow> ap_saved s' = ap_saved s"
  by (rule keepsD' [OF not_saved.k_upload_unit]) simp_all

lemma upload_unit_cases:
  assumes "upload_unit env tenant mbid pid oid s = (s', Inr x)" and B: "media_buys (ap_view s) = B" "media_buys (ap_saved s) = B"
  obtains (unmarked) "x = None" "media_buys (ap_view s') = B"
  | (marked) e db where "x = Some (failed_result e)" "media_buys db = B" "ap_view s' = write_of_failed env tenant mbid db"
proof -
  have here: thesis if "tx_bind (mark_failed_here env tenant mbid e) (\<lambda>r. tx_return (Some r)) s1 = (s', Inr x)"
      "media_buys (ap_view s1) = B" for e s1
  proof -
    from that(1) obtain r where m: "mark_failed_here env tenant mbid e s1 = (s', Inr r)" "x = Some r"
      by (auto simp: tx_return_def elim!: tx_bind_Inr)
    with mark_here_state [OF m(1)] that(2) show thesis
      by (intro marked [of e "ap_view s1"]) auto
  qed
  have up: thesis if "or_mark_failed env tenant mbid Upload_failed (upload_assets env tenant pid ids oid assets) s = (s', Inr x)"
    for ids assets
    using that unfolding or_mark_failed_def
  proof (elim tx_catch_cases)
    fix y assume "tx_then (upload_assets env tenant pid ids oid assets) (tx_return None) s = (s', Inr y)" "Inr x = Inr y"
    then obtain z where u: "upload_assets env tenant pid ids oid assets s = (s', Inr z)" and "x = None"
      by (auto simp: tx_return_def elim!: tx_then_Inr)
    have "media_buys (ap_view s') = B" using keepsD' [OF same_buys.k_upload _ u, of B] B by blast
    with \<open>x = None\<close> show thesis by (rule unmarked)
  next
    fix e s1 assume u: "tx_then (upload_assets env tenant pid ids oid assets) (tx_return None) s = (s1, Inl e)"
      and m: "tx_bind (mark_failed_here env tenant mbid (Upload_failed e)) (\<lambda>r. tx_return (Some r)) s1 = (s', Inr x)"
    have "media_buys (ap_view s1) = B"
      using keepsD' [OF keeps_then [OF same_buys.k_upload keeps_return] _ u, of B] B by blast
    with m show thesis by (rule here)
  qed
  from assms(1) show thesis
    unfolding upload_unit_def Let_def
  proof (elim tx_bind_Inr)
    fix s1 gs assume g: "from_db (\<lambda>db. assignment_groups (filter (\<lambda>a. asg_media_buy_id a = mbid) (creative_assignments db))) s = (s1, Inr gs)"
      and r: "(if gs = [] then tx_return None else
        tx_bind (tx_try (\<lambda>s. collect_assets (ae_creatives env) (creative_get_by_ids tenant (ap_view s) (map fst gs) pid) gs))
        (\<lambda>(errs, assets).
           if errs \<noteq> [] then tx_bind (mark_failed_here env tenant mbid (Creatives_invalid errs)) (\<lambda>r. tx_return (Some r))
           else if assets = [] then tx_return None
           else tx_then (get_adapter env)
             (or_mark_failed env tenant mbid Upload_failed (upload_assets env tenant pid (map fst gs) oid assets)))) s1 = (s', Inr x)"
    have s1: "s1 = s" using g by (simp add: from_db_def tx_read_def)
    show thesis
    proof (cases "gs = []")
      case True
      with r s1 B show thesis by (auto simp: tx_return_def intro: unmarked)
    next
      case False
      with r s1 obtain errs assets where
        r2: "(if errs \<noteq> [] then tx_bind (mark_failed_here env tenant mbid (Creatives_invalid errs)) (\<lambda>r. tx_return (Some r))
           else if assets = [] then tx_return None
           else tx_then (get_adapter env)
             (or_mark_failed env tenant mbid Upload_failed (upload_assets env tenant pid (map fst gs) oid assets))) s = (s', Inr x)"
        by (auto simp: tx_try_def elim!: tx_bind_Inr)
      show thesis
      proof (cases "errs \<noteq> [] \<or> assets = []")
        case True
        with r2 B here show thesis by (auto simp: tx_return_def split: if_splits intro: unmarked)
      next
        case False
        with r2 have "tx_then (get_adapter env)
             (or_mark_failed env tenant mbid Upload_failed (upload_assets env tenant pid (map fst gs) oid assets)) s = (s', Inr x)" by simp
        then show thesis by (rule tx_then_Inr) (auto simp: get_adapter_def tx_try_def intro: up)
      qed
    qed
  qed
qed

lemma approve_order_cases:
  assumes "approve_order env tenant mbid oid s = (s', x)"
  obtains (approved) "x = Inr None" "ap_view s' = ap_view s" "ap_saved s' = ap_saved s"
  | (marked) e s1 where "ap_saved s1 = ap_saved s" "x = Inr (Some (failed_result e))"
      "mark_failed env tenant mbid e s1 = (s', Inr (failed_result e))"
proof -
  let ?ask = "tx_catch (tx_then (get_adapter env) (if \<not> ae_orders_manager env then tx_return None else
      tx_bind (ask_adapter (Approve_order oid) (ae_approve_order env)) (\<lambda>approved.
        tx_return (if approved then None else Some (Order_not_approved oid)))))
    (\<lambda>e. tx_return (Some (Order_approval_raised oid e)))"
  obtain s1 err where a: "?ask s = (s1, Inr err)"
    using answersD [OF answers_catch [OF answers_return]] by fast
  have "keeps (\<lambda>s'. ap_view s' = ap_view s \<and> ap_saved s' = ap_saved s) ?ask"
    by (intro keeps_rules) (auto simp: keeps_def ask_adapter_def)
  from keepsD' [OF this _ a] have s1: "ap_view s1 = ap_view s" "ap_saved s1 = ap_saved s" by simp_all
  show thesis
  proof (cases err)
    case None
    with a assms s1 show thesis by (intro approved) (auto simp: approve_order_def tx_bind_def tx_return_def)
  next
    case (Some e)
    obtain s2 r where m: "mark_failed env tenant mbid e s1 = (s2, r)" by fastforce
    note r = mark_failed_result [OF m]
    from a assms Some m r show thesis
      by (intro marked [OF s1(2), of e]) (auto simp: approve_order_def tx_bind_def tx_return_def)
  qed
qed

lemma after_order_cases:
  assumes "after_order env tenant mbid a b plan resp s = (s', x)"
    and B: "media_buys (ap_view s) = B" "media_buys (ap_saved s) = B"
  obtains (after_raise) e where "x = Inl e" "media_buys (ap_saved s') = B"
  | (here) e db where "x = Inr (failed_result e)" "media_buys db = B" "ap_saved s' = write_of_failed env tenant mbid db"
  | (stamped) e s1 where "x = Inr (failed_result e)" "media_buys (ap_saved s1) = B"
      "mark_failed env tenant mbid e s1 = (s', Inr (failed_result e))"
  | (written) s1 where "media_buys (ap_saved s1) = B" "in_uow env (write_commitment env tenant mbid a b) s1 = (s', x)"
proof -
  let ?p = "tx_when (rs_media_buy_id resp \<noteq> []) (in_uow env
       (persist_adapter_package_ids tenant mbid (rs_media_buy_id resp) (rs_line_item_ids resp)))"
  let ?u = "in_uow env (upload_unit env tenant mbid (pl_principal plan) (rs_media_buy_id resp))"
  obtain s1 y1 where p: "?p s = (s1, y1)" by fastforce
  have B1: "media_buys (ap_saved s1) = B"
    using keepsD' [OF keeps_when [OF same_buys.k_uow [OF same_buys.k_persist]] _ p, of B] B by blast
  obtain s2 y2 where u: "?u s1 = (s2, y2)" by fastforce
  show thesis
  proof (cases y1)
    case (Inl e)
    with assms(1) p B1 show ?thesis by (intro after_raise [of e]) (auto simp: after_order_def tx_then_def tx_bind_def)
  next
    case (Inr z)
    define rest where "rest = (\<lambda>r1. case r1 of Some r \<Rightarrow> tx_return r
     | None \<Rightarrow> tx_bind (approve_order env tenant mbid (rs_media_buy_id resp)) (\<lambda>r2. case r2 of
         Some r \<Rightarrow> tx_return r | None \<Rightarrow> in_uow env (write_commitment env tenant mbid a b)))"
    have run: "(case y2 of Inl e \<Rightarrow> (s2, Inl e) | Inr r1 \<Rightarrow> rest r1 s2) = (s', x)"
      unfolding rest_def using assms(1) p Inr u by (simp add: after_order_def tx_then_def tx_bind_def)
    have place: thesis if "y2 = Inr None" "media_buys (ap_saved s2) = B"
    proof -
      obtain s3 y3 where a: "approve_order env tenant mbid (rs_media_buy_id resp) s2 = (s3, y3)" by fastforce
      then show thesis
      proof (cases rule: approve_order_cases)
        case approved
        with run that a show thesis by (intro written [of s3]) (simp_all add: rest_def tx_bind_def)
      next
        case (marked e s4)
        with run that a show thesis by (intro stamped [of e s4]) (simp_all add: rest_def tx_bind_def tx_return_def)
      qed
    qed
    from u show ?thesis
    proof (cases rule: uow_cases)
      case (raised s3 e)
      with run upload_unit_saved [OF raised(1)] B1 show thesis by (intro after_raise [of e]) auto
    next
      case (lost s3 r)
      with run upload_unit_saved [OF lost(1)] B1 show thesis by (intro after_raise [of operational_error]) auto
    next
      case (committed s3 r1)
      from upload_unit_cases [OF committed(1), of B] B1 consider
          "r1 = None" "media_buys (ap_view s3) = B"
        | e db where "r1 = Some (failed_result e)" "media_buys db = B" "ap_view s3 = write_of_failed env tenant mbid db"
        by auto
      then show thesis
      proof cases
        case 1
        with committed show thesis by (intro place) simp_all
      next
        case (2 e db)
        with committed run show thesis by (intro here [of e db]) (auto simp: rest_def tx_return_def)
      qed
    qed
  qed
qed

lemma write_commitment_result:
  assumes "write_commitment env tenant mbid a b s = (s', Inr r)"
  obtains (vanished) "get_by_id tenant (ap_view s) mbid = None" "r = failed_result (Buy_vanished mbid)" "s' = s"
  | (written) buy buy' m where "get_by_id tenant (ap_view s) mbid = Some buy" "get_by_id tenant (ap_view s') mbid = Some buy'"
      "resolve_flight_window_status buy (ae_now env) True = Some m" "mb_status buy' = status_value m"
      "mb_revision buy' = mb_revision buy + 1"
      "mb_confirmed_at buy' = (if mb_confirmed_at buy = None then Some (ae_now env) else mb_confirmed_at buy)"
      "r = \<lparr>ar_outcome = Executed, ar_status = Some m, ar_revision = Some (mb_revision buy'),
        ar_confirmed_at = mb_confirmed_at buy', ar_error = None\<rparr>"
proof (cases "get_by_id tenant (ap_view s) mbid")
  case None
  with assms show thesis
    by (intro vanished) (auto simp: write_commitment_def tx_bind_def from_db_def tx_read_def tx_return_def)
next
  case (Some buy)
  with assms obtain m where m: "resolve_flight_window_status buy (ae_now env) True = Some m"
    by (auto simp: write_commitment_def tx_bind_def from_db_def tx_read_def tx_raise_def split: option.splits)
  obtain db q where u: "update_status tenant (ae_now env) (ap_view s) mbid (status_value m) True a b = (db, q)" by fastforce
  have run: "tx_bind (on_db (\<lambda>db. update_status tenant (ae_now env) db mbid (status_value m) True a b)) (\<lambda>written. case written of
       None \<Rightarrow> tx_raise AssertionError
     | Some w \<Rightarrow> tx_return \<lparr>ar_outcome = Executed, ar_status = Some m, ar_revision = Some (mb_revision w),
         ar_confirmed_at = mb_confirmed_at w, ar_error = None\<rparr>) s = (s', Inr r)"
    using assms Some m by (simp add: write_commitment_def tx_bind_def from_db_def tx_read_def)
  from u show thesis
  proof (cases rule: update_status_cases)
    case (3 buy0 buy')
    with Some run u status_row_found [OF Some 3(6,7)] m show thesis
      by (intro written [of buy buy' m]) (auto simp: tx_bind_def on_db_def tx_return_def simp del: status_value.simps)
  qed (use run u in \<open>auto simp: tx_bind_def on_db_def tx_raise_def\<close>)
qed

lemma before_planned:
  assumes "before_adapter env tenant mbid a b s = (s', Inr (Inr plan))"
  shows "unapproved_creative_ids tenant (ap_saved s) mbid = [] \<and> ap_saved s' = ap_saved s \<and> ap_view s' = ap_saved s \<and>
    (\<exists>buy. get_by_id tenant (ap_saved s) mbid = Some buy \<and> plan_order env tenant (ap_saved s) buy = Inr (Inr plan))"
proof -
  from assms have u: "in_uow env (first_unit env tenant mbid a b) s = (s', Inr (Inr plan))"
    by (auto simp: before_adapter_def tx_then_def tx_bind_def tx_try_def tx_return_def split: sum.splits prod.splits)
  have f: ?thesis if "first_unit env tenant mbid a b (s\<lparr>ap_view := ap_saved s\<rparr>) = (s1, Inr (Inr plan))"
      "s' = s1\<lparr>ap_commits := n, ap_saved := ap_view s1\<rparr>" for s1 n
    using that by (cases rule: first_unit_cases) (auto simp: tx_return_def elim!: tx_bind_Inr)
  from u show ?thesis by (cases rule: uow_cases) (auto dest: f)
qed

lemma before_ended:
  assumes "before_adapter env tenant mbid a b s = (s', Inr (Inl q))"
  shows "ar_outcome q \<noteq> Executed"
proof -
  from assms have u: "in_uow env (first_unit env tenant mbid a b) s = (s', Inr (Inl q))"
    by (auto simp: before_adapter_def tx_then_def tx_bind_def tx_try_def tx_return_def split: sum.splits prod.splits)
  have f: ?thesis if "first_unit env tenant mbid a b (s\<lparr>ap_view := ap_saved s\<rparr>) = (s1, Inr (Inl q))" for s1
    using that by (cases rule: first_unit_cases)
      (auto simp: failed_result_def hold_def hold_result_def tx_return_def elim!: tx_bind_Inr tx_then_Inr)
  from u show ?thesis by (cases rule: uow_cases) (auto dest: f)
qed

lemma executed_result_row:
  assumes "execute_approved_media_buy env mbid tenant b a s = (s', Inr r)" "ar_outcome r = Executed"
  shows "\<exists>buy buy' m. get_by_id tenant (ap_saved s) mbid = Some buy \<and> get_by_id tenant (ap_saved s') mbid = Some buy' \<and>
    resolve_flight_window_status buy (ae_now env) True = Some m \<and> mb_status buy' = status_value m \<and>
    mb_revision buy' = mb_revision buy + 1 \<and>
    mb_confirmed_at buy' = (if mb_confirmed_at buy = None then Some (ae_now env) else mb_confirmed_at buy) \<and>
    r = \<lparr>ar_outcome = Executed, ar_status = Some m, ar_revision = Some (mb_revision buy'),
      ar_confirmed_at = mb_confirmed_at buy', ar_error = None\<rparr>"
proof -
  from assms obtain s1 plan where b: "before_adapter env tenant mbid a b s = (s1, Inr (Inr plan))"
    and p: "place_order env tenant mbid a b plan s1 = (s', Inr r)"
    by (cases rule: execute_cases) (auto simp: failed_result_def dest: before_ended)
  from before_planned [OF b] have s1: "ap_saved s1 = ap_saved s" "ap_view s1 = ap_saved s" by auto
  from p obtain resp where "after_order env tenant mbid a b plan resp (s1\<lparr>ap_calls := ap_calls s1 @ [Create_order plan]\<rparr>) = (s', Inr r)"
    by (cases rule: place_order_cases) auto
  then obtain s2 where s2: "media_buys (ap_saved s2) = media_buys (ap_saved s)"
    and u: "in_uow env (write_commitment env tenant mbid a b) s2 = (s', Inr r)"
    by (rule after_order_cases [where B = "media_buys (ap_saved s)"]) (use s1 assms(2) in \<open>auto simp: failed_result_def\<close>)
  have g: "get_by_id tenant (ap_saved s2) mbid = get_by_id tenant (ap_saved s) mbid"
    by (simp add: get_by_id_def s2)
  from u show ?thesis
  proof (cases rule: uow_cases)
    case (committed s3 x)
    then have "write_commitment env tenant mbid a b (s2\<lparr>ap_view := ap_saved s2\<rparr>) = (s3, Inr r)" by simp
    then show ?thesis
    proof (cases rule: write_commitment_result)
      case vanished
      with assms(2) show ?thesis by (simp add: failed_result_def)
    next
      case (written buy buy' m)
      with g committed show ?thesis by (intro exI [of _ buy] exI [of _ buy'] exI [of _ m]) simp
    qed
  qed simp_all
qed

text \<open>C30. The result of an executed approval is the committed row: the status is the one the flight window
  implies, the revision moved by one, the commitment is stamped now unless it stood already, and the
  result repeats all three.\<close>

theorem executed_result_is_the_committed_row:
  assumes "execute_approved_media_buy env mbid tenant b a s = (s', Inr r)" "ar_outcome r = Executed"
  shows "\<exists>buy buy' m. get_by_id tenant (ap_saved s) mbid = Some buy \<and> get_by_id tenant (ap_saved s') mbid = Some buy' \<and>
    resolve_flight_window_status buy (ae_now env) True = Some m \<and> mb_status buy' = status_value m \<and>
    mb_revision buy' = mb_revision buy + 1 \<and>
    mb_confirmed_at buy' = (if mb_confirmed_at buy = None then Some (ae_now env) else mb_confirmed_at buy) \<and>
    r = \<lparr>ar_outcome = Executed, ar_status = Some m, ar_revision = Some (mb_revision buy'),
      ar_confirmed_at = mb_confirmed_at buy', ar_error = None\<rparr>"
  using assms by (rule executed_result_row)

lemma failed_no_clash:
  assumes "idem_unique (media_buys db)" "get_by_id tenant db mbid = Some buy"
  shows "snd (update_status tenant now db mbid (status_value FAILED) False None None) \<noteq> Inl IntegrityError"
proof -
  have "\<not> list_ex (\<lambda>r. mb_media_buy_id r \<noteq> mb_media_buy_id buy \<and> idem_clash r buy) (media_buys db)"
    using assms(1) get_by_idD [OF assms(2)] by (auto simp: list_ex_iff idem_unique_def)
  then show ?thesis
    using assms(2) by (auto simp: update_status_def flush_media_buy_def stamp_confirmation_if_needed_def Let_def idem_clash_def
        simp del: status_value.simps)
qed

text \<open>The commitment is written, or nothing is, and then the call raises.\<close>

lemma written_or_kept:
  assumes "in_uow env (write_commitment env tenant mbid a b) s = (s', x)" "media_buys (ap_saved s) = B"
    and "get_by_id tenant (ap_saved s) mbid \<noteq> None"
  shows "(\<exists>e. x = Inl e) \<and> media_buys (ap_saved s') = B \<or> (\<exists>q. x = Inr q) \<and> (\<forall>q. x = Inr q \<longrightarrow> ar_outcome q \<noteq> Executed \<longrightarrow> P q)"
proof -
  have kept: "ap_saved s1 = ap_saved s" if "write_commitment env tenant mbid a b (s\<lparr>ap_view := ap_saved s\<rparr>) = (s1, y)" for s1 y
    by (rule keepsD' [OF not_saved.k_write _ that]) simp
  from assms(1) show ?thesis
  proof (cases rule: uow_cases)
    case (committed s1 y)
    from committed(1) have "ar_outcome y = Executed"
      by (cases rule: write_commitment_result) (use assms(3) in simp_all)
    with committed(2) show ?thesis by simp
  qed (use assms(2) in \<open>auto dest: kept\<close>)
qed

text \<open>On valid tables the mark of a failure is written.\<close>

definition stands :: "string \<Rightarrow> string \<Rightarrow> media_buy list \<Rightarrow> bool" where
  "stands tenant mbid B = (idem_unique B \<and> find (\<lambda>b. mb_tenant_id b = tenant \<and> mb_media_buy_id b = mbid) B \<noteq> None)"

definition marked_failed :: "string \<Rightarrow> string \<Rightarrow> update_db \<Rightarrow> bool" where
  "marked_failed tenant mbid db = (\<exists>b. get_by_id tenant db mbid = Some b \<and> mb_status b = status_value FAILED)"

text \<open>What an order asked for leaves behind: an exception and the rows as they were, or a result, which is a
  commitment unless the buy is marked.\<close>

definition recorded :: "string \<Rightarrow> string \<Rightarrow> media_buy list \<Rightarrow> update_db \<Rightarrow> approval_result res \<Rightarrow> bool" where
  "recorded tenant mbid B db x = (case x of Inl e \<Rightarrow> media_buys db = B
     | Inr q \<Rightarrow> ar_outcome q \<noteq> Executed \<longrightarrow> marked_failed tenant mbid db)"

lemma standing_buy: "stands tenant mbid (media_buys db) \<Longrightarrow> \<exists>b. idem_unique (media_buys db) \<and> get_by_id tenant db mbid = Some b"
  by (auto simp: stands_def get_by_id_def)

lemma failed_is_written:
  assumes "stands tenant mbid (media_buys db)"
  shows "marked_failed tenant mbid (write_of_failed env tenant mbid db)"
proof -
  let ?u = "update_status tenant (ae_now env) db mbid (status_value FAILED) False None None"
  from standing_buy [OF assms] obtain buy where b: "idem_unique (media_buys db)" "get_by_id tenant db mbid = Some buy" by blast
  obtain db' q where u: "?u = (db', q)" by fastforce
  then show ?thesis
  proof (cases rule: update_status_cases)
    case (3 buy0 buy')
    with status_row_found [OF b(2) 3(6,7)] u show ?thesis by (auto simp: write_of_failed_def marked_failed_def)
  qed (use u failed_no_clash [OF b, of "ae_now env"] b(2) in \<open>auto simp: write_of_failed_def\<close>)
qed

lemma mark_failed_saved:
  assumes "mark_failed env tenant mbid e s = (s', r)" "\<And>n. \<not> ae_commit_fault env n"
  shows "ap_saved s' = write_of_failed env tenant mbid (ap_saved s) \<or> ap_saved s' = ap_saved s \<and>
    snd (update_status tenant (ae_now env) (ap_saved s) mbid (status_value FAILED) False None None) = Inl IntegrityError"
proof -
  let ?s = "s\<lparr>ap_view := ap_saved s\<rparr>"
  obtain db q where u: "update_status tenant (ae_now env) (ap_saved s) mbid (status_value FAILED) False None None = (db, q)"
    by fastforce
  then have w: "write_failed env tenant mbid ?s = (?s\<lparr>ap_view := db\<rparr>, q)" by (simp add: write_failed_def on_db_def)
  obtain s1 x where i: "in_uow env (write_failed env tenant mbid) s = (s1, x)" by fastforce
  then have "ap_saved s1 = write_of_failed env tenant mbid (ap_saved s) \<or> ap_saved s1 = ap_saved s \<and> q = Inl IntegrityError"
    by (cases rule: uow_cases) (use w u assms(2) in \<open>auto simp: write_of_failed_def dest: write_failed_raises\<close>)
  moreover have "ap_saved s' = ap_saved s1"
    using assms(1) i by (auto simp: mark_failed_def tx_catch_def tx_then_def tx_bind_def tx_return_def tx_raise_def
        swallow_database_error_def split: sum.splits if_splits)
  ultimately show ?thesis using u by simp
qed

lemma mark_failed_marks:
  assumes "mark_failed env tenant mbid e s = (s', r)" "\<And>n. \<not> ae_commit_fault env n" "stands tenant mbid (media_buys (ap_saved s))"
  shows "marked_failed tenant mbid (ap_saved s')"
proof -
  from standing_buy [OF assms(3)] obtain buy where
    "idem_unique (media_buys (ap_saved s))" "get_by_id tenant (ap_saved s) mbid = Some buy" by blast
  from mark_failed_saved [OF assms(1,2)] failed_no_clash [OF this] failed_is_written [OF assms(3)] show ?thesis by auto
qed

lemma after_order_recorded:
  assumes "after_order env tenant mbid a b plan resp s = (s', x)" "media_buys (ap_view s) = B" "media_buys (ap_saved s) = B"
    and "\<And>n. \<not> ae_commit_fault env n" "stands tenant mbid B"
  shows "recorded tenant mbid B (ap_saved s') x"
  using assms(1,2,3)
proof (cases rule: after_order_cases)
  case (here e db)
  with failed_is_written [of tenant mbid db env] assms(5) show ?thesis by (simp add: recorded_def)
next
  case (stamped e s1)
  with mark_failed_marks [OF stamped(3) assms(4)] assms(5) show ?thesis by (simp add: recorded_def)
next
  case (written s1)
  from standing_buy [of tenant mbid "ap_saved s1"] assms(5) written(1)
  have "get_by_id tenant (ap_saved s1) mbid \<noteq> None" by auto
  from written_or_kept [OF written(2,1) this, of "\<lambda>q. False"] show ?thesis by (auto simp: recorded_def)
qed (simp add: recorded_def)

lemma place_order_recorded:
  assumes "place_order env tenant mbid a b plan s = (s', x)" "media_buys (ap_view s) = B" "media_buys (ap_saved s) = B"
    and "\<And>n. \<not> ae_commit_fault env n" "stands tenant mbid B"
  shows "recorded tenant mbid B (ap_saved s') x"
  using assms(1)
proof (cases rule: place_order_cases)
  case (placed resp)
  show ?thesis by (rule after_order_recorded [OF placed(2) _ _ assms(4,5)]) (use assms(2,3) in simp_all)
qed (use assms(3) in \<open>simp_all add: recorded_def\<close>)

text \<open>C31. Once the ad server was asked for an order, the buy does not stay as it was: when the commits pass,
  it is committed and its commitment stamped, or it is marked failed. Only a refusal of the stored row
  itself leaves it alone.\<close>

theorem asked_order_is_recorded:
  assumes "execute_approved_media_buy env mbid tenant b a s = (s', Inr r)" "ap_calls s' \<noteq> ap_calls s"
    and "mb_db_ok (ap_saved s)" "\<And>n. \<not> ae_commit_fault env n" "\<And>e. ar_error r \<noteq> Some (Persisted_state_refused e)"
  shows "\<exists>buy'. get_by_id tenant (ap_saved s') mbid = Some buy' \<and>
    (if ar_outcome r = Executed then mb_confirmed_at buy' \<noteq> None else mb_status buy' = status_value FAILED)"
proof (cases "ar_outcome r = Executed")
  case True
  from executed_result_row [OF assms(1) this] True show ?thesis by (auto split: if_splits)
next
  case False
  define B where "B = media_buys (ap_saved s)"
  obtain s1 plan where b: "before_adapter env tenant mbid a b s = (s1, Inr (Inr plan))"
    and run: "place_order env tenant mbid a b plan s1 = (s', Inr r) \<or>
      (\<exists>s2 e. place_order env tenant mbid a b plan s1 = (s2, Inl e) \<and>
        mark_failed env tenant mbid (Adapter_creation_failed e) s2 = (s', Inr r))"
    using assms(1)
    by (cases rule: execute_cases) (use assms(2,5) in \<open>auto simp: failed_result_def dest: before_adapter_calls\<close>)
  from before_planned [OF b] assms(3) have st: "stands tenant mbid B"
    and s1: "media_buys (ap_saved s1) = B" "media_buys (ap_view s1) = B"
    by (auto simp: B_def stands_def get_by_id_def mb_db_ok_def)
  have place: "recorded tenant mbid B (ap_saved s2) x" if "place_order env tenant mbid a b plan s1 = (s2, x)" for s2 x
    by (rule place_order_recorded [OF that s1(2,1) assms(4) st])
  from run have "marked_failed tenant mbid (ap_saved s')"
  proof
    assume "place_order env tenant mbid a b plan s1 = (s', Inr r)"
    from place [OF this] False show ?thesis by (simp add: recorded_def)
  next
    assume "\<exists>s2 e. place_order env tenant mbid a b plan s1 = (s2, Inl e) \<and>
      mark_failed env tenant mbid (Adapter_creation_failed e) s2 = (s', Inr r)"
    then obtain s2 e where p: "place_order env tenant mbid a b plan s1 = (s2, Inl e)"
      and m: "mark_failed env tenant mbid (Adapter_creation_failed e) s2 = (s', Inr r)" by blast
    from place [OF p] st show ?thesis by (intro mark_failed_marks [OF m assms(4)]) (simp add: recorded_def)
  qed
  with False show ?thesis by (simp add: marked_failed_def)
qed

end
