(* ===== verification/Create_Properties.thy ===== *)
theory Create_Properties
  imports Media_Buy_Create Approval_Properties
begin

text \<open>
  What a create keeps and promises. The contract of the effects of an approval is extended to those of
  a create: the writes beside the buys, the rows it adds, and the order; it is interpreted for the
  calls made, the orders, what is untouched before a booking, the row of the new buy, and the buys
  booked under a key.
\<close>

section \<open>The contract of the effects\<close>

text \<open>An invariant of the tables and the calls, seen from the state of a create.\<close>

abbreviation of_books :: "(approval_state \<Rightarrow> bool) \<Rightarrow> booking_state \<Rightarrow> bool" where
  "of_books I \<equiv> (\<lambda>s. I (bk_books s))"

lemma k_on_books [keeps_rules]: "keeps I m \<Longrightarrow> keeps (of_books I) (on_books m)"
  unfolding keeps_def on_books_def by (force split: prod.splits)

lemma k_on_context [keeps_rules]: "keeps (of_books I) (on_context f)"
  by (auto simp: keeps_def on_context_def split: prod.splits)

lemma k_of_tables [keeps_rules]: "keeps (of_books I) (of_tables f)"
  unfolding of_tables_def by (intro k_on_books keeps_try)

lemma k_change_tables: "(\<And>b. I b \<Longrightarrow> I (b\<lparr>ap_view := fst (f (ap_view b))\<rparr>)) \<Longrightarrow> keeps (of_books I) (change_tables f)"
  unfolding change_tables_def by (intro k_on_books keeps_on_db)

lemma k_case_pair [keeps_rules]: "(\<And>a b. x = (a, b) \<Longrightarrow> keeps I (f a b)) \<Longrightarrow> keeps I (case x of (a, b) \<Rightarrow> f a b)"
  by (cases x) auto

lemma check_each_Inr: "check_each f xs = Inr ys \<Longrightarrow> list_all2 (\<lambda>x y. f x = Inr y) xs ys"
  by (induction xs arbitrary: ys) (auto simp: checked_then_def split: sum.splits)

lemma answered_own:
  assumes "check_each (answered_package env mbid plan ps) its = Inr rows" "p \<in> set rows"
  shows "mp_media_buy_id p = mbid"
proof -
  have "\<exists>it. answered_package env mbid plan ps it = Inr p"
    using check_each_Inr [OF assms(1)] assms(2) unfolding list_all2_conv_all_nth in_set_conv_nth by metis
  then show ?thesis by (auto simp: answered_package_def checked_then_def split: prod.splits if_splits sum.splits)
qed

text \<open>A value read from the tables, with what it satisfies.\<close>

lemma k_bind_tables: "(\<And>b x. I b \<Longrightarrow> f (ap_view b) = Inr x \<Longrightarrow> keeps (of_books I) (g x)) \<Longrightarrow>
    keeps (of_books I) (tx_bind (of_tables f) g)"
  by (rule keeps_bind_result) (auto simp: of_tables_def on_books_def tx_try_def keeps_def)

locale booking_gate = unit_effects I "cb_books env"
  for I :: "approval_state \<Rightarrow> bool" and env :: booking_env
begin

lemma k_reset [keeps_rules]: "keeps I reset_view"
  unfolding reset_view_def by (rule keeps_change) (rule begins)

lemma k_in_books [keeps_rules]: "keeps (of_books I) body \<Longrightarrow> keeps (of_books I) (in_books env body)"
  unfolding in_books_def by (intro keeps_rules)

lemma k_audit [keeps_rules]: "keeps (of_books I) (audit_failure env step e)"
  unfolding audit_failure_def by (intro keeps_rules)

lemma k_fail [keeps_rules]: "keeps (of_books I) (fail_and_raise env step message e)"
  unfolding fail_and_raise_def fail_step_def by (intro keeps_rules)

lemma k_failing [keeps_rules]: "keeps (of_books I) body \<Longrightarrow> keeps (of_books I) (failing_step env step message body)"
  unfolding failing_step_def by (intro keeps_rules)

lemma k_register [keeps_rules]: "keeps (of_books I) (register_config env who r)"
  by (auto simp: keeps_def register_config_def Let_def split: sum.splits option.splits prod.splits)

lemma k_open [keeps_rules]: "keeps (of_books I) (open_booking env who req)"
  unfolding open_booking_def open_creation_def by (intro keeps_rules)

lemma k_check [keeps_rules]: "keeps (of_books I) (checked_booking env who step req)"
  unfolding checked_booking_def check_booking_def by (intro keeps_rules)

lemma k_pre_validate [keeps_rules]: "keeps (of_books I) (pre_validate_package_creatives env who step ps)"
  unfolding pre_validate_package_creatives_def by (intro keeps_rules)

lemma k_race [keeps_rules]: "keeps (of_books I) (resolve_idempotency_race_or_raise env who a e)"
  unfolding resolve_idempotency_race_or_raise_def raise_degraded_replay_outcome_def by (intro keeps_rules)

lemma k_await [keeps_rules]: "keeps (of_books I) (await_approval env cx step comment message)"
  unfolding await_approval_def by (intro keeps_rules)

lemma k_link [keeps_rules]: "keeps (of_books I) (link_buy env who step mbid)"
  unfolding link_buy_def by (intro keeps_rules)

lemma k_await_configuration [keeps_rules]: "keeps (of_books I) (await_configuration env cx step ps)"
  unfolding await_configuration_def by (intro keeps_rules)

lemma k_plan [keeps_rules]: "keeps (of_books I) (plan_booking env who step req ck ps prs)"
  unfolding plan_booking_def Let_def by (intro keeps_rules)

lemma k_check_found [keeps_rules]: "keeps (of_books I) (check_found env who step ps)"
  unfolding check_found_def by (intro keeps_rules)

lemma k_check_formats [keeps_rules]: "keeps (of_books I) (check_package_formats env who step ps p)"
  unfolding check_package_formats_def check_format_def by (intro keeps_rules)

lemma k_complete [keeps_rules]: "keeps (of_books I) (complete_step env step)"
  unfolding complete_step_def by (intro keeps_rules)

end

text \<open>With the creative sync, which commits by itself.\<close>

locale booking_syncs = booking_gate +
  assumes syncs: "I s \<Longrightarrow> cb_sync env i cs (ap_saved s) = (db, r) \<Longrightarrow> I (s\<lparr>ap_view := db, ap_saved := db\<rparr>)"
begin

lemma k_sync [keeps_rules]: "keeps (of_books I) (run_package_sync env i cs)"
  unfolding run_package_sync_def by (intro keeps_rules) (auto simp: keeps_def intro: syncs split: prod.splits)

lemma k_upload_package [keeps_rules]: "keeps (of_books I) (upload_package_creatives env p)"
  unfolding upload_package_creatives_def Let_def by (intro keeps_rules)

lemma k_process [keeps_rules]: "keeps (of_books I) (process_and_upload_package_creatives env ps)"
  by (induction ps) (auto intro!: keeps_rules)

lemma k_inline [keeps_rules]: "keeps (of_books I) (upload_inline_creatives env step ps)"
  unfolding upload_inline_creatives_def by (intro keeps_rules)

end

text \<open>With the writes beside the buys and their packages.\<close>

locale booking_units = booking_gate + order_effects I "by_tenant who"
  for who :: buyer +
  assumes assigns: "I s \<Longrightarrow> I (s\<lparr>ap_view := assign_to_package env who mbid k c (ap_view s)\<rparr>)"
    and configures: "I s \<Longrightarrow> I (s\<lparr>ap_view := (ap_view s)\<lparr>product_rows := rows\<rparr>\<rparr>)"
begin

lemma assigns_all: "I b \<Longrightarrow> I (b\<lparr>ap_view := fold (assign_to_package env who mbid k) cs (ap_view b)\<rparr>)"
proof (induction cs arbitrary: b)
  case (Cons c cs)
  from Cons.IH [OF assigns [OF Cons.prems, of mbid k c]] show ?case by simp
qed simp

lemma assigns_found: "I b \<Longrightarrow> I (b\<lparr>ap_view := fold (assign_found env who mbid found) its (ap_view b)\<rparr>)"
proof (induction its arbitrary: b)
  case (Cons it its)
  from Cons.IH [of "b\<lparr>ap_view := assign_found env who mbid found it (ap_view b)\<rparr>"]
    assigns_all [OF Cons.prems, of mbid "package_id_of env (snd it) (fst it)"]
  show ?case by (cases it) (simp add: assign_found_def)
qed simp

lemma k_assign_pending [keeps_rules]: "keeps (of_books I) (in_books env (change_tables (assign_pending env who mbid ps)))"
  by (intro k_in_books k_change_tables) (simp add: assign_pending_def Let_def assigns_found)

lemma k_configure [keeps_rules]: "keeps (of_books I) (configure_product env p)"
  unfolding configure_product_def Let_def by (intro keeps_rules k_change_tables) (simp add: configures)

lemma k_configure_all [keeps_rules]: "keeps (of_books I) (configure_products env ps)"
  by (induction ps) (auto intro!: keeps_rules)

lemma k_order_products [keeps_rules]: "keeps (of_books I) (order_products env who ps)"
  unfolding order_products_def Let_def by (intro keeps_rules)

lemma k_upload_creative: "cr_tenant_id c = by_tenant who \<Longrightarrow> keeps (of_books I) (upload_creative env mbid k c)"
  unfolding upload_creative_def by (intro keeps_rules k_change_tables) (auto intro: data)

lemma k_platform: "cr_tenant_id c = by_tenant who \<Longrightarrow> keeps (of_books I) (platform_creative env mbid k c)"
  unfolding platform_creative_def by (intro keeps_rules k_upload_creative)

lemma found_tenant: "find P (found_creatives who ps db) = Some c \<Longrightarrow> cr_tenant_id c = by_tenant who"
  by (auto simp: found_creatives_def creative_get_by_ids_def dest!: find_SomeD split: if_splits)

lemma k_attach_each [keeps_rules]: "keeps (of_books I) (attach_each env who mbid k ps cids)"
proof (induction cids)
  case (Cons cid cids)
  have "keeps (of_books I) (case found of None \<Rightarrow> tx_return None
       | Some c \<Rightarrow> tx_bind (platform_creative env mbid k c) (\<lambda>i.
           tx_then (change_tables (\<lambda>db. (assign_to_package env who mbid k cid db, Inr ()))) (tx_return i)))"
    if "found = find P (found_creatives who ps db)" for found P db
    using that by (auto intro!: keeps_rules k_platform k_change_tables assigns dest!: found_tenant split: option.split)
  then show ?case using Cons by (auto intro!: k_bind_tables keeps_bind keeps_return)
qed (simp add: keeps_return)

lemma k_associate [keeps_rules]: "keeps (of_books I) (associate env r is)"
  unfolding associate_def by (auto intro!: keeps_rules split: json.split)

lemma k_attach [keeps_rules]: "keeps (of_books I) (attach_creatives env who step resp ps)"
  unfolding attach_creatives_def attach_package_def by (intro keeps_rules)

lemma k_save_own:
  assumes "\<And>b ps. I b \<Longrightarrow> \<forall>p\<in>set ps. mp_media_buy_id p = rs_media_buy_id resp \<Longrightarrow>
    I (b\<lparr>ap_view := fst (add_packages ps (ap_view b))\<rparr>)"
  shows "keeps (of_books I) (save_packages env who plan ps resp)"
  unfolding save_packages_def Let_def
  by (intro k_in_books keeps_bind_result keeps_try keeps_then k_change_tables keeps_when k_on_books k_persist assms)
    (auto simp: tx_try_def dest: answered_own)

end

text \<open>With the rows a create adds, under one idempotency key.\<close>

locale booking_rows = booking_units +
  fixes key :: "string option"
  assumes inserts: "I s \<Longrightarrow> rq_idempotency_key (ca_req a) = key \<Longrightarrow> ca_principal_id a = by_principal who \<Longrightarrow>
      ca_account_id a = Some (by_account who) \<Longrightarrow>
      I (s\<lparr>ap_view := fst (create_from_request (cb_request_hash env) (by_tenant who) (cb_now env) (ap_view s) a)\<rparr>)"
    and packages: "I s \<Longrightarrow> I (s\<lparr>ap_view := fst (add_packages ps (ap_view s))\<rparr>)"
begin

lemma k_insert: "rq_idempotency_key (ca_req a) = key \<Longrightarrow> ca_principal_id a = by_principal who \<Longrightarrow>
    ca_account_id a = Some (by_account who) \<Longrightarrow> keeps (of_books I) (insert_buy env who a)"
  unfolding insert_buy_def by (intro keeps_rules k_change_tables inserts)

lemma k_save [keeps_rules]: "keeps (of_books I) (save_packages env who plan ps resp)"
  by (intro k_save_own packages)

lemma k_pending: "br_idempotency_key req = key \<Longrightarrow> keeps (of_books I) (book_pending env who cx step req ck ps)"
  unfolding book_pending_def Let_def
  by (intro keeps_rules k_insert k_in_books k_change_tables packages) (simp_all add: pending_args_def create_req_of_def Let_def)

lemma k_after_booking: "br_idempotency_key req = key \<Longrightarrow>
    keeps (of_books I) (after_booking env who step req ck ps plan resp)"
  unfolding after_booking_def
  by (intro keeps_rules k_insert) (simp_all add: booked_args_def create_req_of_def)

end

locale booking_orders = booking_rows + booking_syncs +
  assumes creates: "I s \<Longrightarrow> I (s\<lparr>ap_calls := ap_calls s @ [Create_order plan]\<rparr>)"
begin

lemma k_ask_create [keeps_rules]: "keeps I (ask_adapter (Create_order plan) f)"
  using creates by (simp add: keeps_def ask_adapter_def)

lemma k_place [keeps_rules]: "keeps (of_books I) (place_booking env plan)"
  unfolding place_booking_def by (intro keeps_rules)

lemma k_book: "br_idempotency_key req = key \<Longrightarrow> keeps (of_books I) (book env who cx step req ck)"
  unfolding book_def book_order_def by (intro keeps_rules k_pending k_after_booking)

lemma k_impl: "br_idempotency_key req = key \<Longrightarrow> keeps (of_books I) (create_media_buy_impl env who req)"
  unfolding create_media_buy_impl_def audited_booking_def by (intro keeps_rules k_book)

end

section \<open>Calls\<close>

interpretation create_calls: booking_syncs "\<lambda>s. ap_calls s = cs" env for cs env
  by unfold_locales auto

text \<open>Everything but the order itself.\<close>

interpretation create_orders: booking_rows "\<lambda>s. filter is_create (ap_calls s) = os" env who key for os env who key
  by unfold_locales auto

interpretation create_sync_orders: booking_syncs "\<lambda>s. filter is_create (ap_calls s) = os" env for os env
  by unfold_locales auto

lemma pending_asks_nothing: "keeps (of_books (\<lambda>b. ap_calls b = cs)) (book_pending env who cx step req ck ps)"
  unfolding book_pending_def insert_buy_def Let_def
  by (intro keeps_rules create_calls.k_pre_validate create_calls.k_await create_calls.k_in_books create_calls.k_race
      create_calls.k_link k_change_tables) simp_all

text \<open>C32. Where a create must be approved first, the ad server is asked nothing, whatever the outcome.\<close>

theorem approval_comes_before_the_order:
  assumes "create_media_buy_impl env who req s = (s', r)" "approval_required env"
  shows "ap_calls (bk_books s') = ap_calls (bk_books s)"
proof -
  have "keeps (of_books (\<lambda>b. ap_calls b = cs)) (create_media_buy_impl env who req)" for cs
    unfolding create_media_buy_impl_def audited_booking_def book_def if_P [OF assms(2)]
    by (intro keeps_rules create_calls.k_open create_calls.k_check create_calls.k_audit create_calls.k_inline
        pending_asks_nothing)
  from keepsD' [OF this _ assms(1)] show ?thesis by blast
qed

text \<open>A block that places at most one order, from those that place none around one that does.\<close>

definition orders_of :: "booking_state \<Rightarrow> ad_call list" where
  "orders_of s = filter is_create (ap_calls (bk_books s))"

definition orders_once :: "'a bkg \<Rightarrow> bool" where
  "orders_once m = (\<forall>s s' r. m s = (s', r) \<longrightarrow> (\<exists>os. length os \<le> 1 \<and> orders_of s' = orders_of s @ os))"

definition orders_none :: "'a bkg \<Rightarrow> bool" where
  "orders_none m = (\<forall>s s' r. m s = (s', r) \<longrightarrow> orders_of s' = orders_of s)"

lemma orders_noneI:
  assumes "\<And>os. keeps (of_books (\<lambda>b. filter is_create (ap_calls b) = os)) m"
  shows "orders_none m"
  unfolding orders_none_def orders_of_def using keepsD' [OF assms refl] by blast

lemma orders_once_if: "orders_once m \<Longrightarrow> orders_once n \<Longrightarrow> orders_once (if c then m else n)"
  by simp

lemma orders_none_once: "orders_none m \<Longrightarrow> orders_once m"
  unfolding orders_once_def orders_none_def by (metis append_Nil2 le0 list.size(3))

lemma tx_bind_cases:
  assumes "tx_bind m f s = (s', r)"
  obtains e where "m s = (s', Inl e)" "r = Inl e" | s1 x where "m s = (s1, Inr x)" "f x s1 = (s', r)"
  using assms by (auto simp: tx_bind_def split: prod.splits sum.splits)

lemma orders_once_before:
  assumes "orders_none m" "\<And>x. orders_once (f x)"
  shows "orders_once (tx_bind m f)"
  unfolding orders_once_def
proof (intro allI impI, erule tx_bind_cases)
  fix s s' r e assume "m s = (s', Inl e)"
  with assms(1) have "orders_of s' = orders_of s @ []" unfolding orders_none_def by simp
  then show "\<exists>os. length os \<le> 1 \<and> orders_of s' = orders_of s @ os" by (metis le0 list.size(3))
next
  fix s s' r s1 x assume "m s = (s1, Inr x)" "f x s1 = (s', r)"
  with assms show "\<exists>os. length os \<le> 1 \<and> orders_of s' = orders_of s @ os"
    unfolding orders_none_def orders_once_def by metis
qed

lemma orders_once_after: "orders_once m \<Longrightarrow> (\<And>x. orders_none (f x)) \<Longrightarrow> orders_once (tx_bind m f)"
  unfolding orders_once_def orders_none_def by (intro allI impI, erule tx_bind_cases) metis+

lemma orders_once_catch: "orders_once m \<Longrightarrow> (\<And>e. orders_none (h e)) \<Longrightarrow> orders_once (tx_catch m h)"
  unfolding orders_once_def orders_none_def by (intro allI impI, erule tx_catch_cases) metis+

lemma place_orders_once: "orders_once (place_booking env plan)"
  unfolding orders_once_def orders_of_def
  by (auto simp: place_booking_def on_books_def get_adapter_def ask_adapter_def tx_then_def tx_bind_def tx_try_def
      split: sum.splits)

lemma orders_none_rules:
  "orders_none (open_booking env who req)" "orders_none (checked_booking env who step req)"
  "orders_none (upload_inline_creatives env step ps)" "orders_none (order_products env who ps)"
  "orders_none (plan_booking env who step req ck ps prs)" "orders_none (after_booking env who step req ck ps plan resp)"
  "orders_none (on_books (get_adapter (cb_books env)))" "orders_none (tx_return x)"
  "orders_none (tx_then (audit_failure env step e) (tx_raise e'))"
  "orders_none (tx_bind (book_pending env who cx step req ck ps) (\<lambda>r. tx_return (Booking_submitted r)))"
  "orders_none (tx_bind (await_configuration env cx step ps) (\<lambda>r. tx_return (Booking_submitted r)))"
  by (intro orders_noneI keeps_rules create_orders.k_open create_orders.k_check create_sync_orders.k_inline
      create_orders.k_order_products create_orders.k_plan create_orders.k_after_booking [OF refl] create_orders.k_audit
      create_orders.k_pending [OF refl] create_orders.k_await_configuration)+

lemma book_orders_once: "orders_once (book env who cx step req ck)"
  unfolding book_def book_order_def tx_then_def
  by (rule orders_none_rules(10) [THEN orders_none_once] orders_none_rules(11) [THEN orders_none_once]
      orders_once_if place_orders_once orders_none_rules
    | (rule orders_once_before, rule orders_none_rules) | rule orders_once_after)+

text \<open>C33. A create places at most one order.\<close>

theorem create_places_one_order_at_most:
  assumes "create_media_buy_impl env who req s = (s', r)"
  shows "\<exists>os. length os \<le> 1 \<and> filter is_create (ap_calls (bk_books s')) = filter is_create (ap_calls (bk_books s)) @ os"
proof -
  have "orders_once (create_media_buy_impl env who req)"
    unfolding create_media_buy_impl_def audited_booking_def split_def
    by (intro orders_once_before orders_none_rules orders_once_catch book_orders_once)
  with assms show ?thesis unfolding orders_once_def orders_of_def by blast
qed

section \<open>Units of work\<close>

definition at_saved :: "booking_state \<Rightarrow> booking_state" where
  "at_saved s = s\<lparr>bk_books := (bk_books s)\<lparr>ap_view := ap_saved (bk_books s)\<rparr>\<rparr>"

lemma reset_books: "on_books reset_view s = (at_saved s, Inr ())"
  by (simp add: on_books_def reset_view_def tx_change_def at_saved_def)

lemma commit_books: "on_books (commit_view (cb_books env)) s =
    (if ae_commit_fault (cb_books env) (ap_commits (bk_books s))
     then (s\<lparr>bk_books := (bk_books s)\<lparr>ap_commits := Suc (ap_commits (bk_books s)),
         ap_view := ap_saved (bk_books s)\<rparr>\<rparr>, Inl operational_error)
     else (s\<lparr>bk_books := (bk_books s)\<lparr>ap_commits := Suc (ap_commits (bk_books s)),
         ap_saved := ap_view (bk_books s)\<rparr>\<rparr>, Inr ()))"
  by (simp add: on_books_def commit_view_def Let_def)

lemma in_books_cases:
  assumes "in_books env m s = (s', r)"
  obtains (raised) s1 e where "m (at_saved s) = (s1, Inl e)" "s' = at_saved s1" "r = Inl e"
  | (committed) s1 x where "m (at_saved s) = (s1, Inr x)" "r = Inr x" "s' = s1\<lparr>bk_books := (bk_books s1)\<lparr>
      ap_commits := Suc (ap_commits (bk_books s1)), ap_saved := ap_view (bk_books s1)\<rparr>\<rparr>"
  | (lost) s1 x where "m (at_saved s) = (s1, Inr x)" "r = Inl operational_error" "s' = s1\<lparr>bk_books := (bk_books s1)\<lparr>
      ap_commits := Suc (ap_commits (bk_books s1)), ap_view := ap_saved (bk_books s1)\<rparr>\<rparr>"
proof (cases "m (at_saved s)")
  case (Pair s1 x)
  with assms show ?thesis
    by (cases x) (auto simp: in_books_def tx_then_def tx_bind_def tx_catch_def tx_raise_def tx_return_def reset_books
        commit_books split: if_splits intro: that)
qed

section \<open>Before anything is booked\<close>

interpretation untouched: booking_gate "\<lambda>b. ap_view b = D \<and> ap_saved b = D \<and> ap_calls b = cs" env for D cs env
  by unfold_locales auto

text \<open>A refused request: what the checks find in the request, or in the tables as they are.\<close>

definition refused :: "booking_env \<Rightarrow> buyer \<Rightarrow> buy_request \<Rightarrow> update_db \<Rightarrow> bool" where
  "refused env who req db = (case check_flight (cb_now env) req of
     Inl e \<Rightarrow> True
   | Inr (st, et) \<Rightarrow> (case check_tables (cb_catalog env) (cb_network env) (by_tenant who) (create_flight_days st et)
         (request_packages req) db of
       Inl e \<Rightarrow> True
     | Inr priced \<Rightarrow> check_overlays (pp_packages priced) \<noteq> Inr ()))"

lemma check_booking_accepts:
  assumes "check_booking env who req s = (s', Inr ck)"
  shows "\<not> refused env who req (ap_saved (bk_books s))"
  using assms unfolding check_booking_def
  by (auto simp: refused_def tx_try_def tx_then_def of_tables_def on_books_def at_saved_def
      elim!: tx_bind_Inr in_books_cases split: prod.splits)

lemma checked_booking_accepts: "checked_booking env who step req s = (s', Inr ck) \<Longrightarrow> check_booking env who req s = (s', Inr ck)"
  unfolding checked_booking_def
  by (erule tx_catch_cases) (auto simp: tx_then_def tx_when_def tx_bind_def tx_raise_def tx_return_def audit_failure_def
      on_context_def split: if_splits prod.splits sum.splits)

text \<open>A create is opened and checked, and then booked.\<close>

lemma create_cases:
  assumes "create_media_buy_impl env who req s = (s', r)"
  obtains (unopened) e where "open_booking env who req s = (s', Inl e)" "r = Inl e"
  | (stopped) s1 cx step e where "open_booking env who req s = (s1, Inr (cx, step))"
      "checked_booking env who step req s1 = (s', Inl e)" "r = Inl e"
  | (booked) s1 cx step s2 ck where "open_booking env who req s = (s1, Inr (cx, step))"
      "checked_booking env who step req s1 = (s2, Inr ck)" "audited_booking env step (book env who cx step req ck) s2 = (s', r)"
  using assms unfolding create_media_buy_impl_def
  by (elim tx_bind_cases) (auto elim!: tx_bind_cases split: prod.splits intro: that)

lemma audited_raises: "audited_booking env step m s = (s', Inl e) \<Longrightarrow> is_adcp_error e"
  unfolding audited_booking_def
  by (erule tx_catch_cases) (auto simp: tx_then_def tx_bind_def tx_raise_def audit_failure_def on_context_def split: if_splits)

text \<open>C39. A request that its own checks or the tables refuse is an error, and neither books a row nor asks the
  ad server anything.\<close>

theorem refused_create_books_nothing:
  assumes "create_media_buy_impl env who req s = (s', r)" "ap_view (bk_books s) = ap_saved (bk_books s)"
    and "refused env who req (ap_saved (bk_books s))"
  shows "(\<exists>e. r = Inl e) \<and> ap_saved (bk_books s') = ap_saved (bk_books s) \<and> ap_calls (bk_books s') = ap_calls (bk_books s)"
  using assms(1)
proof (cases rule: create_cases)
  case (unopened e)
  from keepsD' [OF untouched.k_open _ unopened(1), of "ap_saved (bk_books s)"] assms(2) unopened(2) show ?thesis by simp
next
  case (stopped s1 cx step e)
  from keepsD' [OF untouched.k_open _ stopped(1), of "ap_saved (bk_books s)"] assms(2)
    keepsD' [OF untouched.k_check _ stopped(2), of "ap_saved (bk_books s)"] stopped(3) show ?thesis by simp
next
  case (booked s1 cx step s2 ck)
  from keepsD' [OF untouched.k_open _ booked(1), of "ap_saved (bk_books s)"] assms(2)
    check_booking_accepts [OF checked_booking_accepts [OF booked(2)]] assms(3) show ?thesis by simp
qed

text \<open>C40. Whatever a create raises once its request is accepted is an error of the protocol: an error of any
  other kind means that nothing was booked and nothing asked of the ad server.\<close>

theorem untyped_error_books_nothing:
  assumes "create_media_buy_impl env who req s = (s', Inl e)" "\<not> is_adcp_error e"
    and "ap_view (bk_books s) = ap_saved (bk_books s)"
  shows "ap_saved (bk_books s') = ap_saved (bk_books s) \<and> ap_calls (bk_books s') = ap_calls (bk_books s)"
  using assms(1)
proof (cases rule: create_cases)
  case (unopened e)
  from keepsD' [OF untouched.k_open _ unopened(1), of "ap_saved (bk_books s)"] assms(3) show ?thesis by simp
next
  case (stopped s1 cx step e)
  from keepsD' [OF untouched.k_open _ stopped(1), of "ap_saved (bk_books s)"] assms(3)
    keepsD' [OF untouched.k_check _ stopped(2), of "ap_saved (bk_books s)"] show ?thesis by simp
qed (use assms(2) audited_raises in blast)

section \<open>The row of a create\<close>

lemma created_row:
  assumes "create_from_request h tenant now db a = (db', Inr row)" "ca_status a = status_value m"
  shows "get_by_id tenant db' (ca_media_buy_id a) = Some row" "mb_status row = status_value m" "mb_revision row = 1"
    "mb_confirmed_at row = (if ca_seller_committed a then Some now else None)" "mb_budget row = Some (ca_budget a)"
    "mb_idempotency_key row = rq_idempotency_key (ca_req a)" "media_buys db' = media_buys db @ [row]"
    "mb_media_buy_id row = ca_media_buy_id a" "mb_tenant_id row = tenant"
proof -
  obtain raw b where b: "media_buy_init (create_kwargs h tenant a raw m) now = Inr b"
      and i: "insert_media_buy db (fst (stamp_confirmation_if_needed now (ca_seller_committed a) b)) = (db', Inr row)"
    using assms by (auto simp: create_from_request_def simp del: status_value.simps split: sum.splits)
  from b have f: "b = fold mb_setattr (create_kwargs h tenant a raw m) (media_buy_blank now)"
    by (auto simp: media_buy_init_def split: if_splits)
  from i have row: "row = fst (stamp_confirmation_if_needed now (ca_seller_committed a) b)"
      "media_buys db' = media_buys db @ [row]" "\<not> list_ex (\<lambda>r. mb_media_buy_id r = mb_media_buy_id row) (media_buys db)"
    by (auto simp: insert_media_buy_def list_ex_iff split: if_splits)
  have c: "mb_confirmed_at b = None" "mb_revision b = 1" "mb_media_buy_id b = ca_media_buy_id a" "mb_tenant_id b = tenant"
      "mb_status b = status_value m" "mb_budget b = Some (ca_budget a)" "mb_idempotency_key b = rq_idempotency_key (ca_req a)"
    unfolding f create_kwargs_def by (simp_all add: Let_def media_buy_blank_def del: status_value.simps split: option.splits)
  have r: "row = (if ca_seller_committed a then b\<lparr>mb_confirmed_at := Some now\<rparr> else b)"
    using row(1) c(1) by (simp add: stamp_confirmation_if_needed_def)
  show "mb_media_buy_id row = ca_media_buy_id a" "mb_tenant_id row = tenant" "mb_status row = status_value m"
    "mb_revision row = 1" "mb_confirmed_at row = (if ca_seller_committed a then Some now else None)"
    "mb_budget row = Some (ca_budget a)" "mb_idempotency_key row = rq_idempotency_key (ca_req a)"
    using c by (simp_all add: r)
  then show "get_by_id tenant db' (ca_media_buy_id a) = Some row"
    using row(2,3) by (auto simp: get_by_id_def find_append list_ex_iff find_None_iff split: option.split dest!: find_SomeD)
  show "media_buys db' = media_buys db @ [row]" by (rule row(2))
qed

lemma race_raises: "resolve_idempotency_race_or_raise env who a e0 s \<noteq> (s', Inr x)"
  by (auto simp: resolve_idempotency_race_or_raise_def raise_degraded_replay_outcome_def tx_then_def tx_bind_def tx_read_def
      tx_raise_def split: prod.splits sum.splits)

lemma insert_buy_Inr:
  assumes "insert_buy env who a s = (s', Inr row)"
  shows "create_from_request (cb_request_hash env) (by_tenant who) (cb_now env) (ap_saved (bk_books s)) a =
      (ap_saved (bk_books s'), Inr row) \<and> ap_view (bk_books s') = ap_saved (bk_books s')"
  using assms unfolding insert_buy_def
  by (elim tx_catch_cases) (auto elim!: in_books_cases simp: change_tables_def on_books_def on_db_def at_saved_def tx_raise_def
      race_raises split: prod.splits if_splits)

text \<open>While a buy stands, no effect of a create but the inserts touches its row.\<close>

abbreviation row_stands :: "string \<Rightarrow> string \<Rightarrow> media_buy \<Rightarrow> approval_state \<Rightarrow> bool" where
  "row_stands tenant i row b \<equiv> get_by_id tenant (ap_view b) i = Some row \<and> get_by_id tenant (ap_saved b) i = Some row"

lemma get_by_id_cong: "media_buys db' = media_buys db \<Longrightarrow> get_by_id tenant db' i = get_by_id tenant db i"
  by (simp add: get_by_id_def)

lemma insert_packages_buys: "insert_packages ps db = Inr db' \<Longrightarrow> media_buys db' = media_buys db"
  by (induction ps arbitrary: db) (auto split: if_splits)

lemma add_packages_buys [simp]: "media_buys (fst (add_packages ps db)) = media_buys db"
  by (auto simp: add_packages_def dest: insert_packages_buys split: sum.split)

lemma assign_to_package_buys [simp]: "media_buys (assign_to_package env who mbid k c db) = media_buys db"
  by (simp add: assign_to_package_def assignment_create_def)

lemma effect_buys [simp]: "media_buys (write_package db p) = media_buys db" "media_buys (update_data c d db) = media_buys db"
  by (simp_all add: write_package_def update_data_def)

interpretation row_kept: booking_units "row_stands tenant i row" env who for tenant i row env who
  by unfold_locales (auto simp: get_by_id_def)

lemma k_row_save: "keeps (of_books (row_stands tenant i row)) (save_packages env who plan ps resp)"
  by (rule row_kept.k_save_own) (simp add: get_by_id_def)

lemma tx_bind_Inr_eq: "tx_bind m f s = (s', Inr y) \<longleftrightarrow> (\<exists>s1 x. m s = (s1, Inr x) \<and> f x s1 = (s', Inr y))"
  by (auto simp: tx_bind_def split: prod.splits sum.splits)

lemma after_booking_Inr:
  assumes "after_booking env who step req ck ps plan resp s = (s', Inr r)"
  shows "\<exists>row. row_stands (by_tenant who) (rs_media_buy_id resp) row (bk_books s') \<and>
    mb_status row = status_value (booked_status env ck ps) \<and> mb_revision row = 1 \<and> mb_confirmed_at row = Some (cb_now env) \<and>
    mb_budget row = Some (get_total_budget ps) \<and> mb_idempotency_key row = br_idempotency_key req \<and>
    (\<exists>bps. r = success_result env ck ps resp row bps)"
proof -
  let ?a = "booked_args env who req ck ps (rs_media_buy_id resp)"
  let ?rest = "\<lambda>row. tx_then (save_packages env who plan ps resp) (tx_then (attach_creatives env who step resp ps)
    (tx_bind (tx_try (\<lambda>_. check_each (echo_package resp) (enumerated ps))) (\<lambda>bps.
      tx_then (link_buy env who step (rs_media_buy_id resp)) (tx_then (complete_step env step)
        (tx_return (success_result env ck ps resp row bps))))))"
  obtain s1 row where i: "insert_buy env who ?a s = (s1, Inr row)" and rest: "?rest row s1 = (s', Inr r)"
    using assms unfolding after_booking_def by (auto simp: tx_bind_Inr_eq)
  have k: "keeps (of_books (row_stands (by_tenant who) (rs_media_buy_id resp) row)) (?rest row)"
    by (intro keeps_rules k_row_save row_kept.k_attach row_kept.k_link row_kept.k_complete)
  from insert_buy_Inr [OF i] have c: "create_from_request (cb_request_hash env) (by_tenant who) (cb_now env)
      (ap_saved (bk_books s)) ?a = (ap_saved (bk_books s1), Inr row)" and v: "ap_view (bk_books s1) = ap_saved (bk_books s1)"
    by auto
  have a: "ca_status ?a = status_value (booked_status env ck ps)" "ca_seller_committed ?a" "ca_budget ?a = get_total_budget ps"
    "ca_media_buy_id ?a = rs_media_buy_id resp" "rq_idempotency_key (ca_req ?a) = br_idempotency_key req"
    by (simp_all add: booked_args_def create_req_of_def del: status_value.simps)
  note row = created_row [OF c a(1)]
  have "row_stands (by_tenant who) (rs_media_buy_id resp) row (bk_books s1)" using row(1) v a by simp
  then have "row_stands (by_tenant who) (rs_media_buy_id resp) row (bk_books s')"
    using keepsD' [OF k _ rest] by blast
  moreover have "\<exists>bps. r = success_result env ck ps resp row bps"
    using rest by (auto simp: tx_then_def tx_bind_Inr_eq tx_return_def)
  ultimately show ?thesis using row(2-6) a by auto
qed

text \<open>Budgets and products pass from the request to the row unchanged.\<close>

abbreviation same_buying :: "package_request list \<Rightarrow> package_request list \<Rightarrow> bool" where
  "same_buying ps qs \<equiv> map pq_budget qs = map pq_budget ps \<and> map pq_product_id qs = map pq_product_id ps"

lemma total_budget_cong:
  assumes "same_buying ps qs"
  shows "get_total_budget qs = get_total_budget ps"
proof -
  have "get_total_budget xs = sum_list (map (\<lambda>b. case b of None \<Rightarrow> 0 | Some x \<Rightarrow> x) (filter truthy_num (map pq_budget xs)))" for xs
    by (induction xs) (simp_all add: get_total_budget_def has_budget_def budget_of_def)
  with assms show ?thesis by simp
qed

lemma upload_buying: "process_and_upload_package_creatives env ps s = (s', Inr qs) \<Longrightarrow> same_buying ps qs"
proof (induction ps arbitrary: s s' qs)
  case (Cons p ps)
  have one: "pq_budget q = pq_budget p \<and> pq_product_id q = pq_product_id p"
    if "upload_package_creatives env p s1 = (s2, Inr q)" for s1 s2 q
    using that by (auto simp: upload_package_creatives_def tx_bind_Inr_eq Let_def tx_raise_def tx_return_def split: if_splits)
  from Cons show ?case
    by (auto simp: tx_bind_Inr_eq tx_return_def tx_raise_def dest!: one elim!: tx_catch_cases split: if_splits)
qed (simp add: tx_return_def)

lemma inline_buying: "upload_inline_creatives env step ps s = (s', Inr qs) \<Longrightarrow> same_buying ps qs"
  unfolding upload_inline_creatives_def failing_step_def
  by (elim tx_catch_cases) (auto dest: upload_buying simp: fail_and_raise_def fail_step_def tx_then_def tx_bind_Inr_eq tx_raise_def
      split: if_splits)

lemma checked_then_Inr [simp]: "checked_then m f = Inr y \<longleftrightarrow> (\<exists>x. m = Inr x \<and> f x = Inr y)"
  by (auto simp: checked_then_def split: sum.split)

lemma refuse_if_Inr [simp]: "refuse_if c e = Inr u \<longleftrightarrow> \<not> c"
  by (simp add: refuse_if_def)

lemma legacy_buying [simp]: "pq_budget (resolve_legacy_option prs p) = pq_budget p"
    "pq_product_id (resolve_legacy_option prs p) = pq_product_id p"
  by (simp_all add: resolve_legacy_option_def split: option.split list.split)

lemma check_tables_buying: "check_tables cat nw tenant days ps db = Inr priced \<Longrightarrow> same_buying ps (pp_packages priced)"
  by (auto simp: check_tables_def Let_def)

lemma check_each_length: "check_each f xs = Inr ys \<Longrightarrow> length ys = length xs"
  by (induction xs arbitrary: ys) auto

lemma check_tables_pricing: "check_tables cat nw tenant days ps db = Inr priced \<Longrightarrow> length (pp_pricing priced) = length ps"
  by (auto simp: check_tables_def Let_def package_pricing_def dest: check_each_length)

lemma flight_ahead: "check_flight now req = Inr (st, et) \<Longrightarrow> now \<le> to_utc st \<and> to_utc st < to_utc et"
  by (auto simp: check_flight_def check_start_def check_end_def in_utc_def split: option.splits start_edge.splits if_splits
      pydatetime.splits)

text \<open>What a checked request is made of.\<close>

lemma checked_booking_Inr:
  assumes "checked_booking env who step req s = (s', Inr ck)"
  shows "check_flight (cb_now env) req = Inr (ck_start ck, ck_end ck) \<and>
    check_tables (cb_catalog env) (cb_network env) (by_tenant who) (create_flight_days (ck_start ck) (ck_end ck))
      (request_packages req) (ap_saved (bk_books s)) = Inr (ck_priced ck) \<and> check_overlays (pp_packages (ck_priced ck)) = Inr ()"
  using checked_booking_accepts [OF assms] unfolding check_booking_def
  by (auto simp: tx_bind_Inr_eq tx_try_def tx_then_def tx_return_def of_tables_def on_books_def at_saved_def
      elim!: in_books_cases split: prod.splits)

lemma booked_status_pending:
  assumes "check_flight (cb_now env) req = Inr (ck_start ck, ck_end ck)"
  shows "booked_status env ck ps = PENDING_CREATIVES"
  using flight_ahead [OF assms] by (auto simp: booked_status_def determine_media_buy_status_def)

lemma book_Inr:
  assumes "audited_booking env step (book env who cx step req ck) s = (s', Inr res)"
  obtains (submitted) ps s1 p where "same_buying (pp_packages (ck_priced ck)) ps" "approval_required env"
      "book_pending env who cx step req ck ps s1 = (s', Inr p)" "res = Booking_submitted p"
  | (unconfigured) ps s1 prs p where "same_buying (pp_packages (ck_priced ck)) ps" "\<not> approval_required env" "\<not> list_all auto_created prs"
      "await_configuration env cx step ps s1 = (s', Inr p)" "res = Booking_submitted p"
  | (ordered) ps s1 plan resp r where "same_buying (pp_packages (ck_priced ck)) ps" "\<not> approval_required env"
      "after_booking env who step req ck ps plan resp s1 = (s', Inr r)" "res = Booked r"
proof -
  from assms have "book env who cx step req ck s = (s', Inr res)"
    unfolding audited_booking_def by (elim tx_catch_cases) (auto simp: tx_then_def tx_bind_Inr_eq tx_raise_def)
  then show thesis
    by (cases "approval_required env") (auto simp: book_def tx_then_def tx_bind_Inr_eq tx_return_def book_order_def
        dest!: inline_buying split: if_splits intro: submitted unconfigured ordered)
qed


text \<open>The buy that waits for approval.\<close>

lemma insert_packages_rows: "insert_packages ps db = Inr db' \<Longrightarrow> media_packages db' = media_packages db @ ps"
  by (induction ps arbitrary: db) (auto split: if_splits)

lemma fold_keeps: "(\<And>x y. f (g x y) = f y) \<Longrightarrow> f (fold g xs y) = f y"
  by (induction xs arbitrary: y) auto

lemma assign_pending_keeps [simp]: "media_buys (fst (assign_pending env who mbid ps db)) = media_buys db"
    "media_packages (fst (assign_pending env who mbid ps db)) = media_packages db"
  by (auto simp: assign_pending_def Let_def assign_found_def assign_to_package_def assignment_create_def split_def
      intro!: fold_keeps)

interpretation both_views: booking_gate "\<lambda>b. Q (ap_view b) \<and> Q (ap_saved b)" env for Q env
  by unfold_locales auto

lemma add_unit_Inr:
  assumes "in_books env (change_tables (add_packages ps)) s = (s', Inr u)"
  shows "media_packages (ap_saved (bk_books s')) = media_packages (ap_saved (bk_books s)) @ ps \<and>
    media_buys (ap_saved (bk_books s')) = media_buys (ap_saved (bk_books s)) \<and> ap_view (bk_books s') = ap_saved (bk_books s')"
  using assms by (auto elim!: in_books_cases simp: change_tables_def on_books_def on_db_def at_saved_def add_packages_def
      split: prod.splits sum.splits)
    (erule insert_packages_rows insert_packages_buys)+

lemma book_pending_Inr:
  assumes "book_pending env who cx step req ck ps s = (s', Inr p)"
  shows "\<exists>row. get_by_id (by_tenant who) (ap_saved (bk_books s')) (''mb_'' @ cb_media_buy_hex env) = Some row \<and>
    mb_status row = status_value PENDING_APPROVAL \<and> mb_revision row = 1 \<and> mb_confirmed_at row = None \<and>
    mb_budget row = Some (get_total_budget ps) \<and> mb_idempotency_key row = br_idempotency_key req \<and>
    set (pending_packages env ck (''mb_'' @ cb_media_buy_hex env) ps) \<subseteq> set (media_packages (ap_saved (bk_books s')))"
proof -
  let ?i = "''mb_'' @ cb_media_buy_hex env" and ?a = "pending_args env who req ck ps"
  let ?ps = "pending_packages env ck ?i ps"
  let ?rest = "tx_then (link_buy env who step ?i) (tx_then (in_books env (change_tables (assign_pending env who ?i ps)))
    (tx_return (submitted_result env step ps)))"
  obtain s1 s2 s3 row u where i: "insert_buy env who ?a s1 = (s2, Inr row)"
    and add: "in_books env (change_tables (add_packages ?ps)) s2 = (s3, Inr u)" and rest: "?rest s3 = (s', Inr p)"
    using assms unfolding book_pending_def Let_def by (auto simp: tx_then_def tx_bind_Inr_eq)
  from insert_buy_Inr [OF i] have c: "create_from_request (cb_request_hash env) (by_tenant who) (cb_now env)
      (ap_saved (bk_books s1)) ?a = (ap_saved (bk_books s2), Inr row)" by auto
  have a: "ca_status ?a = status_value PENDING_APPROVAL" "\<not> ca_seller_committed ?a" "ca_budget ?a = get_total_budget ps"
    "ca_media_buy_id ?a = ?i" "rq_idempotency_key (ca_req ?a) = br_idempotency_key req"
    by (simp_all add: pending_args_def Let_def create_req_of_def del: status_value.simps)
  note row = created_row [OF c a(1)]
  let ?Q = "\<lambda>db. get_by_id (by_tenant who) db ?i = Some row \<and> set ?ps \<subseteq> set (media_packages db)"
  have "keeps (of_books (\<lambda>b. ?Q (ap_view b) \<and> ?Q (ap_saved b))) ?rest"
    by (intro keeps_rules both_views.k_link both_views.k_in_books k_change_tables) (simp add: get_by_id_def)
  moreover have "?Q (ap_view (bk_books s3)) \<and> ?Q (ap_saved (bk_books s3))"
    using add_unit_Inr [OF add] row(1) a by (simp add: get_by_id_def)
  ultimately have "?Q (ap_saved (bk_books s'))" using rest by (auto dest: keepsD')
  then show ?thesis using row(2-6) a by auto
qed

lemma pending_packages_of:
  assumes "q \<in> set ps" "length (pp_pricing (ck_priced ck)) = length ps"
  shows "\<exists>k terms. pending_package mbid k q terms (pp_currency (ck_priced ck)) \<in> set (pending_packages env ck mbid ps)"
proof -
  from assms(1) obtain i where i: "i < length ps" "ps ! i = q" by (auto simp: in_set_conv_nth)
  let ?z = "zip (enumerated ps) (pp_pricing (ck_priced ck))"
  have "?z ! i = ((i, q), pp_pricing (ck_priced ck) ! i)" "i < length ?z"
    using i assms(2) by (simp_all add: enumerated_def)
  then have "((i, q), pp_pricing (ck_priced ck) ! i) \<in> set ?z" by (metis nth_mem)
  then show ?thesis unfolding pending_packages_def by force
qed


lemma valid_formats: "\<forall>f \<in> set fs. \<exists>u. ae_format_id env f = Inr u \<and> is_dialled_agent_url u \<Longrightarrow> stored_formats env k i fs = proceed fs"
  by (induction fs arbitrary: i) (auto simp: and_then_def proceed_def)

lemma truthy_simps: "\<not> json_truthy JNull" "json_truthy (JStr t) \<longleftrightarrow> t \<noteq> []"
  by (simp_all add: json_truthy_def)

text \<open>C37. A package that waits for approval is ordered as it was asked for: what is stored of it is rebuilt to its
  product, budget, targeting and terms, while the product still has options and valid formats. Its price is
  that of the product's first option.\<close>

theorem waiting_package_is_rebuilt:
  assumes "get_product_by_id tenant db (pq_product_id p) = Some pr" "pq_product_id p \<noteq> []" "k \<noteq> []"
    and "prod_pricing_options pr = po # pos" "prod_format_ids pr \<noteq> []"
    and "\<forall>f \<in> set (prod_format_ids pr). \<exists>u. ae_format_id env f = Inr u \<and> is_dialled_agent_url u"
    and "\<And>t. pq_targeting p = Some t \<Longrightarrow> json_truthy (tg_document t) \<and> ae_targeting env (tg_document t) = Inr ()"
    and "json_truthy terms"
  shows "rebuild_package env tenant db (pending_package mbid k p terms currency) = proceed
    (\<lparr>op_package_id = k, op_name = prod_name pr, op_delivery_type = delivery_type_of pr, op_cpm = option_cpm po,
      op_impressions = impressions_for (budget_of p) (option_cpm po), op_format_ids = prod_format_ids pr,
      op_targeting = map_option tg_document (pq_targeting p), op_product_id = pq_product_id p, op_budget = pq_budget p,
      op_creative_ids = None\<rparr>, terms)"
  using assms
  by (cases "pq_budget p"; cases "pq_targeting p")
    (simp_all add: rebuild_package_def rebuild_fields_def Let_def pending_package_def pending_config_def config_dict_def
      stored_product_id_def stored_budget_def stored_pricing_option_def stored_targeting_def stored_name_def
      stored_pricing_info_def valid_formats has_value_def flow_of_def and_then_def proceed_def need_def float_of_def
      budget_of_def truthy_simps)

section \<open>Limits\<close>

lemma accepted_tables:
  assumes "check_tables cat nw tenant days ps db = Inr priced"
  defines "prs \<equiv> list_by_ids tenant db (get_product_ids ps)"
  shows "\<exists>l. get_for_currency tenant (pp_currency priced) db = Some l \<and> missing_products prs ps = [] \<and>
    pp_packages priced = map (resolve_legacy_option prs) ps \<and>
    check_min_spend l (pp_currency priced) prs (pp_packages priced) = Inr () \<and> check_daily_spend l days (pp_packages priced) = Inr ()"
  using assms(1) unfolding prs_def
  by (auto simp: check_tables_def Let_def check_currency_def split: option.splits if_splits)

lemma in_first_seen: "x \<in> set (first_seen xs) \<longleftrightarrow> x \<in> set xs"
  by (simp add: first_seen_def)

lemma check_each_all: "check_each f xs = Inr ys \<Longrightarrow> x \<in> set xs \<Longrightarrow> \<exists>y. f x = Inr y"
  by (induction xs arbitrary: ys) auto

lemma raise_if_validation_Inr [simp]: "raise_if_validation_failed c e x l = Inr u \<longleftrightarrow> c"
  by (simp add: raise_if_validation_failed_def)

lemma min_spend_kept:
  assumes "check_min_spend l c prs qs = Inr ()" "cl_min_package_budget l = Some m" "m \<noteq> 0" "q \<in> set qs" "has_budget q"
    and "product_in prs (pq_product_id q) = Some pr" "0 < product_min_spend m c pr"
  shows "product_min_spend m c pr \<le> budget_of q"
proof -
  have "prs \<noteq> []" "\<not> legacy_mode qs" "qs \<noteq> []" using assms(4-6) by (auto simp: product_in_def legacy_mode_def list_all_iff)
  with assms(1-3) obtain ys where "check_each (check_package_min_spend m c prs) qs = Inr ys"
    by (auto simp: check_min_spend_def)
  from check_each_all [OF this assms(4)] obtain y where "check_package_min_spend m c prs q = Inr y" by blast
  with assms(5-7) show ?thesis by (simp add: check_package_min_spend_def Let_def validate_min_package_budget_def)
qed

lemma daily_spend_kept:
  assumes "check_daily_spend l days qs = Inr ()" "cl_max_daily_package_spend l = Some x" "x \<noteq> 0" "q \<in> set qs" "has_budget q" "0 < days"
  shows "budget_of q \<le> x * of_int days"
proof -
  have "\<not> legacy_mode qs" "qs \<noteq> []" using assms(4,5) by (auto simp: legacy_mode_def list_all_iff)
  with assms(1-3) obtain ys where "check_each (check_package_daily_spend x days) qs = Inr ys"
    by (auto simp: check_daily_spend_def)
  from check_each_all [OF this assms(4)] obtain y where "check_package_daily_spend x days q = Inr y" by blast
  with assms(5,6) show ?thesis by (simp add: check_package_daily_spend_def validate_max_daily_package_spend_def not_less divide_le_eq)
qed

lemma legacy_has_budget [simp]: "has_budget (resolve_legacy_option prs q) = has_budget q"
    "budget_of (resolve_legacy_option prs q) = budget_of q"
  by (simp_all add: has_budget_def budget_of_def)

lemma found_product:
  assumes "missing_products prs ps = []" "q \<in> set ps" "pq_product_id q \<noteq> []"
  shows "\<exists>pr. product_in prs (pq_product_id q) = Some pr"
proof -
  have "filter (\<lambda>i. product_in prs i = None) (get_product_ids ps) = []"
    using assms(1) unfolding missing_products_def by (metis length_0_conv length_sort)
  moreover have "pq_product_id q \<in> set (get_product_ids ps)" using assms(2,3) by (simp add: get_product_ids_def in_first_seen)
  ultimately show ?thesis by (auto simp: filter_empty_conv)
qed

lemma create_days_positive: "0 < create_flight_days st et"
  by (simp add: create_flight_days_def Let_def)

lemma named_products: "require_product_ids i ps = Inr () \<Longrightarrow> q \<in> set ps \<Longrightarrow> pq_product_id q \<noteq> []"
  by (induction ps arbitrary: i) (auto split: if_splits)

lemma check_flight_Inr: "check_flight now req = Inr (st, et) \<Longrightarrow> 0 < get_total_budget (request_packages req) \<and>
    require_product_ids 0 (request_packages req) = Inr ()"
  by (auto simp: check_flight_def check_product_ids_def validate_budget_positive_def)


section \<open>Keys\<close>

definition sync_keeps_buys :: "booking_env \<Rightarrow> bool" where
  "sync_keeps_buys env = (\<forall>i cs db. media_buys (fst (cb_sync env i cs db)) = media_buys db)"

lemma sync_keepsD: "sync_keeps_buys env \<Longrightarrow> cb_sync env i cs db = (db', r) \<Longrightarrow> media_buys db' = media_buys db"
  unfolding sync_keeps_buys_def by (metis fst_conv)

definition key_is_booked :: "buyer \<Rightarrow> string option \<Rightarrow> media_buy list \<Rightarrow> bool" where
  "key_is_booked who key B = (\<exists>k. key = Some k \<and> (\<exists>b. find (\<lambda>b. mb_tenant_id b = by_tenant who \<and> mb_principal_id b = by_principal who \<and>
     mb_account_id b = Some (by_account who) \<and> mb_idempotency_key b = Some k) B = Some b))"

lemma booked_key_inserts_nothing:
  assumes "key_is_booked who key (media_buys db)" "rq_idempotency_key (ca_req a) = key" "ca_principal_id a = by_principal who"
    and "ca_account_id a = Some (by_account who)"
  shows "fst (create_from_request h (by_tenant who) now db a) = db"
proof -
  from assms(1) obtain k b where "key = Some k"
    "find_by_idempotency_key (by_tenant who) db k (by_principal who) (Some (by_account who)) = Some b"
    by (auto simp: key_is_booked_def find_by_idempotency_key_def)
  with idempotency_key_books_once [of "by_tenant who" db k "by_principal who" a b h now] assms(2-4) show ?thesis by auto
qed

interpretation keyed: booking_orders
  "\<lambda>s. media_buys (ap_view s) = B \<and> media_buys (ap_saved s) = B \<and> key_is_booked who key B \<and> sync_keeps_buys env"
  env who key for B env who key
  by unfold_locales (auto simp: booked_key_inserts_nothing dest: sync_keepsD)

text \<open>What a block can return when it starts with an invariant.\<close>

definition yields :: "(booking_state \<Rightarrow> bool) \<Rightarrow> ('a \<Rightarrow> bool) \<Rightarrow> 'a bkg \<Rightarrow> bool" where
  "yields I P m = (\<forall>s s' x. I s \<longrightarrow> m s = (s', Inr x) \<longrightarrow> P x)"

lemma yields_bind:
  assumes "keeps I m" "yields I Q m" "\<And>x. Q x \<Longrightarrow> yields I P (f x)"
  shows "yields I P (tx_bind m f)"
  unfolding yields_def
proof (intro allI impI)
  fix s s' y assume "I s" "tx_bind m f s = (s', Inr y)"
  then obtain s1 x where m: "m s = (s1, Inr x)" and f: "f x s1 = (s', Inr y)" by (auto simp: tx_bind_Inr_eq)
  from keepsD' [OF assms(1) \<open>I s\<close> m] assms(2,3) m f \<open>I s\<close> show "P y" unfolding yields_def by blast
qed

lemma yields_any: "yields I (\<lambda>_. True) m"
  by (simp add: yields_def)

lemma yields_then: "keeps I m \<Longrightarrow> (\<And>x. yields I P (f x)) \<Longrightarrow> yields I P (tx_bind m f)"
  by (rule yields_bind [OF _ yields_any])

lemma yields_nothing: "yields I (\<lambda>_. False) m \<Longrightarrow> keeps I m \<Longrightarrow> yields I P (tx_bind m f)"
  by (rule yields_bind [where Q = "\<lambda>_. False"]) auto

lemma yields_if: "yields I P m \<Longrightarrow> yields I P n \<Longrightarrow> yields I P (if c then m else n)"
  by simp

lemma yields_return: "P x \<Longrightarrow> yields I P (tx_return x)"
  by (simp add: yields_def tx_return_def)

lemma yields_audited: "yields I P m \<Longrightarrow> yields I P (audited_booking env step m)"
  unfolding yields_def audited_booking_def
  by (intro allI impI, erule tx_catch_cases) (auto simp: tx_then_def tx_bind_Inr_eq tx_raise_def)

abbreviation booked_elsewhere :: "booking_env \<Rightarrow> buyer \<Rightarrow> string option \<Rightarrow> media_buy list \<Rightarrow> booking_state \<Rightarrow> bool" where
  "booked_elsewhere env who key B \<equiv> of_books (\<lambda>s. media_buys (ap_view s) = B \<and> media_buys (ap_saved s) = B \<and>
     key_is_booked who key B \<and> sync_keeps_buys env)"

lemma booked_key_no_row: "yields (booked_elsewhere env who (br_idempotency_key req) B) (\<lambda>_. False)
    (insert_buy env who (booked_args env who req ck ps mbid))"
  unfolding yields_def
proof (intro allI impI)
  fix s s' row
  let ?a = "booked_args env who req ck ps mbid"
  assume I: "booked_elsewhere env who (br_idempotency_key req) B s" and "insert_buy env who ?a s = (s', Inr row)"
  from insert_buy_Inr [OF this(2)] have c: "create_from_request (cb_request_hash env) (by_tenant who) (cb_now env)
    (ap_saved (bk_books s)) ?a = (ap_saved (bk_books s'), Inr row)" by blast
  have "fst (create_from_request (cb_request_hash env) (by_tenant who) (cb_now env) (ap_saved (bk_books s)) ?a) = ap_saved (bk_books s)"
    using I by (intro booked_key_inserts_nothing) (auto simp: booked_args_def create_req_of_def)
  with c have "media_buys (ap_saved (bk_books s')) = media_buys (ap_saved (bk_books s))" by simp
  moreover have "media_buys (ap_saved (bk_books s')) = media_buys (ap_saved (bk_books s)) @ [row]"
    by (rule created_row(7) [OF c]) (simp add: booked_args_def del: status_value.simps)
  ultimately show False by simp
qed

lemma booked_key_not_answered: "yields (booked_elsewhere env who (br_idempotency_key req) B) (\<lambda>res. \<forall>r. res \<noteq> Booked r)
    (book env who cx step req ck)"
proof -
  have after: "yields (booked_elsewhere env who (br_idempotency_key req) B) (\<lambda>_. False) (after_booking env who step req ck ps plan resp)"
    for ps plan resp unfolding after_booking_def
    by (rule yields_nothing [OF booked_key_no_row]) (rule keyed.k_insert; simp add: booked_args_def create_req_of_def)
  have order: "yields (booked_elsewhere env who (br_idempotency_key req) B) (\<lambda>_. False) (book_order env who step req ck ps prs)" for ps prs
    unfolding book_order_def by (intro yields_then keyed.k_plan keyed.k_place after)
  have ordered: "yields (booked_elsewhere env who (br_idempotency_key req) B) P (tx_bind (book_order env who step req ck ps prs) f)"
    for ps prs f and P :: "'x \<Rightarrow> bool"
    by (rule yields_nothing [OF order]) (auto simp: book_order_def intro!: keeps_bind keyed.k_plan keyed.k_place
      keyed.k_after_booking [OF refl])
  have submitted: "yields (booked_elsewhere env who (br_idempotency_key req) B) (\<lambda>res. \<forall>r. res \<noteq> Booked r)
      (tx_bind m (\<lambda>r. tx_return (Booking_submitted r)))"
    if "keeps (booked_elsewhere env who (br_idempotency_key req) B) m" for m
    by (intro yields_then that yields_return) simp
  show ?thesis
    unfolding book_def tx_then_def
    by (rule yields_then [OF keyed.k_inline] yields_then [OF k_on_books [OF k_get_adapter]] yields_if ordered
      submitted [OF keyed.k_pending [OF refl]] submitted [OF keyed.k_await_configuration] yields_then [OF keyed.k_order_products])+
qed


end
