(* ===== verification/Approval_Runs.thy ===== *)
theory Approval_Runs
  imports Approval_Properties
begin

text \<open>
  Approvals at concrete tables: an order that is placed and committed, one held back for a creative,
  one that fails after the ad server took it, one that an absent adapter fails; the witnesses of the
  properties of an approval, and what its code does not do as it says.
\<close>

section \<open>A tenant with one buy to approve\<close>

definition ex_order_env :: approval_env where
  "ex_order_env = \<lparr>ae_creatives = id_order media_asset_fallback_ids, ae_text = (\<lambda>_. []), ae_float = (\<lambda>_. None),
     ae_carrier = (\<lambda>_ _ _. Inr ()), ae_targeting = (\<lambda>_. Inr ()), ae_format_id = (\<lambda>_. Inr ''https://x''),
     ae_identity = (\<lambda>_ _. Inr ()), ae_get_adapter = Inr (),
     ae_create = (\<lambda>_. Inr \<lparr>rs_media_buy_id = ''o1'', rs_packages = [], rs_line_item_ids = [(''k1'', ''l1'')]\<rparr>),
     ae_creatives_manager = True,
     ae_upload = (\<lambda>_. Inr [\<lparr>ats_creative_id = Some ''c1'', ats_status = ''approved'', ats_message = None,
       ats_concept_id = None, ats_concept_name = None, ats_concept_source = None\<rparr>]),
     ae_orders_manager = True, ae_approve_order = (\<lambda>_. Inr True), ae_commit_fault = (\<lambda>_. False), ae_now = 50\<rparr>"

definition ex_order_buy :: media_buy where
  "ex_order_buy = (ex_buy ''b1'' ''t1'' ''pending_approval'' None)\<lparr>mb_budget := Some 10, mb_raw_request := JObj [],
     mb_account_id := Some ''acc'', mb_start_time := Some (Aware 0 0), mb_end_time := Some (Aware 100 0)\<rparr>"

definition ex_order_db :: "creative_row \<Rightarrow> update_db" where
  "ex_order_db c = \<lparr>media_buys = [ex_order_buy],
     media_packages = [(ex_pkg ''b1'' ''k1'')\<lparr>mp_package_config := JObj [(''product_id'', JStr ''pr1''), (''budget'', JNum 10)]\<rparr>],
     creative_assignments = [assignment_row ''a1'' ''t1'' 0 ''b1'' ''k1'' ''c1'' ''p1''],
     creative_rows = [c], creative_reviews = [],
     product_rows = [\<lparr>prod_tenant_id = ''t1'', prod_product_id = ''pr1'', prod_name = ''Banner'',
       prod_format_ids = [JObj [(''id'', JStr ''display'')]], prod_creative_policy = None, prod_placements = None,
       prod_property_targeting_allowed = False, prod_delivery_type = ''guaranteed'',
       prod_pricing_options = [\<lparr>po_pricing_option_id = ''x'', po_pricing_model = ''cpm'', po_rate = Some 5,
         po_currency = ''USD'', po_is_fixed = True, po_price_guidance = None, po_min_spend_per_package = None,
         po_parameters = None\<rparr>],
       prod_implementation_config = None\<rparr>],
     currency_limits = [], tenant_rows = [\<lparr>tn_tenant_id = ''t1'', tn_slack_webhook_url = None\<rparr>]\<rparr>"

definition at_rest :: "update_db \<Rightarrow> approval_state" where
  "at_rest db = \<lparr>ap_view = db, ap_saved = db, ap_calls = [], ap_commits = 0\<rparr>"

definition ex_approve :: "approval_env \<Rightarrow> creative_row \<Rightarrow> approval_state \<times> approval_result res" where
  "ex_approve env c = execute_approved_media_buy env ''b1'' ''t1'' (Some ''admin'') (Some 40) (at_rest (ex_order_db c))"

definition ex_order :: "approval_state" where "ex_order = fst (ex_approve ex_order_env ex_banner)"

fun call_name :: "ad_call \<Rightarrow> string" where
  "call_name (Create_order p) = ''create''"
| "call_name (Add_assets i as n) = ''assets''"
| "call_name (Approve_order i) = ''approve''"
| "call_name (Associate_creatives ls cs) = ''associate''"

lemma ex_order_run:
  "(case ex_approve ex_order_env ex_banner of (s, Inr r) \<Rightarrow>
     map call_name (ap_calls s) = [''create'', ''assets'', ''approve''] \<and> ap_commits s = 4 \<and>
     map mb_status (media_buys (ap_saved s)) = [''active''] \<and> map mb_confirmed_at (media_buys (ap_saved s)) = [Some 50] \<and>
     map mp_package_config (media_packages (ap_saved s)) = [JObj [(''product_id'', JStr ''pr1''), (''budget'', JNum 10),
       (''platform_order_id'', JStr ''o1''), (''platform_line_item_id'', JStr ''l1'')]] \<and>
     r = \<lparr>ar_outcome = Executed, ar_status = Some ACTIVE, ar_revision = Some 2, ar_confirmed_at = Some 50, ar_error = None\<rparr>
   | _ \<Rightarrow> False)"
  by code_simp

section \<open>The properties of an approval at this buy\<close>

definition unreviewed :: creative_row where "unreviewed = ex_banner\<lparr>cr_status := ''pending_review''\<rparr>"

definition ex_refused_env :: approval_env where
  "ex_refused_env = ex_order_env\<lparr>ae_carrier := (\<lambda>_ _ _. Inl validation_error)\<rparr>"

definition outcome_of :: "approval_state \<times> approval_result res \<Rightarrow> approval_result" where
  "outcome_of x = (case snd x of Inr r \<Rightarrow> r)"

definition ex_fields :: "approval_state \<times> approval_result res \<Rightarrow> approval_outcome \<times> string list \<times> string list" where
  "ex_fields x = (case x of (s, Inr r) \<Rightarrow>
     (ar_outcome r, map call_name (ap_calls s), map mb_status (media_buys (ap_saved s))))"

text \<open>Every approval answers: a run is its state and its outcome.\<close>

lemma ex_run_outcome:
  "execute_approved_media_buy env ''b1'' ''t1'' (Some ''admin'') (Some 40) (at_rest (ex_order_db c)) =
     (fst (ex_approve env c), Inr (outcome_of (ex_approve env c)))"
proof -
  obtain s r where "ex_approve env c = (s, Inr r)"
    using answersD [OF answers_execute] unfolding ex_approve_def by blast
  then show ?thesis by (simp add: ex_approve_def outcome_of_def)
qed

lemma approval_places_one_order_at_most_witness:
  "\<exists>os. length os \<le> 1 \<and> filter is_create (ap_calls ex_order) = [] @ os"
  using approval_places_one_order_at_most [OF ex_run_outcome [of ex_order_env ex_banner]]
  by (simp add: ex_order_def at_rest_def)

lemma unasked_approval_can_be_retried_witness:
  "ar_outcome (outcome_of (ex_approve ex_refused_env ex_banner)) = Approval_failed \<and>
     ap_saved (fst (ex_approve ex_refused_env ex_banner)) = ex_order_db ex_banner"
proof -
  have "unapproved_creative_ids ''t1'' (ap_saved (at_rest (ex_order_db ex_banner))) ''b1'' = []" by code_simp
  moreover have "ae_get_adapter ex_refused_env = Inr ()" by code_simp
  moreover have "ap_calls (fst (ex_approve ex_refused_env ex_banner)) = ap_calls (at_rest (ex_order_db ex_banner))" by code_simp
  ultimately show ?thesis
    using unasked_approval_can_be_retried [OF ex_run_outcome [of ex_refused_env ex_banner]] by (simp add: at_rest_def)
qed

lemma approval_waits_for_creatives_witness:
  "ap_calls (fst (ex_approve ex_order_env unreviewed)) = [] \<and>
     ar_outcome (outcome_of (ex_approve ex_order_env unreviewed)) \<noteq> Executed"
proof -
  have "unapproved_creative_ids ''t1'' (ap_saved (at_rest (ex_order_db unreviewed))) ''b1'' \<noteq> []" by code_simp
  moreover have "get_by_id ''t1'' (ap_saved (at_rest (ex_order_db unreviewed))) ''b1'' = Some ex_order_buy" by code_simp
  ultimately show ?thesis
    using approval_waits_for_creatives [OF ex_run_outcome [of ex_order_env unreviewed]] by (simp add: at_rest_def)
qed

lemma executed_result_is_the_committed_row_witness:
  "ar_revision (outcome_of (ex_approve ex_order_env ex_banner)) =
     map_option mb_revision (get_by_id ''t1'' (ap_saved ex_order) ''b1'')"
proof -
  have "ar_outcome (outcome_of (ex_approve ex_order_env ex_banner)) = Executed" by code_simp
  from executed_result_is_the_committed_row [OF ex_run_outcome this] show ?thesis
    by (auto simp: ex_order_def)
qed

text \<open>The ad server takes the order and does not approve it: the buy is marked failed.\<close>

definition ex_unapproved_env :: approval_env where
  "ex_unapproved_env = ex_order_env\<lparr>ae_approve_order := (\<lambda>_. Inr False)\<rparr>"

lemma ex_order_db_ok: "mb_db_ok (ex_order_db ex_banner) \<and> creative_tables_ok (ex_order_db ex_banner)"
  by code_simp

lemma asked_order_is_recorded_witness:
  "\<exists>buy. get_by_id ''t1'' (ap_saved (fst (ex_approve ex_unapproved_env ex_banner))) ''b1'' = Some buy \<and>
     mb_status buy = status_value FAILED"
proof -
  let ?x = "ex_approve ex_unapproved_env ex_banner"
  have calls: "ap_calls (fst ?x) \<noteq> ap_calls (at_rest (ex_order_db ex_banner))" by code_simp
  have commits: "\<And>n. \<not> ae_commit_fault ex_unapproved_env n" by (simp add: ex_unapproved_env_def ex_order_env_def)
  have r: "ar_error (outcome_of ?x) = Some (Order_not_approved ''o1'')" "ar_outcome (outcome_of ?x) = Approval_failed"
    by code_simp+
  then have "\<And>e. ar_error (outcome_of ?x) \<noteq> Some (Persisted_state_refused e)" by simp
  from asked_order_is_recorded [OF ex_run_outcome calls _ commits this] ex_order_db_ok r(2) show ?thesis
    by (simp add: at_rest_def)
qed

section \<open>What is not done as it is said\<close>

text \<open>
  An approved creative without a size: the check before the order does not see it, since the rebuilt
  packages name no creatives; the order is placed, and the upload then fails the buy.
\<close>

lemma approved_creative_fails_the_placed_order:
  "ex_fields (ex_approve ex_order_env (ex_banner\<lparr>cr_data := JObj []\<rparr>)) = (Approval_failed, [''create''], [''failed''])"
  by code_simp

text \<open>An adapter that cannot be had asks nothing of the ad server, and still marks the buy failed.\<close>

lemma missing_adapter_fails_the_buy:
  "ex_fields (ex_approve (ex_order_env\<lparr>ae_get_adapter := Inl (OtherException ''ConfigError'')\<rparr>) ex_banner) =
     (Approval_failed, [], [''failed''])"
  by code_simp

text \<open>The order of a buy that failed stays placed; approving it once more places a second one.\<close>

lemma failed_order_is_placed_again:
  "map call_name (ap_calls (fst (execute_approved_media_buy ex_unapproved_env ''b1'' ''t1'' (Some ''admin'') (Some 40)
     (fst (ex_approve ex_unapproved_env ex_banner))))) = [''create'', ''assets'', ''approve'', ''create'', ''assets'', ''approve'']"
  by code_simp

text \<open>A commit lost after the order: the ids of the order are gone, the buy failed.\<close>

lemma lost_commit_loses_the_order_ids:
  "(case ex_approve (ex_order_env\<lparr>ae_commit_fault := (\<lambda>n. n = 1)\<rparr>) ex_banner of (s, Inr r) \<Rightarrow>
     map call_name (ap_calls s) = [''create''] \<and> map mb_status (media_buys (ap_saved s)) = [''failed''] \<and>
     media_packages (ap_saved s) = media_packages (ex_order_db ex_banner) | _ \<Rightarrow> False)"
  by code_simp

end
