(* ===== verification/Create_Runs.thy ===== *)
theory Create_Runs
  imports Create_Properties Approval_Runs
begin

text \<open>
  Creates at concrete tables: one that is ordered at once, one that waits for approval, one whose
  product is not created automatically, refused ones; the witnesses of the properties of a create,
  and what its code does not do as it says.
\<close>

section \<open>A tenant that sells one product\<close>

definition ex_catalog :: catalog_env where
  "ex_catalog = \<lparr>ct_event_types = [''purchase'', ''custom''], ct_time_units = [''day''], ct_float = (\<lambda>_. None),
     ct_option_ok = (\<lambda>_. Inr ()), ct_product_ok = (\<lambda>_. Inr ()), ct_rate = (\<lambda>_. None)\<rparr>"

text \<open>The ad server answers the packages it is given with their ids, and a line item for each.\<close>

fun ex_answer :: "ad_call list \<Rightarrow> create_result res" where
  "ex_answer cs = (case last cs of Create_order plan \<Rightarrow> Inr \<lparr>rs_media_buy_id = ''o1'',
      rs_packages = map (\<lambda>p. \<lparr>rp_package_id = op_package_id p, rp_paused = False, rp_attrs = []\<rparr>) (pl_packages plan),
      rs_line_item_ids = map (\<lambda>p. (op_package_id p, ''l1'')) (pl_packages plan)\<rparr>
    | _ \<Rightarrow> Inl RuntimeError)"

definition ex_book_env :: booking_env where
  "ex_book_env = \<lparr>cb_books = ex_order_env\<lparr>ae_create := ex_answer\<rparr>, cb_catalog = ex_catalog,
     cb_manager = plain_manager, cb_wire = (\<lambda>e. Inr ([(''code'', JStr ''ERROR'')], ''failed'')), cb_str = (\<lambda>_. ''failed''),
     cb_accept_config = Inr, cb_reject_unsafe_url = (\<lambda>_. Inr ()), cb_missing_tasks = [], cb_human_review = False,
     cb_adapter_manual = False, cb_manual_operations = [''create_media_buy''], cb_filters_property_lists = True,
     cb_network = None, cb_google = False, cb_sync = (\<lambda>_ _ db. (db, Inr [])),
     cb_format_identity = (\<lambda>f. case jget f ''id'' of Some (JStr i) \<Rightarrow> Some (''x'', i) | _ \<Rightarrow> None),
     cb_format_error = (\<lambda>_ _. ''format''), cb_problems = (\<lambda>_. Inr []), cb_associate = (\<lambda>_. Inr ()),
     cb_valid_actions = (\<lambda>_. []), cb_attempts = [], cb_request_hash = (\<lambda>_. ''hash''), cb_context_hex = ''c'',
     cb_step_hex = ''s'', cb_config_hex = ''p'', cb_media_buy_hex = ''m'', cb_package_hex = (\<lambda>_. ''h''),
     cb_uuid = (\<lambda>as. ''a'' @ nat_text (length as)), cb_fault = (\<lambda>_. None)\<rparr>"

definition ex_buyer :: buyer where
  "ex_buyer = \<lparr>by_tenant = ''t1'', by_principal = ''p1'', by_name = ''Buyer'', by_account = ''acc''\<rparr>"

definition ex_product :: product_row where
  "ex_product = \<lparr>prod_tenant_id = ''t1'', prod_product_id = ''pr1'', prod_name = ''Banner'',
       prod_format_ids = [JObj [(''agent_url'', JStr ''https://x''), (''id'', JStr ''display'')]], prod_creative_policy = None,
       prod_placements = None, prod_property_targeting_allowed = False, prod_delivery_type = ''guaranteed'',
       prod_pricing_options = [\<lparr>po_pricing_option_id = ''cpm_usd_fixed'', po_pricing_model = ''cpm'', po_rate = Some 5,
         po_currency = ''USD'', po_is_fixed = True, po_price_guidance = None, po_min_spend_per_package = Some 10,
         po_parameters = None\<rparr>],
       prod_implementation_config = None\<rparr>"

definition ex_shop :: update_db where
  "ex_shop = \<lparr>media_buys = [], media_packages = [], creative_assignments = [], creative_rows = [], creative_reviews = [],
     product_rows = [ex_product], currency_limits = [\<lparr>cl_tenant_id = ''t1'', cl_currency_code = ''USD'',
       cl_min_package_budget = Some 5, cl_max_daily_package_spend = Some 1000\<rparr>],
     tenant_rows = [\<lparr>tn_tenant_id = ''t1'', tn_slack_webhook_url = None\<rparr>]\<rparr>"

definition ex_package :: package_request where
  "ex_package = \<lparr>pq_product_id = ''pr1'', pq_budget = Some 100, pq_pricing_option_id = ''CPM_usd_fixed'', pq_bid_price = None,
     pq_targeting = None, pq_format_ids = None, pq_creatives = None, pq_creative_ids = None, pq_impressions = None\<rparr>"

definition ex_request :: "package_request list \<Rightarrow> buy_request" where
  "ex_request ps = \<lparr>br_packages = Some ps, br_start_time = Some Asap, br_end_time = Some (Aware (10 * day_us) 0),
     br_push_config = None, br_reporting_url = None, br_brand = JObj [], br_po_number = None,
     br_idempotency_key = Some ''key-0000000000000001'', br_document = [(''brand'', JObj [])],
     br_dump = (\<lambda>ps alias. JObj [(''brand'', JObj []), (''packages'', JList (map (\<lambda>p. JObj []) ps))])\<rparr>"

definition ex_open :: "update_db \<Rightarrow> booking_state" where
  "ex_open db = \<lparr>bk_books = at_rest db, bk_manager = (\<lparr>wf_contexts = [], wf_steps = [], wf_mappings = [], wf_principals = []\<rparr>, []), bk_push = []\<rparr>"

definition ex_create :: "booking_env \<Rightarrow> package_request list \<Rightarrow> update_db \<Rightarrow> booking_state \<times> booking_result res" where
  "ex_create env ps db = create_media_buy_impl env ex_buyer (ex_request ps) (ex_open db)"

lemma ex_create_run:
  "(case ex_create ex_book_env [ex_package] ex_shop of (s, Inr (Booked r)) \<Rightarrow>
     bs_media_buy_id r = ''o1'' \<and> bs_status r = PENDING_CREATIVES \<and> bs_confirmed_at r = Some 50 \<and>
     map call_name (ap_calls (bk_books s)) = [''create''] \<and>
     map mb_status (media_buys (ap_saved (bk_books s))) = [''pending_creatives''] \<and>
     map st_status (wf_steps (fst (bk_manager s))) = [''completed''] | _ \<Rightarrow> False)"
  by code_simp

section \<open>The properties of a create at this tenant\<close>

lemma ex_create_split:
  "create_media_buy_impl env ex_buyer (ex_request ps) (ex_open db) = (fst (ex_create env ps db), snd (ex_create env ps db))"
  by (simp add: ex_create_def)

lemma ex_open_books [simp]: "bk_books (ex_open db) = at_rest db"
  by (simp add: ex_open_def)

lemma at_rest_parts [simp]: "ap_view (at_rest db) = db" "ap_saved (at_rest db) = db" "ap_calls (at_rest db) = []"
  by (simp_all add: at_rest_def)

lemma ex_request_parts [simp]: "request_packages (ex_request ps) = ps"
    "br_idempotency_key (ex_request ps) = Some ''key-0000000000000001''"
  by (simp_all add: ex_request_def request_packages_def given_def)

definition ex_review_env :: booking_env where
  "ex_review_env = ex_book_env\<lparr>cb_human_review := True\<rparr>"

definition ex_cheap :: package_request where
  "ex_cheap = ex_package\<lparr>pq_budget := Some 9\<rparr>"

lemma ex_review: "approval_required ex_review_env"
  by code_simp

lemma approval_comes_before_the_order_witness: "ap_calls (bk_books (fst (ex_create ex_review_env [ex_package] ex_shop))) = []"
  using approval_comes_before_the_order [OF ex_create_split ex_review] by simp

lemma create_places_one_order_at_most_witness:
  "\<exists>os. length os \<le> 1 \<and> filter is_create (ap_calls (bk_books (fst (ex_create ex_book_env [ex_package] ex_shop)))) = os"
  using create_places_one_order_at_most [OF ex_create_split [of ex_book_env "[ex_package]" ex_shop]] by simp

text \<open>A package below the least spend of its product.\<close>

lemma refused_create_books_nothing_witness:
  "(\<exists>e. snd (ex_create ex_book_env [ex_cheap] ex_shop) = Inl e) \<and>
     ap_saved (bk_books (fst (ex_create ex_book_env [ex_cheap] ex_shop))) = ex_shop \<and>
     ap_calls (bk_books (fst (ex_create ex_book_env [ex_cheap] ex_shop))) = []"
proof -
  have "refused ex_book_env ex_buyer (ex_request [ex_cheap]) ex_shop" by code_simp
  with refused_create_books_nothing [OF ex_create_split [of ex_book_env "[ex_cheap]" ex_shop]] show ?thesis by simp
qed

text \<open>The step cannot be committed.\<close>

definition ex_lost_env :: booking_env where
  "ex_lost_env = ex_book_env\<lparr>cb_fault := (\<lambda>c. if c = Step_commit then Some operational_error else None)\<rparr>"

lemma untyped_error_books_nothing_witness:
  "ap_saved (bk_books (fst (ex_create ex_lost_env [ex_package] ex_shop))) = ex_shop \<and>
     ap_calls (bk_books (fst (ex_create ex_lost_env [ex_package] ex_shop))) = []"
proof -
  have "snd (ex_create ex_lost_env [ex_package] ex_shop) = Inl operational_error" by code_simp
  with ex_create_split [of ex_lost_env "[ex_package]" ex_shop]
  have "create_media_buy_impl ex_lost_env ex_buyer (ex_request [ex_package]) (ex_open ex_shop) =
    (fst (ex_create ex_lost_env [ex_package] ex_shop), Inl operational_error)" by simp
  moreover have "\<not> is_adcp_error operational_error" by code_simp
  ultimately show ?thesis using untyped_error_books_nothing [of ex_lost_env ex_buyer "ex_request [ex_package]" "ex_open ex_shop"] by simp
qed


lemma submitted_run: "(case ex_create ex_review_env [ex_package] ex_shop of (s, Inr (Booking_submitted p)) \<Rightarrow>
     map mp_package_id (media_packages (ap_saved (bk_books s))) = [''pkg_pr1_h_1''] \<and>
     map st_status (wf_steps (fst (bk_manager s))) = [''requires_approval''] | _ \<Rightarrow> False)"
  by code_simp


definition ex_option :: pricing_option where "ex_option = hd (prod_pricing_options ex_product)"

lemma waiting_package_is_rebuilt_witness:
  "\<exists>q. rebuild_package ex_order_env ''t1'' ex_shop (pending_package ''mb_m'' ''k1'' ex_package (pricing_info_for ex_option None) ''USD'') =
     proceed (q, pricing_info_for ex_option None) \<and> op_budget q = Some 100"
proof -
  have "get_product_by_id ''t1'' ex_shop (pq_product_id ex_package) = Some ex_product" by code_simp
  moreover have "prod_pricing_options ex_product = ex_option # []" by code_simp
  moreover have "\<forall>f \<in> set (prod_format_ids ex_product). \<exists>u. ae_format_id ex_order_env f = Inr u \<and> is_dialled_agent_url u"
    by (auto simp: ex_order_env_def) code_simp
  moreover have "json_truthy (pricing_info_for ex_option None)" by code_simp
  moreover have "pq_product_id ex_package \<noteq> []" "prod_format_ids ex_product \<noteq> []" "pq_targeting ex_package = None"
    "pq_budget ex_package = Some 100" by code_simp+
  ultimately show ?thesis
    using waiting_package_is_rebuilt [of "''t1''" ex_shop ex_package ex_product "''k1''" ex_option "[]" ex_order_env
      "pricing_info_for ex_option None" "''mb_m''" "''USD''"] by auto
qed


text \<open>The shop with a buy of the request's key.\<close>

definition ex_keyed_shop :: update_db where
  "ex_keyed_shop = ex_shop\<lparr>media_buys := [(ex_buy ''b1'' ''t1'' ''active'' (Some 7))\<lparr>mb_account_id := Some ''acc'',
     mb_idempotency_key := Some ''key-0000000000000001''\<rparr>]\<rparr>"


section \<open>What the code does not do as it says\<close>

text \<open>The order is placed before the key is checked: a second create with a booked key, when no answer is cached,
  orders again, and no row keeps the order.\<close>

lemma booked_key_orders_again:
  "(case ex_create ex_book_env [ex_package] ex_keyed_shop of (s, Inl e) \<Rightarrow>
     map call_name (ap_calls (bk_books s)) = [''create''] \<and>
     map mb_media_buy_id (media_buys (ap_saved (bk_books s))) = [''b1''] | _ \<Rightarrow> False)"
  by code_simp

text \<open>A product that is not created automatically answers that it waits for approval, and stores nothing to approve.\<close>

definition ex_manual_shop :: update_db where
  "ex_manual_shop = ex_shop\<lparr>product_rows := [ex_product\<lparr>prod_implementation_config :=
     Some [(''auto_create_enabled'', JBool False)]\<rparr>]\<rparr>"

lemma unconfigured_create_is_lost:
  "(case ex_create ex_book_env [ex_package] ex_manual_shop of (s, Inr (Booking_submitted p)) \<Rightarrow>
     media_buys (ap_saved (bk_books s)) = [] \<and> media_packages (ap_saved (bk_books s)) = [] \<and>
     wf_mappings (fst (bk_manager s)) = [] \<and>
     map st_status (wf_steps (fst (bk_manager s))) = [''requires_approval''] | _ \<Rightarrow> False)"
  by code_simp

text \<open>An adapter that answers its packages by id leaves stored packages without budget and product.\<close>

lemma booked_package_loses_its_budget:
  "(case ex_create ex_book_env [ex_package] ex_shop of (s, Inr (Booked r)) \<Rightarrow>
     map mp_budget (media_packages (ap_saved (bk_books s))) = [None] \<and>
     map (\<lambda>p. jget (mp_package_config p) ''product_id'') (media_packages (ap_saved (bk_books s))) = [Some JNull] | _ \<Rightarrow> False)"
  by code_simp

text \<open>Two packages: each is ordered at the default price, for the impressions of the whole total.\<close>

definition ex_second :: package_request where
  "ex_second = ex_package\<lparr>pq_product_id := ''pr2'', pq_budget := Some 300\<rparr>"

definition ex_wide_shop :: update_db where
  "ex_wide_shop = ex_shop\<lparr>product_rows := [ex_product, ex_product\<lparr>prod_product_id := ''pr2''\<rparr>]\<rparr>"

lemma packages_share_the_total:
  "(case ex_create ex_book_env [ex_package, ex_second] ex_wide_shop of (s, Inr (Booked r)) \<Rightarrow>
     map (\<lambda>c. case c of Create_order plan \<Rightarrow> map (\<lambda>p. (op_cpm p, op_impressions p, op_budget p)) (pl_packages plan) | _ \<Rightarrow> [])
       (ap_calls (bk_books s)) = [[(10, 40000, Some 100), (10, 40000, Some 300)]] | _ \<Rightarrow> False)"
  by code_simp

text \<open>A package of budget zero beside one with a budget: on the manual path the buy is stored, its packages are not.\<close>

definition ex_free :: package_request where
  "ex_free = ex_second\<lparr>pq_budget := Some 0\<rparr>"

lemma free_package_strands_the_buy:
  "(case ex_create ex_review_env [ex_package, ex_free] ex_wide_shop of (s, Inl e) \<Rightarrow> e = AdCPAdapterError [] \<and>
     map mb_status (media_buys (ap_saved (bk_books s))) = [''pending_approval''] \<and> media_packages (ap_saved (bk_books s)) = []
   | _ \<Rightarrow> False)"
  by code_simp

text \<open>One product that cannot be converted fails the orders of every other one.\<close>

definition ex_spoiled_shop :: update_db where
  "ex_spoiled_shop = ex_shop\<lparr>product_rows := [ex_product, ex_product\<lparr>prod_product_id := ''pr2'', prod_pricing_options := []\<rparr>]\<rparr>"

lemma other_product_spoils_the_order:
  "(case ex_create ex_book_env [ex_package] ex_spoiled_shop of (s, Inl e) \<Rightarrow> ap_calls (bk_books s) = [] | _ \<Rightarrow> False)"
  by code_simp

text \<open>The default configuration for Google Ad Manager is saved in the first row of the product's id.\<close>

definition ex_shared_shop :: update_db where
  "ex_shared_shop = ex_shop\<lparr>product_rows := [ex_product\<lparr>prod_tenant_id := ''t2''\<rparr>, ex_product]\<rparr>"

lemma default_config_saved_elsewhere:
  "map (\<lambda>p. (prod_tenant_id p, prod_implementation_config p)) (save_first_config ''pr1'' cfg (product_rows ex_shared_shop)) =
     [(''t2'', Some cfg), (''t1'', None)]"
  by (simp add: ex_shared_shop_def ex_product_def)

text \<open>A refused request still registers its webhook.\<close>

lemma refused_create_registers:
  "(case create_media_buy_impl ex_book_env ex_buyer ((ex_request [ex_cheap])\<lparr>br_push_config := Some [(''url'', JStr ''https://h'')]\<rparr>)
       (ex_open ex_shop) of (s, Inl e) \<Rightarrow> map pc_url (bk_push s) = [''https://h''] | _ \<Rightarrow> False)"
  by code_simp

text \<open>Inline creatives that do not parse, which are to be raised as they are, end as an error of the adapter.\<close>

lemma parse_error_becomes_an_adapter_error:
  "(case ex_create (ex_book_env\<lparr>cb_sync := (\<lambda>_ _ db. (db, Inl validation_error))\<rparr>)
       [ex_package\<lparr>pq_creatives := Some [JObj []]\<rparr>] ex_shop of (s, Inl e) \<Rightarrow> e = AdCPAdapterError [] | _ \<Rightarrow> False)"
  by code_simp

text \<open>Creatives that do not exist are found before the order; what fails after it leaves the order and the buy.\<close>

lemma missing_creative_is_found_first:
  "(case ex_create ex_book_env [ex_package\<lparr>pq_creative_ids := Some [''c9'']\<rparr>] ex_shop of (s, Inl e) \<Rightarrow>
     e = AdCPCreativeNotFoundError [''c9''] ''packages'' \<and> ap_calls (bk_books s) = [] \<and>
     map st_status (wf_steps (fst (bk_manager s))) = [''failed''] | _ \<Rightarrow> False)"
  by code_simp

lemma late_failure_leaves_the_order:
  "(case ex_create (ex_book_env\<lparr>cb_fault := (\<lambda>c. if c = Link_commit then Some operational_error else None)\<rparr>) [ex_package] ex_shop
     of (s, Inl e) \<Rightarrow> e = AdCPAdapterError [] \<and> map call_name (ap_calls (bk_books s)) = [''create''] \<and>
     map mb_confirmed_at (media_buys (ap_saved (bk_books s))) = [Some 50] | _ \<Rightarrow> False)"
  by code_simp

end
