(* ===== verification/Spec2Isabelle.thy ===== *)
theory Spec2Isabelle
  imports Readiness Unit_Of_Work Db_Session Idempotency Replay_Store Wrapped_Failure Webhook_Delivery Context_Manager
    Update_Properties Create_Runs
begin

text \<open>
  The Prebid sales agent: a multi-tenant Python server that sells advertising to buyers' agents
  over MCP, A2A and REST. A tenant is a publisher, a principal a buyer of one tenant. A buyer
  creates and updates media buys, follows long-running tasks, and registers webhooks; the server
  keeps everything in PostgreSQL through tenant-scoped repositories, books with an ad server
  through an adapter, and calls the buyers' webhooks back. This development models the server's
  own core: the tables and their repositories, the transaction boundary, at-most-once execution,
  task workflows, and the whole path of an outbound webhook.

  \<^bold>\<open>Parts and theories\<close>, in the order a request meets them.

    \<^item> Prelude, Tenant_Scope, Clock, Retry_After: exceptions, JSON documents and Python truth
      values; a table as a list of rows; the locales \<open>tenant_scoped\<close> (a write of one tenant
      keeps the table invariant and what the others see) and \<open>step_order\<close> (a row-wise order
      carried over runs); datetimes with \<open>utils/flight_time.py\<close>; floats with infinities and the
      clamp of \<open>core/exceptions.py\<close>.
    \<^item> Idempotency: \<open>_boundary._invoke\<close> and \<open>_keyed_scope\<close>, \<open>idempotency_policy.py\<close>,
      \<open>idempotency_replay.py\<close> and the repository \<open>idempotency_attempt.py\<close>: the posture of
      each tool, the payload hash as the document itself, lookup, replay, conflict, caching and
      the bound on the stored answers.
    \<^item> Media_Buy, Media_Buy_Repo: the classes \<open>MediaBuy\<close>, \<open>MediaPackage\<close> and
      \<open>PersistedMediaBuyStatus\<close> of \<open>database/models.py\<close>, and \<open>MediaBuyRepository\<close>, one
      definition per method; a write returns the session's tables beside its result.
    \<^item> Flight_Status, Status_Scheduler, Readiness: the status a flight window implies on the
      write side (\<open>_media_buy_transitions.py\<close>) and on the read side (\<open>_media_buy_status.py\<close>),
      the unattended sweep (\<open>media_buy_status_scheduler.py\<close>) and the readiness shown to the
      publisher (\<open>media_buy_readiness_service.py\<close>).
    \<^item> Unit_Of_Work, Db_Session: \<open>BaseUoW\<close> and the deferred effects (\<open>uow.py\<close>,
      \<open>effects.py\<close>); the process-wide session gate, retries and health check
      (\<open>database_session.py\<close>).
    \<^item> Creative_Repo: creatives, their reviews and their assignments to packages
      (\<open>repositories/creative.py\<close>), with the keys and foreign keys of their tables.
    \<^item> Transaction, Request_Checks, Media_Buy_Update, Update_Properties: statements that thread a
      state and may raise; budget limits (\<open>financial_validation.py\<close>) and targeting rules
      (\<open>targeting_capabilities.py\<close>); the tool \<open>update_media_buy\<close> (\<open>tools/media_buy_update.py\<close>), from
      its gates over the approval branch and the package loop to the commit and the audit of a
      failure; and what it promises, which rests on two locales of the effects it can have.
    \<^item> Creative_Assets, Approval, Approval_Properties, Approval_Runs: the asset an ad server is given
      for a stored creative (\<open>creative_helpers.py\<close>, \<open>gam/utils/macros.py\<close>) and the check before it is
      called; \<open>execute_approved_media_buy\<close> and \<open>push_creative_to_existing_buy\<close> of
      \<open>tools/media_buy_create.py\<close>: the order rebuilt from its rows, placed, and recorded over several
      units of work whose commits may fail; what an approval keeps, over locales of the effects of
      each of its stages; and approvals at concrete tables.
    \<^item> Product_Catalog, Create_Checks, Media_Buy_Create, Create_Properties, Create_Runs: a tenant's products
      as the catalog gives them (\<open>product_conversion.py\<close>) and their configuration for Google Ad Manager
      (\<open>gam_product_config_service.py\<close>); the tool \<open>create_media_buy\<close> (\<open>_create_media_buy_impl\<close> of
      \<open>tools/media_buy_create.py\<close>): the requests with their checks, in the order the code makes them; the
      registration, the inline creatives, the branch that awaits approval and the one that orders at
      once, up to the answer and the audit of a failure; what a create promises, over locales that
      extend those of an approval; and creates at concrete tables.
    \<^item> Workflow, Task_Tools, Context_Manager: the tables \<open>contexts\<close>, \<open>workflow_steps\<close> and
      \<open>object_workflow_mapping\<close> with \<open>WorkflowRepository\<close>; the tools \<open>list_tasks\<close>,
      \<open>get_task_status\<close> and \<open>complete_task\<close> (\<open>task_management.py\<close>); and the writers that
      commit by themselves and send notifications (\<open>context_manager.py\<close>).
    \<^item> Registration, Push_Config: \<open>ValidatedWebhookRegistration\<close> as it is stashed in a step and
      rehydrated (\<open>webhooks/registration.py\<close>), and the table \<open>push_notification_configs\<close>.
    \<^item> Egress_Attempts, Outbound_Http, Wrapped_Failure: the retry schedule, the send loop of the
      outbound seam and the walk over an exception's chain (\<open>security/egress/attempts.py\<close>,
      \<open>security/outbound_http.py\<close>).
    \<^item> Json_Text, Webhook_Egress: the JSON text of a payload, the choice of its authentication
      and its outcome (\<open>security/webhook_egress.py\<close>, \<open>webhooks/delivery.py\<close>).
    \<^item> Circuit_Breaker, Delivery_Log, Webhook_Delivery, Protocol_Webhook: the breakers and queues,
      the delivery tables and conclusions, the delivery-report service, the tracked sender, and
      the sender of task-status notifications.
    \<^item> Replay_Store: the deployment-wide replay cache of request signatures.

  \<^bold>\<open>How the parts interact.\<close> A tool runs under Idempotency in a unit of work, writes through the
  repositories and records a workflow step. The context manager turns a step's status update into
  notices on an outbox; Protocol_Webhook delivers one through Webhook_Egress, which sends through
  Outbound_Http, driven by Egress_Attempts, and concludes in Delivery_Log. Interfaces are
  locales interpreted on the model: \<open>tenant_scoped\<close> on media buys, workflow tables, deliveries,
  registrations, creatives and cached answers; the effects of an update on five invariants of its
  state, those of an approval on the calls, the orders, the rows of the buy and what is committed, those of
  a create on the calls, the orders, the row of the new buy and the buys under a key; \<open>step_order\<close> on
  revisions and histories; the claim ledger on the nonce table; the queue contract on the endpoint queues.

  \<^bold>\<open>What the lemmas show.\<close> Table invariants and tenant isolation over arbitrary runs of writes;
  revisions that grow and bookings that happen once; atomicity of a unit of work; agreement of
  the read and write side on days; a replayed answer is the stored one and a different payload
  conflicts; a nonce is accepted once; the send loop is bounded, its success and failure are
  characterised exactly, and every attempt carries the same body; a refused registration is never
  dialled; breakers cut a dead endpoint off and recover; every queued report is concluded once;
  a task is finished once, visible to its owner alone, and its comments are never lost;
  a refused update leaves no trace, an inadmissible one has no effect at all, no update reaches
  another tenant, sends a budget outside the limits or - against its comments - a notification;
  an approval always answers, places one order at most, none before the creatives are approved, is
  recorded once an order was asked for, and reports the row it committed;
  a create that is refused books nothing, keeps to the tenant's limits, places one order at most and
  none where it must be approved, books a key once, and answers with the row it committed, and the
  package of a buy that waits is rebuilt as it was asked for;
  a stash is accepted exactly when it can be delivered, and survives the round trip. Where the
  code departs from its own documentation, a lemma computes the departure on a concrete state.

  \<^bold>\<open>Bounds and fuel.\<close> Loops over lists and bounded attempts are structural. The walk over
  an exception graph recurses with fuel; one unit more than the heap has objects is enough, which
  is proved. The drain of deferred effects has the code's own bound of rounds.

  \<^bold>\<open>Conventions.\<close> Times are microseconds; decimals are rationals; strings are lists of characters;
  dicts are association lists in insertion order; clock readings, fresh ids and random jitter are
  arguments. SQL gives no order to an unordered SELECT, the model returns storage order.
  Libraries that are not under src/ (the AdCP SDK, httpx, SQLAlchemy, cryptography, uuid) are
  parameters, with what the code relies on as hypotheses.

  \<^bold>\<open>Not modelled.\<close> The listing and delivery tools, the creative tools (the sync of creatives is a
  parameter of a create), accounts, the discovery of products, signature verification, key
  revocation and egress address policy. Of a create: inventory profiles, the creative deadline, Slack,
  the activity feed and audit entries; \<open>_validate_and_convert_format_ids\<close> is not called. Vendor adapters
  and their synchronisation are calls of client libraries. The Flask administration, the MCP, A2A and
  REST wiring, the declarations of request and response schemas, configuration and start-up, text for
  Slack and logs, language-model agents, scripts and migrations hold no state of their own that the
  modelled parts do not.
\<close>

end
